(* ===== verification/Go_Prelude.thy ===== *)
theory Go_Prelude
  imports
    Complex_Main
    "HOL-Library.Char_ord"
    "HOL-Library.List_Lexorder"
    "HOL-Library.Product_Lexorder"
    "HOL-Library.Signed_Division"
begin

text \<open>
  What the Go sources use of their language and its standard library, once for all components:
  byte strings and the functions of package \<open>strings\<close>, two's-complement integers of
  fixed width, instants and durations of package \<open>time\<close>, and \<open>sort\<close>; and the list
  lemmas that the components share.

  A Go string is a sequence of bytes, as is an Isabelle \<^typ>\<open>string\<close>. Its order is the
  lexicographic order of the bytes, which is the order that the imported list and character
  orders give. Integers are \<^typ>\<open>int\<close>; where an operation of the source can leave the
  range of its type, the wrap-around is written out with \<open>wrap32\<close> or \<open>wrap64\<close>.
\<close>

section \<open>Strings\<close>

subsection \<open>Case\<close>

text \<open>
  \<open>strings.ToLower\<close> works on runes. The sources only compare its result with ASCII
  literals, so the model follows exactly the runes whose lower-case form is ASCII: the letters
  A to Z, the Kelvin sign U+212A and the dotted capital I U+0130 (here by their UTF-8 bytes).
  Every other byte is left as it is; it is part of no ASCII letter before or after the mapping.
  \<open>strings.EqualFold\<close> compares under simple case folding; the runes that fold to an ASCII
  letter are A to Z, the Kelvin sign and the long s U+017F.
\<close>

definition lower_char :: "char \<Rightarrow> char" where
  "lower_char c =
     (let n = (of_char c :: nat) in if 65 \<le> n \<and> n \<le> 90 then char_of (n + 32) else c)"

fun to_lower_bytes :: "(string \<times> char) list \<Rightarrow> nat \<Rightarrow> string \<Rightarrow> string" where
  "to_lower_bytes runes skip [] = []"
| "to_lower_bytes runes (Suc skip) (c # cs) = to_lower_bytes runes skip cs"
| "to_lower_bytes runes 0 (c # cs) =
     (case find (\<lambda>(enc, _). take (length enc) (c # cs) = enc) runes of
        Some (enc, l) \<Rightarrow> l # to_lower_bytes runes (length enc - 1) cs
      | None \<Rightarrow> lower_char c # to_lower_bytes runes 0 cs)"

definition kelvin_sign :: string where
  "kelvin_sign = [CHR 0xE2, CHR 0x84, CHR 0xAA]"

definition dotted_capital_I :: string where
  "dotted_capital_I = [CHR 0xC4, CHR 0xB0]"

definition long_s :: string where
  "long_s = [CHR 0xC5, CHR 0xBF]"

definition ToLower :: "string \<Rightarrow> string" where
  "ToLower s = to_lower_bytes [(kelvin_sign, CHR ''k''), (dotted_capital_I, CHR ''i'')] 0 s"

definition fold_case :: "string \<Rightarrow> string" where
  "fold_case s = to_lower_bytes [(kelvin_sign, CHR ''k''), (long_s, CHR ''s'')] 0 s"

definition EqualFold :: "string \<Rightarrow> string \<Rightarrow> bool" where
  "EqualFold s t \<longleftrightarrow> fold_case s = fold_case t"

subsection \<open>White space\<close>

text \<open>
  \<open>strings.TrimSpace\<close> removes the runes of \<open>unicode.IsSpace\<close> from both ends. The
  model lists their UTF-8 encodings. An encoding starts with a byte that no other rune contains
  inside, so looking for it at the front, and for its reversal at the back, finds the same runes
  as decoding does.
\<close>

definition space_encodings :: "string list" where
  "space_encodings =
     map (\<lambda>n. [char_of n]) [9, 10, 11, 12, 13, 32 :: nat]
     @ [[CHR 0xC2, CHR 0x85], [CHR 0xC2, CHR 0xA0], [CHR 0xE1, CHR 0x9A, CHR 0x80]]
     @ map (\<lambda>n. [CHR 0xE2, CHR 0x80, char_of n])
         [0x80, 0x81, 0x82, 0x83, 0x84, 0x85, 0x86, 0x87, 0x88, 0x89, 0x8A, 0xA8, 0xA9, 0xAF :: nat]
     @ [[CHR 0xE2, CHR 0x81, CHR 0x9F], [CHR 0xE3, CHR 0x80, CHR 0x80]]"

fun trim_left :: "string list \<Rightarrow> nat \<Rightarrow> string \<Rightarrow> string" where
  "trim_left encs skip [] = []"
| "trim_left encs (Suc skip) (c # cs) = trim_left encs skip cs"
| "trim_left encs 0 (c # cs) =
     (case find (\<lambda>enc. take (length enc) (c # cs) = enc) encs of
        Some enc \<Rightarrow> trim_left encs (length enc - 1) cs
      | None \<Rightarrow> c # cs)"

definition TrimSpace :: "string \<Rightarrow> string" where
  "TrimSpace s =
     rev (trim_left (map rev space_encodings) 0 (rev (trim_left space_encodings 0 s)))"

abbreviation blank :: "string \<Rightarrow> bool" where
  "blank s \<equiv> TrimSpace s = []"

lemma blank_Nil [simp]: "blank []"
  by (simp add: TrimSpace_def)

lemma blank_nonblank_nonempty: "\<not> blank s \<Longrightarrow> s \<noteq> []"
  by auto

text \<open>A string that starts and ends with a visible ASCII character is left as it is.\<close>

definition graphic :: "char \<Rightarrow> bool" where
  "graphic c \<longleftrightarrow> 33 \<le> (of_char c :: nat) \<and> (of_char c :: nat) \<le> 126"

lemma space_encodings_graphic:
  "\<forall>enc \<in> set space_encodings. enc \<noteq> [] \<and> \<not> graphic (hd enc) \<and> \<not> graphic (last enc)"
  by (simp add: space_encodings_def graphic_def)

lemma trim_left_graphic:
  assumes "\<forall>enc \<in> set encs. enc \<noteq> [] \<and> \<not> graphic (hd enc)" "s \<noteq> []" "graphic (hd s)"
  shows "trim_left encs 0 s = s"
proof -
  obtain c cs where s: "s = c # cs" using assms(2) by (cases s) auto
  have "take (length enc) (c # cs) \<noteq> enc" if "enc \<in> set encs" for enc
    using assms(1,3) that s by (cases enc) auto
  then have "find (\<lambda>enc. take (length enc) (c # cs) = enc) encs = None"
    by (auto simp: find_None_iff)
  then show ?thesis by (simp add: s)
qed

lemma TrimSpace_graphic:
  assumes "s \<noteq> []" "graphic (hd s)" "graphic (last s)"
  shows "TrimSpace s = s"
proof -
  have "trim_left space_encodings 0 s = s"
    using assms space_encodings_graphic by (intro trim_left_graphic) auto
  moreover have "trim_left (map rev space_encodings) 0 (rev s) = rev s"
    using assms space_encodings_graphic by (intro trim_left_graphic) (auto simp: hd_rev)
  ultimately show ?thesis by (simp add: TrimSpace_def)
qed

subsection \<open>Cutting and searching\<close>

definition Cut :: "char \<Rightarrow> string \<Rightarrow> string \<times> string \<times> bool" where
  "Cut sep s =
     (if sep \<in> set s
      then (takeWhile (\<lambda>c. c \<noteq> sep) s, tl (dropWhile (\<lambda>c. c \<noteq> sep) s), True)
      else (s, [], False))"

definition HasPrefix :: "string \<Rightarrow> string \<Rightarrow> bool" where
  "HasPrefix s p \<longleftrightarrow> take (length p) s = p"

fun Contains :: "string \<Rightarrow> string \<Rightarrow> bool" where
  "Contains [] sub \<longleftrightarrow> sub = []"
| "Contains (c # cs) sub \<longleftrightarrow> HasPrefix (c # cs) sub \<or> Contains cs sub"

lemma Cut_join: "Cut sep s = (k, v, True) \<Longrightarrow> s = k @ sep # v \<and> sep \<notin> set k"
proof -
  assume cut: "Cut sep s = (k, v, True)"
  then have mem: "sep \<in> set s" and k: "k = takeWhile (\<lambda>c. c \<noteq> sep) s"
    and v: "v = tl (dropWhile (\<lambda>c. c \<noteq> sep) s)"
    by (auto simp: Cut_def split: if_splits)
  from mem have ne: "dropWhile (\<lambda>c. c \<noteq> sep) s \<noteq> []"
    by (auto simp: dropWhile_eq_Nil_conv)
  then have "hd (dropWhile (\<lambda>c. c \<noteq> sep) s) = sep"
    using hd_dropWhile [OF ne] by simp
  with ne have "dropWhile (\<lambda>c. c \<noteq> sep) s = sep # v"
    by (metis hd_Cons_tl v)
  then have "s = k @ sep # v"
    by (metis k takeWhile_dropWhile_id)
  moreover have "sep \<notin> set k"
    using k by (auto dest: set_takeWhileD)
  ultimately show ?thesis by simp
qed

section \<open>Integers of fixed width\<close>

definition wrap32 :: "int \<Rightarrow> int" where
  "wrap32 x = (x + 2 ^ 31) mod 2 ^ 32 - 2 ^ 31"

definition wrap64 :: "int \<Rightarrow> int" where
  "wrap64 x = (x + 2 ^ 63) mod 2 ^ 64 - 2 ^ 63"

definition int32_range :: "int \<Rightarrow> bool" where
  "int32_range x \<longleftrightarrow> - (2 ^ 31) \<le> x \<and> x < 2 ^ 31"

definition int64_range :: "int \<Rightarrow> bool" where
  "int64_range x \<longleftrightarrow> - (2 ^ 63) \<le> x \<and> x < 2 ^ 63"

lemma wrap32_id: "int32_range x \<Longrightarrow> wrap32 x = x"
  by (simp add: wrap32_def int32_range_def)

lemma wrap64_id: "int64_range x \<Longrightarrow> wrap64 x = x"
  by (simp add: wrap64_def int64_range_def)

lemma wrap32_range: "int32_range (wrap32 x)"
proof -
  have "0 \<le> (x + 2 ^ 31) mod 2 ^ 32" "(x + 2 ^ 31) mod 2 ^ 32 < (2 ^ 32 :: int)"
    by simp_all
  then show ?thesis by (simp add: wrap32_def int32_range_def)
qed

lemma wrap64_range: "int64_range (wrap64 x)"
proof -
  have "0 \<le> (x + 2 ^ 63) mod 2 ^ 64" "(x + 2 ^ 63) mod 2 ^ 64 < (2 ^ 64 :: int)"
    by simp_all
  then show ?thesis by (simp add: wrap64_def int64_range_def)
qed

section \<open>Instants and durations\<close>

text \<open>
  An instant (\<open>time.Time\<close>) is its distance in nanoseconds from Go's zero time, 1 January of
  year 1, UTC; the source converts to UTC and never looks at the location. A duration is an
  int64 number of nanoseconds. \<open>Sub\<close> saturates at the ends of that range, as the library
  does; \<open>Add\<close> moves the instant, whose range of seconds is 64 bits and is not left here.
\<close>

type_synonym gotime = int
type_synonym duration = int

definition IsZero :: "gotime \<Rightarrow> bool" where
  "IsZero t \<longleftrightarrow> t = 0"

definition minDuration :: duration where
  "minDuration = - (2 ^ 63)"

definition maxDuration :: duration where
  "maxDuration = 2 ^ 63 - 1"

definition time_Sub :: "gotime \<Rightarrow> gotime \<Rightarrow> duration" where
  "time_Sub t u = max minDuration (min maxDuration (t - u))"

definition Millisecond :: duration where
  "Millisecond = 1000000"

definition Second :: duration where
  "Second = 1000000000"

definition Minute :: duration where
  "Minute = 60 * Second"

lemma time_Sub_mono: "t \<le> t' \<Longrightarrow> time_Sub t u \<le> time_Sub t' u"
  by (auto simp: time_Sub_def)

lemma time_Sub_less_iff: "minDuration < d \<Longrightarrow> d \<le> maxDuration \<Longrightarrow> time_Sub t u < d \<longleftrightarrow> t - u < d"
  by (auto simp: time_Sub_def)

lemma time_Sub_range: "int64_range (time_Sub t u)"
  by (auto simp: time_Sub_def minDuration_def maxDuration_def int64_range_def)

section \<open>Lists and association lists\<close>

text \<open>
  A Go map that the source iterates over is an association list with distinct keys, in the order
  of that iteration, which Go leaves open: a theorem for every list holds for every order.
\<close>

abbreviation wf_map :: "('k \<times> 'v) list \<Rightarrow> bool" where
  "wf_map m \<equiv> distinct (map fst m)"

lemma keys_memD: "k \<in> fst ` set m \<Longrightarrow> \<exists>v. (k, v) \<in> set m"
  by force

lemma sorted_distinct_sort_remdups [simp]:
  "sorted (sort (remdups xs))" "distinct (sort (remdups xs))"
  by simp_all

lemma find_Some_mem: "find P xs = Some x \<Longrightarrow> P x \<and> x \<in> set xs"
  by (auto simp: find_Some_iff)

lemma find_None_iff_ball: "find P xs = None \<longleftrightarrow> (\<forall>x \<in> set xs. \<not> P x)"
  by (auto simp: find_None_iff)

text \<open>
  A lookup of a missing key gives the zero value of the value type, which is the first argument.
\<close>

definition lookup_zero :: "'v \<Rightarrow> ('k \<times> 'v) list \<Rightarrow> 'k \<Rightarrow> 'v" where
  "lookup_zero zero m k = (case map_of m k of None \<Rightarrow> zero | Some v \<Rightarrow> v)"

lemma lookup_zero_mem [simp]: "wf_map m \<Longrightarrow> (k, v) \<in> set m \<Longrightarrow> lookup_zero z m k = v"
  by (simp add: lookup_zero_def)

lemma lookup_zero_Some [simp]: "map_of m k = Some v \<Longrightarrow> lookup_zero z m k = v"
  by (simp add: lookup_zero_def)

text \<open>A loop that returns the error of the first element that has one.\<close>

fun first_error :: "('a \<Rightarrow> 'e option) \<Rightarrow> 'a list \<Rightarrow> 'e option" where
  "first_error f [] = None"
| "first_error f (x # xs) = (case f x of Some e \<Rightarrow> Some e | None \<Rightarrow> first_error f xs)"

lemma first_error_None_iff [simp]: "first_error f xs = None \<longleftrightarrow> (\<forall>x \<in> set xs. f x = None)"
  by (induction xs) (auto split: option.splits)

lemma first_error_Some: "first_error f xs = Some e \<Longrightarrow> \<exists>x \<in> set xs. f x = Some e"
  by (induction xs) (auto split: option.splits)

text \<open>\<open>if err := ...; err != nil { return err }\<close> followed by the rest of a function.\<close>

definition and_then :: "'e option \<Rightarrow> 'e option \<Rightarrow> 'e option" where
  "and_then r rest = (case r of Some e \<Rightarrow> Some e | None \<Rightarrow> rest)"

lemma and_then_None_iff [simp]: "and_then r rest = None \<longleftrightarrow> r = None \<and> rest = None"
  by (simp add: and_then_def split: option.splits)

section \<open>Decimal numbers (strconv)\<close>

definition digit :: "nat \<Rightarrow> char" where
  "digit d = char_of (48 + d)"

fun Itoa :: "nat \<Rightarrow> string" where
  "Itoa n = (if n < 10 then [digit n] else Itoa (n div 10) @ [digit (n mod 10)])"

declare Itoa.simps [simp del]

definition FormatInt :: "int \<Rightarrow> string" where
  "FormatInt i = (if i < 0 then CHR ''-'' # Itoa (nat (- i)) else Itoa (nat i))"

lemma digit_inj: "d < 10 \<Longrightarrow> d' < 10 \<Longrightarrow> digit d = digit d' \<longleftrightarrow> d = d'"
  by (auto simp: digit_def dest: arg_cong [of _ _ of_char])

lemma Itoa_nonempty [simp]: "Itoa n \<noteq> []" "[] \<noteq> Itoa n"
  by (subst Itoa.simps, simp)+

lemma Itoa_inj [simp]: "Itoa m = Itoa n \<longleftrightarrow> m = n"
proof (induction m arbitrary: n rule: Itoa.induct)
  case (1 m)
  show ?case
  proof (cases "m < 10 \<or> n < 10")
    case True
    then show ?thesis by (auto simp: Itoa.simps [of m] Itoa.simps [of n] digit_inj)
  next
    case False
    have "m = n \<longleftrightarrow> m div 10 = n div 10 \<and> m mod 10 = n mod 10"
      by (metis div_mult_mod_eq)
    with 1 [of "n div 10"] False show ?thesis
      by (simp add: Itoa.simps [of m] Itoa.simps [of n] digit_inj)
  qed
qed

lemma digit_not_minus: "d < 10 \<Longrightarrow> digit d \<noteq> CHR ''-''"
  by (auto simp: digit_def dest: arg_cong [of _ _ "of_char :: char \<Rightarrow> nat"])

lemma hd_Itoa: "\<exists>d < 10. hd (Itoa n) = digit d"
proof (induction n rule: Itoa.induct)
  case (1 n)
  then show ?case
    by (cases "n < 10") (auto simp: Itoa.simps [of n] hd_append)
qed

lemma FormatInt_inj [simp]: "FormatInt i = FormatInt j \<longleftrightarrow> i = j"
proof -
  have "CHR ''-'' # xs \<noteq> Itoa n" for xs n
    using hd_Itoa [of n] digit_not_minus by (metis list.sel(1))
  then show ?thesis
    by (auto simp: FormatInt_def nat_eq_iff split: if_splits) (metis (full_types))+
qed

end
