(* ===== verification/Domain.thy ===== *)
theory Domain
  imports Go_Prelude
begin

text \<open>
  The data that the components exchange, from \<^verbatim>\<open>internal/domain\<close>. A struct is a record whose
  selectors carry a prefix for the struct, since Isabelle records share one name space. A named
  string type with constants is a datatype with one constructor per constant and one for every
  other string, the zero value being \<open>Other []\<close>. A pointer is an \<open>option\<close>. The values
  of \<^verbatim>\<open>map[string]any\<close> are a type parameter. The int32 and int64 fields are integers; the
  components say where their range matters.
\<close>

section \<open>Sources (source.go)\<close>

record OwnerReference =
  own_APIVersion :: string
  own_Kind :: string
  own_Name :: string
  own_UID :: string

record Source =
  src_ClusterID :: string
  src_APIVersion :: string
  src_Kind :: string
  src_Namespace :: string
  src_Name :: string
  src_UID :: string
  src_ResourceVersion :: string
  src_Generation :: int
  src_Owner :: "OwnerReference option"

section \<open>Snapshots (snapshot.go)\<close>

record Condition =
  cond_Type :: string
  cond_Status :: string
  cond_Reason :: string
  cond_Message :: string
  cond_LastTransitionTime :: gotime

record ContainerState =
  ctr_Name :: string
  ctr_Ready :: bool
  ctr_RestartCount :: int
  ctr_State :: string
  ctr_Reason :: string
  ctr_ExitCode :: int

record WorkloadState =
  wl_Desired :: int
  wl_Current :: int
  wl_Ready :: int
  wl_Available :: int
  wl_Updated :: int
  wl_Unavailable :: int

record JobState =
  job_Active :: int
  job_Succeeded :: int
  job_Failed :: int
  job_BackoffLimit :: int

record EventState =
  ev_Type :: string
  ev_Reason :: string
  ev_Message :: string
  ev_RegardingUID :: string
  ev_Count :: int
  ev_LastObserved :: gotime

record Snapshot =
  sn_Source :: Source
  sn_ObservedAt :: gotime
  sn_Labels :: "(string \<times> string) list"
  sn_Conditions :: "Condition list"
  sn_Containers :: "ContainerState list"
  sn_Workload :: "WorkloadState option"
  sn_Job :: "JobState option"
  sn_Event :: "EventState option"
  sn_ContentHash :: string

section \<open>Decisions (decision.go)\<close>

datatype Severity = SeverityInfo | SeverityWarning | SeverityCritical | SeverityOther string

datatype Action = ActionRecord | ActionNotify | ActionPage | ActionSuppress | ActionOther string

record Decision =
  dec_Severity :: Severity
  dec_Action :: Action
  dec_Summary :: string
  dec_ReasonCodes :: "string list"
  dec_RuleIDs :: "string list"

section \<open>Incidents (incident.go)\<close>

datatype IncidentStatus = IncidentOpen | IncidentResolved | IncidentSuppressed | IncidentStatusOther string

record Incident =
  inc_ID :: string
  inc_Key :: string
  inc_ClusterID :: string
  inc_Source :: Source
  inc_Status :: IncidentStatus
  inc_OpenedAt :: gotime
  inc_UpdatedAt :: gotime
  inc_ResolvedAt :: "gotime option"
  inc_ContentHash :: string
  inc_Version :: int

section \<open>Evaluations (evaluation.go)\<close>

record ProviderUsage =
  us_InputTokens :: int
  us_OutputTokens :: int

record ProviderAudit =
  pa_Provider :: string
  pa_RequestedModel :: string
  pa_ResolvedModel :: string
  pa_ResolvedModelHash :: string
  pa_ProviderRequestIDHash :: string
  pa_Usage :: ProviderUsage
  pa_Latency :: duration
  pa_Attempts :: int
  pa_RawResponseHash :: string

record 'any Evaluation =
  evl_ID :: string
  evl_IncidentID :: string
  evl_SnapshotHash :: string
  evl_PolicyVersion :: string
  evl_RubricVersion :: string
  evl_ProviderConfigHash :: string
  evl_Decision :: Decision
  evl_Answers :: "(string \<times> 'any) list"
  evl_ProviderAudit :: "ProviderAudit option"
  evl_CreatedAt :: gotime

section \<open>Notifications (notification.go)\<close>

datatype NotificationStatus =
    NotificationPending
  | NotificationDelivering
  | NotificationDelivered
  | NotificationFailed
  | NotificationStatusOther string

record Notification =
  ntf_ID :: string
  ntf_EvaluationID :: string
  ntf_DestinationID :: string
  ntf_EventType :: string
  ntf_Status :: NotificationStatus
  ntf_Attempts :: int
  ntf_NextAttemptAt :: gotime
  ntf_Payload :: string

section \<open>Ranks of severities and actions\<close>

text \<open>
  The functions \<^verbatim>\<open>severityRank\<close> of \<^verbatim>\<open>internal/rules/engine.go\<close> and of
  \<^verbatim>\<open>internal/decision/composer.go\<close> have the same body; the composer's own copy and
  \<^verbatim>\<open>actionRank\<close> are in the composer's theory.
\<close>

fun severityRank :: "Severity \<Rightarrow> int" where
  "severityRank SeverityCritical = 3"
| "severityRank SeverityWarning = 2"
| "severityRank SeverityInfo = 1"
| "severityRank (SeverityOther _) = 0"

lemma severityRank_bounds: "0 \<le> severityRank s" "severityRank s \<le> 3"
  by (cases s; simp)+

lemma severityRank_3_iff [simp]: "severityRank s = 3 \<longleftrightarrow> s = SeverityCritical"
  by (cases s) simp_all

lemma severityRank_ge_3_iff [simp]: "3 \<le> severityRank s \<longleftrightarrow> s = SeverityCritical"
  by (cases s) simp_all

end
