(* ===== verification/Rules.thy ===== *)
theory Rules
  imports Domain "HOL-Library.Multiset"
begin

text \<open>
  The deterministic rule engine, from \<^verbatim>\<open>internal/rules\<close>: the rules for pods (pod.go),
  workloads (workload.go), jobs (job.go) and events (event.go), recovery (recovery.go), and
  \<^verbatim>\<open>Engine.Evaluate\<close> (engine.go), which orders and combines their matches.

  The engine reads its clock once in each rule that needs it. A reading is an argument of the
  rule, and \<open>Evaluate\<close> takes one reading per call site, so that the theorems hold however
  the clock moves during an evaluation.
\<close>

section \<open>Results and options (engine.go)\<close>

definition PolicyVersion :: string where
  "PolicyVersion = ''deterministic-triage-v1''"

datatype Disposition =
    DispositionTerminal
  | DispositionSemantic
  | DispositionSuppress
  | DispositionNoMatch

record Match =
  m_RuleID :: string
  m_Reason :: string
  m_Severity :: Severity

record Result =
  res_Matches :: "Match list"
  res_Disposition :: Disposition
  res_Decision :: "Decision option"
  res_QuestionSet :: string
  res_PolicyVersion :: string

record Options =
  opt_CrashLoopRestartThreshold :: int
  opt_CrashLoopCriticalThreshold :: int
  opt_MinimumAge :: duration
  opt_EventQuietPeriod :: duration
  opt_IgnoredNamespaces :: "string list"
  opt_IgnoredLabels :: "string list"

record Engine =
  eng_options :: Options

definition NewEngine :: "Options \<Rightarrow> Engine" where
  "NewEngine options =
     \<lparr>eng_options = options
        \<lparr>opt_IgnoredNamespaces := sort (opt_IgnoredNamespaces options),
         opt_IgnoredLabels := sort (opt_IgnoredLabels options)\<rparr>\<rparr>"

datatype ClockSite = AtCrashLoop | AtUnschedulable | AtImagePull | AtWorkload | AtEventQuiet

type_synonym clock = "ClockSite \<Rightarrow> gotime"

section \<open>Pods (pod.go)\<close>

fun conditionTransition ::
  "Condition list \<Rightarrow> string \<Rightarrow> string \<Rightarrow> string \<Rightarrow> gotime option" where
  "conditionTransition [] conditionType status reason = None"
| "conditionTransition (condition # conditions) conditionType status reason =
     (if cond_Type condition = conditionType \<and> cond_Status condition = status
         \<and> (reason = [] \<or> cond_Reason condition = reason)
         \<and> \<not> IsZero (cond_LastTransitionTime condition)
      then Some (cond_LastTransitionTime condition)
      else conditionTransition conditions conditionType status reason)"

definition tooYoung :: "Engine \<Rightarrow> gotime \<Rightarrow> gotime option \<Rightarrow> bool" where
  "tooYoung e now transition =
     (case transition of
        None \<Rightarrow> True
      | Some t \<Rightarrow> time_Sub now t < opt_MinimumAge (eng_options e))"

fun crashLoopSeverity :: "Options \<Rightarrow> ContainerState list \<Rightarrow> Severity \<Rightarrow> Severity" where
  "crashLoopSeverity options [] severity = severity"
| "crashLoopSeverity options (container # containers) severity =
     (if ctr_State container \<noteq> ''waiting'' \<or> ctr_Reason container \<noteq> ''CrashLoopBackOff''
         \<or> ctr_RestartCount container < opt_CrashLoopRestartThreshold options
      then crashLoopSeverity options containers severity
      else
        let candidate =
              (if opt_CrashLoopCriticalThreshold options \<le> ctr_RestartCount container
               then SeverityCritical else SeverityWarning)
        in crashLoopSeverity options containers
             (if severityRank severity < severityRank candidate then candidate else severity))"

definition podCrashLoop :: "Engine \<Rightarrow> gotime \<Rightarrow> Snapshot \<Rightarrow> Match list" where
  "podCrashLoop e now snapshot =
     (if \<not> EqualFold (src_Kind (sn_Source snapshot)) ''Pod'' then []
      else if tooYoung e now (conditionTransition (sn_Conditions snapshot) ''Ready'' ''False'' [])
      then []
      else
        let severity =
              crashLoopSeverity (eng_options e) (sn_Containers snapshot) (SeverityOther [])
        in if severity = SeverityOther [] then []
           else [\<lparr>m_RuleID = ''pod-crash-loop'',
                  m_Reason = ''one or more containers are crash looping'',
                  m_Severity = severity\<rparr>])"

definition podUnschedulable :: "Engine \<Rightarrow> gotime \<Rightarrow> Snapshot \<Rightarrow> Match list" where
  "podUnschedulable e now snapshot =
     (if \<not> EqualFold (src_Kind (sn_Source snapshot)) ''Pod'' then []
      else if tooYoung e now
        (conditionTransition (sn_Conditions snapshot) ''PodScheduled'' ''False'' ''Unschedulable'')
      then []
      else [\<lparr>m_RuleID = ''pod-unschedulable'', m_Reason = ''pod has remained unschedulable'',
             m_Severity = SeverityWarning\<rparr>])"

fun anyImagePullFailure :: "ContainerState list \<Rightarrow> bool" where
  "anyImagePullFailure [] = False"
| "anyImagePullFailure (container # containers) =
     (if ctr_State container = ''waiting''
         \<and> (ctr_Reason container = ''ErrImagePull'' \<or> ctr_Reason container = ''ImagePullBackOff'')
      then True else anyImagePullFailure containers)"

definition imagePullFailure :: "Engine \<Rightarrow> gotime \<Rightarrow> Snapshot \<Rightarrow> Match list" where
  "imagePullFailure e now snapshot =
     (if \<not> EqualFold (src_Kind (sn_Source snapshot)) ''Pod'' then []
      else if tooYoung e now (conditionTransition (sn_Conditions snapshot) ''Ready'' ''False'' [])
      then []
      else if anyImagePullFailure (sn_Containers snapshot)
      then [\<lparr>m_RuleID = ''image-pull-failure'',
             m_Reason = ''one or more containers cannot pull their image'',
             m_Severity = SeverityWarning\<rparr>]
      else [])"

section \<open>Workloads (workload.go)\<close>

definition isWorkloadKind :: "string \<Rightarrow> bool" where
  "isWorkloadKind kind \<longleftrightarrow> ToLower kind \<in> {''deployment'', ''statefulset'', ''daemonset''}"

fun unavailableTransition :: "Condition list \<Rightarrow> gotime option" where
  "unavailableTransition [] = None"
| "unavailableTransition (condition # conditions) =
     (if cond_Status condition \<noteq> ''False'' \<or> IsZero (cond_LastTransitionTime condition)
      then unavailableTransition conditions
      else if cond_Type condition \<in> {''Available'', ''Ready'', ''Progressing''}
      then Some (cond_LastTransitionTime condition)
      else unavailableTransition conditions)"

definition workloadUnavailable :: "Engine \<Rightarrow> gotime \<Rightarrow> Snapshot \<Rightarrow> Match list" where
  "workloadUnavailable e now snapshot =
     (case sn_Workload snapshot of
        None \<Rightarrow> []
      | Some state \<Rightarrow>
          if \<not> isWorkloadKind (src_Kind (sn_Source snapshot)) then []
          else if wl_Desired state \<le> 0 \<or> wl_Desired state \<le> wl_Available state
            \<or> wl_Unavailable state \<le> 0
          then []
          else if tooYoung e now (unavailableTransition (sn_Conditions snapshot)) then []
          else [\<lparr>m_RuleID = ''workload-unavailable'',
                 m_Reason = ''workload has unavailable replicas'',
                 m_Severity = (if wl_Available state = 0 then SeverityCritical
                               else SeverityWarning)\<rparr>])"

section \<open>Jobs (job.go)\<close>

fun hasFailedCondition :: "Condition list \<Rightarrow> bool" where
  "hasFailedCondition [] = False"
| "hasFailedCondition (condition # conditions) =
     (if cond_Type condition = ''Failed'' \<and> cond_Status condition = ''True'' then True
      else hasFailedCondition conditions)"

definition failedJob :: "Engine \<Rightarrow> Snapshot \<Rightarrow> Match list" where
  "failedJob e snapshot =
     (if \<not> EqualFold (src_Kind (sn_Source snapshot)) ''Job'' then []
      else case sn_Job snapshot of
        None \<Rightarrow> []
      | Some job \<Rightarrow>
          let failedCondition = hasFailedCondition (sn_Conditions snapshot);
              threshold = (if job_BackoffLimit job < 1 then 1 else job_BackoffLimit job)
          in if \<not> failedCondition \<and> job_Failed job < threshold then []
             else [\<lparr>m_RuleID = ''job-failed'', m_Reason = ''job has failed'',
                    m_Severity = SeverityCritical\<rparr>])"

section \<open>Events (event.go) and recovery (recovery.go)\<close>

definition semanticWarningReasons :: "string list" where
  "semanticWarningReasons =
     [''FailedAttachVolume'', ''FailedCreate'', ''FailedDelete'', ''FailedMount'',
      ''FailedUpdate'', ''Unhealthy'']"

definition eventIsQuiet :: "Engine \<Rightarrow> gotime \<Rightarrow> Snapshot \<Rightarrow> bool" where
  "eventIsQuiet e now snapshot =
     (case sn_Event snapshot of
        None \<Rightarrow> False
      | Some ev \<Rightarrow>
          if opt_EventQuietPeriod (eng_options e) \<le> 0 \<or> IsZero (ev_LastObserved ev) then False
          else \<not> now < ev_LastObserved ev + opt_EventQuietPeriod (eng_options e))"

definition warningEvent :: "Engine \<Rightarrow> gotime \<Rightarrow> Snapshot \<Rightarrow> Match list" where
  "warningEvent e now snapshot =
     (case sn_Event snapshot of
        None \<Rightarrow> []
      | Some ev \<Rightarrow>
          if \<not> EqualFold (src_Kind (sn_Source snapshot)) ''Event''
            \<or> \<not> EqualFold (ev_Type ev) ''Warning'' \<or> eventIsQuiet e now snapshot
          then []
          else if ev_Reason ev \<notin> set semanticWarningReasons then []
          else [\<lparr>m_RuleID = ''warning-event'',
                 m_Reason = ''selected Warning Event requires semantic triage'',
                 m_Severity = SeverityWarning\<rparr>])"

definition recovered :: "Incident option \<Rightarrow> Result option" where
  "recovered previous =
     (case previous of
        None \<Rightarrow> None
      | Some inc \<Rightarrow>
          if inc_Status inc \<noteq> IncidentOpen then None
          else
            let reason = ''previously open incident no longer matches'';
                decision = \<lparr>dec_Severity = SeverityInfo, dec_Action = ActionRecord,
                  dec_Summary = reason, dec_ReasonCodes = [''recovered''],
                  dec_RuleIDs = [''recovered'']\<rparr>
            in Some \<lparr>res_Matches =
                       [\<lparr>m_RuleID = ''recovered'', m_Reason = reason, m_Severity = SeverityInfo\<rparr>],
                     res_Disposition = DispositionTerminal, res_Decision = Some decision,
                     res_QuestionSet = [], res_PolicyVersion = PolicyVersion\<rparr>)"

section \<open>The engine (engine.go)\<close>

fun ignoredNamespace :: "string list \<Rightarrow> string \<Rightarrow> string option" where
  "ignoredNamespace [] ns = None"
| "ignoredNamespace (namespace # namespaces) ns =
     (if ns = namespace then Some (''ignored namespace '' @ namespace)
      else ignoredNamespace namespaces ns)"

fun ignoredLabel :: "string list \<Rightarrow> (string \<times> string) list \<Rightarrow> string option" where
  "ignoredLabel [] labels = None"
| "ignoredLabel (selector # selectors) labels =
     (let (key, value, hasValue) = Cut (CHR ''='') selector
      in case map_of labels key of
           None \<Rightarrow> ignoredLabel selectors labels
         | Some actual \<Rightarrow>
             if \<not> hasValue \<or> actual = value then Some (''ignored label '' @ selector)
             else ignoredLabel selectors labels)"

definition ignoredReason :: "Engine \<Rightarrow> Snapshot \<Rightarrow> string option" where
  "ignoredReason e snapshot =
     (case ignoredNamespace (opt_IgnoredNamespaces (eng_options e))
             (src_Namespace (sn_Source snapshot)) of
        Some reason \<Rightarrow> Some reason
      | None \<Rightarrow> ignoredLabel (opt_IgnoredLabels (eng_options e)) (sn_Labels snapshot))"

fun highestSeverity :: "Match \<Rightarrow> Match list \<Rightarrow> Match" where
  "highestSeverity winning [] = winning"
| "highestSeverity winning (match # matches) =
     highestSeverity
       (if severityRank (m_Severity winning) < severityRank (m_Severity match)
        then match else winning) matches"

definition decisionFor :: "Match \<Rightarrow> Match list \<Rightarrow> Decision" where
  "decisionFor first rest =
     (let winning = highestSeverity first rest;
          ruleIDs = map m_RuleID (first # rest)
      in \<lparr>dec_Severity = m_Severity winning,
          dec_Action = (if m_Severity winning = SeverityCritical then ActionPage else ActionNotify),
          dec_Summary = m_Reason winning, dec_ReasonCodes = ruleIDs, dec_RuleIDs = ruleIDs\<rparr>)"

definition allMatches :: "Engine \<Rightarrow> clock \<Rightarrow> Snapshot \<Rightarrow> Match list" where
  "allMatches e now snapshot =
     sort_key m_RuleID
       (podCrashLoop e (now AtCrashLoop) snapshot
        @ podUnschedulable e (now AtUnschedulable) snapshot
        @ imagePullFailure e (now AtImagePull) snapshot
        @ failedJob e snapshot
        @ workloadUnavailable e (now AtWorkload) snapshot
        @ warningEvent e (now AtEventQuiet) snapshot)"

definition Evaluate :: "Engine \<Rightarrow> clock \<Rightarrow> Snapshot \<Rightarrow> Incident option \<Rightarrow> Result" where
  "Evaluate e now snapshot previous =
     (case ignoredReason e snapshot of
        Some reason \<Rightarrow>
          \<lparr>res_Matches =
             [\<lparr>m_RuleID = ''ignored'', m_Reason = reason, m_Severity = SeverityInfo\<rparr>],
           res_Disposition = DispositionSuppress,
           res_Decision = Some \<lparr>dec_Severity = SeverityInfo, dec_Action = ActionSuppress,
             dec_Summary = reason, dec_ReasonCodes = [''ignored''], dec_RuleIDs = [''ignored'']\<rparr>,
           res_QuestionSet = [], res_PolicyVersion = PolicyVersion\<rparr>
      | None \<Rightarrow>
          (case allMatches e now snapshot of
             [] \<Rightarrow>
               (case recovered previous of
                  Some result \<Rightarrow> result
                | None \<Rightarrow> \<lparr>res_Matches = [], res_Disposition = DispositionNoMatch,
                    res_Decision = None, res_QuestionSet = [], res_PolicyVersion = PolicyVersion\<rparr>)
           | first # rest \<Rightarrow>
               if rest = [] \<and> m_RuleID first = ''warning-event'' then
                 \<lparr>res_Matches = [first], res_Disposition = DispositionSemantic,
                  res_Decision = None, res_QuestionSet = ''operational-triage-v1'',
                  res_PolicyVersion = PolicyVersion\<rparr>
               else
                 \<lparr>res_Matches = first # rest, res_Disposition = DispositionTerminal,
                  res_Decision = Some (decisionFor first rest), res_QuestionSet = [],
                  res_PolicyVersion = PolicyVersion\<rparr>))"


section \<open>What each rule reports\<close>

text \<open>
  Every rule reports at most one match, with its own identifier and a severity of at least
  warning. The predicates say in which states the loops over conditions and containers end.
\<close>

definition crashLooping :: "Options \<Rightarrow> ContainerState \<Rightarrow> bool" where
  "crashLooping options c \<longleftrightarrow>
     ctr_State c = ''waiting'' \<and> ctr_Reason c = ''CrashLoopBackOff''
     \<and> opt_CrashLoopRestartThreshold options \<le> ctr_RestartCount c"

definition criticallyLooping :: "Options \<Rightarrow> ContainerState \<Rightarrow> bool" where
  "criticallyLooping options c \<longleftrightarrow>
     crashLooping options c \<and> opt_CrashLoopCriticalThreshold options \<le> ctr_RestartCount c"


lemma crashLoopSeverity_Cons:
  "crashLoopSeverity options (c # cs) sev =
     crashLoopSeverity options cs
       (if criticallyLooping options c \<and> severityRank sev < 3 then SeverityCritical
        else if crashLooping options c \<and> \<not> criticallyLooping options c \<and> severityRank sev < 2
        then SeverityWarning else sev)"
  by (simp add: crashLooping_def criticallyLooping_def Let_def not_less not_le)

lemma crashLoopSeverity_eq:
  "crashLoopSeverity options cs sev =
     (if sev = SeverityCritical \<or> (\<exists>c \<in> set cs. criticallyLooping options c) then SeverityCritical
      else if \<exists>c \<in> set cs. crashLooping options c then SeverityWarning
      else sev)"
  if "sev \<in> {SeverityOther [], SeverityWarning, SeverityCritical}"
  using that
proof (induction cs arbitrary: sev)
  case Nil
  then show ?case by auto
next
  case (Cons c cs)
  have crash: "criticallyLooping options c \<Longrightarrow> crashLooping options c"
    by (simp add: criticallyLooping_def)
  from Cons.prems Cons.IH crash show ?case
    by (cases "criticallyLooping options c"; cases "crashLooping options c")
      (auto simp del: crashLoopSeverity.simps(2) simp: crashLoopSeverity_Cons)
qed

lemma anyImagePullFailure_iff:
  "anyImagePullFailure cs \<longleftrightarrow>
     (\<exists>c \<in> set cs. ctr_State c = ''waiting'' \<and> ctr_Reason c \<in> {''ErrImagePull'', ''ImagePullBackOff''})"
  by (induction cs) auto

lemma tooYoung_mono: "now \<le> now' \<Longrightarrow> tooYoung e now' tr \<Longrightarrow> tooYoung e now tr"
  by (auto simp: tooYoung_def split: option.splits dest: time_Sub_mono intro: le_less_trans)

lemmas rule_defs =
  podCrashLoop_def podUnschedulable_def imagePullFailure_def failedJob_def
  workloadUnavailable_def warningEvent_def

definition reports :: "string \<Rightarrow> Match list \<Rightarrow> bool" where
  "reports ruleID ms \<longleftrightarrow>
     ms = [] \<or> (\<exists>m. ms = [m] \<and> m_RuleID m = ruleID
       \<and> m_Severity m \<in> {SeverityWarning, SeverityCritical})"

lemma rules_report:
  "reports ''pod-crash-loop'' (podCrashLoop e now s)"
  "reports ''pod-unschedulable'' (podUnschedulable e now s)"
  "reports ''image-pull-failure'' (imagePullFailure e now s)"
  "reports ''job-failed'' (failedJob e s)"
  "reports ''workload-unavailable'' (workloadUnavailable e now s)"
  "reports ''warning-event'' (warningEvent e now s)"
  by (simp_all add: reports_def rule_defs crashLoopSeverity_eq Let_def split: option.splits)

definition ruleIDs :: "string list" where
  "ruleIDs = [''pod-crash-loop'', ''pod-unschedulable'', ''image-pull-failure'', ''job-failed'',
     ''workload-unavailable'', ''warning-event'']"

definition only :: "string list \<Rightarrow> Match list \<Rightarrow> bool" where
  "only ids ms \<longleftrightarrow> distinct (map m_RuleID ms) \<and> m_RuleID ` set ms \<subseteq> set ids"

lemma only_Nil: "only ids []"
  by (simp add: only_def)

lemma only_mset:
  assumes "mset ms = mset ns" and "only ids ns"
  shows "only ids ms"
proof -
  from assms(1) have "mset (map m_RuleID ms) = mset (map m_RuleID ns)" by simp
  then have "distinct (map m_RuleID ms) = distinct (map m_RuleID ns)"
    by (rule mset_eq_imp_distinct_iff)
  moreover from assms(1) have "set ms = set ns" by (rule mset_eq_setD)
  ultimately show ?thesis using assms(2) by (simp add: only_def)
qed

lemma only_append: "reports i ms \<Longrightarrow> only ids ns \<Longrightarrow> i \<notin> set ids \<Longrightarrow> only (i # ids) (ms @ ns)"
  by (auto simp: only_def reports_def)

lemma reports_severities:
  "reports i ms \<Longrightarrow> m \<in> set ms \<Longrightarrow> m_Severity m \<in> {SeverityWarning, SeverityCritical}"
  by (auto simp: reports_def)

lemma allMatches_only: "only ruleIDs (allMatches e now s)"
proof -
  let ?raw = "podCrashLoop e (now AtCrashLoop) s @ podUnschedulable e (now AtUnschedulable) s
    @ imagePullFailure e (now AtImagePull) s @ failedJob e s
    @ workloadUnavailable e (now AtWorkload) s @ warningEvent e (now AtEventQuiet) s @ []"
  have "only ruleIDs ?raw"
    unfolding ruleIDs_def by (intro only_append rules_report only_Nil) simp_all
  moreover have "mset (allMatches e now s) = mset ?raw"
    by (simp add: allMatches_def)
  ultimately show ?thesis by (rule only_mset [rotated])
qed

lemma allMatches_sorted: "sorted (map m_RuleID (allMatches e now s))"
  by (simp add: allMatches_def)

lemma allMatches_severity:
  "m \<in> set (allMatches e now s) \<Longrightarrow> m_Severity m \<in> {SeverityWarning, SeverityCritical}"
  unfolding allMatches_def set_sort set_append
  by (elim UnE; rule reports_severities [OF rules_report(1)] reports_severities [OF rules_report(2)]
      reports_severities [OF rules_report(3)] reports_severities [OF rules_report(4)]
      reports_severities [OF rules_report(5)] reports_severities [OF rules_report(6)]; assumption)

lemma highestSeverity_max:
  "highestSeverity w ms \<in> set (w # ms)
   \<and> (\<forall>m \<in> set (w # ms). severityRank (m_Severity m) \<le> severityRank (m_Severity (highestSeverity w ms)))"
proof (induction ms arbitrary: w)
  case Nil
  then show ?case by simp
next
  case (Cons m ms)
  then show ?case
    by (cases "severityRank (m_Severity w) < severityRank (m_Severity m)") force+
qed

definition explains :: "Decision \<Rightarrow> Match list \<Rightarrow> bool" where
  "explains d ms \<longleftrightarrow>
     dec_RuleIDs d = map m_RuleID ms \<and> dec_ReasonCodes d = map m_RuleID ms
     \<and> (\<exists>m \<in> set ms. dec_Severity d = m_Severity m \<and> dec_Summary d = m_Reason m)
     \<and> (\<forall>m \<in> set ms. severityRank (m_Severity m) \<le> severityRank (dec_Severity d))"

lemma decisionFor_explains: "explains (decisionFor w ms) (w # ms)"
  using highestSeverity_max [of w ms] by (auto simp: explains_def decisionFor_def Let_def)

definition wf_result :: "Result \<Rightarrow> bool" where
  "wf_result r \<longleftrightarrow>
     res_PolicyVersion r = PolicyVersion
     \<and> sorted (map m_RuleID (res_Matches r)) \<and> distinct (map m_RuleID (res_Matches r))
     \<and> (case res_Disposition r of
          DispositionNoMatch \<Rightarrow>
            res_Matches r = [] \<and> res_Decision r = None \<and> res_QuestionSet r = []
        | DispositionSemantic \<Rightarrow>
            map m_RuleID (res_Matches r) = [''warning-event''] \<and> res_Decision r = None
            \<and> res_QuestionSet r = ''operational-triage-v1''
        | _ \<Rightarrow>
            res_QuestionSet r = []
            \<and> (\<exists>d. res_Decision r = Some d \<and> explains d (res_Matches r)))"

lemma wf_recovered: "recovered previous = Some r \<Longrightarrow> wf_result r"
  by (auto simp: recovered_def wf_result_def explains_def Let_def split: option.splits if_splits)

text \<open>C35: every result of the engine is well formed: matches are sorted by rule and distinct,
  a semantic result comes from the warning-event rule alone and carries the question set and no
  decision, a result without matches carries nothing, and every other result carries a decision
  that names all matched rules and has the highest of their severities.\<close>

theorem Evaluate_wf: "wf_result (Evaluate e now s previous)"
proof (cases "ignoredReason e s")
  case (Some reason)
  then show ?thesis by (simp add: Evaluate_def wf_result_def explains_def)
next
  case not_ignored: None
  note sorted = allMatches_sorted [of e now s]
  note ids = allMatches_only [of e now s, unfolded only_def]
  show ?thesis
  proof (cases "allMatches e now s")
    case Nil
    with not_ignored show ?thesis
      by (auto simp: Evaluate_def wf_recovered split: option.splits) (simp add: wf_result_def)
  next
    case (Cons first rest)
    with not_ignored sorted ids show ?thesis
      by (simp add: Evaluate_def wf_result_def decisionFor_explains)
  qed
qed

lemma allMatches_mem:
  "m \<in> set (allMatches e now s) \<longleftrightarrow>
     m \<in> set (podCrashLoop e (now AtCrashLoop) s)
     \<or> m \<in> set (podUnschedulable e (now AtUnschedulable) s)
     \<or> m \<in> set (imagePullFailure e (now AtImagePull) s)
     \<or> m \<in> set (failedJob e s)
     \<or> m \<in> set (workloadUnavailable e (now AtWorkload) s)
     \<or> m \<in> set (warningEvent e (now AtEventQuiet) s)"
  by (simp add: allMatches_def)

lemma reports_ruleID: "reports i ms \<Longrightarrow> m \<in> set ms \<Longrightarrow> m_RuleID m = i"
  by (auto simp: reports_def)

lemmas rules_ruleID = rules_report [THEN reports_ruleID]

lemma warning_event_only:
  assumes "m \<in> set (allMatches e now s)" and "m_RuleID m = ''warning-event''"
  shows "m \<in> set (warningEvent e (now AtEventQuiet) s)"
  using assms by (auto simp: allMatches_mem dest!: rules_ruleID)

lemma warningEvent_severity: "m \<in> set (warningEvent e t s) \<Longrightarrow> m_Severity m = SeverityWarning"
  by (auto simp: warningEvent_def split: option.splits if_splits)

lemma explains_critical_iff:
  "explains d ms \<Longrightarrow> dec_Severity d = SeverityCritical \<longleftrightarrow> (\<exists>m \<in> set ms. m_Severity m = SeverityCritical)"
  unfolding explains_def by (metis severityRank_ge_3_iff severityRank_3_iff)

text \<open>C36: the engine decides to page exactly when the snapshot is not ignored and some rule
  matched with critical severity.\<close>

theorem Evaluate_page_iff_critical:
  "(\<exists>d. res_Decision (Evaluate e now s previous) = Some d \<and> dec_Action d = ActionPage) \<longleftrightarrow>
     ignoredReason e s = None \<and> (\<exists>m. m \<in> set (allMatches e now s) \<and> m_Severity m = SeverityCritical)"
proof (cases "ignoredReason e s")
  case (Some reason)
  then show ?thesis by (simp add: Evaluate_def)
next
  case None
  show ?thesis
  proof (cases "allMatches e now s")
    case Nil
    with None show ?thesis
      by (auto simp: Evaluate_def recovered_def Let_def split: option.splits if_splits)
  next
    case (Cons first rest)
    have crit: "m_Severity (highestSeverity first rest) = SeverityCritical \<longleftrightarrow>
        (\<exists>m \<in> set (first # rest). m_Severity m = SeverityCritical)"
      using explains_critical_iff [OF decisionFor_explains [of first rest]]
      by (simp add: decisionFor_def Let_def)
    have "m_RuleID first = ''warning-event'' \<Longrightarrow> m_Severity first = SeverityWarning"
      using warning_event_only [of first e now s] warningEvent_severity Cons by simp
    with None Cons crit show ?thesis
      by (auto simp: Evaluate_def decisionFor_def Let_def)
  qed
qed

lemma ignoredNamespace_iff: "ignoredNamespace nss ns \<noteq> None \<longleftrightarrow> ns \<in> set nss"
  by (induction nss) auto

definition selects :: "string \<Rightarrow> (string \<times> string) list \<Rightarrow> bool" where
  "selects selector labels \<longleftrightarrow>
     (CHR ''='' \<notin> set selector \<and> map_of labels selector \<noteq> None)
     \<or> (\<exists>key value. selector = key @ CHR ''='' # value \<and> CHR ''='' \<notin> set key
          \<and> map_of labels key = Some value)"

lemma Cut_eq_conv:
  "Cut sep (k @ sep # v) = (k, v, True)" if "sep \<notin> set k"
  using that by (induction k) (auto simp: Cut_def)

lemma split_sep_unique:
  "k @ sep # v = k' @ sep # v' \<longleftrightarrow> k = k' \<and> v = v'" if "(sep :: char) \<notin> set k" "sep \<notin> set k'"
  using Cut_eq_conv [OF that(1), of v] Cut_eq_conv [OF that(2), of v'] by (metis Pair_inject)

lemma ignoredLabel_step:
  "ignoredLabel (selector # selectors) labels =
     (if selects selector labels then Some (''ignored label '' @ selector)
      else ignoredLabel selectors labels)"
proof (cases "CHR ''='' \<in> set selector")
  case True
  then obtain k v where sel: "selector = k @ CHR ''='' # v" and k: "CHR ''='' \<notin> set k"
    by (metis split_list_first)
  have "selects selector labels \<longleftrightarrow> map_of labels k = Some v"
    using k by (auto simp: selects_def sel split_sep_unique)
  then show ?thesis
    using k by (auto simp: sel Cut_eq_conv split: option.splits)
next
  case False
  then have "selects selector labels \<longleftrightarrow> map_of labels selector \<noteq> None"
    by (auto simp: selects_def)
  with False show ?thesis
    by (auto simp: Cut_def split: option.splits)
qed

lemma ignoredLabel_iff:
  "ignoredLabel selectors labels \<noteq> None \<longleftrightarrow> (\<exists>sel \<in> set selectors. selects sel labels)"
  by (induction selectors) (auto simp del: ignoredLabel.simps(2) simp: ignoredLabel_step)

text \<open>C37: a snapshot is suppressed exactly when its namespace is ignored or one of the ignored
  selectors selects its labels, whatever the rules and the previous incident say.\<close>

theorem Evaluate_suppress_iff:
  "res_Disposition (Evaluate e now s previous) = DispositionSuppress \<longleftrightarrow>
     src_Namespace (sn_Source s) \<in> set (opt_IgnoredNamespaces (eng_options e))
     \<or> (\<exists>sel. sel \<in> set (opt_IgnoredLabels (eng_options e)) \<and> selects sel (sn_Labels s))"
proof -
  have "ignoredReason e s \<noteq> None \<longleftrightarrow>
     src_Namespace (sn_Source s) \<in> set (opt_IgnoredNamespaces (eng_options e))
     \<or> (\<exists>sel \<in> set (opt_IgnoredLabels (eng_options e)). selects sel (sn_Labels s))"
    using ignoredNamespace_iff [of "opt_IgnoredNamespaces (eng_options e)" "src_Namespace (sn_Source s)"]
      ignoredLabel_iff [of "opt_IgnoredLabels (eng_options e)" "sn_Labels s"]
    by (cases "ignoredNamespace (opt_IgnoredNamespaces (eng_options e)) (src_Namespace (sn_Source s))")
      (simp_all add: ignoredReason_def)
  moreover have "res_Disposition (Evaluate e now s previous) = DispositionSuppress \<longleftrightarrow>
      ignoredReason e s \<noteq> None"
    by (auto simp: Evaluate_def recovered_def Let_def split: option.splits list.splits if_splits)
  ultimately show ?thesis by auto
qed

text \<open>The crash-loop rule reports exactly when the pod has been unready for the minimum age
  and some container waits in CrashLoopBackOff with enough restarts; it is critical exactly when
  one of these containers reached the critical number of restarts.\<close>

theorem podCrashLoop_iff:
  "podCrashLoop e now s =
     (if EqualFold (src_Kind (sn_Source s)) ''Pod''
         \<and> \<not> tooYoung e now (conditionTransition (sn_Conditions s) ''Ready'' ''False'' [])
         \<and> (\<exists>c. c \<in> set (sn_Containers s) \<and> crashLooping (eng_options e) c)
      then [\<lparr>m_RuleID = ''pod-crash-loop'', m_Reason = ''one or more containers are crash looping'',
             m_Severity =
               (if \<exists>c. c \<in> set (sn_Containers s) \<and> criticallyLooping (eng_options e) c
                then SeverityCritical else SeverityWarning)\<rparr>]
      else [])"
proof -
  have "c \<in> set (sn_Containers s) \<and> criticallyLooping (eng_options e) c \<Longrightarrow>
      \<exists>c \<in> set (sn_Containers s). crashLooping (eng_options e) c" for c
    by (auto simp: criticallyLooping_def)
  then show ?thesis
    by (auto simp: podCrashLoop_def crashLoopSeverity_eq Let_def)
qed

lemma fold_kinds:
  "EqualFold k ''Event'' \<Longrightarrow> \<not> EqualFold k ''Pod''" "EqualFold k ''Event'' \<Longrightarrow> \<not> EqualFold k ''Job''"
proof -
  have "fold_case ''Event'' \<noteq> fold_case ''Pod''" "fold_case ''Event'' \<noteq> fold_case ''Job''"
    by code_simp+
  then show "EqualFold k ''Event'' \<Longrightarrow> \<not> EqualFold k ''Pod''" "EqualFold k ''Event'' \<Longrightarrow> \<not> EqualFold k ''Job''"
    by (auto simp: EqualFold_def)
qed

text \<open>C38: an open incident of an event that has been quiet for the configured period is
  resolved: once the clock reaches the last observation plus the quiet period, the engine returns
  the recovery result.\<close>

theorem quiet_event_recovers:
  assumes "ignoredReason e s = None"
    and "EqualFold (src_Kind (sn_Source s)) ''Event''" and "sn_Workload s = None"
    and "sn_Event s = Some ev" and "0 < opt_EventQuietPeriod (eng_options e)"
    and "ev_LastObserved ev \<noteq> 0"
    and "ev_LastObserved ev + opt_EventQuietPeriod (eng_options e) \<le> now AtEventQuiet"
    and "inc_Status inc = IncidentOpen"
  shows "recovered (Some inc) = Some (Evaluate e now s (Some inc))"
proof -
  have "eventIsQuiet e (now AtEventQuiet) s"
    using assms by (simp add: eventIsQuiet_def IsZero_def)
  then have "allMatches e now s = []"
    using assms(2,3,4) fold_kinds by (simp add: allMatches_def rule_defs)
  with assms(1,8) show ?thesis
    by (simp add: Evaluate_def recovered_def Let_def)
qed


lemma guard_mono: "set xs \<subseteq> set ys \<Longrightarrow> set (if b then [] else xs) \<subseteq> set (if b then [] else ys)"
  by simp

lemma young_mono:
  "now \<le> now' \<Longrightarrow> set (if tooYoung e now tr then [] else xs) \<subseteq> set (if tooYoung e now' tr then [] else xs)"
  using tooYoung_mono [of now now' e tr] by simp

lemma rules_mono:
  assumes "now \<le> now'"
  shows "set (podCrashLoop e now s) \<subseteq> set (podCrashLoop e now' s)"
    and "set (podUnschedulable e now s) \<subseteq> set (podUnschedulable e now' s)"
    and "set (imagePullFailure e now s) \<subseteq> set (imagePullFailure e now' s)"
    and "set (workloadUnavailable e now s) \<subseteq> set (workloadUnavailable e now' s)"
proof -
  show "set (podCrashLoop e now s) \<subseteq> set (podCrashLoop e now' s)"
    "set (podUnschedulable e now s) \<subseteq> set (podUnschedulable e now' s)"
    "set (imagePullFailure e now s) \<subseteq> set (imagePullFailure e now' s)"
    unfolding podCrashLoop_def podUnschedulable_def imagePullFailure_def
    by (intro guard_mono young_mono assms)+
  show "set (workloadUnavailable e now s) \<subseteq> set (workloadUnavailable e now' s)"
    unfolding workloadUnavailable_def
    by (cases "sn_Workload s"; simp only: option.case; intro guard_mono young_mono assms subset_refl)
qed

text \<open>C39: a rule on conditions that matched a snapshot matches it at every later time: only the
  warning-event rule lets a match expire.\<close>

theorem matches_persist:
  assumes "m \<in> set (allMatches e now s)" and "m_RuleID m \<noteq> ''warning-event''"
    and "\<forall>site. now site \<le> now' site"
  shows "m \<in> set (allMatches e now' s)"
proof -
  have "m \<notin> set (warningEvent e (now AtEventQuiet) s)"
    using assms(2) rules_ruleID(6) by blast
  with assms(1,3) show ?thesis
    unfolding allMatches_mem by (meson rules_mono subsetD)
qed

lemma containers_update:
  "sn_Source (s\<lparr>sn_Containers := cs\<rparr>) = sn_Source s" "sn_Labels (s\<lparr>sn_Containers := cs\<rparr>) = sn_Labels s"
  "sn_Conditions (s\<lparr>sn_Containers := cs\<rparr>) = sn_Conditions s"
  "sn_Workload (s\<lparr>sn_Containers := cs\<rparr>) = sn_Workload s" "sn_Job (s\<lparr>sn_Containers := cs\<rparr>) = sn_Job s"
  "sn_Event (s\<lparr>sn_Containers := cs\<rparr>) = sn_Event s" "sn_Containers (s\<lparr>sn_Containers := cs\<rparr>) = cs"
  by simp_all

lemma containers_frame:
  "failedJob e (s\<lparr>sn_Containers := cs\<rparr>) = failedJob e s"
  "podUnschedulable e now (s\<lparr>sn_Containers := cs\<rparr>) = podUnschedulable e now s"
  "workloadUnavailable e now (s\<lparr>sn_Containers := cs\<rparr>) = workloadUnavailable e now s"
  "warningEvent e now (s\<lparr>sn_Containers := cs\<rparr>) = warningEvent e now s"
  "ignoredReason e (s\<lparr>sn_Containers := cs\<rparr>) = ignoredReason e s"
  unfolding failedJob_def podUnschedulable_def workloadUnavailable_def warningEvent_def
    eventIsQuiet_def ignoredReason_def containers_update by (rule refl)+

lemma containers_perm:
  assumes "mset cs = mset cs'"
  shows "allMatches e now (s\<lparr>sn_Containers := cs\<rparr>) = allMatches e now (s\<lparr>sn_Containers := cs'\<rparr>)"
proof -
  from assms have "set cs = set cs'" by (rule mset_eq_setD)
  then have "podCrashLoop e t (s\<lparr>sn_Containers := cs\<rparr>) = podCrashLoop e t (s\<lparr>sn_Containers := cs'\<rparr>)"
    "imagePullFailure e t (s\<lparr>sn_Containers := cs\<rparr>) = imagePullFailure e t (s\<lparr>sn_Containers := cs'\<rparr>)" for t
    by (simp_all add: podCrashLoop_def imagePullFailure_def crashLoopSeverity_eq anyImagePullFailure_iff)
  then show ?thesis by (simp only: allMatches_def containers_frame)
qed

text \<open>C40: the result does not depend on the order in which the containers of a pod are
  listed, nor on the order of the ignored namespaces and selectors in the configuration.\<close>

theorem Evaluate_order_independent:
  assumes "mset cs = mset cs'"
    and "mset (opt_IgnoredNamespaces o1) = mset (opt_IgnoredNamespaces o2)"
    and "mset (opt_IgnoredLabels o1) = mset (opt_IgnoredLabels o2)"
    and "opt_CrashLoopRestartThreshold o1 = opt_CrashLoopRestartThreshold o2"
    and "opt_CrashLoopCriticalThreshold o1 = opt_CrashLoopCriticalThreshold o2"
    and "opt_MinimumAge o1 = opt_MinimumAge o2"
    and "opt_EventQuietPeriod o1 = opt_EventQuietPeriod o2"
  shows "Evaluate (NewEngine o1) now (s\<lparr>sn_Containers := cs\<rparr>) previous =
     Evaluate (NewEngine o2) now (s\<lparr>sn_Containers := cs'\<rparr>) previous"
proof -
  have "sort (opt_IgnoredNamespaces o1) = sort (opt_IgnoredNamespaces o2)"
    "sort (opt_IgnoredLabels o1) = sort (opt_IgnoredLabels o2)"
    using assms(2,3) by (metis sorted_list_of_multiset_mset)+
  with assms(4-) have engine: "NewEngine o1 = NewEngine o2"
    by (simp add: NewEngine_def)
  show ?thesis
    unfolding engine Evaluate_def containers_frame containers_perm [OF assms(1)] ..
qed

section \<open>Examples\<close>

text \<open>A configuration, a pod in a crash loop and a warning event, at which the theorems apply.\<close>

definition sample_options :: Options where
  "sample_options =
     \<lparr>opt_CrashLoopRestartThreshold = 3, opt_CrashLoopCriticalThreshold = 10,
      opt_MinimumAge = 300 * Second, opt_EventQuietPeriod = 600 * Second,
      opt_IgnoredNamespaces = [''kube-system'', ''default''],
      opt_IgnoredLabels = [''maintenance=true'']\<rparr>"

definition sample_source :: "string \<Rightarrow> Source" where
  "sample_source kind =
     \<lparr>src_ClusterID = ''prod'', src_APIVersion = ''v1'', src_Kind = kind, src_Namespace = ''shop'',
      src_Name = ''web'', src_UID = ''u1'', src_ResourceVersion = ''7'', src_Generation = 1,
      src_Owner = None\<rparr>"

definition sample_container :: "string \<Rightarrow> int \<Rightarrow> ContainerState" where
  "sample_container name restarts =
     \<lparr>ctr_Name = name, ctr_Ready = False, ctr_RestartCount = restarts, ctr_State = ''waiting'',
      ctr_Reason = ''CrashLoopBackOff'', ctr_ExitCode = 0\<rparr>"

definition sample_pod :: Snapshot where
  "sample_pod =
     \<lparr>sn_Source = sample_source ''Pod'', sn_ObservedAt = 1000 * Second, sn_Labels = [],
      sn_Conditions = [\<lparr>cond_Type = ''Ready'', cond_Status = ''False'', cond_Reason = [],
        cond_Message = [], cond_LastTransitionTime = 100 * Second\<rparr>],
      sn_Containers = [sample_container ''app'' 4, sample_container ''proxy'' 12],
      sn_Workload = None, sn_Job = None, sn_Event = None, sn_ContentHash = ''h1''\<rparr>"

definition sample_event_state :: EventState where
  "sample_event_state =
     \<lparr>ev_Type = ''Warning'', ev_Reason = ''FailedMount'', ev_Message = [],
      ev_RegardingUID = ''u0'', ev_Count = 3, ev_LastObserved = 500 * Second\<rparr>"

definition sample_event :: Snapshot where
  "sample_event = sample_pod\<lparr>sn_Source := sample_source ''Event'', sn_Conditions := [],
     sn_Containers := [], sn_Event := Some sample_event_state\<rparr>"

definition sample_incident :: Incident where
  "sample_incident =
     \<lparr>inc_ID = ''i1'', inc_Key = ''k1'', inc_ClusterID = ''prod'', inc_Source = sample_source ''Event'',
      inc_Status = IncidentOpen, inc_OpenedAt = 500 * Second, inc_UpdatedAt = 500 * Second,
      inc_ResolvedAt = None, inc_ContentHash = ''h1'', inc_Version = 1\<rparr>"

theorem quiet_event_recovers_witness:
  "recovered (Some sample_incident) =
     Some (Evaluate (NewEngine sample_options) (\<lambda>_. 1100 * Second) sample_event (Some sample_incident))"
  by (rule quiet_event_recovers [where ev = sample_event_state]) code_simp+

theorem matches_persist_witness:
  "\<lparr>m_RuleID = ''pod-crash-loop'', m_Reason = ''one or more containers are crash looping'',
     m_Severity = SeverityCritical\<rparr>
   \<in> set (allMatches (NewEngine sample_options) (\<lambda>_. 900 * Second) sample_pod)"
proof -
  have "\<lparr>m_RuleID = ''pod-crash-loop'', m_Reason = ''one or more containers are crash looping'',
      m_Severity = SeverityCritical\<rparr>
    \<in> set (allMatches (NewEngine sample_options) (\<lambda>_. 400 * Second) sample_pod)"
    by code_simp
  then show ?thesis
    by (rule matches_persist) (simp_all add: Second_def)
qed

theorem Evaluate_order_independent_witness:
  "Evaluate (NewEngine sample_options) (\<lambda>_. 900 * Second)
     (sample_pod\<lparr>sn_Containers := [sample_container ''app'' 4, sample_container ''proxy'' 12]\<rparr>) None =
   Evaluate (NewEngine (sample_options\<lparr>opt_IgnoredNamespaces := [''default'', ''kube-system'']\<rparr>))
     (\<lambda>_. 900 * Second)
     (sample_pod\<lparr>sn_Containers := [sample_container ''proxy'' 12, sample_container ''app'' 4]\<rparr>) None"
  by (rule Evaluate_order_independent) (simp_all add: sample_options_def)

end
