(* ===== verification/Float64.thy ===== *)
theory Float64
  imports Go_Prelude
begin

text \<open>
  IEEE 754 binary64 numbers as the sources use them: comparison, addition, subtraction,
  multiplication, absolute value and the test for finiteness. A finite number is its rational
  value; the two zeros are one value, since no operation used here tells them apart. Every
  arithmetic operation rounds the exact result to the nearest number with 53 significant bits,
  ties to even, with gradual underflow and overflow to the infinities. A decimal literal is the
  nearest binary64 number. Products and sums are rounded one by one, without fusing them.
\<close>

datatype float64 = Fin rat | PosInf | NegInf | NaN

section \<open>Rounding\<close>

definition pow2 :: "int \<Rightarrow> rat" where
  "pow2 k = 2 powi k"

fun bit_length :: "nat \<Rightarrow> nat" where
  "bit_length n = (if n = 0 then 0 else Suc (bit_length (n div 2)))"

declare bit_length.simps [simp del]

definition floor_log2 :: "rat \<Rightarrow> int" where
  "floor_log2 x =
     (let (p, q) = quotient_of \<bar>x\<bar>;
          k = int (bit_length (nat p)) - int (bit_length (nat q))
      in if pow2 k \<le> \<bar>x\<bar> then k else k - 1)"

definition round_half_even :: "rat \<Rightarrow> int" where
  "round_half_even x =
     (let f = \<lfloor>x\<rfloor>; d = x - of_int f
      in if d < 1 / 2 then f else if d > 1 / 2 then f + 1 else if even f then f else f + 1)"

definition round64 :: "rat \<Rightarrow> float64" where
  "round64 x =
     (if x = 0 then Fin 0
      else
        let e = max (- 1074) (floor_log2 x - 52);
            y = of_int (round_half_even (x / pow2 e)) * pow2 e
        in if pow2 1024 \<le> y then PosInf else if y \<le> - pow2 1024 then NegInf else Fin y)"

section \<open>Operations\<close>

fun fl_add :: "float64 \<Rightarrow> float64 \<Rightarrow> float64" where
  "fl_add (Fin x) (Fin y) = round64 (x + y)"
| "fl_add NaN _ = NaN"
| "fl_add _ NaN = NaN"
| "fl_add PosInf NegInf = NaN"
| "fl_add NegInf PosInf = NaN"
| "fl_add PosInf _ = PosInf"
| "fl_add _ PosInf = PosInf"
| "fl_add NegInf _ = NegInf"
| "fl_add _ NegInf = NegInf"

fun fl_neg :: "float64 \<Rightarrow> float64" where
  "fl_neg (Fin x) = Fin (- x)"
| "fl_neg PosInf = NegInf"
| "fl_neg NegInf = PosInf"
| "fl_neg NaN = NaN"

definition fl_sub :: "float64 \<Rightarrow> float64 \<Rightarrow> float64" where
  "fl_sub x y = fl_add x (fl_neg y)"

fun fl_abs :: "float64 \<Rightarrow> float64" where
  "fl_abs (Fin x) = Fin \<bar>x\<bar>"
| "fl_abs NaN = NaN"
| "fl_abs _ = PosInf"

text \<open>The only products of the sources multiply a number by a small non-negative index.\<close>

fun fl_mul_index :: "nat \<Rightarrow> float64 \<Rightarrow> float64" where
  "fl_mul_index n (Fin x) = round64 (of_nat n * x)"
| "fl_mul_index n NaN = NaN"
| "fl_mul_index n PosInf = (if n = 0 then NaN else PosInf)"
| "fl_mul_index n NegInf = (if n = 0 then NaN else NegInf)"

text \<open>Every comparison with NaN is false.\<close>

fun fl_less :: "float64 \<Rightarrow> float64 \<Rightarrow> bool" where
  "fl_less (Fin x) (Fin y) \<longleftrightarrow> x < y"
| "fl_less NegInf (Fin _) \<longleftrightarrow> True"
| "fl_less NegInf PosInf \<longleftrightarrow> True"
| "fl_less (Fin _) PosInf \<longleftrightarrow> True"
| "fl_less _ _ \<longleftrightarrow> False"

fun fl_le :: "float64 \<Rightarrow> float64 \<Rightarrow> bool" where
  "fl_le (Fin x) (Fin y) \<longleftrightarrow> x \<le> y"
| "fl_le NegInf NaN \<longleftrightarrow> False"
| "fl_le NegInf _ \<longleftrightarrow> True"
| "fl_le NaN PosInf \<longleftrightarrow> False"
| "fl_le _ PosInf \<longleftrightarrow> True"
| "fl_le _ _ \<longleftrightarrow> False"

fun isFinite :: "float64 \<Rightarrow> bool" where
  "isFinite (Fin _) \<longleftrightarrow> True"
| "isFinite _ \<longleftrightarrow> False"

lemma isFinite_iff: "isFinite x \<longleftrightarrow> (\<exists>q. x = Fin q)"
  by (cases x) simp_all

lemma fl_le_trans: "fl_le x y \<Longrightarrow> fl_le y z \<Longrightarrow> fl_le x z"
  by (cases x; cases y; cases z; simp)

lemma not_fl_less_iff: "isFinite x \<Longrightarrow> isFinite y \<Longrightarrow> \<not> fl_less x y \<longleftrightarrow> fl_le y x"
  by (auto simp: isFinite_iff)

section \<open>Accuracy of rounding\<close>

lemma round_half_even_error: "\<bar>of_int (round_half_even x) - x\<bar> \<le> 1 / 2"
proof -
  have f: "of_int \<lfloor>x\<rfloor> \<le> x" "x < of_int \<lfloor>x\<rfloor> + 1" by linarith+
  show ?thesis
  proof (cases "round_half_even x = \<lfloor>x\<rfloor>")
    case True
    then have "x - of_int \<lfloor>x\<rfloor> \<le> 1 / 2"
      by (auto simp: round_half_even_def Let_def split: if_splits)
    with True f show ?thesis by simp
  next
    case False
    then have "round_half_even x = \<lfloor>x\<rfloor> + 1" "1 / 2 \<le> x - of_int \<lfloor>x\<rfloor>"
      by (auto simp: round_half_even_def Let_def split: if_splits)
    with f show ?thesis by simp
  qed
qed

section \<open>Evaluating roundings\<close>

lemma bit_length_bounds: "0 < n \<Longrightarrow> 2 ^ (bit_length n - 1) \<le> n \<and> n < 2 ^ bit_length n \<and> 0 < bit_length n"
proof (induction n rule: bit_length.induct)
  case (1 n)
  show ?case
  proof (cases "n div 2 = 0")
    case True
    with 1 have "n = 1" by auto
    then show ?thesis by (simp add: bit_length.simps)
  next
    case False
    with 1 have IH: "2 ^ (bit_length (n div 2) - 1) \<le> n div 2" "n div 2 < 2 ^ bit_length (n div 2)"
      "0 < bit_length (n div 2)"
      by auto
    have "bit_length n = Suc (bit_length (n div 2))"
      using 1 by (simp add: bit_length.simps [of n])
    moreover obtain b where "bit_length (n div 2) = Suc b"
      using IH(3) gr0_conv_Suc by blast
    ultimately show ?thesis using IH by auto
  qed
qed

lemma pow2_less_iff [simp]: "pow2 a < pow2 b \<longleftrightarrow> a < b"
  unfolding pow2_def by (meson linorder_not_less one_less_numeral_iff power_int_increasing power_int_strict_increasing semiring_norm(76) one_le_numeral)

lemma pow2_pos [simp]: "0 < pow2 k"
  by (simp add: pow2_def)

lemma pow2_add: "pow2 (a + b) = pow2 a * pow2 b"
  by (simp add: pow2_def power_int_add)

lemma pow2_nat: "pow2 (int n) = 2 ^ n"
  by (simp add: pow2_def)

lemma floor_log2_sandwich:
  assumes "x \<noteq> 0"
  shows "pow2 (floor_log2 x) \<le> \<bar>x\<bar>" "\<bar>x\<bar> < pow2 (floor_log2 x + 1)"
proof -
  obtain p q where pq: "quotient_of \<bar>x\<bar> = (p, q)" by fastforce
  have q: "0 < q" and x: "\<bar>x\<bar> = of_int p / of_int q"
    using quotient_of_denom_pos quotient_of_div pq by auto
  have "(0 :: rat) < of_int p / of_int q"
    using assms x by (metis zero_less_abs_iff)
  then have p: "0 < p" using q by (simp add: zero_less_divide_iff)
  define a b where "a = bit_length (nat p)" and "b = bit_length (nat q)"
  have P: "2 ^ (a - 1) \<le> nat p" "nat p < 2 ^ a" "0 < a"
    using bit_length_bounds [of "nat p"] p by (auto simp: a_def)
  have Q: "2 ^ (b - 1) \<le> nat q" "nat q < 2 ^ b" "0 < b"
    using bit_length_bounds [of "nat q"] q by (auto simp: b_def)
  have rp: "pow2 (int a - 1) \<le> of_int p" "of_int p < pow2 (int a)"
    using P p pow2_nat [of "a - 1"] pow2_nat [of a]
    by (auto simp: of_nat_diff nat_less_iff le_nat_iff)
  have rq: "pow2 (int b - 1) \<le> of_int q" "of_int q < pow2 (int b)"
    using Q q pow2_nat [of "b - 1"] pow2_nat [of b]
    by (auto simp: of_nat_diff nat_less_iff le_nat_iff)
  have up: "\<bar>x\<bar> < pow2 (int a - int b + 1)"
  proof -
    have "of_int p < pow2 (int a - int b + 1) * pow2 (int b - 1)"
      using rp(2) by (simp flip: pow2_add)
    also have "\<dots> \<le> pow2 (int a - int b + 1) * of_int q"
      using rq(1) by (simp add: mult_left_mono less_imp_le)
    finally show ?thesis using q by (simp add: x divide_less_eq)
  qed
  have lo: "pow2 (int a - int b - 1) \<le> \<bar>x\<bar>"
  proof -
    have "pow2 (int a - int b - 1) * of_int q \<le> pow2 (int a - int b - 1) * pow2 (int b)"
      using rq(2) by (simp add: mult_left_mono less_imp_le)
    also have "\<dots> \<le> of_int p" using rp(1) by (simp flip: pow2_add)
    finally show ?thesis using q by (simp add: x le_divide_eq)
  qed
  have "floor_log2 x = (if pow2 (int a - int b) \<le> \<bar>x\<bar> then int a - int b else int a - int b - 1)"
    by (simp add: floor_log2_def pq a_def b_def Let_def)
  then show "pow2 (floor_log2 x) \<le> \<bar>x\<bar>" "\<bar>x\<bar> < pow2 (floor_log2 x + 1)"
    using up lo by auto
qed

lemma floor_log2_eqI:
  assumes "pow2 k \<le> \<bar>x\<bar>" "\<bar>x\<bar> < pow2 (k + 1)"
  shows "floor_log2 x = k"
proof -
  have "x \<noteq> 0" using assms(1) pow2_pos [of k] by force
  from floor_log2_sandwich [OF this] assms
  have "pow2 (floor_log2 x) < pow2 (k + 1)" "pow2 k < pow2 (floor_log2 x + 1)" by linarith+
  then show ?thesis by simp
qed

text \<open>
  A number between two consecutive powers of two rounds to a multiple of the last place there.
\<close>

lemma round64_eqI:
  assumes "pow2 k \<le> \<bar>x\<bar>" "\<bar>x\<bar> < pow2 (k + 1)" "- 1022 \<le> k"
    and "y = of_int (round_half_even (x / pow2 (k - 52))) * pow2 (k - 52)" "\<bar>y\<bar> < pow2 1024"
  shows "round64 x = Fin y"
proof -
  have "x \<noteq> 0" using assms(1) pow2_pos [of k] by force
  moreover have "max (- 1074) (floor_log2 x - 52) = k - 52"
    using assms(3) floor_log2_eqI [OF assms(1,2)] by simp
  ultimately show ?thesis
    using assms(4,5) by (auto simp: round64_def Let_def)
qed

lemma round_half_even_of_int [simp]: "round_half_even (of_int n) = n"
  by (simp add: round_half_even_def)

lemma round64_exact:
  assumes "x = of_int m * pow2 e" "2 ^ 52 \<le> \<bar>m\<bar>" "\<bar>m\<bar> < 2 ^ 53" "- 1074 \<le> e" "e \<le> 971"
  shows "round64 x = Fin x"
proof (rule round64_eqI [where k = "e + 52"])
  have m: "pow2 52 \<le> \<bar>of_int m\<bar>" "\<bar>of_int m\<bar> < pow2 53"
    using assms(2,3) of_int_le_iff [of "2 ^ 52" "\<bar>m\<bar>", where ?'a = rat]
      of_int_less_iff [of "\<bar>m\<bar>" "2 ^ 53", where ?'a = rat]
    by (simp_all add: pow2_def)
  have "\<bar>x\<bar> = \<bar>of_int m\<bar> * pow2 e" by (simp add: assms(1) abs_mult less_imp_le)
  then show "pow2 (e + 52) \<le> \<bar>x\<bar>" "\<bar>x\<bar> < pow2 (e + 52 + 1)"
    using m pow2_add [of e 52] pow2_add [of e 53] by (simp_all add: mult.commute add.assoc)
  then have "\<bar>x\<bar> < pow2 (e + 53)" by (simp add: add.assoc)
  moreover have "pow2 (e + 53) \<le> pow2 1024"
    using assms(5) pow2_less_iff [of 1024 "e + 53"] by (simp add: not_less [symmetric])
  ultimately show "\<bar>x\<bar> < pow2 1024" by simp
  have "x / pow2 (e + 52 - 52) = of_int m" by (simp add: assms(1) less_imp_neq [symmetric] pow2_def)
  then show "x = of_int (round_half_even (x / pow2 (e + 52 - 52))) * pow2 (e + 52 - 52)"
    by (simp add: assms(1))
qed (use assms in simp)

lemma round64_zero [simp]: "round64 0 = Fin 0"
  by (simp add: round64_def)

lemma round64_one [simp]: "round64 1 = Fin 1"
  by (rule round64_exact [of _ "2 ^ 52" "- 52"]) (simp_all add: pow2_def power_int_minus)

lemma round_half_even_eqI:
  assumes "\<bar>x - of_int n\<bar> < 1 / 2"
  shows "round_half_even x = n"
proof -
  have "\<bar>of_int (round_half_even x) - of_int n\<bar> < (1 :: rat)"
    using round_half_even_error [of x] assms by linarith
  then have "\<bar>round_half_even x - n\<bar> < 1"
    by (metis of_int_1 of_int_abs of_int_diff of_int_less_iff)
  then show ?thesis by simp
qed

lemma round64_nearest:
  assumes "pow2 k \<le> \<bar>x\<bar>" "\<bar>x\<bar> < pow2 (k + 1)" "- 1022 \<le> k"
    and "\<bar>x / pow2 (k - 52) - of_int n\<bar> < 1 / 2" "y = of_int n * pow2 (k - 52)" "\<bar>y\<bar> < pow2 1024"
  shows "round64 x = Fin y"
  using round64_eqI [OF assms(1-3)] round_half_even_eqI [OF assms(4)] assms(5,6) by simp

lemma round64_85: "round64 (85 / 100) = Fin (7656119366529843 / 9007199254740992)"
  by (rule round64_nearest [of "- 1" _ 7656119366529843]) (simp_all add: pow2_def power_int_minus)

end
