(* ===== verification/Provider.thy ===== *)
theory Provider
  imports Domain Float64
begin

text \<open>
  Questions for a semantic provider and the validation of its answers, from
  \<^verbatim>\<open>internal/provider/provider.go\<close> and \<^verbatim>\<open>internal/provider/validate.go\<close>.
  Every error message of the source is a constructor of \<open>ValidationError\<close> or of one of
  the types of problems it wraps. The maps are
  association lists in the order in which the source's loops see them; in particular the sum of a
  distribution is taken in that order, as floating point addition is not associative.
\<close>

section \<open>Questions and answers (provider.go)\<close>

datatype QuestionType =
    QuestionTypeNoul
  | QuestionTypeChoice
  | QuestionTypeScore
  | QuestionTypeOther string

record Question =
  q_Type :: QuestionType
  q_Instructions :: string
  q_Criteria :: "(string \<times> string) list"
  q_Levels :: "string list"

record Answer =
  a_Type :: QuestionType
  a_Noul :: "float64 option"
  a_Choice :: string
  a_Score :: "float64 option"
  a_Legend :: "(string \<times> string) list"
  a_Probabilities :: "(string \<times> float64) list"
  a_Confidence :: "float64 option"

definition zeroQuestion :: Question where
  "zeroQuestion = \<lparr>q_Type = QuestionTypeOther [], q_Instructions = [], q_Criteria = [], q_Levels = []\<rparr>"

definition zeroAnswer :: Answer where
  "zeroAnswer = \<lparr>a_Type = QuestionTypeOther [], a_Noul = None, a_Choice = [], a_Score = None,
     a_Legend = [], a_Probabilities = [], a_Confidence = None\<rparr>"

section \<open>Validation of questions (validate.go)\<close>

datatype QuestionProblem =
    InstructionsEmpty
  | NoulHasLevels
  | NoulCriteriaNotTwo
  | NoulCriteriaMissingTrue
  | NoulCriteriaMissingFalse
  | ChoiceHasLevels
  | ChoiceTooFewCriteria
  | ChoiceIDEmpty
  | ScoreHasCriteria
  | ScoreTooFewLevels
  | ScoreLevelEmpty
  | ScoreLevelDuplicate string
  | QuestionTypeUnknown

datatype DistributionProblem =
    ProbabilitiesLength
  | ProbabilityUnknownKey string
  | ProbabilityNotFinite string
  | ProbabilityOutOfRange string
  | ProbabilitiesSum

datatype AnswerProblem =
    NoulRequired
  | UnitNotFinite string
  | UnitOutOfRange string
  | FieldNotAllowed string
  | OtherTypeFields
  | ChoiceUnknown string
  | ChoiceNotHighest string
  | ScoreRequired
  | ScoreNotFinite
  | ScoreOutOfRange
  | ConfidenceRequired
  | LegendLength
  | LegendMissing string
  | LegendDuplicate string
  | LegendMismatch string
  | BadDistribution DistributionProblem
  | ScoreNotWeighted

datatype ValidationError =
    QuestionsEmpty
  | QuestionIDEmpty
  | QuestionError string QuestionProblem
  | InvalidQuestions ValidationError
  | AnswerUnknown string
  | AnswerMissing string
  | AnswerTypeMismatch string
  | AnswerInvalid string AnswerProblem

definition probabilityTolerance :: float64 where
  "probabilityTolerance = round64 (1 / 10 ^ 9)"

definition sortedQuestionIDs :: "(string \<times> Question) list \<Rightarrow> string list" where
  "sortedQuestionIDs questions = sort (map fst questions)"

definition sortedAnswerIDs :: "(string \<times> Answer) list \<Rightarrow> string list" where
  "sortedAnswerIDs answers = sort (map fst answers)"

fun checkLevels :: "string \<Rightarrow> string list \<Rightarrow> string list \<Rightarrow> ValidationError option" where
  "checkLevels qid seen [] = None"
| "checkLevels qid seen (level # levels) =
     (if TrimSpace level = [] then Some (QuestionError qid ScoreLevelEmpty)
      else if level \<in> set seen then Some (QuestionError qid (ScoreLevelDuplicate level))
      else checkLevels qid (level # seen) levels)"

definition validateQuestion :: "string \<Rightarrow> Question \<Rightarrow> ValidationError option" where
  "validateQuestion qid question =
     (if TrimSpace qid = [] then Some QuestionIDEmpty
      else if TrimSpace (q_Instructions question) = [] then Some (QuestionError qid InstructionsEmpty)
      else case q_Type question of
        QuestionTypeNoul \<Rightarrow>
          if q_Levels question \<noteq> [] then Some (QuestionError qid NoulHasLevels)
          else if q_Criteria question \<noteq> [] then
            (if length (q_Criteria question) \<noteq> 2 then Some (QuestionError qid NoulCriteriaNotTwo)
             else if map_of (q_Criteria question) ''true'' = None then Some (QuestionError qid NoulCriteriaMissingTrue)
             else if map_of (q_Criteria question) ''false'' = None then Some (QuestionError qid NoulCriteriaMissingFalse)
             else None)
          else None
      | QuestionTypeChoice \<Rightarrow>
          if q_Levels question \<noteq> [] then Some (QuestionError qid ChoiceHasLevels)
          else if length (q_Criteria question) < 2 then Some (QuestionError qid ChoiceTooFewCriteria)
          else first_error (\<lambda>(choice, _). if TrimSpace choice = [] then Some (QuestionError qid ChoiceIDEmpty) else None)
                 (q_Criteria question)
      | QuestionTypeScore \<Rightarrow>
          if q_Criteria question \<noteq> [] then Some (QuestionError qid ScoreHasCriteria)
          else if length (q_Levels question) < 2 then Some (QuestionError qid ScoreTooFewLevels)
          else checkLevels qid [] (q_Levels question)
      | QuestionTypeOther _ \<Rightarrow> Some (QuestionError qid QuestionTypeUnknown))"

definition ValidateQuestions :: "(string \<times> Question) list \<Rightarrow> ValidationError option" where
  "ValidateQuestions questions =
     (if length questions = 0 then Some QuestionsEmpty
      else first_error (\<lambda>qid. validateQuestion qid (lookup_zero zeroQuestion questions qid))
             (sortedQuestionIDs questions))"

section \<open>Validation of answers (validate.go)\<close>

definition validateUnitValue :: "string \<Rightarrow> float64 \<Rightarrow> AnswerProblem option" where
  "validateUnitValue name value =
     (if \<not> isFinite value then Some (UnitNotFinite name)
      else if fl_less value (Fin 0) \<or> fl_less (Fin 1) value then Some (UnitOutOfRange name)
      else None)"

definition validateConfidence :: "float64 option \<Rightarrow> AnswerProblem option" where
  "validateConfidence confidence =
     (case confidence of
        None \<Rightarrow> Some ConfidenceRequired
      | Some value \<Rightarrow> validateUnitValue ''confidence'' value)"

definition validateNoulAnswer :: "Answer \<Rightarrow> AnswerProblem option" where
  "validateNoulAnswer answer =
     (case a_Noul answer of
        None \<Rightarrow> Some NoulRequired
      | Some noul \<Rightarrow>
          and_then (validateUnitValue ''noul'' noul)
            (if a_Choice answer \<noteq> [] then Some (FieldNotAllowed ''choice'')
             else if a_Score answer \<noteq> None then Some (FieldNotAllowed ''score'')
             else if a_Legend answer \<noteq> [] then Some (FieldNotAllowed ''legend'')
             else if a_Probabilities answer \<noteq> [] then Some (FieldNotAllowed ''probabilities'')
             else if a_Confidence answer \<noteq> None then Some (FieldNotAllowed ''confidence'')
             else None))"

fun sumDistribution ::
  "string list \<Rightarrow> float64 \<Rightarrow> (string \<times> float64) list \<Rightarrow> DistributionProblem + float64" where
  "sumDistribution expected acc [] = Inr acc"
| "sumDistribution expected acc ((key, probability) # probabilities) =
     (if key \<notin> set expected then Inl (ProbabilityUnknownKey key)
      else if \<not> isFinite probability then Inl (ProbabilityNotFinite key)
      else if fl_less probability (Fin 0) \<or> fl_less (Fin 1) probability
      then Inl (ProbabilityOutOfRange key)
      else sumDistribution expected (fl_add acc probability) probabilities)"

definition validateDistribution ::
  "string list \<Rightarrow> (string \<times> float64) list \<Rightarrow> DistributionProblem option" where
  "validateDistribution expectedKeys probabilities =
     (if length probabilities \<noteq> length expectedKeys then Some ProbabilitiesLength
      else case sumDistribution expectedKeys (Fin 0) probabilities of
        Inl err \<Rightarrow> Some err
      | Inr acc \<Rightarrow>
          if fl_less probabilityTolerance (fl_abs (fl_sub acc (Fin 1))) then Some ProbabilitiesSum
          else None)"

definition validateChoiceAnswer :: "Question \<Rightarrow> Answer \<Rightarrow> AnswerProblem option" where
  "validateChoiceAnswer question answer =
     (if a_Noul answer \<noteq> None \<or> a_Score answer \<noteq> None \<or> a_Legend answer \<noteq> [] then Some OtherTypeFields
      else if map_of (q_Criteria question) (a_Choice answer) = None
      then Some (ChoiceUnknown (a_Choice answer))
      else
        and_then (validateConfidence (a_Confidence answer))
          (and_then
            (map_option BadDistribution
              (validateDistribution (sort (map fst (q_Criteria question))) (a_Probabilities answer)))
            (let selected = lookup_zero (Fin 0) (a_Probabilities answer) (a_Choice answer)
             in first_error
                  (\<lambda>(_, probability).
                     if fl_less (fl_add selected probabilityTolerance) probability
                     then Some (ChoiceNotHighest (a_Choice answer)) else None)
                  (a_Probabilities answer))))"

fun checkLegend ::
  "(string \<times> string) list \<Rightarrow> string list \<Rightarrow> nat \<Rightarrow> string list \<Rightarrow> AnswerProblem option" where
  "checkLegend legend seenValues index [] = None"
| "checkLegend legend seenValues index (expected # levels) =
     (case map_of legend (Itoa index) of
        None \<Rightarrow> Some (LegendMissing (Itoa index))
      | Some actual \<Rightarrow>
          if actual \<in> set seenValues then Some (LegendDuplicate actual)
          else if actual \<noteq> expected then Some (LegendMismatch (Itoa index))
          else checkLegend legend (actual # seenValues) (Suc index) levels)"

fun weightedScore :: "(string \<times> float64) list \<Rightarrow> float64 \<Rightarrow> nat \<Rightarrow> string list \<Rightarrow> float64" where
  "weightedScore probabilities weighted index [] = weighted"
| "weightedScore probabilities weighted index (key # keys) =
     weightedScore probabilities
       (fl_add weighted (fl_mul_index index (lookup_zero (Fin 0) probabilities key)))
       (Suc index) keys"

definition scoreKeys :: "Question \<Rightarrow> string list" where
  "scoreKeys question = map Itoa [0 ..< length (q_Levels question)]"

definition validateScoreAnswer :: "Question \<Rightarrow> Answer \<Rightarrow> AnswerProblem option" where
  "validateScoreAnswer question answer =
     (if a_Noul answer \<noteq> None \<or> a_Choice answer \<noteq> [] then Some OtherTypeFields
      else case a_Score answer of
        None \<Rightarrow> Some ScoreRequired
      | Some score \<Rightarrow>
          if \<not> isFinite score then Some ScoreNotFinite
          else if fl_less score (Fin 0)
            \<or> fl_less (Fin (of_int (int (length (q_Levels question)) - 1))) score
          then Some ScoreOutOfRange
          else
            and_then (validateConfidence (a_Confidence answer))
              (if length (a_Legend answer) \<noteq> length (q_Levels question) then Some LegendLength
               else
                 and_then (checkLegend (a_Legend answer) [] 0 (q_Levels question))
                   (and_then
                     (map_option BadDistribution
                       (validateDistribution (scoreKeys question) (a_Probabilities answer)))
                     (let weighted =
                            weightedScore (a_Probabilities answer) (Fin 0) 0 (scoreKeys question)
                      in if fl_less (round64 (1 / 10 ^ 6)) (fl_abs (fl_sub weighted score))
                         then Some ScoreNotWeighted else None))))"

definition validateAnswer :: "Question \<Rightarrow> Answer \<Rightarrow> AnswerProblem option" where
  "validateAnswer question answer =
     (case q_Type question of
        QuestionTypeNoul \<Rightarrow> validateNoulAnswer answer
      | QuestionTypeChoice \<Rightarrow> validateChoiceAnswer question answer
      | QuestionTypeScore \<Rightarrow> validateScoreAnswer question answer
      | QuestionTypeOther _ \<Rightarrow> None)"

text \<open>One round of the second loop of \<open>ValidateAnswers\<close>.\<close>

definition validateAnswerFor ::
  "(string \<times> Question) list \<Rightarrow> (string \<times> Answer) list \<Rightarrow> string \<Rightarrow> ValidationError option" where
  "validateAnswerFor questions answers qid =
     (let question = lookup_zero zeroQuestion questions qid
      in case map_of answers qid of
           None \<Rightarrow> Some (AnswerMissing qid)
         | Some answer \<Rightarrow>
             if a_Type answer \<noteq> q_Type question then Some (AnswerTypeMismatch qid)
             else map_option (AnswerInvalid qid) (validateAnswer question answer))"

definition ValidateAnswers ::
  "(string \<times> Question) list \<Rightarrow> (string \<times> Answer) list \<Rightarrow> ValidationError option" where
  "ValidateAnswers questions answers =
     (case ValidateQuestions questions of
        Some err \<Rightarrow> Some (InvalidQuestions err)
      | None \<Rightarrow>
          and_then
            (first_error
              (\<lambda>qid. if map_of questions qid = None then Some (AnswerUnknown qid) else None)
              (sortedAnswerIDs answers))
            (first_error (validateAnswerFor questions answers) (sortedQuestionIDs questions)))"

section \<open>What validation accepts\<close>

text \<open>
  The declarative reading of the checks. \<open>distribution\<close> is a probability for every key and
  for no other, each in the unit interval, with a sum of one up to the tolerance.
\<close>

definition in_unit :: "float64 \<Rightarrow> bool" where
  "in_unit v \<longleftrightarrow> (\<exists>x. v = Fin x \<and> 0 \<le> x \<and> x \<le> 1)"

definition in_unit_opt :: "float64 option \<Rightarrow> bool" where
  "in_unit_opt v \<longleftrightarrow> (\<exists>x. v = Some x \<and> in_unit x)"

definition near :: "float64 \<Rightarrow> float64 \<Rightarrow> float64 \<Rightarrow> bool" where
  "near tolerance x y \<longleftrightarrow> \<not> fl_less tolerance (fl_abs (fl_sub x y))"

definition distribution :: "string set \<Rightarrow> (string \<times> float64) list \<Rightarrow> bool" where
  "distribution keys ps \<longleftrightarrow>
     fst ` set ps = keys \<and> (\<forall>p \<in> set ps. in_unit (snd p))
     \<and> near probabilityTolerance (foldl fl_add (Fin 0) (map snd ps)) (Fin 1)"

definition valid_question :: "string \<times> Question \<Rightarrow> bool" where
  "valid_question iq \<longleftrightarrow>
     (let q = snd iq in
      TrimSpace (fst iq) \<noteq> [] \<and> TrimSpace (q_Instructions q) \<noteq> []
      \<and> (case q_Type q of
           QuestionTypeNoul \<Rightarrow> q_Levels q = []
             \<and> (q_Criteria q = [] \<or> fst ` set (q_Criteria q) = {''true'', ''false''})
         | QuestionTypeChoice \<Rightarrow> q_Levels q = [] \<and> 2 \<le> length (q_Criteria q)
             \<and> (\<forall>c \<in> set (q_Criteria q). TrimSpace (fst c) \<noteq> [])
         | QuestionTypeScore \<Rightarrow> q_Criteria q = [] \<and> 2 \<le> length (q_Levels q)
             \<and> distinct (q_Levels q) \<and> (\<forall>l \<in> set (q_Levels q). TrimSpace l \<noteq> [])
         | QuestionTypeOther _ \<Rightarrow> False))"

definition valid_noul :: "Answer \<Rightarrow> bool" where
  "valid_noul a \<longleftrightarrow> in_unit_opt (a_Noul a) \<and> a_Choice a = [] \<and> a_Score a = None \<and> a_Legend a = []
     \<and> a_Probabilities a = [] \<and> a_Confidence a = None"

definition valid_choice :: "Question \<Rightarrow> Answer \<Rightarrow> bool" where
  "valid_choice q a \<longleftrightarrow> a_Noul a = None \<and> a_Score a = None \<and> a_Legend a = []
     \<and> in_unit_opt (a_Confidence a) \<and> distribution (fst ` set (q_Criteria q)) (a_Probabilities a)
     \<and> (\<exists>s. (a_Choice a, s) \<in> set (a_Probabilities a)
          \<and> (\<forall>p \<in> set (a_Probabilities a). \<not> fl_less (fl_add s probabilityTolerance) (snd p)))"

definition valid_score :: "Question \<Rightarrow> Answer \<Rightarrow> bool" where
  "valid_score q a \<longleftrightarrow> a_Noul a = None \<and> a_Choice a = [] \<and> in_unit_opt (a_Confidence a)
     \<and> set (a_Legend a) = (\<lambda>i. (Itoa i, q_Levels q ! i)) ` {0 ..< length (q_Levels q)}
     \<and> distribution (Itoa ` {0 ..< length (q_Levels q)}) (a_Probabilities a)
     \<and> (\<exists>x. a_Score a = Some (Fin x) \<and> 0 \<le> x \<and> x \<le> of_int (int (length (q_Levels q)) - 1)
          \<and> near (round64 (1 / 10 ^ 6))
                (weightedScore (a_Probabilities a) (Fin 0) 0 (scoreKeys q)) (Fin x))"

definition valid_answer :: "Question \<Rightarrow> Answer \<Rightarrow> bool" where
  "valid_answer q a \<longleftrightarrow> a_Type a = q_Type q
     \<and> (case q_Type q of
          QuestionTypeNoul \<Rightarrow> valid_noul a
        | QuestionTypeChoice \<Rightarrow> valid_choice q a
        | QuestionTypeScore \<Rightarrow> valid_score q a
        | QuestionTypeOther _ \<Rightarrow> False)"

text \<open>Maps of Go have distinct keys; so do the maps inside a question and an answer.\<close>

definition wf_question :: "Question \<Rightarrow> bool" where
  "wf_question q \<longleftrightarrow> wf_map (q_Criteria q)"

definition wf_answer :: "Answer \<Rightarrow> bool" where
  "wf_answer a \<longleftrightarrow> wf_map (a_Legend a) \<and> wf_map (a_Probabilities a)"

definition wf_questions :: "(string \<times> Question) list \<Rightarrow> bool" where
  "wf_questions qs \<longleftrightarrow> wf_map qs \<and> (\<forall>q \<in> set qs. wf_question (snd q))"

definition wf_answers :: "(string \<times> Answer) list \<Rightarrow> bool" where
  "wf_answers as \<longleftrightarrow> wf_map as \<and> (\<forall>a \<in> set as. wf_answer (snd a))"

lemma same_length_subset_keys:
  "wf_map m \<Longrightarrow> distinct keys \<Longrightarrow> length m = length keys \<Longrightarrow> fst ` set m \<subseteq> set keys \<Longrightarrow> fst ` set m = set keys"
  by (metis card_subset_eq distinct_card finite_set length_map list.set_map)

lemma wf_map_length: "wf_map m \<Longrightarrow> length m = card (fst ` set m)"
  by (metis distinct_card length_map list.set_map)

lemma in_unit_Fin [simp]: "in_unit (Fin x) \<longleftrightarrow> 0 \<le> x \<and> x \<le> 1"
  by (simp add: in_unit_def)

lemma in_unit_opt_simps [simp]: "in_unit_opt (Some v) \<longleftrightarrow> in_unit v" "\<not> in_unit_opt None"
  by (simp_all add: in_unit_opt_def)

lemma in_unit_check: "\<not> isFinite v \<or> fl_less v (Fin 0) \<or> fl_less (Fin 1) v \<longleftrightarrow> \<not> in_unit v"
  by (cases v) (auto simp: in_unit_def)

lemma validateUnitValue_None [simp]: "validateUnitValue name v = None \<longleftrightarrow> in_unit v"
  using in_unit_check [of v] by (auto simp: validateUnitValue_def)

lemma validateConfidence_None [simp]: "validateConfidence c = None \<longleftrightarrow> in_unit_opt c"
  by (cases c) (auto simp: validateConfidence_def in_unit_opt_def)

lemma validateNoulAnswer_None [simp]: "validateNoulAnswer a = None \<longleftrightarrow> valid_noul a"
  by (cases "a_Noul a") (auto simp: validateNoulAnswer_def valid_noul_def in_unit_opt_def)

lemma checkLevels_None [simp]:
  "checkLevels qid seen ls = None \<longleftrightarrow>
     distinct ls \<and> set ls \<inter> set seen = {} \<and> (\<forall>l \<in> set ls. TrimSpace l \<noteq> [])"
  by (induction qid seen ls rule: checkLevels.induct) auto

lemma two_keys:
  assumes "wf_map m" "a \<noteq> b"
  shows "length m = 2 \<and> map_of m a \<noteq> None \<and> map_of m b \<noteq> None \<longleftrightarrow> fst ` set m = {a, b}"
proof
  assume *: "length m = 2 \<and> map_of m a \<noteq> None \<and> map_of m b \<noteq> None"
  then have "{a, b} \<subseteq> fst ` set m" by (auto simp: map_of_eq_None_iff)
  moreover have "card (fst ` set m) = card {a, b}"
    using * wf_map_length [OF assms(1)] assms(2) by simp
  ultimately show "fst ` set m = {a, b}"
    using card_subset_eq by (metis finite_imageI finite_set)
next
  assume *: "fst ` set m = {a, b}"
  then have "length m = 2" using wf_map_length [OF assms(1)] assms(2) by simp
  with * show "length m = 2 \<and> map_of m a \<noteq> None \<and> map_of m b \<noteq> None"
    by (auto simp: map_of_eq_None_iff)
qed

lemma validateQuestion_None [simp]:
  assumes "wf_question q"
  shows "validateQuestion qid q = None \<longleftrightarrow> valid_question (qid, q)"
proof (cases "q_Type q")
  case QuestionTypeNoul
  have "(if length (q_Criteria q) \<noteq> 2 then Some e1
      else if map_of (q_Criteria q) ''true'' = None then Some e2
      else if map_of (q_Criteria q) ''false'' = None then Some e3 else None) = None \<longleftrightarrow>
    fst ` set (q_Criteria q) = {''true'', ''false''}" for e1 e2 e3 :: ValidationError
  proof -
    have "''true'' \<noteq> ''false''" by simp
    show ?thesis
      unfolding two_keys [OF assms [unfolded wf_question_def] \<open>''true'' \<noteq> ''false''\<close>, symmetric]
      by (simp split: if_split)
  qed
  then show ?thesis
    unfolding validateQuestion_def valid_question_def Let_def fst_conv snd_conv QuestionTypeNoul by simp
next
  case QuestionTypeChoice
  then show ?thesis by (auto simp: validateQuestion_def valid_question_def)
next
  case QuestionTypeScore
  then show ?thesis by (auto simp: validateQuestion_def valid_question_def)
next
  case (QuestionTypeOther x)
  then show ?thesis by (simp add: validateQuestion_def valid_question_def)
qed

lemma ValidateQuestions_None:
  assumes "wf_questions qs"
  shows "ValidateQuestions qs = None \<longleftrightarrow> qs \<noteq> [] \<and> (\<forall>q \<in> set qs. valid_question q)"
proof -
  have "validateQuestion (fst q) (lookup_zero zeroQuestion qs (fst q)) = None \<longleftrightarrow> valid_question q"
    if "q \<in> set qs" for q
    using assms that by (cases q) (auto simp: wf_questions_def)
  then show ?thesis
    by (auto simp: ValidateQuestions_def sortedQuestionIDs_def)
qed

lemma sumDistribution_Inr:
  "sumDistribution keys acc ps = Inr r \<longleftrightarrow>
     fst ` set ps \<subseteq> set keys \<and> (\<forall>p \<in> set ps. in_unit (snd p))
     \<and> r = foldl fl_add acc (map snd ps)"
proof (induction ps arbitrary: acc)
  case (Cons p ps)
  obtain k v where p: "p = (k, v)" by fastforce
  show ?case
    using in_unit_check [of v] Cons by (cases "k \<in> set keys"; cases "in_unit v") (auto simp: p)
qed auto

lemma validateDistribution_None:
  assumes "wf_map ps" "distinct keys"
  shows "validateDistribution keys ps = None \<longleftrightarrow> distribution (set keys) ps"
proof (cases "sumDistribution keys (Fin 0) ps")
  case (Inl e)
  then have "\<not> (fst ` set ps \<subseteq> set keys \<and> (\<forall>p \<in> set ps. in_unit (snd p)))"
    using sumDistribution_Inr [of keys "Fin 0" ps] by auto
  then show ?thesis by (auto simp: validateDistribution_def distribution_def Inl)
next
  case (Inr r)
  then have ps: "fst ` set ps \<subseteq> set keys" "\<forall>p \<in> set ps. in_unit (snd p)"
    "r = foldl fl_add (Fin 0) (map snd ps)"
    by (auto simp: sumDistribution_Inr)
  have len: "length ps = length keys \<longleftrightarrow> fst ` set ps = set keys"
    using same_length_subset_keys [OF assms] ps(1) wf_map_length [OF assms(1)]
      distinct_card [OF assms(2)] by auto
  show ?thesis
    using ps(2) len by (auto simp: validateDistribution_def distribution_def Inr ps(3) near_def)
qed

lemma distribution_lookup:
  assumes "wf_map ps" "distribution keys ps" "k \<in> keys"
  shows "(k, s) \<in> set ps \<longleftrightarrow> s = lookup_zero (Fin 0) ps k"
proof -
  obtain s' where "(k, s') \<in> set ps" using assms(2,3) by (auto simp: distribution_def)
  then show ?thesis using assms(1) by (auto simp: eq_key_imp_eq_value)
qed

lemma validateChoiceAnswer_None:
  assumes "wf_question q" "wf_answer a"
  shows "validateChoiceAnswer q a = None \<longleftrightarrow> valid_choice q a"
proof -
  let ?ks = "fst ` set (q_Criteria q)" and ?ps = "a_Probabilities a" and ?c = "a_Choice a"
  define s where "s = lookup_zero (Fin 0) ?ps ?c"
  define best where "best \<longleftrightarrow> (\<forall>p \<in> set ?ps. \<not> fl_less (fl_add s probabilityTolerance) (snd p))"
  have wf: "wf_map ?ps" using assms by (simp add: wf_answer_def)
  have d: "validateDistribution (sort (map fst (q_Criteria q))) ?ps = None \<longleftrightarrow> distribution ?ks ?ps"
    using assms validateDistribution_None [OF wf, of "sort (map fst (q_Criteria q))"]
    by (simp add: wf_question_def)
  have best: "(\<forall>x \<in> set ?ps. (case x of (_, probability) \<Rightarrow>
      if fl_less (fl_add s probabilityTolerance) probability then Some e else None) = None) \<longleftrightarrow> best"
    for e :: AnswerProblem
    by (auto simp: best_def split: if_splits)
  have known: "map_of (q_Criteria q) ?c = None \<longleftrightarrow> ?c \<notin> ?ks"
    by (simp add: map_of_eq_None_iff)
  have "validateChoiceAnswer q a = None \<longleftrightarrow> a_Noul a = None \<and> a_Score a = None \<and> a_Legend a = []
      \<and> ?c \<in> ?ks \<and> in_unit_opt (a_Confidence a) \<and> distribution ?ks ?ps \<and> best"
    unfolding validateChoiceAnswer_def Let_def s_def [symmetric] known by (simp add: d best)
  also have "\<dots> \<longleftrightarrow> valid_choice q a"
  proof -
    have "?c \<in> ?ks \<and> best \<longleftrightarrow> (\<exists>s. (?c, s) \<in> set ?ps
        \<and> (\<forall>p \<in> set ?ps. \<not> fl_less (fl_add s probabilityTolerance) (snd p)))"
      if "distribution ?ks ?ps"
    proof (cases "?c \<in> ?ks")
      case True
      then show ?thesis by (simp add: distribution_lookup [OF wf that True] best_def s_def)
    next
      case False
      then show ?thesis using that by (force simp: distribution_def)
    qed
    then show ?thesis unfolding valid_choice_def by blast
  qed
  finally show ?thesis .
qed

lemma checkLegend_None:
  "distinct ls \<Longrightarrow> set ls \<inter> set seen = {} \<Longrightarrow>
   checkLegend legend seen n ls = None \<longleftrightarrow> (\<forall>i < length ls. map_of legend (Itoa (n + i)) = Some (ls ! i))"
proof (induction legend seen n ls rule: checkLegend.induct)
  case (2 legend seen n l ls)
  show ?case
  proof (cases "map_of legend (Itoa n) = Some l")
    case True
    have "checkLegend legend (l # seen) (Suc n) ls = None \<longleftrightarrow>
        (\<forall>i < length ls. map_of legend (Itoa (Suc n + i)) = Some (ls ! i))"
      using 2 True by auto
    with True 2 show ?thesis by (simp add: All_less_Suc2)
  next
    case False
    then show ?thesis by (auto simp: All_less_Suc2 split: option.splits)
  qed
qed simp

lemma legend_iff:
  assumes "wf_map legend"
  shows "length legend = length ls \<and> (\<forall>i < length ls. map_of legend (Itoa i) = Some (ls ! i)) \<longleftrightarrow>
    set legend = (\<lambda>i. (Itoa i, ls ! i)) ` {0 ..< length ls}"
proof -
  define L where "L = (\<lambda>i. (Itoa i, ls ! i)) ` {0 ..< length ls}"
  have "inj_on (\<lambda>i. (Itoa i, ls ! i)) {0 ..< length ls}" by (auto intro: inj_onI)
  then have card: "card L = length ls" by (simp add: card_image L_def)
  have len: "card (set legend) = length legend"
    using assms distinct_map distinct_card by blast
  have sub: "(\<forall>i < length ls. map_of legend (Itoa i) = Some (ls ! i)) \<longleftrightarrow> L \<subseteq> set legend"
    using assms by (simp add: image_subset_iff L_def Ball_def)
  have "length legend = length ls \<and> L \<subseteq> set legend \<longleftrightarrow> set legend = L"
  proof
    assume "length legend = length ls \<and> L \<subseteq> set legend"
    then show "set legend = L" using card_subset_eq [OF finite_set] card len by metis
  qed (use card len in simp)
  then show ?thesis unfolding sub L_def .
qed

lemma validateScoreAnswer_None:
  assumes "wf_answer a" "distinct (q_Levels q)"
  shows "validateScoreAnswer q a = None \<longleftrightarrow> valid_score q a"
proof -
  let ?n = "length (q_Levels q)" and ?ps = "a_Probabilities a"
  have wf: "wf_map (a_Legend a)" "wf_map ?ps" using assms by (simp_all add: wf_answer_def)
  have "distinct (scoreKeys q)" by (simp add: scoreKeys_def distinct_map inj_on_def)
  then have d: "validateDistribution (scoreKeys q) ?ps = None \<longleftrightarrow> distribution (Itoa ` {0 ..< ?n}) ?ps"
    using validateDistribution_None [OF wf(2)] by (simp add: scoreKeys_def)
  have l: "length (a_Legend a) = ?n \<and> checkLegend (a_Legend a) [] 0 (q_Levels q) = None \<longleftrightarrow>
      set (a_Legend a) = (\<lambda>i. (Itoa i, q_Levels q ! i)) ` {0 ..< ?n}"
    using legend_iff [OF wf(1)] checkLegend_None [OF assms(2), of "[]" "a_Legend a" 0] by simp
  have range: "\<not> isFinite s \<or> fl_less s (Fin 0) \<or> fl_less (Fin u) s \<longleftrightarrow>
      \<not> (\<exists>x. s = Fin x \<and> 0 \<le> x \<and> x \<le> u)" for s u
    by (cases s) auto
  show ?thesis
  proof (cases "a_Score a")
    case None
    then show ?thesis by (auto simp: validateScoreAnswer_def valid_score_def)
  next
    case (Some s)
    define ok where "ok \<longleftrightarrow> (\<exists>x. s = Fin x \<and> 0 \<le> x \<and> x \<le> of_int (int ?n - 1))"
    have "validateScoreAnswer q a = None \<longleftrightarrow> a_Noul a = None \<and> a_Choice a = [] \<and> ok
      \<and> in_unit_opt (a_Confidence a)
      \<and> (length (a_Legend a) = ?n \<and> checkLegend (a_Legend a) [] 0 (q_Levels q) = None)
      \<and> validateDistribution (scoreKeys q) ?ps = None
      \<and> near (round64 (1 / 10 ^ 6)) (weightedScore ?ps (Fin 0) 0 (scoreKeys q)) s"
    proof (cases ok)
      case True
      then have "isFinite s" "\<not> fl_less s (Fin 0)" "\<not> fl_less (Fin (of_int (int ?n - 1))) s"
        using range [of s "of_int (int ?n - 1)"] unfolding ok_def by blast+
      then show ?thesis
        using True unfolding validateScoreAnswer_def Some near_def Let_def by simp
    next
      case False
      then have "\<not> isFinite s \<or> fl_less s (Fin 0) \<or> fl_less (Fin (of_int (int ?n - 1))) s"
        using range [of s "of_int (int ?n - 1)"] unfolding ok_def by blast
      then show ?thesis
        using False unfolding validateScoreAnswer_def Some Let_def by auto
    qed
    then show ?thesis unfolding l d valid_score_def Some ok_def by auto
  qed
qed

lemma validateAnswer_None:
  assumes "wf_question q" "wf_answer a" "valid_question (qid, q)"
  shows "a_Type a = q_Type q \<and> validateAnswer q a = None \<longleftrightarrow> valid_answer q a"
  using assms validateChoiceAnswer_None [OF assms(1,2)] validateScoreAnswer_None [OF assms(2), of q]
  by (cases "q_Type q") (auto simp: validateAnswer_def valid_answer_def valid_question_def)

lemma validateAnswerFor_None:
  assumes "wf_questions questions" "wf_answers answers"
    and "(qid, q) \<in> set questions" "valid_question (qid, q)"
  shows "validateAnswerFor questions answers qid = None \<longleftrightarrow>
    (\<exists>a. (qid, a) \<in> set answers \<and> valid_answer q a)"
proof (cases "map_of answers qid")
  case None
  then have "(qid, a) \<notin> set answers" for a by (force simp: map_of_eq_None_iff)
  then show ?thesis by (simp add: validateAnswerFor_def None)
next
  case (Some a)
  then have a: "(qid, a) \<in> set answers" by (rule map_of_SomeD)
  have wf: "wf_question q" "wf_answer a" "wf_map questions" "wf_map answers"
    using assms a by (auto simp: wf_questions_def wf_answers_def)
  have "validateAnswerFor questions answers qid = None \<longleftrightarrow> valid_answer q a"
    using validateAnswer_None [OF wf(1,2) assms(4)] assms(3) wf(3)
    by (auto simp: validateAnswerFor_def Some)
  moreover have "a' = a" if "(qid, a') \<in> set answers" for a'
    using eq_key_imp_eq_value [OF wf(4) that a] .
  ultimately show ?thesis using a by blast
qed

lemma ValidateAnswers_NoneD:
  assumes "wf_questions questions" "wf_answers answers" "ValidateAnswers questions answers = None"
    and "(qid, q) \<in> set questions"
  shows "\<exists>a. (qid, a) \<in> set answers \<and> valid_answer q a"
proof -
  have "ValidateQuestions questions = None"
    using assms(3) by (auto simp: ValidateAnswers_def split: option.splits)
  then have "valid_question (qid, q)" "validateAnswerFor questions answers qid = None"
    using assms ValidateQuestions_None [OF assms(1)]
    by (force simp: ValidateAnswers_def sortedQuestionIDs_def)+
  then show ?thesis using validateAnswerFor_None [OF assms(1,2,4)] by simp
qed

lemma ValidateAnswers_NoneI:
  assumes "wf_questions questions" "wf_answers answers"
    and "questions \<noteq> []" "\<forall>q \<in> set questions. valid_question q"
    and "fst ` set answers \<subseteq> fst ` set questions"
    and "\<forall>(qid, q) \<in> set questions. \<exists>a. (qid, a) \<in> set answers \<and> valid_answer q a"
  shows "ValidateAnswers questions answers = None"
proof -
  have "validateAnswerFor questions answers qid = None" if k: "qid \<in> fst ` set questions" for qid
  proof -
    obtain q where q: "(qid, q) \<in> set questions" using keys_memD [OF k] by blast
    have "\<exists>a. (qid, a) \<in> set answers \<and> valid_answer q a" using bspec [OF assms(6) q] by simp
    then show ?thesis using validateAnswerFor_None [OF assms(1,2) q bspec [OF assms(4) q]] by simp
  qed
  moreover have "ValidateQuestions questions = None"
    using ValidateQuestions_None [OF assms(1)] assms(3,4) by simp
  moreover have "map_of questions qid \<noteq> None" if "qid \<in> fst ` set answers" for qid
    using assms(5) that by (auto simp: map_of_eq_None_iff)
  ultimately show ?thesis
    by (simp add: ValidateAnswers_def sortedAnswerIDs_def sortedQuestionIDs_def)
qed

lemma ValidateAnswers_keys:
  "ValidateAnswers questions answers = None \<Longrightarrow> fst ` set answers \<subseteq> fst ` set questions"
  by (auto simp: ValidateAnswers_def sortedAnswerIDs_def map_of_eq_None_iff split: option.splits if_splits)

text \<open>
  C26: \<open>ValidateAnswers\<close> accepts exactly the right answers: the rubric is well formed, there is an
  answer for every question and for nothing else, and every answer is of its question's type,
  carries only the fields of that type, and has a consistent value (a unit value; the most probable
  choice of a distribution over the criteria; the level number that the distribution over the
  levels gives on average).
\<close>

theorem ValidateAnswers_None_iff:
  assumes "wf_questions questions" "wf_answers answers"
  shows "ValidateAnswers questions answers = None \<longleftrightarrow>
    questions \<noteq> [] \<and> (\<forall>q \<in> set questions. valid_question q)
    \<and> fst ` set answers = fst ` set questions
    \<and> (\<forall>(qid, q) \<in> set questions. \<forall>a. (qid, a) \<in> set answers \<longrightarrow> valid_answer q a)"
proof
  assume *: "ValidateAnswers questions answers = None"
  note D = ValidateAnswers_NoneD [OF assms *]
  have "ValidateQuestions questions = None"
    using * by (auto simp: ValidateAnswers_def split: option.splits)
  moreover have "fst ` set questions \<subseteq> fst ` set answers" using D by force
  moreover have "valid_answer q a" if "(qid, q) \<in> set questions" "(qid, a) \<in> set answers" for qid q a
  proof -
    obtain a' where a': "(qid, a') \<in> set answers" "valid_answer q a'" using D [OF \<open>(qid, q) \<in> _\<close>] by blast
    have "wf_map answers" using assms(2) by (simp add: wf_answers_def)
    from eq_key_imp_eq_value [OF this \<open>(qid, a) \<in> _\<close> a'(1)] a'(2) show ?thesis by simp
  qed
  ultimately show "questions \<noteq> [] \<and> (\<forall>q \<in> set questions. valid_question q)
    \<and> fst ` set answers = fst ` set questions
    \<and> (\<forall>(qid, q) \<in> set questions. \<forall>a. (qid, a) \<in> set answers \<longrightarrow> valid_answer q a)"
    using ValidateQuestions_None [OF assms(1)] ValidateAnswers_keys [OF *] by auto
next
  assume *: "questions \<noteq> [] \<and> (\<forall>q \<in> set questions. valid_question q)
    \<and> fst ` set answers = fst ` set questions
    \<and> (\<forall>(qid, q) \<in> set questions. \<forall>a. (qid, a) \<in> set answers \<longrightarrow> valid_answer q a)"
  have "\<exists>a. (qid, a) \<in> set answers" if "(qid, q) \<in> set questions" for qid q
  proof (rule keys_memD)
    show "qid \<in> fst ` set answers" using that * by force
  qed
  then have "\<forall>(qid, q) \<in> set questions. \<exists>a. (qid, a) \<in> set answers \<and> valid_answer q a"
    using * by fastforce
  with * show "ValidateAnswers questions answers = None"
    using ValidateAnswers_NoneI [OF assms] by simp
qed

definition sample_questions :: "(string \<times> Question) list" where
  "sample_questions =
     [(''family'', \<lparr>q_Type = QuestionTypeChoice, q_Instructions = ''Which family?'',
        q_Criteria = [(''app'', ''application''), (''net'', ''network'')], q_Levels = []\<rparr>),
      (''urgent'', \<lparr>q_Type = QuestionTypeNoul, q_Instructions = ''Is it urgent?'',
        q_Criteria = [], q_Levels = []\<rparr>)]"

definition sample_answers :: "(string \<times> Answer) list" where
  "sample_answers =
     [(''urgent'', zeroAnswer\<lparr>a_Type := QuestionTypeNoul, a_Noul := Some (Fin (1 / 2))\<rparr>),
      (''family'', zeroAnswer\<lparr>a_Type := QuestionTypeChoice, a_Choice := ''net'',
         a_Probabilities := [(''net'', Fin 1), (''app'', Fin 0)], a_Confidence := Some (Fin 1)\<rparr>)]"

lemma probabilityTolerance_value:
  "probabilityTolerance = Fin (4835703278458517 / 4835703278458516698824704)"
  unfolding probabilityTolerance_def
  by (rule round64_nearest [of "- 30" _ 4835703278458517]) (simp_all add: pow2_def power_int_minus)

lemma TrimSpace_samples:
  "TrimSpace ''family'' \<noteq> []" "TrimSpace ''urgent'' \<noteq> []" "TrimSpace ''Which family?'' \<noteq> []"
  "TrimSpace ''Is it urgent?'' \<noteq> []" "TrimSpace ''app'' \<noteq> []" "TrimSpace ''net'' \<noteq> []"
  by (simp_all add: TrimSpace_graphic graphic_def)

lemma one_plus_tolerance:
  "fl_add (Fin 1) probabilityTolerance = Fin (281474976992131 / 281474976710656)"
  unfolding probabilityTolerance_value fl_add.simps
  by (rule round64_nearest [of 0 _ 4503599631874096]) (simp_all add: pow2_def power_int_minus)

lemma near_one: "near probabilityTolerance (Fin 1) (Fin 1)"
  by (simp add: near_def fl_sub_def probabilityTolerance_value)

lemmas sample_simps =
  sample_questions_def sample_answers_def zeroAnswer_def valid_question_def TrimSpace_samples
  valid_answer_def valid_noul_def valid_choice_def distribution_def

theorem ValidateAnswers_None_iff_witness:
  "wf_questions sample_questions \<and> wf_answers sample_answers
   \<and> ValidateAnswers sample_questions sample_answers = None"
proof -
  have wf: "wf_questions sample_questions" "wf_answers sample_answers"
    by (simp_all add: wf_questions_def wf_answers_def wf_question_def wf_answer_def zeroAnswer_def
        sample_questions_def sample_answers_def)
  have best: "\<not> fl_less (fl_add (Fin 1) probabilityTolerance) (Fin p)" if "p \<le> 1" for p
    unfolding one_plus_tolerance using that by simp
  show ?thesis
    using wf ValidateAnswers_None_iff [OF wf]
    by (simp add: sample_simps near_one best insert_commute)
qed

end
