(* ===== verification/Composer.thy ===== *)
theory Composer
  imports Rules Provider
begin

text \<open>
  The composition of a rule result with the evidence of a semantic provider, from
  \<^verbatim>\<open>internal/decision/composer.go\<close>, and the rubric of \<^verbatim>\<open>internal/decision/questions.go\<close>.
  \<open>composeOperationalTriage\<close> dereferences pointers of the answers; a nil dereference, which
  panics, is the result \<open>None\<close>. Copies of slices and maps are the values themselves, which
  nothing can change here.
\<close>

section \<open>The rubric (questions.go)\<close>

definition OperationalTriageV1 :: string where
  "OperationalTriageV1 = ''operational-triage-v1''"

definition QuestionIncidentFamily :: string where
  "QuestionIncidentFamily = ''incident_family''"

definition QuestionOperationalImpact :: string where
  "QuestionOperationalImpact = ''operational_impact''"

definition QuestionRequiresImmediateAttention :: string where
  "QuestionRequiresImmediateAttention = ''requires_immediate_attention''"

definition QuestionLikelyTransient :: string where
  "QuestionLikelyTransient = ''likely_transient''"

definition operationalTriageV1 :: "(string \<times> Question) list" where
  "operationalTriageV1 =
     [(QuestionIncidentFamily,
        \<lparr>q_Type = QuestionTypeChoice,
         q_Instructions = ''Which incident family best explains the observed operational state?'',
         q_Criteria =
           [(''application'', ''Application process, runtime, or workload behavior''),
            (''configuration'', ''Invalid or incompatible workload or cluster configuration''),
            (''dependency'', ''A required internal or external dependency is failing''),
            (''infrastructure'', ''Cluster, node, storage, or networking infrastructure''),
            (''security'', ''A suspected security or access-control issue''),
            (''unknown'', ''The bounded evidence does not support another family'')],
         q_Levels = []\<rparr>),
      (QuestionOperationalImpact,
        \<lparr>q_Type = QuestionTypeScore,
         q_Instructions = ''Rate the current operational impact from the bounded evidence.'',
         q_Criteria = [],
         q_Levels =
           [''No current user-visible impact'',
            ''Limited degradation or a working workaround'',
            ''Material degradation affecting multiple users or a critical workload'',
            ''Broad outage, data-loss risk, or security impact'']\<rparr>),
      (QuestionRequiresImmediateAttention,
        \<lparr>q_Type = QuestionTypeNoul,
         q_Instructions = ''Does the incident require immediate human attention?'',
         q_Criteria =
           [(''true'', ''Delay is likely to materially increase operational harm''),
            (''false'', ''The incident can safely wait for normal triage'')],
         q_Levels = []\<rparr>),
      (QuestionLikelyTransient,
        \<lparr>q_Type = QuestionTypeNoul,
         q_Instructions = ''Is the observed condition likely to clear without intervention?'',
         q_Criteria =
           [(''true'', ''The evidence indicates a short-lived or self-healing condition''),
            (''false'', ''The condition is likely persistent or requires intervention'')],
         q_Levels = []\<rparr>)]"

definition OperationalTriageV1Questions :: "(string \<times> Question) list" where
  "OperationalTriageV1Questions = operationalTriageV1"

section \<open>The composer (composer.go)\<close>

definition CompositionPolicyVersion :: string where
  "CompositionPolicyVersion = ''operational-composer-v1''"

record Thresholds =
  th_PolicyVersion :: string
  th_WarningImpact :: float64
  th_CriticalImpact :: float64
  th_WarningImmediateAttention :: float64
  th_CriticalImmediateAttention :: float64
  th_LikelyTransientRecord :: float64

record Composer =
  cmp_thresholds :: Thresholds
  cmp_fallback :: Decision

definition NewComposer :: Composer where
  "NewComposer =
     \<lparr>cmp_thresholds =
        \<lparr>th_PolicyVersion = CompositionPolicyVersion,
         th_WarningImpact = Fin 1,
         th_CriticalImpact = Fin (5 / 2),
         th_WarningImmediateAttention = Fin (1 / 2),
         th_CriticalImmediateAttention = round64 (85 / 100),
         th_LikelyTransientRecord = round64 (7 / 10)\<rparr>,
      cmp_fallback =
        \<lparr>dec_Severity = SeverityWarning, dec_Action = ActionNotify,
         dec_Summary = ''Provider evidence unavailable; manual triage required'',
         dec_ReasonCodes = [''provider_unavailable''], dec_RuleIDs = []\<rparr>\<rparr>"

definition composer_PolicyVersion :: "Composer \<Rightarrow> string" where
  "composer_PolicyVersion c = th_PolicyVersion (cmp_thresholds c)"

fun composer_severityRank :: "Severity \<Rightarrow> int" where
  "composer_severityRank SeverityCritical = 3"
| "composer_severityRank SeverityWarning = 2"
| "composer_severityRank SeverityInfo = 1"
| "composer_severityRank (SeverityOther _) = 0"

fun actionRank :: "Action \<Rightarrow> int" where
  "actionRank ActionPage = 4"
| "actionRank ActionNotify = 3"
| "actionRank ActionRecord = 2"
| "actionRank ActionSuppress = 1"
| "actionRank (ActionOther _) = 0"

definition ruleIDs :: "Result \<Rightarrow> string list" where
  "ruleIDs result = map m_RuleID (res_Matches result)"

text \<open>
  The set \<open>seen\<close> as the list of its elements; its order does not matter, as the result is sorted.
\<close>

definition mergeStrings :: "string list \<Rightarrow> string list \<Rightarrow> string list" where
  "mergeStrings left right =
     (let seen = fold (\<lambda>value seen. if value \<noteq> [] then List.insert value seen else seen)
                   right
                   (fold (\<lambda>value seen. if value \<noteq> [] then List.insert value seen else seen) left [])
      in sort seen)"

definition mergeRuleIDs :: "string list \<Rightarrow> string list \<Rightarrow> string list" where
  "mergeRuleIDs left right = mergeStrings left right"

definition applyDeterministicFloor :: "Decision \<Rightarrow> Decision option \<Rightarrow> Decision" where
  "applyDeterministicFloor decision flr =
     (case flr of
        None \<Rightarrow> decision
      | Some f \<Rightarrow>
          let severityWon =
                composer_severityRank (dec_Severity decision) < composer_severityRank (dec_Severity f);
              actionWon = actionRank (dec_Action decision) < actionRank (dec_Action f);
              floorWon = (severityWon \<or> actionWon)
          in decision
               \<lparr>dec_Severity := if severityWon then dec_Severity f else dec_Severity decision,
                dec_Action := if actionWon then dec_Action f else dec_Action decision,
                dec_RuleIDs := mergeRuleIDs (dec_RuleIDs decision) (dec_RuleIDs f),
                dec_ReasonCodes := mergeStrings (dec_ReasonCodes decision) (dec_ReasonCodes f),
                dec_Summary :=
                  if floorWon \<and> dec_Summary f \<noteq> [] then dec_Summary f else dec_Summary decision\<rparr>)"

definition semanticDecision :: "Thresholds \<Rightarrow> string \<Rightarrow> float64 \<Rightarrow> float64 \<Rightarrow> float64 \<Rightarrow> Decision" where
  "semanticDecision thresholds family impact immediate transient =
     (let decision =
            \<lparr>dec_Severity = SeverityInfo, dec_Action = ActionRecord,
             dec_Summary = ''Provider evidence classifies the incident as '' @ family,
             dec_ReasonCodes = [''provider_evidence'', ''incident_family_'' @ family],
             dec_RuleIDs = []\<rparr>
      in if fl_le (th_CriticalImpact thresholds) impact
           \<or> fl_le (th_CriticalImmediateAttention thresholds) immediate
         then decision\<lparr>dec_Severity := SeverityCritical, dec_Action := ActionPage,
           dec_ReasonCodes := dec_ReasonCodes decision @ [''semantic_critical'']\<rparr>
         else if fl_le (th_WarningImpact thresholds) impact
           \<or> fl_le (th_WarningImmediateAttention thresholds) immediate
           \<or> fl_less transient (th_LikelyTransientRecord thresholds)
         then decision\<lparr>dec_Severity := SeverityWarning, dec_Action := ActionNotify,
           dec_ReasonCodes := dec_ReasonCodes decision @ [''semantic_warning'']\<rparr>
         else decision\<lparr>dec_ReasonCodes := dec_ReasonCodes decision @ [''semantic_low_impact'']\<rparr>)"

definition composeOperationalTriage :: "Composer \<Rightarrow> (string \<times> Answer) list \<Rightarrow> Decision option" where
  "composeOperationalTriage c answers =
     (let answer = lookup_zero zeroAnswer answers;
          family = a_Choice (answer QuestionIncidentFamily)
      in case a_Score (answer QuestionOperationalImpact) of
           None \<Rightarrow> None
         | Some impact \<Rightarrow>
             (case a_Noul (answer QuestionRequiresImmediateAttention) of
                None \<Rightarrow> None
              | Some immediate \<Rightarrow>
                  (case a_Noul (answer QuestionLikelyTransient) of
                     None \<Rightarrow> None
                   | Some transient \<Rightarrow>
                       Some (semanticDecision (cmp_thresholds c) family impact immediate transient))))"

definition Compose ::
  "Composer \<Rightarrow> Result \<Rightarrow> (string \<times> Answer) list \<Rightarrow> 'e option \<Rightarrow> Decision option" where
  "Compose c result answers providerErr =
     (if res_Disposition result \<noteq> DispositionSemantic \<and> res_Decision result \<noteq> None
      then res_Decision result
      else
        map_option
          (\<lambda>composed.
             applyDeterministicFloor
               (composed\<lparr>dec_RuleIDs := mergeRuleIDs (dec_RuleIDs composed) (ruleIDs result)\<rparr>)
               (res_Decision result))
          (if providerErr \<noteq> None \<or> res_QuestionSet result \<noteq> OperationalTriageV1
           then Some (cmp_fallback c)
           else if ValidateAnswers OperationalTriageV1Questions answers \<noteq> None
           then Some (cmp_fallback c)
           else composeOperationalTriage c answers))"

section \<open>Merging and the floor\<close>

lemma fold_insert_nonempty:
  "set (fold (\<lambda>v seen. if v \<noteq> [] then List.insert v seen else seen) xs acc) = set acc \<union> (set xs - {[]})"
  "distinct acc \<Longrightarrow> distinct (fold (\<lambda>v seen. if v \<noteq> [] then List.insert v seen else seen) xs acc)"
  by (induction xs arbitrary: acc) (auto simp: List.insert_def split: if_splits)

lemma mergeStrings_props [simp]:
  "sorted (mergeStrings xs ys)" "distinct (mergeStrings xs ys)"
  "set (mergeStrings xs ys) = (set xs \<union> set ys) - {[]}"
  by (auto simp: mergeStrings_def Let_def fold_insert_nonempty)

lemma composer_severityRank_eq [simp]: "composer_severityRank s = severityRank s"
  by (cases s) simp_all

lemma floor_dominates:
  assumes "d = applyDeterministicFloor d0 (Some f)"
  shows "severityRank (dec_Severity d) = max (severityRank (dec_Severity d0)) (severityRank (dec_Severity f))"
    and "actionRank (dec_Action d) = max (actionRank (dec_Action d0)) (actionRank (dec_Action f))"
    and "set (dec_RuleIDs d) = (set (dec_RuleIDs d0) \<union> set (dec_RuleIDs f)) - {[]}"
  using assms by (auto simp: applyDeterministicFloor_def Let_def mergeRuleIDs_def)

section \<open>Validated evidence\<close>

lemmas question_ids =
  QuestionIncidentFamily_def QuestionOperationalImpact_def QuestionRequiresImmediateAttention_def
  QuestionLikelyTransient_def

lemma rubric_wf: "wf_questions OperationalTriageV1Questions"
  by (simp add: wf_questions_def wf_question_def OperationalTriageV1Questions_def
      operationalTriageV1_def question_ids)

text \<open>What the policy reads from validated answers: a family, an impact and two probabilities.\<close>

definition triage_evidence ::
  "(string \<times> Answer) list \<Rightarrow> string \<Rightarrow> rat \<Rightarrow> rat \<Rightarrow> rat \<Rightarrow> bool" where
  "triage_evidence answers family impact immediate transient \<longleftrightarrow>
     (let answer = lookup_zero zeroAnswer answers in
      a_Choice (answer QuestionIncidentFamily) = family
      \<and> a_Score (answer QuestionOperationalImpact) = Some (Fin impact)
      \<and> a_Noul (answer QuestionRequiresImmediateAttention) = Some (Fin immediate)
      \<and> a_Noul (answer QuestionLikelyTransient) = Some (Fin transient))"

definition incident_families :: "string set" where
  "incident_families =
     {''application'', ''configuration'', ''dependency'', ''infrastructure'', ''security'', ''unknown''}"

lemma rubric_mem:
  "\<exists>q. (QuestionIncidentFamily, q) \<in> set OperationalTriageV1Questions \<and> q_Type q = QuestionTypeChoice
     \<and> fst ` set (q_Criteria q) = incident_families"
  "\<exists>q. (QuestionOperationalImpact, q) \<in> set OperationalTriageV1Questions \<and> q_Type q = QuestionTypeScore
     \<and> length (q_Levels q) = 4"
  "\<exists>q. (QuestionRequiresImmediateAttention, q) \<in> set OperationalTriageV1Questions \<and> q_Type q = QuestionTypeNoul"
  "\<exists>q. (QuestionLikelyTransient, q) \<in> set OperationalTriageV1Questions \<and> q_Type q = QuestionTypeNoul"
  by (simp_all add: OperationalTriageV1Questions_def operationalTriageV1_def question_ids
      incident_families_def)

lemma valid_choice_known:
  assumes "valid_answer q a" "q_Type q = QuestionTypeChoice"
  shows "a_Choice a \<in> fst ` set (q_Criteria q)"
proof -
  have v: "valid_choice q a" using assms by (simp add: valid_answer_def)
  then obtain s where "(a_Choice a, s) \<in> set (a_Probabilities a)" unfolding valid_choice_def by blast
  then have "a_Choice a \<in> fst ` set (a_Probabilities a)" by (rule rev_image_eqI) simp
  then show ?thesis using v by (simp add: valid_choice_def distribution_def)
qed

lemma validated_evidence:
  assumes "wf_answers answers" "ValidateAnswers OperationalTriageV1Questions answers = None"
  obtains family impact immediate transient where
    "triage_evidence answers family impact immediate transient"
    "family \<in> incident_families"
    "0 \<le> impact" "impact \<le> 3" "0 \<le> immediate" "immediate \<le> 1" "0 \<le> transient" "transient \<le> 1"
proof -
  have wf: "wf_map answers" using assms(1) by (simp add: wf_answers_def)
  note D = ValidateAnswers_NoneD [OF rubric_wf assms]
  obtain qf where qf: "(QuestionIncidentFamily, qf) \<in> set OperationalTriageV1Questions"
    "q_Type qf = QuestionTypeChoice" "fst ` set (q_Criteria qf) = incident_families"
    using rubric_mem(1) by (elim exE conjE)
  obtain qi where qi: "(QuestionOperationalImpact, qi) \<in> set OperationalTriageV1Questions"
    "q_Type qi = QuestionTypeScore" "length (q_Levels qi) = 4"
    using rubric_mem(2) by (elim exE conjE)
  obtain qm where qm: "(QuestionRequiresImmediateAttention, qm) \<in> set OperationalTriageV1Questions"
    "q_Type qm = QuestionTypeNoul"
    using rubric_mem(3) by (elim exE conjE)
  obtain qt where qt: "(QuestionLikelyTransient, qt) \<in> set OperationalTriageV1Questions"
    "q_Type qt = QuestionTypeNoul"
    using rubric_mem(4) by (elim exE conjE)
  obtain af ai am an where f: "(QuestionIncidentFamily, af) \<in> set answers" "valid_answer qf af"
    and i: "(QuestionOperationalImpact, ai) \<in> set answers" "valid_answer qi ai"
    and m: "(QuestionRequiresImmediateAttention, am) \<in> set answers" "valid_answer qm am"
    and t: "(QuestionLikelyTransient, an) \<in> set answers" "valid_answer qt an"
    using D [OF qf(1)] D [OF qi(1)] D [OF qm(1)] D [OF qt(1)] by (elim exE conjE)
  have "a_Choice af \<in> fst ` set (q_Criteria qf)"
    by (rule valid_choice_known [OF f(2) qf(2)])
  moreover obtain impact where "a_Score ai = Some (Fin impact)" "0 \<le> impact" "impact \<le> 3"
    using i(2) qi(2,3) by (auto simp: valid_answer_def valid_score_def)
  moreover obtain immediate where "a_Noul am = Some (Fin immediate)" "0 \<le> immediate" "immediate \<le> 1"
    using m(2) qm(2) by (auto simp: valid_answer_def valid_noul_def in_unit_opt_def in_unit_def)
  moreover obtain transient where "a_Noul an = Some (Fin transient)" "0 \<le> transient" "transient \<le> 1"
    using t(2) qt(2) by (auto simp: valid_answer_def valid_noul_def in_unit_opt_def in_unit_def)
  ultimately show ?thesis
    using that [of "a_Choice af" impact immediate transient] f(1) i(1) m(1) t(1) wf qf(3)
    by (simp add: triage_evidence_def)
qed

lemma composeOperationalTriage_evidence:
  "triage_evidence answers family impact immediate transient \<Longrightarrow>
   composeOperationalTriage c answers =
     Some (semanticDecision (cmp_thresholds c) family (Fin impact) (Fin immediate) (Fin transient))"
  by (simp add: composeOperationalTriage_def triage_evidence_def Let_def)

section \<open>The policy\<close>

lemma Compose_defined:
  assumes "wf_answers answers"
  shows "\<exists>d. Compose c result answers err = Some d"
proof -
  have "\<exists>d. composeOperationalTriage c answers = Some d"
    if "ValidateAnswers OperationalTriageV1Questions answers = None"
    using validated_evidence [OF assms that] composeOperationalTriage_evidence by metis
  then show ?thesis by (auto simp: Compose_def)
qed

lemma Compose_above_floor:
  assumes "wf_answers answers" "res_Decision result = Some f"
  shows "\<exists>d. Compose c result answers err = Some d
    \<and> severityRank (dec_Severity f) \<le> severityRank (dec_Severity d)
    \<and> actionRank (dec_Action f) \<le> actionRank (dec_Action d)
    \<and> set (dec_RuleIDs f) - {[]} \<subseteq> set (dec_RuleIDs d)"
proof -
  obtain d where d: "Compose c result answers err = Some d"
    using Compose_defined [OF assms(1)] by blast
  consider "d = f" | d0 where "d = applyDeterministicFloor d0 (Some f)"
    using d assms(2) by (auto simp: Compose_def split: if_splits)
  then show ?thesis
    using d floor_dominates by cases fastforce+
qed


definition sample_floor :: Result where
  "sample_floor =
     \<lparr>res_Matches = [\<lparr>m_RuleID = ''job-failed'', m_Reason = ''job has failed'', m_Severity = SeverityCritical\<rparr>],
      res_Disposition = DispositionSemantic,
      res_Decision = Some \<lparr>dec_Severity = SeverityCritical, dec_Action = ActionPage,
        dec_Summary = ''job has failed'', dec_ReasonCodes = [''job-failed''], dec_RuleIDs = [''job-failed'']\<rparr>,
      res_QuestionSet = OperationalTriageV1, res_PolicyVersion = PolicyVersion\<rparr>"


text \<open>The literals 0.85 and 0.7 of the thresholds, as binary64 numbers.\<close>

definition f085 :: rat where "f085 = 7656119366529843 / 9007199254740992"

definition f07 :: rat where "f07 = 3152519739159347 / 4503599627370496"

lemma round64_085: "round64 (85 / 100) = Fin f085"
  unfolding f085_def
  by (rule round64_nearest [of "- 1" _ 7656119366529843]) (simp_all add: pow2_def power_int_minus)

lemma round64_07: "round64 (7 / 10) = Fin f07"
  unfolding f07_def
  by (rule round64_nearest [of "- 1" _ 6305039478318694]) (simp_all add: pow2_def power_int_minus)

definition critical_evidence :: "rat \<Rightarrow> rat \<Rightarrow> bool" where
  "critical_evidence impact immediate \<longleftrightarrow> 5 / 2 \<le> impact \<or> f085 \<le> immediate"

definition low_evidence :: "rat \<Rightarrow> rat \<Rightarrow> rat \<Rightarrow> bool" where
  "low_evidence impact immediate transient \<longleftrightarrow> impact < 1 \<and> immediate < 1 / 2 \<and> f07 \<le> transient"

lemma NewComposer_thresholds:
  "th_WarningImpact (cmp_thresholds NewComposer) = Fin 1"
  "th_CriticalImpact (cmp_thresholds NewComposer) = Fin (5 / 2)"
  "th_WarningImmediateAttention (cmp_thresholds NewComposer) = Fin (1 / 2)"
  "th_CriticalImmediateAttention (cmp_thresholds NewComposer) = Fin f085"
  "th_LikelyTransientRecord (cmp_thresholds NewComposer) = Fin f07"
  unfolding NewComposer_def round64_085 round64_07 by simp_all

lemma semanticDecision_cases:
  "let d = semanticDecision (cmp_thresholds NewComposer) family (Fin i) (Fin m) (Fin t) in
   (dec_Severity d, dec_Action d) =
     (if critical_evidence i m then (SeverityCritical, ActionPage)
      else if low_evidence i m t then (SeverityInfo, ActionRecord)
      else (SeverityWarning, ActionNotify))
   \<and> dec_RuleIDs d = []"
  by (auto simp: semanticDecision_def NewComposer_thresholds critical_evidence_def
      low_evidence_def Let_def f085_def)

lemma Compose_semantic:
  assumes "res_Disposition result = DispositionSemantic" "res_Decision result = None"
  shows "Compose c result answers err =
    map_option (\<lambda>d. d\<lparr>dec_RuleIDs := mergeStrings (dec_RuleIDs d) (ruleIDs result)\<rparr>)
      (if err = None \<and> res_QuestionSet result = OperationalTriageV1
          \<and> ValidateAnswers OperationalTriageV1Questions answers = None
       then composeOperationalTriage c answers else Some (cmp_fallback c))"
  using assms by (simp add: Compose_def applyDeterministicFloor_def mergeRuleIDs_def)

text \<open>Evidence that counts: no provider error, the known rubric, and answers that validate.\<close>

definition usable_evidence :: "Result \<Rightarrow> (string \<times> Answer) list \<Rightarrow> 'e option \<Rightarrow> bool" where
  "usable_evidence result answers err \<longleftrightarrow>
     err = None \<and> res_QuestionSet result = OperationalTriageV1
     \<and> ValidateAnswers OperationalTriageV1Questions answers = None"

lemma triage_evidence_unique:
  "triage_evidence answers f i m t \<Longrightarrow> triage_evidence answers f' i' m' t' \<Longrightarrow>
   f' = f \<and> i' = i \<and> m' = m \<and> t' = t"
  by (simp add: triage_evidence_def Let_def)

text \<open>
  C27: The policy for a result that needs semantic triage. It pages exactly when usable evidence
  has an impact of 2.5 or more or a probability of 0.85 or more that immediate attention is
  needed; it only records exactly when usable evidence has an impact below 1, that probability
  below 0.5 and a probability of 0.7 or more that the condition is transient; in every other case,
  and so whenever the provider failed, the rubric is unknown or the answers do not validate, it
  notifies with severity warning. The decision names the matched rules, sorted and once each.
\<close>

theorem Compose_semantic_policy:
  assumes "wf_answers answers"
    and "res_Disposition result = DispositionSemantic" "res_Decision result = None"
  shows "\<exists>d. Compose NewComposer result answers err = Some d
    \<and> (dec_Severity d, dec_Action d) =
        (if usable_evidence result answers err
            \<and> (\<exists>f i m t. triage_evidence answers f i m t \<and> critical_evidence i m)
         then (SeverityCritical, ActionPage)
         else if usable_evidence result answers err
            \<and> (\<exists>f i m t. triage_evidence answers f i m t \<and> low_evidence i m t)
         then (SeverityInfo, ActionRecord)
         else (SeverityWarning, ActionNotify))
    \<and> sorted (dec_RuleIDs d) \<and> distinct (dec_RuleIDs d)
    \<and> set (dec_RuleIDs d) = set (ruleIDs result) - {[]}"
proof (cases "usable_evidence result answers err")
  case True
  then have "ValidateAnswers OperationalTriageV1Questions answers = None"
    by (simp add: usable_evidence_def)
  then obtain f i m t where ev: "triage_evidence answers f i m t"
    by (rule validated_evidence [OF assms(1)]) (rule that)
  have uniq: "(\<exists>f i m t. triage_evidence answers f i m t \<and> P i m t) \<longleftrightarrow> P i m t" for P
    using ev triage_evidence_unique by blast
  show ?thesis
    unfolding uniq [of "\<lambda>i m t. critical_evidence i m"] uniq [of low_evidence]
    using True semanticDecision_cases [of f i m t]
    by (auto simp: Compose_semantic [OF assms(2,3)] usable_evidence_def Let_def
        composeOperationalTriage_evidence [OF ev])
next
  case False
  then show ?thesis
    by (auto simp: Compose_semantic [OF assms(2,3)] usable_evidence_def NewComposer_def)
qed

text \<open>
  C28: More alarming evidence never gives a lower decision: with a higher impact, a higher
  probability that immediate attention is needed and a lower probability that the condition is
  transient, the severity and the action rank at least as high.
\<close>

theorem Compose_monotone:
  assumes "res_Disposition result = DispositionSemantic" "res_Decision result = None"
    and "usable_evidence result answers err" "usable_evidence result answers' err"
    and "triage_evidence answers f i m t" "triage_evidence answers' f' i' m' t'"
    and "i \<le> i'" "m \<le> m'" "t' \<le> t"
    and "Compose NewComposer result answers err = Some d"
    and "Compose NewComposer result answers' err = Some d'"
  shows "severityRank (dec_Severity d) \<le> severityRank (dec_Severity d')
    \<and> actionRank (dec_Action d) \<le> actionRank (dec_Action d')"
proof -
  let ?s = "semanticDecision (cmp_thresholds NewComposer)"
  have "(dec_Severity d, dec_Action d) =
      (dec_Severity (?s f (Fin i) (Fin m) (Fin t)), dec_Action (?s f (Fin i) (Fin m) (Fin t)))"
    "(dec_Severity d', dec_Action d') =
      (dec_Severity (?s f' (Fin i') (Fin m') (Fin t')), dec_Action (?s f' (Fin i') (Fin m') (Fin t')))"
    using assms(3,4,10,11)
    by (auto simp: Compose_semantic [OF assms(1,2)] usable_evidence_def
        composeOperationalTriage_evidence [OF assms(5)] composeOperationalTriage_evidence [OF assms(6)])
  moreover have "critical_evidence i m \<Longrightarrow> critical_evidence i' m'"
    "low_evidence i' m' t' \<Longrightarrow> low_evidence i m t"
    using assms(7-9) by (auto simp: critical_evidence_def low_evidence_def)
  ultimately show ?thesis
    using semanticDecision_cases [of f i m t] semanticDecision_cases [of f' i' m' t']
    by (auto simp: Let_def split: if_splits)
qed

section \<open>Witnesses\<close>

text \<open>A matched warning event, and answers to its rubric with impact and urgency given.\<close>

definition sample_semantic :: Result where
  "sample_semantic =
     \<lparr>res_Matches = [\<lparr>m_RuleID = ''warning-event'',
        m_Reason = ''selected Warning Event requires semantic triage'', m_Severity = SeverityWarning\<rparr>],
      res_Disposition = DispositionSemantic, res_Decision = None,
      res_QuestionSet = OperationalTriageV1, res_PolicyVersion = PolicyVersion\<rparr>"

definition sample_triage :: "nat \<Rightarrow> rat \<Rightarrow> rat \<Rightarrow> (string \<times> Answer) list" where
  "sample_triage level immediate transient =
     [(QuestionIncidentFamily, zeroAnswer\<lparr>a_Type := QuestionTypeChoice, a_Choice := ''unknown'',
         a_Probabilities := [(''unknown'', Fin 1), (''security'', Fin 0), (''infrastructure'', Fin 0),
           (''dependency'', Fin 0), (''configuration'', Fin 0), (''application'', Fin 0)],
         a_Confidence := Some (Fin 1)\<rparr>),
      (QuestionOperationalImpact, zeroAnswer\<lparr>a_Type := QuestionTypeScore,
         a_Score := Some (Fin (of_nat level)),
         a_Legend := map (\<lambda>i. (Itoa i, q_Levels (snd (operationalTriageV1 ! 1)) ! i)) [0, 1, 2, 3],
         a_Probabilities := map (\<lambda>i. (Itoa i, Fin (if i = level then 1 else 0))) [0, 1, 2, 3],
         a_Confidence := Some (Fin 1)\<rparr>),
      (QuestionRequiresImmediateAttention,
         zeroAnswer\<lparr>a_Type := QuestionTypeNoul, a_Noul := Some (Fin immediate)\<rparr>),
      (QuestionLikelyTransient,
         zeroAnswer\<lparr>a_Type := QuestionTypeNoul, a_Noul := Some (Fin transient)\<rparr>)]"

lemma sample_triage_wf: "wf_answers (sample_triage level immediate transient)"
  by (simp add: wf_answers_def wf_answer_def sample_triage_def question_ids zeroAnswer_def
      distinct_map inj_on_def)

lemma rubric_valid: "\<forall>q \<in> set OperationalTriageV1Questions. valid_question q"
  by (simp add: OperationalTriageV1Questions_def operationalTriageV1_def question_ids
      valid_question_def TrimSpace_graphic graphic_def)

lemma round64_two [simp]: "round64 2 = Fin 2"
  by (rule round64_exact [of _ "2 ^ 52" "- 51"]) (simp_all add: pow2_def power_int_minus)

lemma round64_millionth: "round64 (1 / 10 ^ 6) = Fin (4722366482869645 / 4722366482869645213696)"
  by (rule round64_nearest [of "- 20" _ 4722366482869645]) (simp_all add: pow2_def power_int_minus)

lemma sample_scores:
  assumes "level \<in> {0, 2}" "q_Type q = QuestionTypeScore" "length (q_Levels q) = 4"
    and "a = zeroAnswer\<lparr>a_Type := QuestionTypeScore, a_Score := Some (Fin (of_nat level)),
         a_Legend := map (\<lambda>i. (Itoa i, q_Levels q ! i)) [0, 1, 2, 3],
         a_Probabilities := map (\<lambda>i. (Itoa i, Fin (if i = level then 1 else 0))) [0, 1, 2, 3],
         a_Confidence := Some (Fin 1)\<rparr>"
  shows "valid_answer q a"
proof -
  have "near (round64 (1 / 1000000)) (Fin x) (Fin x)" for x
    using round64_millionth unfolding near_def fl_sub_def by simp
  moreover have "scoreKeys q = map Itoa [0, 1, 2, 3]"
    using assms(3) by (simp add: scoreKeys_def upt_rec)
  moreover have "{0 ..< 4 :: nat} = set [0, 1, 2, 3]" by auto
  ultimately show ?thesis
    using assms near_one
    by (auto simp: valid_answer_def valid_score_def zeroAnswer_def distribution_def lookup_zero_def)
qed

lemma list_all2_set: "list_all2 P xs ys \<Longrightarrow> x \<in> set xs \<Longrightarrow> \<exists>y \<in> set ys. P x y"
  unfolding list_all2_conv_all_nth in_set_conv_nth by (metis nth_mem)

lemma sample_triage_valid:
  assumes "level \<in> {0, 2}" "0 \<le> m" "m \<le> 1" "0 \<le> t" "t \<le> 1"
  shows "ValidateAnswers OperationalTriageV1Questions (sample_triage level m t) = None"
proof (rule ValidateAnswers_NoneI [OF rubric_wf sample_triage_wf _ rubric_valid])
  let ?Q = "operationalTriageV1" and ?S = "sample_triage level m t"
  show "OperationalTriageV1Questions \<noteq> []"
    "fst ` set (sample_triage level m t) \<subseteq> fst ` set OperationalTriageV1Questions"
    by (simp_all add: OperationalTriageV1Questions_def operationalTriageV1_def sample_triage_def)
  have "\<not> fl_less (fl_add (Fin 1) probabilityTolerance) (Fin p)" if "p \<le> 1" for p
    unfolding one_plus_tolerance using that by simp
  then have v0: "valid_answer (snd (?Q ! 0)) (snd (?S ! 0))"
    using near_one
    by (auto simp: valid_answer_def valid_choice_def sample_triage_def operationalTriageV1_def
        zeroAnswer_def distribution_def)
  have v1: "valid_answer (snd (?Q ! 1)) (snd (?S ! 1))"
    by (rule sample_scores [OF assms(1)]) (simp_all add: operationalTriageV1_def sample_triage_def)
  have v2: "valid_answer (snd (?Q ! 2)) (snd (?S ! 2))" "valid_answer (snd (?Q ! 3)) (snd (?S ! 3))"
    using assms(2-)
    by (simp_all add: valid_answer_def valid_noul_def sample_triage_def operationalTriageV1_def zeroAnswer_def)
  have ids: "length ?Q = 4" "map fst ?Q = map fst ?S" by (simp_all add: operationalTriageV1_def sample_triage_def)
  have "valid_answer (snd (?Q ! i)) (snd (?S ! i))" if "i < 4" for i
  proof -
    have "i = 0 \<or> i = 1 \<or> i = 2 \<or> i = 3" using that by linarith
    then show ?thesis using v0 v1 v2 by blast
  qed
  then have "list_all2 (\<lambda>(qid, q) (aid, a). aid = qid \<and> valid_answer q a) ?Q ?S"
    using ids unfolding list_all2_conv_all_nth case_prod_beta by (metis length_map nth_map)
  then show "\<forall>(qid, q) \<in> set OperationalTriageV1Questions. \<exists>a. (qid, a) \<in> set ?S \<and> valid_answer q a"
    unfolding OperationalTriageV1Questions_def by (fastforce dest: list_all2_set)
qed

lemma sample_triage_evidence:
  "triage_evidence (sample_triage level m t) ''unknown'' (of_nat level) m t"
  by (simp add: triage_evidence_def sample_triage_def question_ids zeroAnswer_def lookup_zero_def)

lemma sample_usable:
  "level \<in> {0, 2} \<Longrightarrow> 0 \<le> m \<Longrightarrow> m \<le> 1 \<Longrightarrow> 0 \<le> t \<Longrightarrow> t \<le> 1 \<Longrightarrow>
   usable_evidence sample_semantic (sample_triage level m t) None"
  using sample_triage_valid by (simp add: usable_evidence_def sample_semantic_def)

theorem Compose_semantic_policy_witness:
  "\<exists>d. Compose NewComposer sample_semantic (sample_triage 0 (7 / 8) 0) (None :: unit option) = Some d
     \<and> (dec_Severity d, dec_Action d) = (SeverityCritical, ActionPage)"
proof -
  have "\<exists>f i m t. triage_evidence (sample_triage 0 (7 / 8) 0) f i m t \<and> critical_evidence i m"
  proof (intro exI conjI)
    show "critical_evidence (of_nat 0) (7 / 8)" by (simp add: critical_evidence_def f085_def)
  qed (rule sample_triage_evidence)
  moreover have "usable_evidence sample_semantic (sample_triage 0 (7 / 8) 0) (None :: unit option)"
    by (rule sample_usable) simp_all
  moreover have "res_Disposition sample_semantic = DispositionSemantic" "res_Decision sample_semantic = None"
    by (simp_all add: sample_semantic_def)
  ultimately show ?thesis
    using Compose_semantic_policy [OF sample_triage_wf, of sample_semantic 0 "7 / 8" 0 "None :: unit option"]
    by (simp only: if_True simp_thms) blast
qed

theorem Compose_monotone_witness:
  "\<exists>d d'. Compose NewComposer sample_semantic (sample_triage 0 0 1) (None :: unit option) = Some d
     \<and> Compose NewComposer sample_semantic (sample_triage 2 (7 / 8) 0) (None :: unit option) = Some d'
     \<and> severityRank (dec_Severity d) \<le> severityRank (dec_Severity d')
     \<and> actionRank (dec_Action d) \<le> actionRank (dec_Action d')"
proof -
  obtain d d' where d: "Compose NewComposer sample_semantic (sample_triage 0 0 1) (None :: unit option) = Some d"
    and d': "Compose NewComposer sample_semantic (sample_triage 2 (7 / 8) 0) (None :: unit option) = Some d'"
    using Compose_defined [OF sample_triage_wf] by metis
  have "severityRank (dec_Severity d) \<le> severityRank (dec_Severity d')
     \<and> actionRank (dec_Action d) \<le> actionRank (dec_Action d')"
    by (rule Compose_monotone [OF _ _ sample_usable sample_usable sample_triage_evidence
          sample_triage_evidence _ _ _ d d']) (simp_all add: sample_semantic_def)
  with d d' show ?thesis by blast
qed

end
