(* ===== verification/Store_Contract.thy ===== *)
theory Store_Contract
  imports Domain
begin

text \<open>
  The persistence boundary of \<^verbatim>\<open>internal/store/store.go\<close>: its requests, its records and its
  errors. A delivery embeds a notification, so its record extends that of notifications. An error
  of the driver is wrapped with the message of the operation that met it.
\<close>

datatype mongo_error = ErrNoDocuments | DuplicateKey | DriverError string

datatype StoreError =
    ErrConflict
  | ErrNotFound
  | InvalidRequest string
  | StoreFailure string mongo_error
  | CommitFailure StoreError

datatype FailureClass = FailureRetryable | FailurePermanent | FailureOther string

record StoredSnapshot =
  ss_ID :: string
  ss_IncidentID :: string
  ss_Snapshot :: Snapshot
  ss_ExpiresAt :: "gotime option"

record Delivery = Notification +
  dl_LeaseOwner :: string
  dl_LeaseUntil :: "gotime option"
  dl_LastFailure :: FailureClass
  dl_DeliveredAt :: "gotime option"
  dl_ExpiresAt :: "gotime option"

record 'any CommitRequest =
  cmr_Incident :: Incident
  cmr_ExpectedVersion :: int
  cmr_Evaluation :: "'any Evaluation"
  cmr_Deliveries :: "Notification list"
  cmr_ExpiresAt :: "gotime option"

record ClaimRequest =
  clr_WorkerID :: string
  clr_Now :: gotime
  clr_LeaseDuration :: duration

record CompleteRequest =
  cpr_ID :: string
  cpr_WorkerID :: string
  cpr_CompletedAt :: gotime
  cpr_ExpiresAt :: "gotime option"

record RescheduleRequest =
  rsr_ID :: string
  rsr_WorkerID :: string
  rsr_Now :: gotime
  rsr_NextAttemptAt :: gotime
  rsr_Failure :: FailureClass
  rsr_ExpiresAt :: "gotime option"

end
