(* ===== verification/Mongo_Documents.thy ===== *)
theory Mongo_Documents
  imports Store_Contract
begin

text \<open>
  The documents of the collections and their conversions, from
  \<^verbatim>\<open>internal/store/mongo/mapping.go\<close>. The driver stores an instant as a whole number of
  milliseconds, rounding down; \<open>bson_time\<close> is that rounding, which the store's operations
  apply to the instants they hand to the driver.
\<close>

section \<open>Documents\<close>

record ownerReferenceDocument =
  od_APIVersion :: string
  od_Kind :: string
  od_Name :: string
  od_UID :: string

record sourceDocument =
  sd_ClusterID :: string
  sd_APIVersion :: string
  sd_Kind :: string
  sd_Namespace :: string
  sd_Name :: string
  sd_UID :: string
  sd_ResourceVersion :: string
  sd_Generation :: int
  sd_Owner :: "ownerReferenceDocument option"

record incidentDocument =
  id_ID :: string
  id_IncidentKey :: string
  id_ClusterID :: string
  id_Source :: sourceDocument
  id_Status :: IncidentStatus
  id_OpenedAt :: gotime
  id_UpdatedAt :: gotime
  id_ResolvedAt :: "gotime option"
  id_ContentHash :: string
  id_Version :: int
  id_ExpiresAt :: "gotime option"

record conditionDocument =
  cd_Type :: string
  cd_Status :: string
  cd_Reason :: string
  cd_Message :: string
  cd_LastTransitionTime :: gotime

record containerDocument =
  ctd_Name :: string
  ctd_Ready :: bool
  ctd_RestartCount :: int
  ctd_State :: string
  ctd_Reason :: string
  ctd_ExitCode :: int

record workloadDocument =
  wd_Desired :: int
  wd_Current :: int
  wd_Ready :: int
  wd_Available :: int
  wd_Updated :: int
  wd_Unavailable :: int

record jobDocument =
  jd_Active :: int
  jd_Succeeded :: int
  jd_Failed :: int
  jd_BackoffLimit :: int

record eventDocument =
  ed_Type :: string
  ed_Reason :: string
  ed_Message :: string
  ed_RegardingUID :: string
  ed_Count :: int
  ed_LastObserved :: gotime

record snapshotPayloadDocument =
  spd_Source :: sourceDocument
  spd_ObservedAt :: gotime
  spd_Labels :: "(string \<times> string) list"
  spd_Conditions :: "conditionDocument list"
  spd_Containers :: "containerDocument list"
  spd_Workload :: "workloadDocument option"
  spd_Job :: "jobDocument option"
  spd_Event :: "eventDocument option"
  spd_ContentHash :: string

record snapshotDocument =
  snd_ID :: string
  snd_IncidentID :: string
  snd_ContentHash :: string
  snd_ObservedAt :: gotime
  snd_Snapshot :: snapshotPayloadDocument
  snd_ExpiresAt :: "gotime option"

record decisionDocument =
  dd_Severity :: Severity
  dd_Action :: Action
  dd_Summary :: string
  dd_ReasonCodes :: "string list"
  dd_RuleIDs :: "string list"

record providerUsageDocument =
  ud_InputTokens :: int
  ud_OutputTokens :: int

record providerAuditDocument =
  pd_Provider :: string
  pd_RequestedModel :: string
  pd_ResolvedModel :: string
  pd_ResolvedModelHash :: string
  pd_ProviderRequestIDHash :: string
  pd_Usage :: providerUsageDocument
  pd_Latency :: duration
  pd_Attempts :: int
  pd_RawResponseHash :: string

record 'any evaluationDocument =
  evd_ID :: string
  evd_IncidentID :: string
  evd_SnapshotHash :: string
  evd_PolicyVersion :: string
  evd_RubricVersion :: string
  evd_ProviderConfigHash :: string
  evd_Decision :: decisionDocument
  evd_Answers :: "(string \<times> 'any) list"
  evd_ProviderAudit :: "providerAuditDocument option"
  evd_CreatedAt :: gotime
  evd_ExpiresAt :: "gotime option"

record outboxDocument =
  ob_ID :: string
  ob_EvaluationID :: string
  ob_DestinationID :: string
  ob_EventType :: string
  ob_Status :: NotificationStatus
  ob_Attempts :: int
  ob_NextAttemptAt :: gotime
  ob_Payload :: string
  ob_LeaseOwner :: string
  ob_LeaseUntil :: "gotime option"
  ob_LastFailure :: FailureClass
  ob_DeliveredAt :: "gotime option"
  ob_UpdatedAt :: gotime
  ob_ExpiresAt :: "gotime option"

section \<open>Conversions\<close>

definition sourceToDocument :: "Source \<Rightarrow> sourceDocument" where
  "sourceToDocument value =
     \<lparr>sd_ClusterID = src_ClusterID value, sd_APIVersion = src_APIVersion value,
      sd_Kind = src_Kind value, sd_Namespace = src_Namespace value, sd_Name = src_Name value,
      sd_UID = src_UID value, sd_ResourceVersion = src_ResourceVersion value,
      sd_Generation = src_Generation value,
      sd_Owner =
        (case src_Owner value of
           None \<Rightarrow> None
         | Some owner \<Rightarrow> Some \<lparr>od_APIVersion = own_APIVersion owner, od_Kind = own_Kind owner,
             od_Name = own_Name owner, od_UID = own_UID owner\<rparr>)\<rparr>"

definition sourceFromDocument :: "sourceDocument \<Rightarrow> Source" where
  "sourceFromDocument value =
     \<lparr>src_ClusterID = sd_ClusterID value, src_APIVersion = sd_APIVersion value,
      src_Kind = sd_Kind value, src_Namespace = sd_Namespace value, src_Name = sd_Name value,
      src_UID = sd_UID value, src_ResourceVersion = sd_ResourceVersion value,
      src_Generation = sd_Generation value,
      src_Owner =
        (case sd_Owner value of
           None \<Rightarrow> None
         | Some owner \<Rightarrow> Some \<lparr>own_APIVersion = od_APIVersion owner, own_Kind = od_Kind owner,
             own_Name = od_Name owner, own_UID = od_UID owner\<rparr>)\<rparr>"

definition incidentToDocument :: "Incident \<Rightarrow> gotime option \<Rightarrow> incidentDocument" where
  "incidentToDocument value expiresAt =
     \<lparr>id_ID = inc_ID value, id_IncidentKey = inc_Key value, id_ClusterID = inc_ClusterID value,
      id_Source = sourceToDocument (inc_Source value), id_Status = inc_Status value,
      id_OpenedAt = inc_OpenedAt value, id_UpdatedAt = inc_UpdatedAt value,
      id_ResolvedAt = inc_ResolvedAt value, id_ContentHash = inc_ContentHash value,
      id_Version = inc_Version value, id_ExpiresAt = expiresAt\<rparr>"

definition incidentFromDocument :: "incidentDocument \<Rightarrow> Incident" where
  "incidentFromDocument value =
     \<lparr>inc_ID = id_ID value, inc_Key = id_IncidentKey value, inc_ClusterID = id_ClusterID value,
      inc_Source = sourceFromDocument (id_Source value), inc_Status = id_Status value,
      inc_OpenedAt = id_OpenedAt value, inc_UpdatedAt = id_UpdatedAt value,
      inc_ResolvedAt = id_ResolvedAt value, inc_ContentHash = id_ContentHash value,
      inc_Version = id_Version value\<rparr>"

definition conditionToDocument :: "Condition \<Rightarrow> conditionDocument" where
  "conditionToDocument item =
     \<lparr>cd_Type = cond_Type item, cd_Status = cond_Status item, cd_Reason = cond_Reason item,
      cd_Message = cond_Message item, cd_LastTransitionTime = cond_LastTransitionTime item\<rparr>"

definition containerToDocument :: "ContainerState \<Rightarrow> containerDocument" where
  "containerToDocument item =
     \<lparr>ctd_Name = ctr_Name item, ctd_Ready = ctr_Ready item,
      ctd_RestartCount = ctr_RestartCount item, ctd_State = ctr_State item,
      ctd_Reason = ctr_Reason item, ctd_ExitCode = ctr_ExitCode item\<rparr>"

definition workloadToDocument :: "WorkloadState \<Rightarrow> workloadDocument" where
  "workloadToDocument w =
     \<lparr>wd_Desired = wl_Desired w, wd_Current = wl_Current w, wd_Ready = wl_Ready w,
      wd_Available = wl_Available w, wd_Updated = wl_Updated w, wd_Unavailable = wl_Unavailable w\<rparr>"

definition jobToDocument :: "JobState \<Rightarrow> jobDocument" where
  "jobToDocument j =
     \<lparr>jd_Active = job_Active j, jd_Succeeded = job_Succeeded j, jd_Failed = job_Failed j,
      jd_BackoffLimit = job_BackoffLimit j\<rparr>"

definition eventToDocument :: "EventState \<Rightarrow> eventDocument" where
  "eventToDocument e =
     \<lparr>ed_Type = ev_Type e, ed_Reason = ev_Reason e, ed_Message = ev_Message e,
      ed_RegardingUID = ev_RegardingUID e, ed_Count = ev_Count e,
      ed_LastObserved = ev_LastObserved e\<rparr>"

definition snapshotToDocument :: "string \<Rightarrow> Snapshot \<Rightarrow> gotime option \<Rightarrow> snapshotDocument" where
  "snapshotToDocument incidentID value expiresAt =
     \<lparr>snd_ID = [], snd_IncidentID = incidentID, snd_ContentHash = sn_ContentHash value,
      snd_ObservedAt = sn_ObservedAt value,
      snd_Snapshot =
        \<lparr>spd_Source = sourceToDocument (sn_Source value), spd_ObservedAt = sn_ObservedAt value,
         spd_Labels = sn_Labels value,
         spd_Conditions = map conditionToDocument (sn_Conditions value),
         spd_Containers = map containerToDocument (sn_Containers value),
         spd_Workload = map_option workloadToDocument (sn_Workload value),
         spd_Job = map_option jobToDocument (sn_Job value),
         spd_Event = map_option eventToDocument (sn_Event value),
         spd_ContentHash = sn_ContentHash value\<rparr>,
      snd_ExpiresAt = expiresAt\<rparr>"

definition snapshotFromDocument :: "snapshotDocument \<Rightarrow> StoredSnapshot" where
  "snapshotFromDocument value =
     (let payload = snd_Snapshot value
      in \<lparr>ss_ID = snd_ID value, ss_IncidentID = snd_IncidentID value,
          ss_Snapshot =
            \<lparr>sn_Source = sourceFromDocument (spd_Source payload),
             sn_ObservedAt = spd_ObservedAt payload, sn_Labels = spd_Labels payload,
             sn_Conditions =
               map (\<lambda>item. \<lparr>cond_Type = cd_Type item, cond_Status = cd_Status item,
                      cond_Reason = cd_Reason item, cond_Message = cd_Message item,
                      cond_LastTransitionTime = cd_LastTransitionTime item\<rparr>)
                 (spd_Conditions payload),
             sn_Containers =
               map (\<lambda>item. \<lparr>ctr_Name = ctd_Name item, ctr_Ready = ctd_Ready item,
                      ctr_RestartCount = ctd_RestartCount item, ctr_State = ctd_State item,
                      ctr_Reason = ctd_Reason item, ctr_ExitCode = ctd_ExitCode item\<rparr>)
                 (spd_Containers payload),
             sn_Workload =
               map_option (\<lambda>w. \<lparr>wl_Desired = wd_Desired w, wl_Current = wd_Current w,
                      wl_Ready = wd_Ready w, wl_Available = wd_Available w,
                      wl_Updated = wd_Updated w, wl_Unavailable = wd_Unavailable w\<rparr>)
                 (spd_Workload payload),
             sn_Job =
               map_option (\<lambda>j. \<lparr>job_Active = jd_Active j, job_Succeeded = jd_Succeeded j,
                      job_Failed = jd_Failed j, job_BackoffLimit = jd_BackoffLimit j\<rparr>)
                 (spd_Job payload),
             sn_Event =
               map_option (\<lambda>e. \<lparr>ev_Type = ed_Type e, ev_Reason = ed_Reason e,
                      ev_Message = ed_Message e, ev_RegardingUID = ed_RegardingUID e,
                      ev_Count = ed_Count e, ev_LastObserved = ed_LastObserved e\<rparr>)
                 (spd_Event payload),
             sn_ContentHash = spd_ContentHash payload\<rparr>,
          ss_ExpiresAt = snd_ExpiresAt value\<rparr>)"

definition evaluationToDocument :: "'any Evaluation \<Rightarrow> gotime option \<Rightarrow> 'any evaluationDocument" where
  "evaluationToDocument value expiresAt =
     \<lparr>evd_ID = evl_ID value, evd_IncidentID = evl_IncidentID value,
      evd_SnapshotHash = evl_SnapshotHash value, evd_PolicyVersion = evl_PolicyVersion value,
      evd_RubricVersion = evl_RubricVersion value,
      evd_ProviderConfigHash = evl_ProviderConfigHash value,
      evd_Decision =
        \<lparr>dd_Severity = dec_Severity (evl_Decision value), dd_Action = dec_Action (evl_Decision value),
         dd_Summary = dec_Summary (evl_Decision value),
         dd_ReasonCodes = dec_ReasonCodes (evl_Decision value),
         dd_RuleIDs = dec_RuleIDs (evl_Decision value)\<rparr>,
      evd_Answers = evl_Answers value,
      evd_ProviderAudit =
        map_option (\<lambda>a.
          \<lparr>pd_Provider = pa_Provider a, pd_RequestedModel = pa_RequestedModel a,
           pd_ResolvedModel = pa_ResolvedModel a, pd_ResolvedModelHash = pa_ResolvedModelHash a,
           pd_ProviderRequestIDHash = pa_ProviderRequestIDHash a,
           pd_Usage = \<lparr>ud_InputTokens = us_InputTokens (pa_Usage a),
             ud_OutputTokens = us_OutputTokens (pa_Usage a)\<rparr>,
           pd_Latency = pa_Latency a, pd_Attempts = pa_Attempts a,
           pd_RawResponseHash = pa_RawResponseHash a\<rparr>) (evl_ProviderAudit value),
      evd_CreatedAt = evl_CreatedAt value, evd_ExpiresAt = expiresAt\<rparr>"

definition evaluationFromDocument :: "'any evaluationDocument \<Rightarrow> 'any Evaluation" where
  "evaluationFromDocument value =
     \<lparr>evl_ID = evd_ID value, evl_IncidentID = evd_IncidentID value,
      evl_SnapshotHash = evd_SnapshotHash value, evl_PolicyVersion = evd_PolicyVersion value,
      evl_RubricVersion = evd_RubricVersion value,
      evl_ProviderConfigHash = evd_ProviderConfigHash value,
      evl_Decision =
        \<lparr>dec_Severity = dd_Severity (evd_Decision value), dec_Action = dd_Action (evd_Decision value),
         dec_Summary = dd_Summary (evd_Decision value),
         dec_ReasonCodes = dd_ReasonCodes (evd_Decision value),
         dec_RuleIDs = dd_RuleIDs (evd_Decision value)\<rparr>,
      evl_Answers = evd_Answers value,
      evl_ProviderAudit =
        map_option (\<lambda>a.
          \<lparr>pa_Provider = pd_Provider a, pa_RequestedModel = pd_RequestedModel a,
           pa_ResolvedModel = pd_ResolvedModel a, pa_ResolvedModelHash = pd_ResolvedModelHash a,
           pa_ProviderRequestIDHash = pd_ProviderRequestIDHash a,
           pa_Usage = \<lparr>us_InputTokens = ud_InputTokens (pd_Usage a),
             us_OutputTokens = ud_OutputTokens (pd_Usage a)\<rparr>,
           pa_Latency = pd_Latency a, pa_Attempts = pd_Attempts a,
           pa_RawResponseHash = pd_RawResponseHash a\<rparr>) (evd_ProviderAudit value),
      evl_CreatedAt = evd_CreatedAt value\<rparr>"

definition outboxToDocument :: "Notification \<Rightarrow> gotime \<Rightarrow> gotime option \<Rightarrow> outboxDocument" where
  "outboxToDocument value now expiresAt =
     \<lparr>ob_ID = ntf_ID value, ob_EvaluationID = ntf_EvaluationID value,
      ob_DestinationID = ntf_DestinationID value, ob_EventType = ntf_EventType value,
      ob_Status = ntf_Status value, ob_Attempts = ntf_Attempts value,
      ob_NextAttemptAt = ntf_NextAttemptAt value, ob_Payload = ntf_Payload value,
      ob_LeaseOwner = [], ob_LeaseUntil = None, ob_LastFailure = FailureOther [],
      ob_DeliveredAt = None, ob_UpdatedAt = now, ob_ExpiresAt = expiresAt\<rparr>"

definition deliveryFromDocument :: "outboxDocument \<Rightarrow> Delivery" where
  "deliveryFromDocument value =
     \<lparr>ntf_ID = ob_ID value, ntf_EvaluationID = ob_EvaluationID value,
      ntf_DestinationID = ob_DestinationID value, ntf_EventType = ob_EventType value,
      ntf_Status = ob_Status value, ntf_Attempts = ob_Attempts value,
      ntf_NextAttemptAt = ob_NextAttemptAt value, ntf_Payload = ob_Payload value,
      dl_LeaseOwner = ob_LeaseOwner value, dl_LeaseUntil = ob_LeaseUntil value,
      dl_LastFailure = ob_LastFailure value, dl_DeliveredAt = ob_DeliveredAt value,
      dl_ExpiresAt = ob_ExpiresAt value\<rparr>"

section \<open>Instants in documents\<close>

definition bson_time :: "gotime \<Rightarrow> gotime" where
  "bson_time t = t - t mod Millisecond"

definition bson_incident :: "incidentDocument \<Rightarrow> incidentDocument" where
  "bson_incident d = d
     \<lparr>id_OpenedAt := bson_time (id_OpenedAt d), id_UpdatedAt := bson_time (id_UpdatedAt d),
      id_ResolvedAt := map_option bson_time (id_ResolvedAt d),
      id_ExpiresAt := map_option bson_time (id_ExpiresAt d)\<rparr>"

definition bson_snapshot :: "snapshotDocument \<Rightarrow> snapshotDocument" where
  "bson_snapshot d = d
     \<lparr>snd_ObservedAt := bson_time (snd_ObservedAt d),
      snd_Snapshot := (snd_Snapshot d)
        \<lparr>spd_ObservedAt := bson_time (spd_ObservedAt (snd_Snapshot d)),
         spd_Conditions :=
           map (\<lambda>c. c\<lparr>cd_LastTransitionTime := bson_time (cd_LastTransitionTime c)\<rparr>)
             (spd_Conditions (snd_Snapshot d)),
         spd_Event :=
           map_option (\<lambda>e. e\<lparr>ed_LastObserved := bson_time (ed_LastObserved e)\<rparr>)
             (spd_Event (snd_Snapshot d))\<rparr>,
      snd_ExpiresAt := map_option bson_time (snd_ExpiresAt d)\<rparr>"

definition bson_evaluation :: "'any evaluationDocument \<Rightarrow> 'any evaluationDocument" where
  "bson_evaluation d = d
     \<lparr>evd_CreatedAt := bson_time (evd_CreatedAt d), evd_ExpiresAt := map_option bson_time (evd_ExpiresAt d)\<rparr>"

definition bson_outbox :: "outboxDocument \<Rightarrow> outboxDocument" where
  "bson_outbox d = d
     \<lparr>ob_NextAttemptAt := bson_time (ob_NextAttemptAt d),
      ob_LeaseUntil := map_option bson_time (ob_LeaseUntil d),
      ob_DeliveredAt := map_option bson_time (ob_DeliveredAt d),
      ob_UpdatedAt := bson_time (ob_UpdatedAt d),
      ob_ExpiresAt := map_option bson_time (ob_ExpiresAt d)\<rparr>"

lemma bson_time_idem [simp]: "bson_time (bson_time t) = bson_time t"
  by (simp add: bson_time_def Millisecond_def)

lemma bson_time_bounds: "bson_time t \<le> t" "t < bson_time t + Millisecond"
  using pos_mod_bound [of Millisecond t] by (simp_all add: bson_time_def Millisecond_def)

lemma bson_time_mono: "t \<le> u \<Longrightarrow> bson_time t \<le> bson_time u"
  by (simp add: bson_time_def Millisecond_def minus_mod_eq_mult_div zdiv_mono1)

lemma bson_time_0 [simp]: "bson_time 0 = 0"
  by (simp add: bson_time_def)

section \<open>Round trips\<close>

lemma sourceFromDocument_inverse [simp]: "sourceFromDocument (sourceToDocument s) = s"
  by (cases s; cases "src_Owner s") (auto simp: sourceToDocument_def sourceFromDocument_def)

text \<open>A record rebuilt from its own fields.\<close>

lemma rebuilt_fields:
  "(\<lambda>x :: Condition. \<lparr>cond_Type = cond_Type x, cond_Status = cond_Status x, cond_Reason = cond_Reason x,
      cond_Message = cond_Message x, cond_LastTransitionTime = cond_LastTransitionTime x\<rparr>) = (\<lambda>x. x)"
  "(\<lambda>x :: ContainerState. \<lparr>ctr_Name = ctr_Name x, ctr_Ready = ctr_Ready x,
      ctr_RestartCount = ctr_RestartCount x, ctr_State = ctr_State x, ctr_Reason = ctr_Reason x,
      ctr_ExitCode = ctr_ExitCode x\<rparr>) = (\<lambda>x. x)"
  "(\<lambda>x :: WorkloadState. \<lparr>wl_Desired = wl_Desired x, wl_Current = wl_Current x, wl_Ready = wl_Ready x,
      wl_Available = wl_Available x, wl_Updated = wl_Updated x, wl_Unavailable = wl_Unavailable x\<rparr>) = (\<lambda>x. x)"
  "(\<lambda>x :: JobState. \<lparr>job_Active = job_Active x, job_Succeeded = job_Succeeded x,
      job_Failed = job_Failed x, job_BackoffLimit = job_BackoffLimit x\<rparr>) = (\<lambda>x. x)"
  "(\<lambda>x :: EventState. \<lparr>ev_Type = ev_Type x, ev_Reason = ev_Reason x, ev_Message = ev_Message x,
      ev_RegardingUID = ev_RegardingUID x, ev_Count = ev_Count x, ev_LastObserved = ev_LastObserved x\<rparr>) = (\<lambda>x. x)"
  by (rule ext, simp)+

lemma rebuilt_audit:
  "(\<lambda>x :: ProviderAudit. \<lparr>pa_Provider = pa_Provider x, pa_RequestedModel = pa_RequestedModel x,
      pa_ResolvedModel = pa_ResolvedModel x, pa_ResolvedModelHash = pa_ResolvedModelHash x,
      pa_ProviderRequestIDHash = pa_ProviderRequestIDHash x,
      pa_Usage = \<lparr>us_InputTokens = us_InputTokens (pa_Usage x), us_OutputTokens = us_OutputTokens (pa_Usage x)\<rparr>,
      pa_Latency = pa_Latency x, pa_Attempts = pa_Attempts x,
      pa_RawResponseHash = pa_RawResponseHash x\<rparr>) = (\<lambda>x. x)"
  by (rule ext) simp

lemma rebuilt_decision:
  "\<lparr>dec_Severity = dec_Severity d, dec_Action = dec_Action d, dec_Summary = dec_Summary d,
    dec_ReasonCodes = dec_ReasonCodes d, dec_RuleIDs = dec_RuleIDs d\<rparr> = (d :: Decision)"
  by simp

text \<open>
  C33: Converting to a document and back loses nothing: an incident, a snapshot with all its
  conditions, containers, workload, job and event, an evaluation with its provider audit, and a
  notification come back as they were. Through the database an incident comes back with its
  instants rounded down to the millisecond.
\<close>

theorem documents_roundtrip:
  "incidentFromDocument (incidentToDocument i x) = i
   \<and> ss_Snapshot (snapshotFromDocument (snapshotToDocument n s x)) = s
   \<and> ss_IncidentID (snapshotFromDocument (snapshotToDocument n s x)) = n
   \<and> evaluationFromDocument (evaluationToDocument e x) = e
   \<and> Notification.truncate (deliveryFromDocument (outboxToDocument d t x)) = d
   \<and> incidentFromDocument (bson_incident (incidentToDocument i x)) =
       i\<lparr>inc_OpenedAt := bson_time (inc_OpenedAt i), inc_UpdatedAt := bson_time (inc_UpdatedAt i),
         inc_ResolvedAt := map_option bson_time (inc_ResolvedAt i)\<rparr>"
proof (intro conjI)
  show "incidentFromDocument (incidentToDocument i x) = i"
    by (simp add: incidentToDocument_def incidentFromDocument_def)
  show "ss_Snapshot (snapshotFromDocument (snapshotToDocument n s x)) = s"
    by (simp add: snapshotToDocument_def snapshotFromDocument_def conditionToDocument_def
        containerToDocument_def workloadToDocument_def jobToDocument_def eventToDocument_def
        option.map_comp comp_def option.map_ident rebuilt_fields)
  show "ss_IncidentID (snapshotFromDocument (snapshotToDocument n s x)) = n"
    by (simp add: snapshotToDocument_def snapshotFromDocument_def)
  show "evaluationFromDocument (evaluationToDocument e x) = e"
    by (simp add: evaluationToDocument_def evaluationFromDocument_def option.map_comp comp_def
        option.map_ident rebuilt_audit rebuilt_decision)
  show "Notification.truncate (deliveryFromDocument (outboxToDocument d t x)) = d"
    by (simp add: deliveryFromDocument_def outboxToDocument_def Notification.truncate_def)
  show "incidentFromDocument (bson_incident (incidentToDocument i x)) =
      i\<lparr>inc_OpenedAt := bson_time (inc_OpenedAt i), inc_UpdatedAt := bson_time (inc_UpdatedAt i),
        inc_ResolvedAt := map_option bson_time (inc_ResolvedAt i)\<rparr>"
    by (simp add: incidentToDocument_def incidentFromDocument_def bson_incident_def)
qed

end
