(* ===== verification/Mongo_Store.thy ===== *)
theory Mongo_Store
  imports Mongo_Documents "HOL-Library.Product_Lexorder"
begin

text \<open>
  The MongoDB store of \<^verbatim>\<open>internal/store/mongo\<close>: incidents.go, snapshots.go, evaluations.go,
  outbox.go and the check of the database name in client.go.

  The driver and the server are not part of the repository. They are a record \<open>mongo\<close> of the
  driver operations that the store calls, an argument of every store operation; an operation takes
  and returns the world, so that it may fail at any time and in any way. A filter document is the
  predicate that it denotes on documents, an update document the function.
\<close>

section \<open>The driver operations that the store uses\<close>

record UpdateResult =
  ur_MatchedCount :: int
  ur_UpsertedCount :: int

record ('w, 'any) mongo =
  mg_NewObjectID :: "'w \<Rightarrow> string \<times> 'w"
  mg_incidents_FindOne :: "'w \<Rightarrow> (incidentDocument \<Rightarrow> bool) \<Rightarrow> (mongo_error + incidentDocument) \<times> 'w"
  mg_incidents_Find :: "'w \<Rightarrow> (incidentDocument \<Rightarrow> bool) \<Rightarrow> (mongo_error + incidentDocument list) \<times> 'w"
  mg_incidents_UpdateOne :: "'w \<Rightarrow> (incidentDocument \<Rightarrow> bool) \<Rightarrow>
    (incidentDocument \<Rightarrow> incidentDocument) \<Rightarrow> (mongo_error + UpdateResult) \<times> 'w"
  mg_incidents_Upsert :: "'w \<Rightarrow> (incidentDocument \<Rightarrow> bool) \<Rightarrow> incidentDocument \<Rightarrow>
    (mongo_error + UpdateResult) \<times> 'w"
  mg_snapshots_FindOne :: "'w \<Rightarrow> (snapshotDocument \<Rightarrow> bool) \<Rightarrow> (mongo_error + snapshotDocument) \<times> 'w"
  mg_snapshots_FindOneAndUpsert :: "'w \<Rightarrow> (snapshotDocument \<Rightarrow> bool) \<Rightarrow> snapshotDocument \<Rightarrow>
    (mongo_error + snapshotDocument) \<times> 'w"
  mg_evaluations_FindOne :: "'w \<Rightarrow> ('any evaluationDocument \<Rightarrow> bool) \<Rightarrow>
    (mongo_error + 'any evaluationDocument) \<times> 'w"
  mg_evaluations_InsertOne :: "'w \<Rightarrow> 'any evaluationDocument \<Rightarrow> mongo_error option \<times> 'w"
  mg_outbox_FindOneAndUpdate :: "'w \<Rightarrow> (outboxDocument \<Rightarrow> bool) \<Rightarrow> (outboxDocument \<Rightarrow> outboxDocument) \<Rightarrow>
    (outboxDocument \<Rightarrow> gotime \<times> string) \<Rightarrow> (mongo_error + outboxDocument) \<times> 'w"
  mg_outbox_UpdateOne :: "'w \<Rightarrow> (outboxDocument \<Rightarrow> bool) \<Rightarrow> (outboxDocument \<Rightarrow> outboxDocument) \<Rightarrow>
    (mongo_error + UpdateResult) \<times> 'w"
  mg_outbox_InsertMany :: "'w \<Rightarrow> outboxDocument list \<Rightarrow> mongo_error option \<times> 'w"
  mg_StartSession :: "'w \<Rightarrow> mongo_error option \<times> 'w"
  mg_WithTransaction :: "'w \<Rightarrow> ('w \<Rightarrow> StoreError option \<times> 'w) \<Rightarrow> StoreError option \<times> 'w"

section \<open>The database name (client.go)\<close>

definition safe_database_char :: "char \<Rightarrow> bool" where
  "safe_database_char c \<longleftrightarrow>
     (CHR ''A'' \<le> c \<and> c \<le> CHR ''Z'') \<or> (CHR ''a'' \<le> c \<and> c \<le> CHR ''z'')
     \<or> (CHR ''0'' \<le> c \<and> c \<le> CHR ''9'') \<or> c = CHR ''_'' \<or> c = CHR ''-''"

definition validateDatabase :: "string \<Rightarrow> string option" where
  "validateDatabase database =
     (let trimmed = TrimSpace database
      in if trimmed = [] then Some ''MongoDB database is required''
         else if ToLower trimmed \<in> {''admin'', ''local'', ''config''}
         then Some ''MongoDB database is administrative''
         else if trimmed \<noteq> database \<or> \<not> (database \<noteq> [] \<and> list_all safe_database_char database)
         then Some ''MongoDB database contains unsafe characters''
         else None)"

section \<open>Incidents (incidents.go)\<close>

definition validateIncident :: "Incident \<Rightarrow> StoreError option" where
  "validateIncident incident =
     (if blank (inc_ID incident) \<or> blank (inc_Key incident) \<or> blank (inc_ClusterID incident)
      then Some (InvalidRequest ''incident ID, key, and cluster ID are required'')
      else if inc_Version incident \<le> 0
      then Some (InvalidRequest ''incident version must be positive'')
      else None)"

definition incident_filter :: "string \<Rightarrow> string \<Rightarrow> incidentDocument \<Rightarrow> bool" where
  "incident_filter clusterID incidentKey d \<longleftrightarrow>
     id_ClusterID d = clusterID \<and> id_IncidentKey d = incidentKey"

definition GetIncident ::
  "('w, 'any) mongo \<Rightarrow> 'w \<Rightarrow> string \<Rightarrow> string \<Rightarrow> (StoreError + Incident) \<times> 'w" where
  "GetIncident s w clusterID incidentKey =
     (if blank clusterID \<or> blank incidentKey
      then (Inl (InvalidRequest ''cluster ID and incident key are required''), w)
      else
        let (r, w) = mg_incidents_FindOne s w (incident_filter clusterID incidentKey)
        in case r of
             Inl ErrNoDocuments \<Rightarrow> (Inl ErrNotFound, w)
           | Inl err \<Rightarrow> (Inl (StoreFailure ''get incident'' err), w)
           | Inr document \<Rightarrow> (Inr (incidentFromDocument document), w))"

definition ListOpenIncidents :: "('w, 'any) mongo \<Rightarrow> 'w \<Rightarrow> (StoreError + Incident list) \<times> 'w" where
  "ListOpenIncidents s w =
     (let (r, w) = mg_incidents_Find s w (\<lambda>d. id_Status d = IncidentOpen)
      in case r of
           Inl err \<Rightarrow> (Inl (StoreFailure ''list open incidents'' err), w)
         | Inr documents \<Rightarrow> (Inr (map incidentFromDocument documents), w))"

definition UpsertIncident ::
  "('w, 'any) mongo \<Rightarrow> 'w \<Rightarrow> Incident \<Rightarrow> gotime option \<Rightarrow> (StoreError + Incident \<times> bool) \<times> 'w" where
  "UpsertIncident s w incident expiresAt =
     (case validateIncident incident of
        Some err \<Rightarrow> (Inl err, w)
      | None \<Rightarrow>
          let document = bson_incident (incidentToDocument incident expiresAt);
              filter = incident_filter (inc_ClusterID incident) (inc_Key incident);
              (first, w) = mg_incidents_Upsert s w filter document;
              (result, w) = (if first = Inl DuplicateKey
                             then mg_incidents_UpdateOne s w filter (\<lambda>d. d) else (first, w))
          in case result of
               Inl err \<Rightarrow> (Inl (StoreFailure ''upsert incident'' err), w)
             | Inr updated \<Rightarrow>
                 let (persisted, w) = mg_incidents_FindOne s w filter
                 in case persisted of
                      Inl err \<Rightarrow> (Inl (StoreFailure ''read upserted incident'' err), w)
                    | Inr d \<Rightarrow> (Inr (incidentFromDocument d, ur_UpsertedCount updated = 1), w))"

definition set_incident :: "Incident \<Rightarrow> gotime option \<Rightarrow> incidentDocument \<Rightarrow> incidentDocument" where
  "set_incident incident expiresAt d = d
     \<lparr>id_Source := sourceToDocument (inc_Source incident),
      id_Status := inc_Status incident,
      id_UpdatedAt := bson_time (inc_UpdatedAt incident),
      id_ResolvedAt := map_option bson_time (inc_ResolvedAt incident),
      id_ContentHash := inc_ContentHash incident,
      id_ExpiresAt := map_option bson_time expiresAt,
      id_Version := id_Version d + 1\<rparr>"

definition updateIncident ::
  "('w, 'any) mongo \<Rightarrow> 'w \<Rightarrow> Incident \<Rightarrow> int \<Rightarrow> gotime option \<Rightarrow> StoreError option \<times> 'w" where
  "updateIncident s w incident expectedVersion expiresAt =
     (let (result, w) =
            mg_incidents_UpdateOne s w
              (\<lambda>d. id_ID d = inc_ID incident \<and> id_Version d = expectedVersion)
              (set_incident incident expiresAt)
      in case result of
           Inl err \<Rightarrow> (Some (StoreFailure ''update incident'' err), w)
         | Inr updated \<Rightarrow> (if ur_MatchedCount updated = 0 then Some ErrConflict else None, w))"

definition UpdateIncident ::
  "('w, 'any) mongo \<Rightarrow> 'w \<Rightarrow> Incident \<Rightarrow> int \<Rightarrow> gotime option \<Rightarrow> StoreError option \<times> 'w" where
  "UpdateIncident s w incident expectedVersion expiresAt =
     (case validateIncident incident of
        Some err \<Rightarrow> (Some err, w)
      | None \<Rightarrow> updateIncident s w incident expectedVersion expiresAt)"

section \<open>Snapshots (snapshots.go)\<close>

definition snapshot_filter :: "string \<Rightarrow> string \<Rightarrow> snapshotDocument \<Rightarrow> bool" where
  "snapshot_filter incidentID hash d \<longleftrightarrow> snd_IncidentID d = incidentID \<and> snd_ContentHash d = hash"

definition UpsertSnapshot ::
  "('w, 'any) mongo \<Rightarrow> 'w \<Rightarrow> string \<Rightarrow> Snapshot \<Rightarrow> gotime option \<Rightarrow>
   (StoreError + StoredSnapshot \<times> bool) \<times> 'w" where
  "UpsertSnapshot s w incidentID snapshot expiresAt =
     (if blank incidentID \<or> blank (sn_ContentHash snapshot)
      then (Inl (InvalidRequest ''incident ID and snapshot content hash are required''), w)
      else
        let (candidateID, w) = mg_NewObjectID s w;
            document = bson_snapshot ((snapshotToDocument incidentID snapshot expiresAt)\<lparr>snd_ID := candidateID\<rparr>);
            filter = snapshot_filter incidentID (sn_ContentHash snapshot);
            (first, w) = mg_snapshots_FindOneAndUpsert s w filter document;
            (persisted, w) = (if first = Inl DuplicateKey
                              then mg_snapshots_FindOne s w filter else (first, w))
        in case persisted of
             Inl err \<Rightarrow> (Inl (StoreFailure ''upsert immutable snapshot'' err), w)
           | Inr d \<Rightarrow> (Inr (snapshotFromDocument d, snd_ID d = candidateID), w))"

section \<open>The commit of an evaluation (evaluations.go)\<close>

definition same_identity :: "'any Evaluation \<Rightarrow> 'any evaluationDocument \<Rightarrow> bool" where
  "same_identity e d \<longleftrightarrow>
     evd_IncidentID d = evl_IncidentID e \<and> evd_SnapshotHash d = evl_SnapshotHash e
     \<and> evd_PolicyVersion d = evl_PolicyVersion e \<and> evd_RubricVersion d = evl_RubricVersion e
     \<and> evd_ProviderConfigHash d = evl_ProviderConfigHash e"

definition outboxDocuments :: "'any CommitRequest \<Rightarrow> outboxDocument list" where
  "outboxDocuments request =
     map (\<lambda>delivery.
            bson_outbox
              (outboxToDocument
                (if ntf_Status delivery = NotificationStatusOther []
                 then delivery\<lparr>ntf_Status := NotificationPending\<rparr> else delivery)
                (inc_UpdatedAt (cmr_Incident request)) (cmr_ExpiresAt request)))
       (cmr_Deliveries request)"

definition commitCallback ::
  "('w, 'any) mongo \<Rightarrow> 'any CommitRequest \<Rightarrow> 'w \<Rightarrow> StoreError option \<times> 'w" where
  "commitCallback s request w =
     (let (found, w) = mg_evaluations_FindOne s w (same_identity (cmr_Evaluation request))
      in case found of
           Inr _ \<Rightarrow> (None, w)
         | Inl ErrNoDocuments \<Rightarrow>
             (let (conflict, w) = updateIncident s w (cmr_Incident request)
                    (cmr_ExpectedVersion request) (cmr_ExpiresAt request)
              in case conflict of
                   Some err \<Rightarrow> (Some err, w)
                 | None \<Rightarrow>
                     (let (inserted, w) = mg_evaluations_InsertOne s w
                            (bson_evaluation
                              (evaluationToDocument (cmr_Evaluation request) (cmr_ExpiresAt request)))
                      in case inserted of
                           Some err \<Rightarrow> (Some (StoreFailure ''insert evaluation'' err), w)
                         | None \<Rightarrow>
                             if length (cmr_Deliveries request) > 0 then
                               (let (queued, w) = mg_outbox_InsertMany s w (outboxDocuments request)
                                in case queued of
                                     Some err \<Rightarrow> (Some (StoreFailure ''insert outbox deliveries'' err), w)
                                   | None \<Rightarrow> (None, w))
                             else (None, w)))
         | Inl err \<Rightarrow> (Some (StoreFailure ''check existing evaluation'' err), w))"

definition validateCommit :: "'any CommitRequest \<Rightarrow> StoreError option" where
  "validateCommit request =
     and_then (validateIncident (cmr_Incident request))
       (if cmr_ExpectedVersion request \<le> 0
        then Some (InvalidRequest ''expected incident version must be positive'')
        else if blank (evl_ID (cmr_Evaluation request))
          \<or> evl_IncidentID (cmr_Evaluation request) \<noteq> inc_ID (cmr_Incident request)
        then Some (InvalidRequest ''evaluation ID and matching incident ID are required'')
        else
          first_error
            (\<lambda>delivery.
               if blank (ntf_ID delivery)
                 \<or> ntf_EvaluationID delivery \<noteq> evl_ID (cmr_Evaluation request)
               then Some (InvalidRequest ''delivery ID and matching evaluation ID are required'')
               else None)
            (cmr_Deliveries request))"

definition Commit ::
  "('w, 'any) mongo \<Rightarrow> 'w \<Rightarrow> 'any CommitRequest \<Rightarrow> StoreError option \<times> 'w" where
  "Commit s w request =
     (case validateCommit request of
        Some err \<Rightarrow> (Some err, w)
      | None \<Rightarrow>
          let (started, w) = mg_StartSession s w
          in case started of
               Some err \<Rightarrow> (Some (StoreFailure ''start MongoDB transaction session'' err), w)
             | None \<Rightarrow>
                 let (result, w) = mg_WithTransaction s w (commitCallback s request)
                 in (map_option CommitFailure result, w))"

section \<open>The outbox (outbox.go)\<close>

definition claimable :: "gotime \<Rightarrow> outboxDocument \<Rightarrow> bool" where
  "claimable now d \<longleftrightarrow>
     (ob_Status d = NotificationPending \<and> ob_NextAttemptAt d \<le> bson_time now)
     \<or> (ob_Status d = NotificationDelivering
        \<and> (case ob_LeaseUntil d of None \<Rightarrow> False | Some t \<Rightarrow> t \<le> bson_time now))"

definition lease :: "ClaimRequest \<Rightarrow> outboxDocument \<Rightarrow> outboxDocument" where
  "lease request d = d
     \<lparr>ob_Status := NotificationDelivering, ob_LeaseOwner := clr_WorkerID request,
      ob_LeaseUntil := Some (bson_time (clr_Now request + clr_LeaseDuration request)),
      ob_UpdatedAt := bson_time (clr_Now request), ob_Attempts := ob_Attempts d + 1\<rparr>"

definition ClaimDelivery ::
  "('w, 'any) mongo \<Rightarrow> 'w \<Rightarrow> ClaimRequest \<Rightarrow> (StoreError + Delivery) \<times> 'w" where
  "ClaimDelivery s w request =
     (if blank (clr_WorkerID request) \<or> IsZero (clr_Now request) \<or> clr_LeaseDuration request \<le> 0
      then (Inl (InvalidRequest ''worker ID, current time, and positive lease duration are required''), w)
      else
        let (r, w) = mg_outbox_FindOneAndUpdate s w (claimable (clr_Now request)) (lease request)
                       (\<lambda>d. (ob_NextAttemptAt d, ob_ID d))
        in case r of
             Inl ErrNoDocuments \<Rightarrow> (Inl ErrNotFound, w)
           | Inl err \<Rightarrow> (Inl (StoreFailure ''claim outbox delivery'' err), w)
           | Inr document \<Rightarrow> (Inr (deliveryFromDocument document), w))"

definition leased_by :: "string \<Rightarrow> string \<Rightarrow> outboxDocument \<Rightarrow> bool" where
  "leased_by dID workerID d \<longleftrightarrow>
     ob_ID d = dID \<and> ob_Status d = NotificationDelivering \<and> ob_LeaseOwner d = workerID"

definition set_delivered :: "CompleteRequest \<Rightarrow> outboxDocument \<Rightarrow> outboxDocument" where
  "set_delivered request d = d
     \<lparr>ob_Status := NotificationDelivered, ob_DeliveredAt := Some (bson_time (cpr_CompletedAt request)),
      ob_UpdatedAt := bson_time (cpr_CompletedAt request),
      ob_ExpiresAt := map_option bson_time (cpr_ExpiresAt request),
      ob_LeaseOwner := [], ob_LeaseUntil := None\<rparr>"

definition CompleteDelivery ::
  "('w, 'any) mongo \<Rightarrow> 'w \<Rightarrow> CompleteRequest \<Rightarrow> StoreError option \<times> 'w" where
  "CompleteDelivery s w request =
     (if blank (cpr_ID request) \<or> blank (cpr_WorkerID request) \<or> IsZero (cpr_CompletedAt request)
      then (Some (InvalidRequest ''delivery ID, worker ID, and completion time are required''), w)
      else
        let (r, w) = mg_outbox_UpdateOne s w (leased_by (cpr_ID request) (cpr_WorkerID request))
                       (set_delivered request)
        in case r of
             Inl err \<Rightarrow> (Some (StoreFailure ''complete outbox delivery'' err), w)
           | Inr updated \<Rightarrow> (if ur_MatchedCount updated = 0 then Some ErrConflict else None, w))"

definition set_rescheduled ::
  "NotificationStatus \<Rightarrow> RescheduleRequest \<Rightarrow> outboxDocument \<Rightarrow> outboxDocument" where
  "set_rescheduled status request d = d
     \<lparr>ob_Status := status, ob_LastFailure := rsr_Failure request,
      ob_UpdatedAt := bson_time (rsr_Now request),
      ob_ExpiresAt := map_option bson_time (rsr_ExpiresAt request),
      ob_NextAttemptAt := (if status = NotificationPending then bson_time (rsr_NextAttemptAt request)
                           else ob_NextAttemptAt d),
      ob_LeaseOwner := [], ob_LeaseUntil := None\<rparr>"

definition RescheduleDelivery ::
  "('w, 'any) mongo \<Rightarrow> 'w \<Rightarrow> RescheduleRequest \<Rightarrow> StoreError option \<times> 'w" where
  "RescheduleDelivery s w request =
     (if blank (rsr_ID request) \<or> blank (rsr_WorkerID request) \<or> IsZero (rsr_Now request)
      then (Some (InvalidRequest ''delivery ID, worker ID, and current time are required''), w)
      else
        case (case rsr_Failure request of
                FailureRetryable \<Rightarrow>
                  if rsr_NextAttemptAt request < rsr_Now request
                  then Inl (InvalidRequest ''next attempt time cannot be before current time'')
                  else Inr NotificationPending
              | FailurePermanent \<Rightarrow> Inr NotificationFailed
              | FailureOther _ \<Rightarrow> Inl (InvalidRequest ''unknown failure class'')) of
          Inl err \<Rightarrow> (Some err, w)
        | Inr status \<Rightarrow>
            let (r, w) = mg_outbox_UpdateOne s w (leased_by (rsr_ID request) (rsr_WorkerID request))
                           (set_rescheduled status request)
            in case r of
                 Inl err \<Rightarrow> (Some (StoreFailure ''reschedule outbox delivery'' err), w)
               | Inr updated \<Rightarrow> (if ur_MatchedCount updated = 0 then Some ErrConflict else None, w))"

end
