(* ===== verification/Mongo_Server.thy ===== *)
theory Mongo_Server
  imports Mongo_Store "HOL-Library.AList"
begin

text \<open>
  The locale \<open>mongo_server\<close> states what the MongoDB documentation says of the driver operations
  that the store uses: a read finds a document that matches or says that there is none; an update
  of one document is atomic and reports whether a document matched; an operation that fails may or
  may not have been carried out; a unique index admits no second document with its key; a
  transaction commits all of its callback's writes or none. The store's guarantees are proved from
  these laws. An in-memory server, with the same operations over association lists, satisfies
  them.
\<close>

section \<open>What the store relies on of MongoDB\<close>

text \<open>
  The collections as partial functions from the \<open>_id\<close> of a document. The predicates relate the
  contents \<open>c\<close> before an operation, its result and the contents \<open>c'\<close> after it.
\<close>

record 'any DB =
  db_incidents :: "string \<rightharpoonup> incidentDocument"
  db_snapshots :: "string \<rightharpoonup> snapshotDocument"
  db_evaluations :: "string \<rightharpoonup> 'any evaluationDocument"
  db_outbox :: "string \<rightharpoonup> outboxDocument"

definition finds :: "(string \<rightharpoonup> 'd) \<Rightarrow> ('d \<Rightarrow> bool) \<Rightarrow> mongo_error + 'd \<Rightarrow> bool" where
  "finds c P r \<longleftrightarrow>
     (case r of
        Inr d \<Rightarrow> d \<in> ran c \<and> P d
      | Inl err \<Rightarrow> err = ErrNoDocuments \<longrightarrow> (\<forall>d \<in> ran c. \<not> P d))"

definition updated_one ::
  "(string \<rightharpoonup> 'd) \<Rightarrow> ('d \<Rightarrow> bool) \<Rightarrow> ('d \<Rightarrow> 'd) \<Rightarrow> (string \<rightharpoonup> 'd) \<Rightarrow> bool" where
  "updated_one c P f c' \<longleftrightarrow> (\<exists>i d. c i = Some d \<and> P d \<and> c' = c(i \<mapsto> f d))"

definition updates ::
  "(string \<rightharpoonup> 'd) \<Rightarrow> ('d \<Rightarrow> bool) \<Rightarrow> ('d \<Rightarrow> 'd) \<Rightarrow> mongo_error + UpdateResult \<Rightarrow>
   (string \<rightharpoonup> 'd) \<Rightarrow> bool" where
  "updates c P f r c' \<longleftrightarrow>
     (case r of
        Inr u \<Rightarrow>
          if ur_MatchedCount u = 0 then (\<forall>d \<in> ran c. \<not> P d) \<and> c' = c
          else ur_MatchedCount u = 1 \<and> updated_one c P f c'
      | Inl _ \<Rightarrow> c' = c \<or> updated_one c P f c')"

definition updated_first ::
  "(string \<rightharpoonup> 'd) \<Rightarrow> ('d \<Rightarrow> bool) \<Rightarrow> ('d \<Rightarrow> 'd) \<Rightarrow> ('d \<Rightarrow> 'k :: linorder) \<Rightarrow> 'd \<Rightarrow>
   (string \<rightharpoonup> 'd) \<Rightarrow> bool" where
  "updated_first c P f key d' c' \<longleftrightarrow>
     (\<exists>i d. c i = Some d \<and> P d \<and> (\<forall>e \<in> ran c. P e \<longrightarrow> key d \<le> key e) \<and> d' = f d \<and> c' = c(i \<mapsto> f d))"

definition updates_first ::
  "(string \<rightharpoonup> 'd) \<Rightarrow> ('d \<Rightarrow> bool) \<Rightarrow> ('d \<Rightarrow> 'd) \<Rightarrow> ('d \<Rightarrow> 'k :: linorder) \<Rightarrow> mongo_error + 'd \<Rightarrow>
   (string \<rightharpoonup> 'd) \<Rightarrow> bool" where
  "updates_first c P f key r c' \<longleftrightarrow>
     (case r of
        Inr d' \<Rightarrow> updated_first c P f key d' c'
      | Inl err \<Rightarrow>
          if err = ErrNoDocuments then (\<forall>d \<in> ran c. \<not> P d) \<and> c' = c
          else c' = c \<or> (\<exists>d'. updated_first c P f key d' c'))"

definition inserted_new ::
  "(string \<rightharpoonup> 'd) \<Rightarrow> ('d \<Rightarrow> bool) \<Rightarrow> string \<Rightarrow> 'd \<Rightarrow> (string \<rightharpoonup> 'd) \<Rightarrow> bool" where
  "inserted_new c P i d c' \<longleftrightarrow> (\<forall>e \<in> ran c. \<not> P e) \<and> c i = None \<and> c' = c(i \<mapsto> d)"

definition upserts ::
  "(string \<rightharpoonup> 'd) \<Rightarrow> ('d \<Rightarrow> bool) \<Rightarrow> string \<Rightarrow> 'd \<Rightarrow> mongo_error + UpdateResult \<Rightarrow> (string \<rightharpoonup> 'd) \<Rightarrow> bool" where
  "upserts c P i d r c' \<longleftrightarrow>
     (case r of
        Inr u \<Rightarrow>
          if ur_UpsertedCount u = 1 then inserted_new c P i d c'
          else ur_UpsertedCount u = 0 \<and> (\<exists>e \<in> ran c. P e) \<and> c' = c
      | Inl err \<Rightarrow> c' = c \<or> (err \<noteq> DuplicateKey \<and> inserted_new c P i d c'))"

definition finds_or_inserts ::
  "(string \<rightharpoonup> 'd) \<Rightarrow> ('d \<Rightarrow> bool) \<Rightarrow> string \<Rightarrow> 'd \<Rightarrow> mongo_error + 'd \<Rightarrow> (string \<rightharpoonup> 'd) \<Rightarrow> bool" where
  "finds_or_inserts c P i d r c' \<longleftrightarrow>
     (case r of
        Inr e \<Rightarrow> (e \<in> ran c \<and> P e \<and> c' = c) \<or> (e = d \<and> inserted_new c P i d c')
      | Inl err \<Rightarrow> c' = c \<or> (err \<noteq> DuplicateKey \<and> inserted_new c P i d c'))"

definition inserts_all ::
  "(string \<rightharpoonup> 'd) \<Rightarrow> ('d \<Rightarrow> string) \<Rightarrow> ('d \<Rightarrow> 'k) \<Rightarrow> 'd list \<Rightarrow> (string \<rightharpoonup> 'd) \<Rightarrow> bool" where
  "inserts_all c key unique ds c' \<longleftrightarrow>
     distinct (map key ds) \<and> distinct (map unique ds)
     \<and> (\<forall>d \<in> set ds. c (key d) = None \<and> unique d \<notin> unique ` ran c)
     \<and> c' = c ++ map_of (map (\<lambda>d. (key d, d)) ds)"

definition outbox_unique :: "outboxDocument \<Rightarrow> string \<times> string \<times> string" where
  "outbox_unique d = (ob_EvaluationID d, ob_DestinationID d, ob_EventType d)"

definition evaluation_unique :: "'any evaluationDocument \<Rightarrow> string \<times> string \<times> string \<times> string \<times> string" where
  "evaluation_unique d =
     (evd_IncidentID d, evd_SnapshotHash d, evd_PolicyVersion d, evd_RubricVersion d,
      evd_ProviderConfigHash d)"

locale mongo_server =
  fixes m :: "('w, 'any) mongo"
    and view :: "'w \<Rightarrow> 'any DB"
  assumes new_object_id: "mg_NewObjectID m w = (i, w') \<Longrightarrow> view w' = view w"
    and incidents_find_one: "mg_incidents_FindOne m w P = (r, w') \<Longrightarrow>
      view w' = view w \<and> finds (db_incidents (view w)) P r"
    and incidents_find: "mg_incidents_Find m w P = (rs, w') \<Longrightarrow>
      view w' = view w \<and> (case rs of Inl _ \<Rightarrow> True | Inr ds \<Rightarrow> set ds = {d \<in> ran (db_incidents (view w)). P d})"
    and incidents_key: "db_incidents (view w) i = Some d \<Longrightarrow> id_ID d = i"
    and outbox_key: "db_outbox (view w) i = Some b \<Longrightarrow> ob_ID b = i"
    and incidents_update: "mg_incidents_UpdateOne m w P f = (u, w') \<Longrightarrow> (\<And>d. id_ID (f d) = id_ID d) \<Longrightarrow>
      \<exists>c. updates (db_incidents (view w)) P f u c \<and> view w' = (view w)\<lparr>db_incidents := c\<rparr>"
    and incidents_upsert: "mg_incidents_Upsert m w P d = (u, w') \<Longrightarrow>
      \<exists>c. upserts (db_incidents (view w)) P (id_ID d) d u c \<and> view w' = (view w)\<lparr>db_incidents := c\<rparr>"
    and snapshots_find_one: "mg_snapshots_FindOne m w Q = (q, w') \<Longrightarrow>
      view w' = view w \<and> finds (db_snapshots (view w)) Q q"
    and snapshots_upsert: "mg_snapshots_FindOneAndUpsert m w Q e = (q, w') \<Longrightarrow>
      \<exists>c. finds_or_inserts (db_snapshots (view w)) Q (snd_ID e) e q c
        \<and> view w' = (view w)\<lparr>db_snapshots := c\<rparr>"
    and evaluations_find_one: "mg_evaluations_FindOne m w E = (x, w') \<Longrightarrow>
      view w' = view w \<and> finds (db_evaluations (view w)) E x"
    and evaluations_insert: "mg_evaluations_InsertOne m w v = (err, w') \<Longrightarrow>
      \<exists>c. (inserts_all (db_evaluations (view w)) evd_ID evaluation_unique [v] c
           \<or> (err \<noteq> None \<and> c = db_evaluations (view w)))
        \<and> view w' = (view w)\<lparr>db_evaluations := c\<rparr>"
    and outbox_claim: "mg_outbox_FindOneAndUpdate m w B g key = (y, w') \<Longrightarrow> (\<And>d. ob_ID (g d) = ob_ID d) \<Longrightarrow>
      \<exists>c. updates_first (db_outbox (view w)) B g key y c \<and> view w' = (view w)\<lparr>db_outbox := c\<rparr>"
    and outbox_update: "mg_outbox_UpdateOne m w B g = (u, w') \<Longrightarrow> (\<And>d. ob_ID (g d) = ob_ID d) \<Longrightarrow>
      \<exists>c. updates (db_outbox (view w)) B g u c \<and> view w' = (view w)\<lparr>db_outbox := c\<rparr>"
    and outbox_insert: "mg_outbox_InsertMany m w ds = (err, w') \<Longrightarrow>
      \<exists>c. (inserts_all (db_outbox (view w)) ob_ID outbox_unique ds c
           \<or> (err \<noteq> None \<and> (\<exists>n. inserts_all (db_outbox (view w)) ob_ID outbox_unique (take n ds) c)))
        \<and> view w' = (view w)\<lparr>db_outbox := c\<rparr>"
    and start_session: "mg_StartSession m w = (err, w') \<Longrightarrow> view w' = view w"
    and transaction: "mg_WithTransaction m w callback = (res, w') \<Longrightarrow>
      (res \<noteq> None \<and> view w' = view w)
      \<or> (\<exists>u u'. view u = view w \<and> callback u = (None, u') \<and> view w' = view u')"

section \<open>Committing an evaluation\<close>

text \<open>The effect of a commit that is carried out.\<close>

definition committed :: "'any CommitRequest \<Rightarrow> 'any DB \<Rightarrow> 'any DB \<Rightarrow> bool" where
  "committed request db db' \<longleftrightarrow>
     (\<exists>d evaluations outbox.
        db_incidents db (inc_ID (cmr_Incident request)) = Some d
        \<and> id_Version d = cmr_ExpectedVersion request
        \<and> inserts_all (db_evaluations db) evd_ID evaluation_unique
            [bson_evaluation (evaluationToDocument (cmr_Evaluation request) (cmr_ExpiresAt request))]
            evaluations
        \<and> inserts_all (db_outbox db) ob_ID outbox_unique (outboxDocuments request) outbox
        \<and> db' = db
            \<lparr>db_incidents := (db_incidents db)(inc_ID (cmr_Incident request) \<mapsto>
               set_incident (cmr_Incident request) (cmr_ExpiresAt request) d),
             db_evaluations := evaluations, db_outbox := outbox\<rparr>)"

definition evaluated :: "'any CommitRequest \<Rightarrow> 'any DB \<Rightarrow> bool" where
  "evaluated request db \<longleftrightarrow> (\<exists>d \<in> ran (db_evaluations db). same_identity (cmr_Evaluation request) d)"

lemma update_keeps_id [simp]:
  "id_ID (set_incident incident x d) = id_ID d"
  "ob_ID (lease r b) = ob_ID b" "ob_ID (set_delivered c b) = ob_ID b"
  "ob_ID (set_rescheduled st q b) = ob_ID b"
  by (simp_all add: set_incident_def lease_def set_delivered_def set_rescheduled_def)

lemma inserts_all_Nil [simp]: "inserts_all c key unique [] c' \<longleftrightarrow> c' = c"
  by (simp add: inserts_all_def)

lemma outboxDocuments_Nil [simp]: "cmr_Deliveries request = [] \<Longrightarrow> outboxDocuments request = []"
  by (simp add: outboxDocuments_def)

context mongo_server
begin

lemma updateIncident_effect:
  assumes "updateIncident m w incident v x = (r, w')"
  shows "(r \<noteq> None \<and> view w' = view w)
    \<or> (\<exists>d. db_incidents (view w) (inc_ID incident) = Some d \<and> id_Version d = v
        \<and> view w' = (view w)\<lparr>db_incidents :=
            (db_incidents (view w))(inc_ID incident \<mapsto> set_incident incident x d)\<rparr>)"
proof -
  let ?P = "\<lambda>d. id_ID d = inc_ID incident \<and> id_Version d = v" and ?f = "set_incident incident x"
  obtain u w1 where u: "mg_incidents_UpdateOne m w ?P ?f = (u, w1)" by fastforce
  obtain c where c: "updates (db_incidents (view w)) ?P ?f u c"
    "view w1 = (view w)\<lparr>db_incidents := c\<rparr>"
    using incidents_update [OF u] by auto
  have w': "w' = w1" using assms u by (auto simp: updateIncident_def split: sum.splits)
  have one: "\<exists>d. db_incidents (view w) (inc_ID incident) = Some d \<and> id_Version d = v
      \<and> c = (db_incidents (view w))(inc_ID incident \<mapsto> ?f d)"
    if "updated_one (db_incidents (view w)) ?P ?f c"
    using that incidents_key by (auto simp: updated_one_def)
  have "(r \<noteq> None \<and> c = db_incidents (view w)) \<or> updated_one (db_incidents (view w)) ?P ?f c"
    using assms u c(1) by (auto simp: updateIncident_def updates_def split: sum.splits if_splits)
  then show ?thesis
  proof
    assume "r \<noteq> None \<and> c = db_incidents (view w)"
    then show ?thesis by (simp add: w' c(2))
  next
    assume "updated_one (db_incidents (view w)) ?P ?f c"
    from one [OF this] show ?thesis by (auto simp: w' c(2))
  qed
qed

lemma commitCallback_effect:
  assumes "commitCallback m request u = (None, u')"
  shows "(evaluated request (view u) \<and> view u' = view u)
    \<or> (\<not> evaluated request (view u) \<and> committed request (view u) (view u'))"
proof -
  let ?v = "bson_evaluation (evaluationToDocument (cmr_Evaluation request) (cmr_ExpiresAt request))"
  obtain x w1 where x: "mg_evaluations_FindOne m u (same_identity (cmr_Evaluation request)) = (x, w1)"
    by fastforce
  have w1: "view w1 = view u" "finds (db_evaluations (view u)) (same_identity (cmr_Evaluation request)) x"
    using evaluations_find_one [OF x] by auto
  show ?thesis
  proof (cases x)
    case (Inr d)
    then show ?thesis
      using assms x w1 by (auto simp: commitCallback_def finds_def evaluated_def)
  next
    case (Inl err)
    obtain r w2 where r: "updateIncident m w1 (cmr_Incident request) (cmr_ExpectedVersion request)
        (cmr_ExpiresAt request) = (r, w2)" by fastforce
    obtain e w3 where e: "mg_evaluations_InsertOne m w2 ?v = (e, w3)" by fastforce
    obtain q w4 where q: "mg_outbox_InsertMany m w3 (outboxDocuments request) = (q, w4)" by fastforce
    have run: "err = ErrNoDocuments" "r = None" "e = None"
      "cmr_Deliveries request = [] \<and> u' = w3 \<or> q = None \<and> u' = w4"
      using assms x Inl r e q
      by (auto simp: commitCallback_def split: mongo_error.splits option.splits if_splits)
    have none: "\<not> evaluated request (view u)"
      using w1(2) Inl run(1) by (simp add: finds_def evaluated_def)
    obtain d where d: "db_incidents (view u) (inc_ID (cmr_Incident request)) = Some d"
      "id_Version d = cmr_ExpectedVersion request"
      "view w2 = (view u)\<lparr>db_incidents := (db_incidents (view u))(inc_ID (cmr_Incident request) \<mapsto>
         set_incident (cmr_Incident request) (cmr_ExpiresAt request) d)\<rparr>"
      using updateIncident_effect [OF r] run(2) w1(1) by auto
    obtain c where c: "inserts_all (db_evaluations (view u)) evd_ID evaluation_unique [?v] c"
      "view w3 = (view w2)\<lparr>db_evaluations := c\<rparr>"
      using evaluations_insert [OF e] run(3) d(3) by auto
    obtain b where b: "inserts_all (db_outbox (view u)) ob_ID outbox_unique (outboxDocuments request) b"
      "view u' = (view w3)\<lparr>db_outbox := b\<rparr>"
    proof (cases "cmr_Deliveries request = [] \<and> u' = w3")
      case True
      then show ?thesis using that [of "db_outbox (view u)"] c(2) d(3) by simp
    next
      case False
      with run(4) have "q = None" "u' = w4" by auto
      then show ?thesis using outbox_insert [OF q] that c(2) d(3) by auto
    qed
    have "committed request (view u) (view u')"
      unfolding committed_def using b c d by auto
    with none show ?thesis by blast
  qed
qed

lemma Commit_effect:
  assumes "Commit m w request = (r, w')"
  shows "view w' = view w \<and> (r = None \<longrightarrow> evaluated request (view w))
    \<or> (\<not> evaluated request (view w) \<and> committed request (view w) (view w'))"
proof (cases "validateCommit request")
  case (Some err)
  then show ?thesis using assms by (auto simp: Commit_def)
next
  case None
  obtain st w1 where st: "mg_StartSession m w = (st, w1)" by fastforce
  have w1: "view w1 = view w" using start_session [OF st] .
  obtain res w2 where res: "mg_WithTransaction m w1 (commitCallback m request) = (res, w2)" by fastforce
  show ?thesis
  proof (cases st)
    case (Some err)
    then show ?thesis using assms None st w1 by (auto simp: Commit_def)
  next
    case st_None: None
    then have r: "r = map_option CommitFailure res" "w' = w2"
      using assms None st res by (auto simp: Commit_def)
    from transaction [OF res] consider "res \<noteq> None" "view w2 = view w1"
      | u u' where "view u = view w1" "commitCallback m request u = (None, u')" "view w2 = view u'"
      by blast
    then show ?thesis
    proof cases
      case 1
      then show ?thesis using r w1 by auto
    next
      case 2
      then show ?thesis using commitCallback_effect [OF 2(2)] r w1 by auto
    qed
  qed
qed

end

section \<open>The other operations on incidents and snapshots\<close>

context mongo_server
begin

lemma GetIncident_effect:
  assumes "GetIncident m w cluster key = (r, w')"
  shows "view w' = view w
    \<and> (case r of
         Inr incident \<Rightarrow> \<exists>d \<in> ran (db_incidents (view w)).
           incident_filter cluster key d \<and> incident = incidentFromDocument d
       | Inl err \<Rightarrow> err = ErrNotFound \<longrightarrow> (\<forall>d \<in> ran (db_incidents (view w)). \<not> incident_filter cluster key d))"
proof (cases "blank cluster \<or> blank key")
  case True
  then show ?thesis using assms by (auto simp: GetIncident_def)
next
  case False
  obtain f w1 where f: "mg_incidents_FindOne m w (incident_filter cluster key) = (f, w1)" by fastforce
  show ?thesis
    using incidents_find_one [OF f] assms f False
    by (auto simp: GetIncident_def finds_def split: sum.splits mongo_error.splits)
qed

lemma ListOpenIncidents_effect:
  assumes "ListOpenIncidents m w = (r, w')"
  shows "view w' = view w
    \<and> (\<forall>incidents. r = Inr incidents \<longrightarrow>
         set incidents = incidentFromDocument ` {d \<in> ran (db_incidents (view w)). id_Status d = IncidentOpen})"
proof -
  obtain f w1 where f: "mg_incidents_Find m w (\<lambda>d. id_Status d = IncidentOpen) = (f, w1)" by fastforce
  show ?thesis
    using incidents_find [OF f] assms f
    by (auto simp: ListOpenIncidents_def split: sum.splits)
qed

text \<open>An upsert leaves the incidents alone or adds the given one where none has its key.\<close>

lemma UpsertIncident_effect:
  assumes "UpsertIncident m w incident x = (r, w')"
  shows "view w' = view w
    \<or> (\<exists>c. inserted_new (db_incidents (view w))
          (incident_filter (inc_ClusterID incident) (inc_Key incident)) (inc_ID incident)
          (bson_incident (incidentToDocument incident x)) c
        \<and> view w' = (view w)\<lparr>db_incidents := c\<rparr>)"
proof (cases "validateIncident incident")
  case (Some err)
  then show ?thesis using assms by (simp add: UpsertIncident_def)
next
  case None
  let ?P = "incident_filter (inc_ClusterID incident) (inc_Key incident)"
    and ?d = "bson_incident (incidentToDocument incident x)"
  have key: "id_ID ?d = inc_ID incident" by (simp add: bson_incident_def incidentToDocument_def)
  obtain u w1 where u: "mg_incidents_Upsert m w ?P ?d = (u, w1)" by fastforce
  obtain c where c: "upserts (db_incidents (view w)) ?P (inc_ID incident) ?d u c"
    "view w1 = (view w)\<lparr>db_incidents := c\<rparr>"
    using incidents_upsert [OF u] key by auto
  obtain v w2 where v: "(if u = Inl DuplicateKey then mg_incidents_UpdateOne m w1 ?P (\<lambda>d. d) else (u, w1)) = (v, w2)"
    by fastforce
  have w2: "view w2 = view w1"
  proof (cases "u = Inl DuplicateKey")
    case True
    then have "mg_incidents_UpdateOne m w1 ?P (\<lambda>d. d) = (v, w2)" using v by simp
    from incidents_update [OF this] obtain c' where
      "updates (db_incidents (view w1)) ?P (\<lambda>d. d) v c'" "view w2 = (view w1)\<lparr>db_incidents := c'\<rparr>"
      by auto
    then show ?thesis
      by (auto simp: updates_def updated_one_def fun_upd_idem split: sum.splits if_splits)
  qed (use v in simp)
  obtain f w3 where f: "mg_incidents_FindOne m w2 ?P = (f, w3)" by fastforce
  have w3: "view w3 = view w2" using incidents_find_one [OF f] by simp
  have "w' = w2 \<or> w' = w3"
    using assms None u v f unfolding UpsertIncident_def Let_def
    by (auto split: sum.splits)
  then have "view w' = view w1" using w2 w3 by auto
  moreover have "c = db_incidents (view w)
      \<or> inserted_new (db_incidents (view w)) ?P (inc_ID incident) ?d c"
    using c(1) by (auto simp: upserts_def split: sum.splits if_splits)
  ultimately show ?thesis using c(2) by auto
qed

lemma UpsertSnapshot_effect:
  assumes "UpsertSnapshot m w incidentID snapshot x = (r, w')"
  shows "\<exists>c. view w' = (view w)\<lparr>db_snapshots := c\<rparr> \<and> db_snapshots (view w) \<subseteq>\<^sub>m c"
proof (cases "blank incidentID \<or> blank (sn_ContentHash snapshot)")
  case True
  then show ?thesis using assms by (auto simp: UpsertSnapshot_def intro!: exI [of _ "db_snapshots (view w)"])
next
  case False
  let ?P = "snapshot_filter incidentID (sn_ContentHash snapshot)"
  obtain o1 w1 where o1: "mg_NewObjectID m w = (o1, w1)" by fastforce
  define d where "d = bson_snapshot ((snapshotToDocument incidentID snapshot x)\<lparr>snd_ID := o1\<rparr>)"
  obtain q w2 where q: "mg_snapshots_FindOneAndUpsert m w1 ?P d = (q, w2)" by fastforce
  obtain p w3 where p: "(if q = Inl DuplicateKey then mg_snapshots_FindOne m w2 ?P else (q, w2)) = (p, w3)"
    by fastforce
  have "view w1 = view w" by (rule new_object_id [OF o1])
  moreover obtain c where c: "finds_or_inserts (db_snapshots (view w1)) ?P (snd_ID d) d q c"
    "view w2 = (view w1)\<lparr>db_snapshots := c\<rparr>"
    using snapshots_upsert [OF q] by blast
  moreover have "view w3 = view w2"
    using p snapshots_find_one [of w2 ?P p w3] by (auto split: if_splits)
  moreover have "w' = w3"
    using assms False o1 q p unfolding UpsertSnapshot_def Let_def d_def by (auto split: sum.splits)
  moreover have "db_snapshots (view w1) \<subseteq>\<^sub>m c"
    using c(1) by (auto simp: finds_or_inserts_def inserted_new_def map_le_def split: sum.splits)
  ultimately show ?thesis by auto
qed

lemma UpdateIncident_effect:
  assumes "UpdateIncident m w incident v x = (r, w')"
  shows "view w' = view w
    \<or> (\<exists>d. db_incidents (view w) (inc_ID incident) = Some d \<and> id_Version d = v
        \<and> view w' = (view w)\<lparr>db_incidents :=
            (db_incidents (view w))(inc_ID incident \<mapsto> set_incident incident x d)\<rparr>)"
  using assms updateIncident_effect [of w incident v x r w']
  by (auto simp: UpdateIncident_def split: option.splits)

end

section \<open>An in-memory server\<close>

text \<open>
  The collections as lists of documents, of which the first with an \<open>_id\<close> counts. The server
  carries out every operation, enforces the unique indexes and rolls back a transaction whose
  callback fails.
\<close>

record 'any mem =
  mem_incidents :: "incidentDocument list"
  mem_snapshots :: "snapshotDocument list"
  mem_evaluations :: "'any evaluationDocument list"
  mem_outbox :: "outboxDocument list"
  mem_next :: nat

definition by_id :: "('d \<Rightarrow> string) \<Rightarrow> 'd list \<Rightarrow> string \<rightharpoonup> 'd" where
  "by_id key ds = map_of (map (\<lambda>d. (key d, d)) ds)"

definition live :: "('d \<Rightarrow> string) \<Rightarrow> 'd list \<Rightarrow> 'd list" where
  "live key ds = map snd (AList.clearjunk (map (\<lambda>d. (key d, d)) ds))"

definition mem_view :: "'any mem \<Rightarrow> 'any DB" where
  "mem_view w =
     \<lparr>db_incidents = by_id id_ID (mem_incidents w), db_snapshots = by_id snd_ID (mem_snapshots w),
      db_evaluations = by_id evd_ID (mem_evaluations w), db_outbox = by_id ob_ID (mem_outbox w)\<rparr>"

definition mem_find :: "('d \<Rightarrow> string) \<Rightarrow> 'd list \<Rightarrow> ('d \<Rightarrow> bool) \<Rightarrow> mongo_error + 'd" where
  "mem_find key ds P = (case find P (live key ds) of None \<Rightarrow> Inl ErrNoDocuments | Some d \<Rightarrow> Inr d)"

definition mem_update ::
  "('d \<Rightarrow> string) \<Rightarrow> 'd list \<Rightarrow> ('d \<Rightarrow> bool) \<Rightarrow> ('d \<Rightarrow> 'd) \<Rightarrow> UpdateResult \<times> 'd list" where
  "mem_update key ds P f =
     (case find P (live key ds) of
        None \<Rightarrow> (\<lparr>ur_MatchedCount = 0, ur_UpsertedCount = 0\<rparr>, ds)
      | Some d \<Rightarrow> (\<lparr>ur_MatchedCount = 1, ur_UpsertedCount = 0\<rparr>, f d # ds))"

definition mem_update_first ::
  "('d \<Rightarrow> string) \<Rightarrow> 'd list \<Rightarrow> ('d \<Rightarrow> bool) \<Rightarrow> ('d \<Rightarrow> 'd) \<Rightarrow> ('d \<Rightarrow> 'k :: linorder) \<Rightarrow>
   (mongo_error + 'd) \<times> 'd list" where
  "mem_update_first key ds P f rank =
     (case sort_key rank (filter P (live key ds)) of
        [] \<Rightarrow> (Inl ErrNoDocuments, ds)
      | d # _ \<Rightarrow> (Inr (f d), f d # ds))"

definition mem_insert_all ::
  "('d \<Rightarrow> string) \<Rightarrow> ('d \<Rightarrow> 'k) \<Rightarrow> 'd list \<Rightarrow> 'd list \<Rightarrow> mongo_error option \<times> 'd list" where
  "mem_insert_all key unique ds new =
     (if distinct (map key new) \<and> distinct (map unique new)
         \<and> (\<forall>d \<in> set new. \<forall>e \<in> set (live key ds). key d \<noteq> key e \<and> unique d \<noteq> unique e)
      then (None, new @ ds) else (Some DuplicateKey, ds))"

definition mem_mongo :: "('any mem, 'any) mongo" where
  "mem_mongo =
     \<lparr>mg_NewObjectID = (\<lambda>w. (Itoa (mem_next w), w\<lparr>mem_next := Suc (mem_next w)\<rparr>)),
      mg_incidents_FindOne = (\<lambda>w P. (mem_find id_ID (mem_incidents w) P, w)),
      mg_incidents_Find = (\<lambda>w P. (Inr (filter P (live id_ID (mem_incidents w))), w)),
      mg_incidents_UpdateOne = (\<lambda>w P f.
        let (r, ds) = mem_update id_ID (mem_incidents w) P f in (Inr r, w\<lparr>mem_incidents := ds\<rparr>)),
      mg_incidents_Upsert = (\<lambda>w P d.
        if find P (live id_ID (mem_incidents w)) \<noteq> None
        then (Inr \<lparr>ur_MatchedCount = 1, ur_UpsertedCount = 0\<rparr>, w)
        else if by_id id_ID (mem_incidents w) (id_ID d) \<noteq> None then (Inl DuplicateKey, w)
        else (Inr \<lparr>ur_MatchedCount = 0, ur_UpsertedCount = 1\<rparr>, w\<lparr>mem_incidents := d # mem_incidents w\<rparr>)),
      mg_snapshots_FindOne = (\<lambda>w P. (mem_find snd_ID (mem_snapshots w) P, w)),
      mg_snapshots_FindOneAndUpsert = (\<lambda>w P d.
        case find P (live snd_ID (mem_snapshots w)) of
          Some e \<Rightarrow> (Inr e, w)
        | None \<Rightarrow>
            if by_id snd_ID (mem_snapshots w) (snd_ID d) \<noteq> None then (Inl DuplicateKey, w)
            else (Inr d, w\<lparr>mem_snapshots := d # mem_snapshots w\<rparr>)),
      mg_evaluations_FindOne = (\<lambda>w P. (mem_find evd_ID (mem_evaluations w) P, w)),
      mg_evaluations_InsertOne = (\<lambda>w d.
        let (r, ds) = mem_insert_all evd_ID evaluation_unique (mem_evaluations w) [d]
        in (r, w\<lparr>mem_evaluations := ds\<rparr>)),
      mg_outbox_FindOneAndUpdate = (\<lambda>w P f rank.
        let (r, ds) = mem_update_first ob_ID (mem_outbox w) P f rank in (r, w\<lparr>mem_outbox := ds\<rparr>)),
      mg_outbox_UpdateOne = (\<lambda>w P f.
        let (r, ds) = mem_update ob_ID (mem_outbox w) P f in (Inr r, w\<lparr>mem_outbox := ds\<rparr>)),
      mg_outbox_InsertMany = (\<lambda>w new.
        let (r, ds) = mem_insert_all ob_ID outbox_unique (mem_outbox w) new in (r, w\<lparr>mem_outbox := ds\<rparr>)),
      mg_StartSession = (\<lambda>w. (None, w)),
      mg_WithTransaction = (\<lambda>w callback.
        case callback w of (None, w') \<Rightarrow> (None, w') | (Some err, _) \<Rightarrow> (Some err, w))\<rparr>"

lemma by_id_Cons: "by_id key (d # ds) = (by_id key ds)(key d \<mapsto> d)"
  by (simp add: by_id_def)

lemma by_id_append: "by_id key (new @ ds) = by_id key ds ++ by_id key new"
  by (simp add: by_id_def)

lemma by_id_key: "by_id key ds i = Some d \<Longrightarrow> key d = i"
  by (auto simp: by_id_def dest!: map_of_SomeD)

lemma set_live [simp]: "set (live key ds) = ran (by_id key ds)"
proof -
  let ?al = "map (\<lambda>d. (key d, d)) ds"
  have "ran (map_of (AList.clearjunk ?al)) = snd ` set (AList.clearjunk ?al)"
    by (rule ran_distinct) (rule AList.distinct_clearjunk)
  then show ?thesis by (simp add: live_def by_id_def map_of_clearjunk)
qed

lemma live_keyed: "d \<in> ran (by_id key ds) \<Longrightarrow> by_id key ds (key d) = Some d"
  using by_id_key by (fastforce simp: ran_def)

lemma mem_find_finds: "finds (by_id key ds) P (mem_find key ds P)"
  by (auto simp: finds_def mem_find_def find_Some_iff find_None_iff_ball split: option.splits
      dest!: nth_mem simp flip: set_live)

lemma find_live: "find P (live key ds) = Some d \<Longrightarrow> by_id key ds (key d) = Some d \<and> P d"
  by (auto dest!: find_Some_mem intro: live_keyed)

lemma mem_update_updates:
  assumes "mem_update key ds P f = (r, ds')" "\<And>d. key (f d) = key d"
  shows "updates (by_id key ds) P f (Inr r) (by_id key ds')"
proof (cases "find P (live key ds)")
  case None
  then have "\<forall>d \<in> ran (by_id key ds). \<not> P d" by (simp add: find_None_iff_ball)
  then show ?thesis using assms(1) None by (auto simp: mem_update_def updates_def)
next
  case (Some d)
  with find_live [OF Some] assms show ?thesis
    by (auto simp: mem_update_def updates_def updated_one_def by_id_Cons intro!: exI [of _ "key d"])
qed

lemma mem_update_first_updates:
  assumes "mem_update_first key ds P f rank = (r, ds')" "\<And>d. key (f d) = key d"
  shows "updates_first (by_id key ds) P f rank r (by_id key ds')"
proof (cases "sort_key rank (filter P (live key ds))")
  case Nil
  then have "filter P (live key ds) = []" by (metis length_0_conv length_sort)
  then have "\<forall>d \<in> ran (by_id key ds). \<not> P d" by (simp add: filter_empty_conv flip: set_live)
  then show ?thesis using assms(1) Nil by (auto simp: mem_update_first_def updates_first_def)
next
  case (Cons d rest)
  have "sorted (map rank (d # rest))" using Cons by (metis sorted_sort_key)
  then have min: "rank d \<le> rank e" if "e \<in> set (d # rest)" for e using that by auto
  have set: "set (d # rest) = {e \<in> ran (by_id key ds). P e}"
    using Cons by (metis set_filter set_live set_sort)
  then have "by_id key ds (key d) = Some d" "P d"
    using live_keyed [of d key ds] by auto
  moreover have "\<forall>e \<in> ran (by_id key ds). P e \<longrightarrow> rank d \<le> rank e"
    using min set by blast
  ultimately show ?thesis
    using assms Cons
    by (auto simp: mem_update_first_def updates_first_def updated_first_def by_id_Cons
        intro!: exI [of _ "key d"])
qed

lemma mem_insert_all_inserts:
  assumes "mem_insert_all key unique ds new = (r, ds')"
  shows "(r = None \<and> inserts_all (by_id key ds) key unique new (by_id key ds')) \<or> (r \<noteq> None \<and> ds' = ds)"
proof -
  have "by_id key ds (key d) = None"
    if "\<forall>e \<in> ran (by_id key ds). key d \<noteq> key e" for d
    using that by_id_key by (metis not_None_eq ranI)
  then show ?thesis
    using assms
    by (auto simp: mem_insert_all_def inserts_all_def by_id_append split: if_splits)
      (auto simp: by_id_def)
qed

interpretation mem: mongo_server mem_mongo mem_view
proof (unfold_locales, goal_cases)
  case (7 w P d u w')
  then show ?case
    by (auto simp: mem_mongo_def mem_view_def upserts_def inserted_new_def by_id_Cons find_None_iff_ball
        dest!: find_Some_mem split: if_splits)
next
  case (9 w Q e q w')
  then show ?case
    by (auto simp: mem_mongo_def mem_view_def finds_or_inserts_def inserted_new_def by_id_Cons
        find_None_iff_ball dest!: find_Some_mem split: if_splits option.splits)
next
  case (6 w P f u w')
  obtain r ds where r: "mem_update id_ID (mem_incidents w) P f = (r, ds)" by fastforce
  from 6 r mem_update_updates [OF r] show ?case
    by (auto simp: mem_mongo_def mem_view_def intro!: exI [of _ "by_id id_ID ds"])
next
  case (11 w v err w')
  obtain r ds where r: "mem_insert_all evd_ID evaluation_unique (mem_evaluations w) [v] = (r, ds)" by fastforce
  from 11 r mem_insert_all_inserts [OF r] show ?case
    by (auto simp: mem_mongo_def mem_view_def intro!: exI [of _ "by_id evd_ID ds"])
next
  case (12 w B g key y w')
  obtain r ds where r: "mem_update_first ob_ID (mem_outbox w) B g key = (r, ds)" by fastforce
  from 12 r mem_update_first_updates [OF r] show ?case
    by (auto simp: mem_mongo_def mem_view_def intro!: exI [of _ "by_id ob_ID ds"])
next
  case (13 w B g u w')
  obtain r ds where r: "mem_update ob_ID (mem_outbox w) B g = (r, ds)" by fastforce
  from 13 r mem_update_updates [OF r] show ?case
    by (auto simp: mem_mongo_def mem_view_def intro!: exI [of _ "by_id ob_ID ds"])
next
  case (14 w new err w')
  obtain r ds where r: "mem_insert_all ob_ID outbox_unique (mem_outbox w) new = (r, ds)" by fastforce
  from 14 r mem_insert_all_inserts [OF r] show ?case
    by (auto simp: mem_mongo_def mem_view_def intro!: exI [of _ "by_id ob_ID ds"] exI [of _ 0])
next
  case (16 w callback res w')
  then show ?case
    by (auto simp: mem_mongo_def split: prod.splits option.splits)
qed (auto simp: mem_mongo_def mem_view_def mem_find_finds by_id_key)

end
