(* ===== verification/Outbox.thy ===== *)
theory Outbox
  imports Mongo_Server
begin

text \<open>
  The outbox of \<^verbatim>\<open>internal/store/mongo/outbox.go\<close> as a state machine. \<open>outbox_step\<close> is what
  the outbox promises to its clients; every operation of the store, in every interleaving, refines
  it. From the machine follow the guarantees that the delivery of notifications rests on: a lease
  excludes other workers until it ends, a settled delivery stays as it is, and the attempts count
  the claims.
\<close>

section \<open>The outbox as a state machine\<close>

text \<open>
  The events of the abstract outbox. Whatever the store does, and however the operations of several
  workers interleave, the outbox takes a step of this relation or none.
\<close>

datatype outbox_event =
    Claimed ClaimRequest string
  | Completed CompleteRequest
  | Rescheduled RescheduleRequest
  | Queued "outboxDocument list"

definition earliest :: "(string \<rightharpoonup> outboxDocument) \<Rightarrow> gotime \<Rightarrow> outboxDocument \<Rightarrow> bool" where
  "earliest c now d \<longleftrightarrow>
     claimable now d
     \<and> (\<forall>e \<in> ran c. claimable now e \<longrightarrow> (ob_NextAttemptAt d, ob_ID d) \<le> (ob_NextAttemptAt e, ob_ID e))"

fun rescheduled_status :: "FailureClass \<Rightarrow> NotificationStatus option" where
  "rescheduled_status FailureRetryable = Some NotificationPending"
| "rescheduled_status FailurePermanent = Some NotificationFailed"
| "rescheduled_status (FailureOther _) = None"

inductive outbox_step ::
  "(string \<rightharpoonup> outboxDocument) \<Rightarrow> outbox_event \<Rightarrow> (string \<rightharpoonup> outboxDocument) \<Rightarrow> bool" where
  claim: "c i = Some d \<Longrightarrow> earliest c (clr_Now r) d \<Longrightarrow> outbox_step c (Claimed r i) (c(i \<mapsto> lease r d))"
| complete: "c (cpr_ID q) = Some d \<Longrightarrow> leased_by (cpr_ID q) (cpr_WorkerID q) d \<Longrightarrow>
    outbox_step c (Completed q) (c(cpr_ID q \<mapsto> set_delivered q d))"
| reschedule: "c (rsr_ID p) = Some d \<Longrightarrow> leased_by (rsr_ID p) (rsr_WorkerID p) d \<Longrightarrow>
    rescheduled_status (rsr_Failure p) = Some status \<Longrightarrow>
    outbox_step c (Rescheduled p) (c(rsr_ID p \<mapsto> set_rescheduled status p d))"
| queue: "inserts_all c ob_ID outbox_unique ds c' \<Longrightarrow> outbox_step c (Queued ds) c'"

inductive_cases claimE: "outbox_step c (Claimed r i) c'"
inductive_cases completeE: "outbox_step c (Completed q) c'"
inductive_cases rescheduleE: "outbox_step c (Rescheduled p) c'"
inductive_cases queueE: "outbox_step c (Queued ds) c'"

inductive outbox_run ::
  "(string \<rightharpoonup> outboxDocument) \<Rightarrow> outbox_event list \<Rightarrow> (string \<rightharpoonup> outboxDocument) \<Rightarrow> bool" where
  idle: "outbox_run c [] c"
| step: "outbox_step c e c' \<Longrightarrow> outbox_run c' es c'' \<Longrightarrow> outbox_run c (e # es) c''"

inductive_simps outbox_run_Nil [simp]: "outbox_run c [] c'"
inductive_simps outbox_run_Cons: "outbox_run c (e # es) c'"

lemma outbox_run_append: "outbox_run c es c' \<Longrightarrow> outbox_run c' fs c'' \<Longrightarrow> outbox_run c (es @ fs) c''"
  by (induction rule: outbox_run.induct) (auto intro: outbox_run.intros)

subsection \<open>What a step does to one delivery\<close>

text \<open>The event, if any, that touches the delivery \<open>i\<close>.\<close>

fun concerns :: "string \<Rightarrow> outbox_event \<Rightarrow> bool" where
  "concerns i (Claimed r j) \<longleftrightarrow> j = i"
| "concerns i (Completed q) \<longleftrightarrow> cpr_ID q = i"
| "concerns i (Rescheduled p) \<longleftrightarrow> rsr_ID p = i"
| "concerns i (Queued ds) \<longleftrightarrow> False"

lemma inserts_all_keeps: "inserts_all c key unique ds c' \<Longrightarrow> c i = Some d \<Longrightarrow> c' i = Some d"
  by (force simp: inserts_all_def map_add_Some_iff map_of_eq_None_iff split: option.splits)

lemma step_other: "outbox_step c e c' \<Longrightarrow> c i = Some d \<Longrightarrow> \<not> concerns i e \<Longrightarrow> c' i = Some d"
  by (induction rule: outbox_step.induct) (auto intro: inserts_all_keeps)

lemma step_claims: "outbox_step c (Claimed r i) c' \<Longrightarrow> c i = Some d \<Longrightarrow>
    claimable (clr_Now r) d \<and> c' i = Some (lease r d)"
  by (auto elim!: claimE simp: earliest_def)

lemma step_completes: "outbox_step c (Completed q) c' \<Longrightarrow> c (cpr_ID q) = Some d \<Longrightarrow>
    leased_by (cpr_ID q) (cpr_WorkerID q) d \<and> c' (cpr_ID q) = Some (set_delivered q d)"
  by (auto elim!: completeE)

lemma step_reschedules: "outbox_step c (Rescheduled p) c' \<Longrightarrow> c (rsr_ID p) = Some d \<Longrightarrow>
    leased_by (rsr_ID p) (rsr_WorkerID p) d
    \<and> (\<exists>status. rescheduled_status (rsr_Failure p) = Some status \<and> c' (rsr_ID p) = Some (set_rescheduled status p d))"
  by (auto elim!: rescheduleE)

lemmas step_effects = step_claims step_completes step_reschedules

text \<open>A delivery that is delivered or has failed for good is never touched again.\<close>

definition settled :: "outboxDocument \<Rightarrow> bool" where
  "settled d \<longleftrightarrow> ob_Status d \<in> {NotificationDelivered, NotificationFailed}"

lemma settled_untouched:
  assumes "outbox_step c e c'" "c i = Some d" "settled d"
  shows "c' i = Some d"
proof (rule step_other [OF assms(1,2)])
  show "\<not> concerns i e"
    using assms by (cases e) (auto dest!: step_effects simp: settled_def claimable_def leased_by_def)
qed

lemma run_settled: "outbox_run c es c' \<Longrightarrow> c i = Some d \<Longrightarrow> settled d \<Longrightarrow> c' i = Some d"
  by (induction rule: outbox_run.induct) (auto intro: settled_untouched)

text \<open>The claims of a delivery in a run.\<close>

definition claims :: "string \<Rightarrow> outbox_event list \<Rightarrow> nat" where
  "claims i es = length (filter (\<lambda>e. case e of Claimed _ j \<Rightarrow> j = i | _ \<Rightarrow> False) es)"

lemma step_attempts:
  assumes "outbox_step c e c'" "c i = Some d"
  shows "\<exists>d'. c' i = Some d' \<and> ob_Attempts d' = ob_Attempts d + int (claims i [e])"
proof (cases "concerns i e")
  case True
  then show ?thesis
    using assms
    by (cases e) (auto dest!: step_effects simp: claims_def lease_def set_delivered_def set_rescheduled_def)
next
  case False
  then show ?thesis
    using step_other [OF assms False] by (cases e) (auto simp: claims_def)
qed

lemma run_attempts:
  "outbox_run c es c' \<Longrightarrow> c i = Some d \<Longrightarrow>
   \<exists>d'. c' i = Some d' \<and> ob_Attempts d' = ob_Attempts d + int (claims i es)"
proof (induction arbitrary: d rule: outbox_run.induct)
  case (idle c)
  then show ?case by (simp add: claims_def)
next
  case (step c e c' es c'')
  obtain d1 where d1: "c' i = Some d1" "ob_Attempts d1 = ob_Attempts d + int (claims i [e])"
    using step_attempts [OF step.hyps(1) step.prems] by blast
  have "claims i (e # es) = claims i [e] + claims i es" by (simp add: claims_def)
  then show ?case using step.IH [OF d1(1)] d1(2) by auto
qed

subsection \<open>Leases\<close>

text \<open>
  The events that respect a lease of the delivery \<open>i\<close> until \<open>lease_end\<close> by \<open>owner\<close>: claims are made
  earlier, and completions and reschedulings of it come from other workers.
\<close>

fun honours :: "string \<Rightarrow> string \<Rightarrow> gotime \<Rightarrow> outbox_event \<Rightarrow> bool" where
  "honours i owner lease_end (Claimed r j) \<longleftrightarrow> bson_time (clr_Now r) < lease_end"
| "honours i owner lease_end (Completed q) \<longleftrightarrow> (cpr_ID q = i \<longrightarrow> cpr_WorkerID q \<noteq> owner)"
| "honours i owner lease_end (Rescheduled p) \<longleftrightarrow> (rsr_ID p = i \<longrightarrow> rsr_WorkerID p \<noteq> owner)"
| "honours i owner lease_end (Queued ds) \<longleftrightarrow> True"

lemma step_leased:
  assumes "outbox_step c e c'" "c i = Some d" "leased_by i owner d" "ob_LeaseUntil d = Some lease_end"
    and "honours i owner lease_end e"
  shows "c' i = Some d"
proof (rule step_other [OF assms(1,2)])
  show "\<not> concerns i e"
    using assms by (cases e) (auto dest!: step_effects simp: claimable_def leased_by_def)
qed

lemma run_leased:
  "outbox_run c es c' \<Longrightarrow> c i = Some d \<Longrightarrow> leased_by i owner d \<Longrightarrow> ob_LeaseUntil d = Some lease_end \<Longrightarrow>
   \<forall>e \<in> set es. honours i owner lease_end e \<Longrightarrow> c' i = Some d"
  by (induction rule: outbox_run.induct) (auto dest: step_leased)

section \<open>The operations of the store\<close>

context mongo_server
begin

lemma ClaimDelivery_Inr:
  assumes "ClaimDelivery m w r = (Inr dl, w')"
  shows "\<exists>d. db_outbox (view w) (ntf_ID dl) = Some d \<and> earliest (db_outbox (view w)) (clr_Now r) d
    \<and> dl = deliveryFromDocument (lease r d)
    \<and> view w' = (view w)\<lparr>db_outbox := (db_outbox (view w))(ntf_ID dl \<mapsto> lease r d)\<rparr>"
proof -
  let ?key = "\<lambda>d. (ob_NextAttemptAt d, ob_ID d)"
  obtain y w1 where y: "mg_outbox_FindOneAndUpdate m w (claimable (clr_Now r)) (lease r) ?key = (y, w1)"
    by fastforce
  obtain d' where d': "y = Inr d'" "w' = w1" "dl = deliveryFromDocument d'"
    using assms y by (auto simp: ClaimDelivery_def split: if_splits sum.splits mongo_error.splits)
  obtain c where c: "updates_first (db_outbox (view w)) (claimable (clr_Now r)) (lease r) ?key y c"
    "view w1 = (view w)\<lparr>db_outbox := c\<rparr>"
    using outbox_claim [OF y] by auto
  obtain i d where i: "db_outbox (view w) i = Some d" "claimable (clr_Now r) d"
    "\<forall>e \<in> ran (db_outbox (view w)). claimable (clr_Now r) e \<longrightarrow> ?key d \<le> ?key e"
    "d' = lease r d" "c = (db_outbox (view w))(i \<mapsto> lease r d)"
    using c(1) d'(1) by (auto simp: updates_first_def updated_first_def)
  have "ntf_ID dl = i"
    using d'(3) i(4) outbox_key [OF i(1)] by (simp add: deliveryFromDocument_def)
  then show ?thesis
    using i c(2) d'(2,3) by (auto simp: earliest_def)
qed

lemma ClaimDelivery_Inl:
  assumes "ClaimDelivery m w r = (Inl err, w')"
  shows "(view w' = view w \<or> (\<exists>i c. outbox_step (db_outbox (view w)) (Claimed r i) c
            \<and> view w' = (view w)\<lparr>db_outbox := c\<rparr>))
    \<and> (err = ErrNotFound \<longrightarrow> view w' = view w \<and> (\<forall>d \<in> ran (db_outbox (view w)). \<not> claimable (clr_Now r) d))"
proof (cases "blank (clr_WorkerID r) \<or> IsZero (clr_Now r) \<or> clr_LeaseDuration r \<le> 0")
  case True
  then show ?thesis using assms by (auto simp: ClaimDelivery_def)
next
  case False
  let ?key = "\<lambda>d. (ob_NextAttemptAt d, ob_ID d)"
  obtain y w1 where y: "mg_outbox_FindOneAndUpdate m w (claimable (clr_Now r)) (lease r) ?key = (y, w1)"
    by fastforce
  obtain c where c: "updates_first (db_outbox (view w)) (claimable (clr_Now r)) (lease r) ?key y c"
    "view w1 = (view w)\<lparr>db_outbox := c\<rparr>"
    using outbox_claim [OF y] by auto
  obtain e where e: "y = Inl e" "w' = w1" "err = ErrNotFound \<longleftrightarrow> e = ErrNoDocuments"
    using assms y False by (auto simp: ClaimDelivery_def split: sum.splits mongo_error.splits)
  have "outbox_step (db_outbox (view w)) (Claimed r i) c"
    if "db_outbox (view w) i = Some d" "claimable (clr_Now r) d" "c = (db_outbox (view w))(i \<mapsto> lease r d)"
      "\<forall>e \<in> ran (db_outbox (view w)). claimable (clr_Now r) e \<longrightarrow> ?key d \<le> ?key e" for i d
    using that outbox_step.claim [of "db_outbox (view w)" i d r] by (simp add: earliest_def)
  then show ?thesis
    using c e by (auto simp: updates_first_def updated_first_def split: if_splits)
qed

lemma CompleteDelivery_effect:
  assumes "CompleteDelivery m w q = (r, w')"
  shows "(r \<noteq> None \<and> view w' = view w)
    \<or> (\<exists>c. outbox_step (db_outbox (view w)) (Completed q) c \<and> view w' = (view w)\<lparr>db_outbox := c\<rparr>)"
proof (cases "blank (cpr_ID q) \<or> blank (cpr_WorkerID q) \<or> IsZero (cpr_CompletedAt q)")
  case True
  then show ?thesis using assms by (auto simp: CompleteDelivery_def)
next
  case False
  obtain u w1 where u: "mg_outbox_UpdateOne m w (leased_by (cpr_ID q) (cpr_WorkerID q)) (set_delivered q) = (u, w1)"
    by fastforce
  obtain c where c: "updates (db_outbox (view w)) (leased_by (cpr_ID q) (cpr_WorkerID q)) (set_delivered q) u c"
    "view w1 = (view w)\<lparr>db_outbox := c\<rparr>"
    using outbox_update [OF u] by auto
  have "outbox_step (db_outbox (view w)) (Completed q) c"
    if "updated_one (db_outbox (view w)) (leased_by (cpr_ID q) (cpr_WorkerID q)) (set_delivered q) c"
    using that outbox_key [of w] outbox_step.complete [of "db_outbox (view w)" q]
    by (auto simp: updated_one_def leased_by_def)
  then show ?thesis
    using assms False u c
    by (auto simp: CompleteDelivery_def updates_def split: sum.splits if_splits)
qed

lemma RescheduleDelivery_effect:
  assumes "RescheduleDelivery m w p = (r, w')"
  shows "(r \<noteq> None \<and> view w' = view w)
    \<or> (\<exists>c. outbox_step (db_outbox (view w)) (Rescheduled p) c \<and> view w' = (view w)\<lparr>db_outbox := c\<rparr>)"
proof -
  define S where "S = (case rsr_Failure p of
      FailureRetryable \<Rightarrow>
        if rsr_NextAttemptAt p < rsr_Now p
        then Inl (InvalidRequest ''next attempt time cannot be before current time'')
        else Inr NotificationPending
    | FailurePermanent \<Rightarrow> Inr NotificationFailed
    | FailureOther _ \<Rightarrow> Inl (InvalidRequest ''unknown failure class''))"
  have S: "S = Inr status \<Longrightarrow> rescheduled_status (rsr_Failure p) = Some status" for status
    by (auto simp: S_def split: FailureClass.splits if_splits)
  show ?thesis
  proof (cases "blank (rsr_ID p) \<or> blank (rsr_WorkerID p) \<or> IsZero (rsr_Now p) \<or> (\<exists>e. S = Inl e)")
    case True
    then show ?thesis
      using assms unfolding RescheduleDelivery_def S_def [symmetric] by (auto split: if_splits)
  next
    case False
    then obtain status where status: "S = Inr status" by (cases S) auto
    obtain u w1 where u: "mg_outbox_UpdateOne m w (leased_by (rsr_ID p) (rsr_WorkerID p))
        (set_rescheduled status p) = (u, w1)" by fastforce
    obtain c where c: "updates (db_outbox (view w)) (leased_by (rsr_ID p) (rsr_WorkerID p))
        (set_rescheduled status p) u c" "view w1 = (view w)\<lparr>db_outbox := c\<rparr>"
      using outbox_update [OF u] by auto
    have "outbox_step (db_outbox (view w)) (Rescheduled p) c"
      if "updated_one (db_outbox (view w)) (leased_by (rsr_ID p) (rsr_WorkerID p)) (set_rescheduled status p) c"
      using that outbox_key [of w] outbox_step.reschedule [of "db_outbox (view w)" p _ status] S [OF status]
      by (auto simp: updated_one_def leased_by_def)
    then show ?thesis
      using assms False u c unfolding RescheduleDelivery_def S_def [symmetric] status
      by (auto simp: updates_def split: sum.splits if_splits)
  qed
qed

lemma Commit_outbox:
  assumes "Commit m w request = (r, w')"
  shows "db_outbox (view w') = db_outbox (view w)
    \<or> outbox_step (db_outbox (view w)) (Queued (outboxDocuments request)) (db_outbox (view w'))"
  using Commit_effect [OF assms] by (auto simp: committed_def intro: outbox_step.queue)

end

end
