(* ===== verification/Store_Runs.thy ===== *)
theory Store_Runs
  imports Outbox
begin

text \<open>
  Sequences of calls of the \<^verbatim>\<open>Store\<close> interface (\<^verbatim>\<open>internal/store/store.go\<close>), in any order and
  from any number of workers: every call is atomic, so an interleaving of concurrent clients is such
  a sequence. The theorems hold for every server that satisfies \<open>mongo_server\<close>, with every failure
  that it allows.
\<close>

datatype 'any store_op =
    DoGetIncident string string
  | DoListOpenIncidents
  | DoUpsertSnapshot string Snapshot "gotime option"
  | DoUpsertIncident Incident "gotime option"
  | DoUpdateIncident Incident int "gotime option"
  | DoCommit "'any CommitRequest"
  | DoClaim ClaimRequest
  | DoComplete CompleteRequest
  | DoReschedule RescheduleRequest

fun perform :: "('w, 'any) mongo \<Rightarrow> 'w \<Rightarrow> 'any store_op \<Rightarrow> 'w" where
  "perform s w (DoGetIncident cluster key) = snd (GetIncident s w cluster key)"
| "perform s w DoListOpenIncidents = snd (ListOpenIncidents s w)"
| "perform s w (DoUpsertSnapshot i snapshot x) = snd (UpsertSnapshot s w i snapshot x)"
| "perform s w (DoUpsertIncident incident x) = snd (UpsertIncident s w incident x)"
| "perform s w (DoUpdateIncident incident v x) = snd (UpdateIncident s w incident v x)"
| "perform s w (DoCommit request) = snd (Commit s w request)"
| "perform s w (DoClaim r) = snd (ClaimDelivery s w r)"
| "perform s w (DoComplete q) = snd (CompleteDelivery s w q)"
| "perform s w (DoReschedule p) = snd (RescheduleDelivery s w p)"

definition perform_all :: "('w, 'any) mongo \<Rightarrow> 'w \<Rightarrow> 'any store_op list \<Rightarrow> 'w" where
  "perform_all s w ops = foldl (perform s) w ops"

lemma perform_all_simps [simp]:
  "perform_all s w [] = w" "perform_all s w (op # ops) = perform_all s (perform s w op) ops"
  by (simp_all add: perform_all_def)

section \<open>Refinement of the outbox machine\<close>

fun causes :: "'any store_op \<Rightarrow> outbox_event \<Rightarrow> bool" where
  "causes (DoClaim r) (Claimed r' i) \<longleftrightarrow> r' = r"
| "causes (DoComplete q) (Completed q') \<longleftrightarrow> q' = q"
| "causes (DoReschedule p) (Rescheduled p') \<longleftrightarrow> p' = p"
| "causes (DoCommit request) (Queued ds) \<longleftrightarrow> ds = outboxDocuments request"
| "causes _ _ \<longleftrightarrow> False"

text \<open>The events of a run: each call causes at most one, in the order of the calls.\<close>

fun explains :: "'any store_op list \<Rightarrow> outbox_event list \<Rightarrow> bool" where
  "explains [] es \<longleftrightarrow> es = []"
| "explains (op # ops) es \<longleftrightarrow>
     explains ops es \<or> (es \<noteq> [] \<and> causes op (hd es) \<and> explains ops (tl es))"

context mongo_server
begin

lemma perform_outbox:
  "db_outbox (view (perform m w op)) = db_outbox (view w)
   \<or> (\<exists>e. causes op e \<and> outbox_step (db_outbox (view w)) e (db_outbox (view (perform m w op))))"
proof (cases op)
  case (DoGetIncident c k)
  then show ?thesis using GetIncident_effect [OF surjective_pairing] by simp
next
  case DoListOpenIncidents
  then show ?thesis using ListOpenIncidents_effect [OF surjective_pairing] by simp
next
  case (DoUpsertSnapshot i s x)
  then show ?thesis using UpsertSnapshot_effect [OF surjective_pairing, of w i s x] by auto
next
  case (DoUpsertIncident i x)
  then show ?thesis using UpsertIncident_effect [OF surjective_pairing, of w i x] by auto
next
  case (DoUpdateIncident i v x)
  then show ?thesis using UpdateIncident_effect [OF surjective_pairing, of w i v x] by auto
next
  case (DoCommit r)
  then show ?thesis
    using Commit_outbox [OF surjective_pairing, of w r] causes.simps(4) by fastforce
next
  case (DoClaim r)
  obtain res w' where res: "ClaimDelivery m w r = (res, w')" by fastforce
  show ?thesis
  proof (cases res)
    case (Inl err)
    then show ?thesis
      using ClaimDelivery_Inl [of w r err w'] res DoClaim causes.simps(1) by fastforce
  next
    case (Inr dl)
    then obtain d where "db_outbox (view w) (ntf_ID dl) = Some d" "earliest (db_outbox (view w)) (clr_Now r) d"
      "view w' = (view w)\<lparr>db_outbox := (db_outbox (view w))(ntf_ID dl \<mapsto> lease r d)\<rparr>"
      using ClaimDelivery_Inr [of w r dl w'] res by blast
    then have "outbox_step (db_outbox (view w)) (Claimed r (ntf_ID dl)) (db_outbox (view w'))"
      using outbox_step.claim [of "db_outbox (view w)" "ntf_ID dl" d r] by simp
    then show ?thesis using res DoClaim causes.simps(1) by fastforce
  qed
next
  case (DoComplete q)
  then show ?thesis
    using CompleteDelivery_effect [OF surjective_pairing, of w q] causes.simps(2) by fastforce
next
  case (DoReschedule p)
  then show ?thesis
    using RescheduleDelivery_effect [OF surjective_pairing, of w p] causes.simps(3) by fastforce
qed

lemma perform_all_outbox:
  "\<exists>es. explains ops es \<and> outbox_run (db_outbox (view w)) es (db_outbox (view (perform_all m w ops)))"
proof (induction ops arbitrary: w)
  case (Cons op ops)
  obtain es where es: "explains ops es"
    "outbox_run (db_outbox (view (perform m w op))) es (db_outbox (view (perform_all m w (op # ops))))"
    using Cons.IH [of "perform m w op"] by auto
  from perform_outbox [of w op] show ?case
  proof
    assume "db_outbox (view (perform m w op)) = db_outbox (view w)"
    then show ?thesis using es by auto
  next
    assume "\<exists>e. causes op e \<and> outbox_step (db_outbox (view w)) e (db_outbox (view (perform m w op)))"
    then obtain e where e: "causes op e"
      "outbox_step (db_outbox (view w)) e (db_outbox (view (perform m w op)))" by blast
    have "outbox_run (db_outbox (view w)) (e # es) (db_outbox (view (perform_all m w (op # ops))))"
      using outbox_run.step [OF e(2) es(2)] .
    moreover have "explains (op # ops) (e # es)" using e(1) es(1) by simp
    ultimately show ?thesis by blast
  qed
qed auto

end


section \<open>Deliveries in every run\<close>

lemma explains_caused: "explains ops es \<Longrightarrow> e \<in> set es \<Longrightarrow> \<exists>op \<in> set ops. causes op e"
  by (induction ops arbitrary: es) (force simp: neq_Nil_conv)+

fun honoured_by :: "string \<Rightarrow> string \<Rightarrow> gotime \<Rightarrow> 'any store_op \<Rightarrow> bool" where
  "honoured_by i owner lease_end (DoClaim r) \<longleftrightarrow> bson_time (clr_Now r) < lease_end"
| "honoured_by i owner lease_end (DoComplete q) \<longleftrightarrow> (cpr_ID q = i \<longrightarrow> cpr_WorkerID q \<noteq> owner)"
| "honoured_by i owner lease_end (DoReschedule p) \<longleftrightarrow> (rsr_ID p = i \<longrightarrow> rsr_WorkerID p \<noteq> owner)"
| "honoured_by i owner lease_end _ \<longleftrightarrow> True"

lemma honoured_causes: "honoured_by i owner t op \<Longrightarrow> causes op e \<Longrightarrow> honours i owner t e"
  by (induction op e rule: causes.induct) auto

lemma claims_bound: "explains ops es \<Longrightarrow> claims i es \<le> length (filter (\<lambda>op. \<exists>r. op = DoClaim r) ops)"
proof (induction ops arbitrary: es)
  case (Cons op ops)
  consider "explains ops es" | "es \<noteq> []" "causes op (hd es)" "explains ops (tl es)"
    using Cons.prems by auto
  then show ?case
  proof cases
    case 1
    from Cons.IH [OF this] show ?thesis by auto
  next
    case 2
    have "claims i es = claims i [hd es] + claims i (tl es)"
      using 2(1) by (cases es) (auto simp: claims_def)
    moreover have "claims i [hd es] \<le> (if \<exists>r. op = DoClaim r then 1 else 0)"
      using 2(2) by (cases op; cases "hd es") (auto simp: claims_def)
    ultimately show ?thesis using Cons.IH [OF 2(3)] by auto
  qed
qed (simp add: claims_def)

context mongo_server
begin

lemma run_keeps_lease:
  assumes "db_outbox (view w) i = Some d" "leased_by i owner d" "ob_LeaseUntil d = Some lease_end"
    and "\<forall>op \<in> set ops. honoured_by i owner lease_end op"
  shows "db_outbox (view (perform_all m w ops)) i = Some d"
proof -
  obtain es where es: "explains ops es"
    "outbox_run (db_outbox (view w)) es (db_outbox (view (perform_all m w ops)))"
    using perform_all_outbox by blast
  have "\<forall>e \<in> set es. honours i owner lease_end e"
    using explains_caused [OF es(1)] assms(4) honoured_causes by blast
  from run_leased [OF es(2) assms(1-3) this] show ?thesis .
qed

lemma CompleteDelivery_owner:
  assumes "db_outbox (view w) (cpr_ID q) = Some d" "leased_by (cpr_ID q) (cpr_WorkerID q) d"
    and "CompleteDelivery m w q = (r, w')"
  shows "r \<noteq> Some ErrConflict"
proof
  assume r: "r = Some ErrConflict"
  obtain u w1 where u: "mg_outbox_UpdateOne m w (leased_by (cpr_ID q) (cpr_WorkerID q)) (set_delivered q) = (u, w1)"
    by fastforce
  have "\<exists>res. u = Inr res \<and> ur_MatchedCount res = 0"
    using assms(3) u r by (auto simp: CompleteDelivery_def split: if_splits sum.splits)
  then have "\<forall>d \<in> ran (db_outbox (view w)). \<not> leased_by (cpr_ID q) (cpr_WorkerID q) d"
    using outbox_update [OF u] by (auto simp: updates_def)
  then show False using assms(1,2) by (auto simp: ran_def)
qed

end

text \<open>
  C5: A lease excludes other workers. After a worker has claimed a delivery, its document stays
  exactly as the claim left it through every sequence of store calls in which claims are made
  before the lease ends and the worker itself does not settle it; completions and reschedulings by
  other workers are without effect. The owner's completion is then not refused as a conflict.
\<close>

theorem lease_excludes_others:
  assumes "mongo_server m view"
    and "ClaimDelivery m w r = (Inr dl, w')"
    and "\<forall>op \<in> set ops. honoured_by (ntf_ID dl) (clr_WorkerID r) (bson_time (clr_Now r + clr_LeaseDuration r)) op"
    and "cpr_ID q = ntf_ID dl" "cpr_WorkerID q = clr_WorkerID r"
  shows "db_outbox (view (perform_all m w' ops)) (ntf_ID dl) = db_outbox (view w') (ntf_ID dl)
    \<and> fst (CompleteDelivery m (perform_all m w' ops) q) \<noteq> Some ErrConflict"
proof -
  obtain d where d: "db_outbox (view w') (ntf_ID dl) = Some (lease r d)" "dl = deliveryFromDocument (lease r d)"
    using mongo_server.ClaimDelivery_Inr [OF assms(1,2)] by auto
  have l: "leased_by (ntf_ID dl) (clr_WorkerID r) (lease r d)"
    using d(2) by (simp add: leased_by_def lease_def deliveryFromDocument_def)
  have keep: "db_outbox (view (perform_all m w' ops)) (ntf_ID dl) = Some (lease r d)"
    by (rule mongo_server.run_keeps_lease [OF assms(1) d(1) l _ assms(3)]) (simp add: lease_def)
  have "db_outbox (view (perform_all m w' ops)) (cpr_ID q) = Some (lease r d)"
    "leased_by (cpr_ID q) (cpr_WorkerID q) (lease r d)"
    using keep l assms(4,5) by simp_all
  from mongo_server.CompleteDelivery_owner [OF assms(1) this surjective_pairing]
  show ?thesis using keep d(1) by simp
qed

text \<open>
  C30: A delivery is settled once. When it is delivered or has failed for good, no sequence of
  store calls changes its document again; and until then the number of attempts grows only by
  claims, at most one for each claim call.
\<close>

theorem settled_is_final:
  assumes "mongo_server m view" "db_outbox (view w) i = Some d"
  shows "\<exists>d'. db_outbox (view (perform_all m w ops)) i = Some d'
    \<and> (ob_Status d \<in> {NotificationDelivered, NotificationFailed} \<longrightarrow> d' = d)
    \<and> ob_Attempts d \<le> ob_Attempts d'
    \<and> ob_Attempts d' \<le> ob_Attempts d + int (length (filter (\<lambda>op. \<exists>r. op = DoClaim r) ops))"
proof -
  obtain es where es: "explains ops es"
    "outbox_run (db_outbox (view w)) es (db_outbox (view (perform_all m w ops)))"
    using mongo_server.perform_all_outbox [OF assms(1)] by blast
  obtain d' where d': "db_outbox (view (perform_all m w ops)) i = Some d'"
    "ob_Attempts d' = ob_Attempts d + int (claims i es)"
    using run_attempts [OF es(2) assms(2)] by blast
  moreover have "d' = d" if "ob_Status d \<in> {NotificationDelivered, NotificationFailed}"
    using run_settled [OF es(2) assms(2)] that d'(1) by (simp add: settled_def)
  ultimately show ?thesis using claims_bound [OF es(1), of i] by auto
qed

section \<open>Incidents in every run\<close>

definition unique_incidents :: "'any DB \<Rightarrow> bool" where
  "unique_incidents db \<longleftrightarrow>
     (\<forall>i j d e. db_incidents db i = Some d \<and> db_incidents db j = Some e
        \<and> id_ClusterID d = id_ClusterID e \<and> id_IncidentKey d = id_IncidentKey e \<longrightarrow> i = j)"

text \<open>A later document of the same incident.\<close>

definition later :: "incidentDocument \<Rightarrow> incidentDocument \<Rightarrow> bool" where
  "later d d' \<longleftrightarrow>
     id_ID d' = id_ID d \<and> id_ClusterID d' = id_ClusterID d \<and> id_IncidentKey d' = id_IncidentKey d
     \<and> id_OpenedAt d' = id_OpenedAt d \<and> (d' = d \<or> id_Version d < id_Version d')"

lemma later_refl [simp]: "later d d"
  by (simp add: later_def)

lemma later_trans: "later d e \<Longrightarrow> later e f \<Longrightarrow> later d f"
  by (auto simp: later_def)

lemma later_set_incident [simp]: "later d (set_incident incident x d)"
  by (simp add: later_def set_incident_def)

text \<open>The three ways in which a call may change the incidents.\<close>

definition incidents_step :: "(string \<rightharpoonup> incidentDocument) \<Rightarrow> (string \<rightharpoonup> incidentDocument) \<Rightarrow> bool" where
  "incidents_step c c' \<longleftrightarrow>
     c' = c
     \<or> (\<exists>i d incident x. c i = Some d \<and> c' = c(i \<mapsto> set_incident incident x d))
     \<or> (\<exists>i d. inserted_new c (incident_filter (id_ClusterID d) (id_IncidentKey d)) i d c')"

lemma incidents_step_intros:
  "incidents_step c c"
  "c i = Some d \<Longrightarrow> incidents_step c (c(i \<mapsto> set_incident incident x d))"
  "inserted_new c (incident_filter (id_ClusterID d) (id_IncidentKey d)) i d c' \<Longrightarrow> incidents_step c c'"
  unfolding incidents_step_def by blast+

lemma incidents_step_later:
  assumes "incidents_step c c'" "c i = Some d"
  shows "\<exists>d'. c' i = Some d' \<and> later d d'"
  using assms unfolding incidents_step_def inserted_new_def by (elim disjE exE) auto

lemma incidents_step_unique:
  assumes "incidents_step (db_incidents db) (db_incidents db')" "unique_incidents db"
  shows "unique_incidents db'"
proof -
  have keep: "id_ClusterID (set_incident n x d) = id_ClusterID d"
    "id_IncidentKey (set_incident n x d) = id_IncidentKey d" for n x d
    by (simp_all add: set_incident_def)
  from assms(1) consider "db_incidents db' = db_incidents db"
    | i d n x where "db_incidents db i = Some d" "db_incidents db' = (db_incidents db)(i \<mapsto> set_incident n x d)"
    | i d where "inserted_new (db_incidents db) (incident_filter (id_ClusterID d) (id_IncidentKey d)) i d (db_incidents db')"
    unfolding incidents_step_def by blast
  then show ?thesis
  proof cases
    case 1
    show ?thesis using assms(2) unfolding unique_incidents_def 1 .
  next
    case (2 i d n x)
    have pre: "\<exists>e'. db_incidents db j = Some e' \<and> id_ClusterID e' = id_ClusterID e \<and> id_IncidentKey e' = id_IncidentKey e"
      if "db_incidents db' j = Some e" for j e
      using that 2 by (auto simp: keep split: if_splits)
    show ?thesis
      unfolding unique_incidents_def
    proof (intro allI impI, elim conjE)
      fix j k e f
      assume "db_incidents db' j = Some e" "db_incidents db' k = Some f"
        and key: "id_ClusterID e = id_ClusterID f" "id_IncidentKey e = id_IncidentKey f"
      then obtain e' f' where "db_incidents db j = Some e'" "db_incidents db k = Some f'"
        "id_ClusterID e' = id_ClusterID f'" "id_IncidentKey e' = id_IncidentKey f'"
        using pre [of j e] pre [of k f] by auto
      then show "j = k" using assms(2) unfolding unique_incidents_def by blast
    qed
  next
    case (3 i d)
    then have "id_ClusterID e \<noteq> id_ClusterID d \<or> id_IncidentKey e \<noteq> id_IncidentKey d"
      if "db_incidents db j = Some e" for j e
      using that by (auto simp: inserted_new_def incident_filter_def ran_def)
    note fresh = this
    have db': "db_incidents db' = (db_incidents db)(i \<mapsto> d)" using 3 by (simp add: inserted_new_def)
    show ?thesis
      unfolding unique_incidents_def
    proof (intro allI impI, elim conjE)
      fix j k e f
      assume "db_incidents db' j = Some e" "db_incidents db' k = Some f"
        "id_ClusterID e = id_ClusterID f" "id_IncidentKey e = id_IncidentKey f"
      then show "j = k"
        using fresh [of j e] fresh [of k f] assms(2) [unfolded unique_incidents_def, rule_format, of j e k f]
        unfolding db' by (auto split: if_splits)
    qed
  qed
qed

context mongo_server
begin

lemma perform_incidents: "incidents_step (db_incidents (view w)) (db_incidents (view (perform m w op)))"
proof (cases op)
  case (DoGetIncident c k)
  then show ?thesis using GetIncident_effect [OF surjective_pairing]
    by (simp add: incidents_step_intros)
next
  case DoListOpenIncidents
  then show ?thesis using ListOpenIncidents_effect [OF surjective_pairing]
    by (simp add: incidents_step_intros)
next
  case (DoUpsertSnapshot i s x)
  then show ?thesis
    using UpsertSnapshot_effect [OF surjective_pairing, of w i s x] by (auto intro: incidents_step_intros)
next
  case (DoUpsertIncident n x)
  let ?d = "bson_incident (incidentToDocument n x)"
  have key: "id_ClusterID ?d = inc_ClusterID n" "id_IncidentKey ?d = inc_Key n"
    by (simp_all add: bson_incident_def incidentToDocument_def)
  from UpsertIncident_effect [OF surjective_pairing, of w n x] show ?thesis
  proof
    assume "view (snd (UpsertIncident m w n x)) = view w"
    then show ?thesis by (simp add: DoUpsertIncident incidents_step_intros(1))
  next
    assume "\<exists>c. inserted_new (db_incidents (view w)) (incident_filter (inc_ClusterID n) (inc_Key n))
        (inc_ID n) ?d c \<and> view (snd (UpsertIncident m w n x)) = (view w)\<lparr>db_incidents := c\<rparr>"
    then show ?thesis
      using incidents_step_intros(3) [of "db_incidents (view w)" ?d "inc_ID n"]
      by (auto simp: DoUpsertIncident key)
  qed
next
  case (DoUpdateIncident n v x)
  then show ?thesis
    using UpdateIncident_effect [OF surjective_pairing, of w n v x]
    by (auto intro: incidents_step_intros)
next
  case (DoCommit r)
  then show ?thesis
    using Commit_effect [OF surjective_pairing, of w r]
    by (auto simp: committed_def intro: incidents_step_intros)
next
  case (DoClaim r)
  obtain res w' where res: "ClaimDelivery m w r = (res, w')" by fastforce
  then show ?thesis
    using ClaimDelivery_Inl [of w r _ w'] ClaimDelivery_Inr [of w r _ w'] DoClaim
    by (cases res) (auto intro: incidents_step_intros)
next
  case (DoComplete q)
  then show ?thesis
    using CompleteDelivery_effect [OF surjective_pairing, of w q] by (auto intro: incidents_step_intros)
next
  case (DoReschedule p)
  then show ?thesis
    using RescheduleDelivery_effect [OF surjective_pairing, of w p] by (auto intro: incidents_step_intros)
qed

lemma perform_all_incidents:
  "unique_incidents (view w) \<Longrightarrow> unique_incidents (view (perform_all m w ops))"
  "db_incidents (view w) i = Some d \<Longrightarrow> \<exists>d'. db_incidents (view (perform_all m w ops)) i = Some d' \<and> later d d'"
proof -
  show "unique_incidents (view w) \<Longrightarrow> unique_incidents (view (perform_all m w ops))"
    by (induction ops arbitrary: w) (auto intro: incidents_step_unique [OF perform_incidents])
  show "db_incidents (view w) i = Some d \<Longrightarrow> \<exists>d'. db_incidents (view (perform_all m w ops)) i = Some d' \<and> later d d'"
  proof (induction ops arbitrary: w d)
    case (Cons op ops)
    obtain e where "db_incidents (view (perform m w op)) i = Some e" "later d e"
      using incidents_step_later [OF perform_incidents Cons.prems] by blast
    then show ?case using Cons.IH [of "perform m w op" e] later_trans by auto
  qed simp
qed

end


section \<open>Commits\<close>

lemma evaluated_after_commit:
  assumes "committed request db db'"
  shows "evaluated request db'"
proof -
  let ?v = "bson_evaluation (evaluationToDocument (cmr_Evaluation request) (cmr_ExpiresAt request))"
  have "db_evaluations db' (evd_ID ?v) = Some ?v"
    using assms by (auto simp: committed_def inserts_all_def)
  moreover have "same_identity (cmr_Evaluation request) ?v"
    by (simp add: same_identity_def bson_evaluation_def evaluationToDocument_def)
  ultimately show ?thesis by (auto simp: evaluated_def ran_def)
qed

text \<open>
  C4: A commit is all or nothing, and repeating it is harmless. Whatever fails on the way, either
  the database is as before or the incident's new version, the evaluation and all its deliveries
  are there together. A commit that reports success without an effect found an evaluation with the
  same identity. After a reported success the same commit changes nothing more.
\<close>

theorem Commit_atomic:
  assumes "mongo_server m view" "Commit m w request = (r, w')"
  shows "(view w' = view w \<or> committed request (view w) (view w'))
    \<and> (r = None \<and> view w' = view w \<longrightarrow> evaluated request (view w))
    \<and> (r = None \<longrightarrow> view (snd (Commit m w' request)) = view w')"
proof -
  note eff = mongo_server.Commit_effect [OF assms(1)]
  have "view (snd (Commit m w' request)) = view w'" if "r = None"
  proof -
    have "evaluated request (view w')"
      using eff [OF assms(2)] that evaluated_after_commit [of request "view w" "view w'"] by auto
    then show ?thesis using eff [OF surjective_pairing, of w' request] by auto
  qed
  then show ?thesis
    using eff [OF assms(2)] evaluated_after_commit [of request "view w" "view w'"] by auto
qed

text \<open>
  C29: No update is lost. When a commit has taken effect at a version of an incident, no later
  commit for the same version of that incident, from whichever client and whatever happened in
  between, changes the database.
\<close>

theorem Commit_no_lost_update:
  assumes "mongo_server m view"
    and "Commit m w a = (r, w')" "view w' \<noteq> view w"
    and "inc_ID (cmr_Incident b) = inc_ID (cmr_Incident a)"
    and "cmr_ExpectedVersion b = cmr_ExpectedVersion a"
  shows "view (snd (Commit m (perform_all m w' ops) b)) = view (perform_all m w' ops)"
proof (rule ccontr)
  let ?u = "perform_all m w' ops" and ?i = "inc_ID (cmr_Incident a)"
  assume "view (snd (Commit m ?u b)) \<noteq> view ?u"
  then have "committed b (view ?u) (view (snd (Commit m ?u b)))"
    using mongo_server.Commit_effect [OF assms(1) surjective_pairing, of ?u b] by auto
  then obtain e where e: "db_incidents (view ?u) ?i = Some e" "id_Version e = cmr_ExpectedVersion a"
    using assms(4,5) by (auto simp: committed_def)
  have "committed a (view w) (view w')"
    using mongo_server.Commit_effect [OF assms(1,2)] assms(3) by auto
  then obtain d where d: "db_incidents (view w') ?i = Some d" "id_Version d = cmr_ExpectedVersion a + 1"
    by (auto simp: committed_def set_incident_def)
  from mongo_server.perform_all_incidents(2) [OF assms(1) d(1), of ops]
  have "later d e" using e(1) by auto
  then show False using d(2) e(2) by (auto simp: later_def)
qed

section \<open>Witnesses on the in-memory server\<close>

definition sample_outbox :: outboxDocument where
  "sample_outbox =
     \<lparr>ob_ID = ''d1'', ob_EvaluationID = ''e1'', ob_DestinationID = ''ops'', ob_EventType = ''opened'',
      ob_Status = NotificationPending, ob_Attempts = 0, ob_NextAttemptAt = 5 * Second, ob_Payload = [],
      ob_LeaseOwner = [], ob_LeaseUntil = None, ob_LastFailure = FailureOther [],
      ob_DeliveredAt = None, ob_UpdatedAt = 5 * Second, ob_ExpiresAt = None\<rparr>"

definition sample_stored :: Incident where
  "sample_stored =
     \<lparr>inc_ID = ''i1'', inc_Key = ''k1'', inc_ClusterID = ''c1'',
      inc_Source = \<lparr>src_ClusterID = ''c1'', src_APIVersion = ''v1'', src_Kind = ''Pod'',
        src_Namespace = ''web'', src_Name = ''api'', src_UID = ''u1'', src_ResourceVersion = ''1'',
        src_Generation = 1, src_Owner = None\<rparr>,
      inc_Status = IncidentOpen, inc_OpenedAt = 3 * Second, inc_UpdatedAt = 3 * Second,
      inc_ResolvedAt = None, inc_ContentHash = ''h1'', inc_Version = 1\<rparr>"

definition sample_world :: "unit mem" where
  "sample_world =
     \<lparr>mem_incidents = [incidentToDocument sample_stored None], mem_snapshots = [], mem_evaluations = [],
      mem_outbox = [sample_outbox], mem_next = 0\<rparr>"

definition sample_claim :: "string \<Rightarrow> int \<Rightarrow> ClaimRequest" where
  "sample_claim worker seconds =
     \<lparr>clr_WorkerID = worker, clr_Now = seconds * Second, clr_LeaseDuration = 30 * Second\<rparr>"

definition sample_complete :: "string \<Rightarrow> int \<Rightarrow> CompleteRequest" where
  "sample_complete worker seconds =
     \<lparr>cpr_ID = ''d1'', cpr_WorkerID = worker, cpr_CompletedAt = seconds * Second, cpr_ExpiresAt = None\<rparr>"

definition sample_commit :: "string \<Rightarrow> unit CommitRequest" where
  "sample_commit hash =
     \<lparr>cmr_Incident = sample_stored\<lparr>inc_ContentHash := hash\<rparr>, cmr_ExpectedVersion = 1,
      cmr_Evaluation = \<lparr>evl_ID = ''e2'', evl_IncidentID = ''i1'', evl_SnapshotHash = hash,
        evl_PolicyVersion = ''p'', evl_RubricVersion = [], evl_ProviderConfigHash = [],
        evl_Decision = \<lparr>dec_Severity = SeverityWarning, dec_Action = ActionNotify, dec_Summary = [],
          dec_ReasonCodes = [], dec_RuleIDs = []\<rparr>,
        evl_Answers = [], evl_ProviderAudit = None, evl_CreatedAt = 9 * Second\<rparr>,
      cmr_Deliveries = [], cmr_ExpiresAt = None\<rparr>"

lemma sample_nonblank [simp]:
  "TrimSpace ''w1'' = ''w1''" "TrimSpace ''w2'' = ''w2''" "TrimSpace ''d1'' = ''d1''"
  "TrimSpace ''i1'' = ''i1''" "TrimSpace ''k1'' = ''k1''" "TrimSpace ''c1'' = ''c1''" "TrimSpace ''e2'' = ''e2''"
  by (simp_all add: TrimSpace_graphic graphic_def)

lemmas mem_simps =
  mem_mongo_def mem_view_def by_id_def live_def mem_find_def mem_update_def mem_update_first_def
  mem_insert_all_def bson_time_def Millisecond_def Second_def IsZero_def

lemma sample_claimed:
  "ClaimDelivery mem_mongo sample_world (sample_claim ''w1'' 6) =
     (Inr (deliveryFromDocument (lease (sample_claim ''w1'' 6) sample_outbox)),
      sample_world\<lparr>mem_outbox := [lease (sample_claim ''w1'' 6) sample_outbox, sample_outbox]\<rparr>)"
  by (simp add: ClaimDelivery_def sample_world_def sample_claim_def sample_outbox_def mem_simps
      claimable_def lease_def)


theorem lease_excludes_others_witness:
  "db_outbox (mem_view (perform_all mem_mongo
       (snd (ClaimDelivery mem_mongo sample_world (sample_claim ''w1'' 6)))
       [DoClaim (sample_claim ''w2'' 8), DoComplete (sample_complete ''w2'' 9)])) ''d1''
     = db_outbox (mem_view (snd (ClaimDelivery mem_mongo sample_world (sample_claim ''w1'' 6)))) ''d1''
   \<and> fst (CompleteDelivery mem_mongo (perform_all mem_mongo
       (snd (ClaimDelivery mem_mongo sample_world (sample_claim ''w1'' 6)))
       [DoClaim (sample_claim ''w2'' 8), DoComplete (sample_complete ''w2'' 9)])
       (sample_complete ''w1'' 10)) \<noteq> Some ErrConflict"
proof -
  let ?dl = "deliveryFromDocument (lease (sample_claim ''w1'' 6) sample_outbox)"
  have dl: "ntf_ID ?dl = ''d1''" by (simp add: deliveryFromDocument_def lease_def sample_outbox_def)
  have h: "\<forall>op \<in> set [DoClaim (sample_claim ''w2'' 8) :: unit store_op, DoComplete (sample_complete ''w2'' 9)].
      honoured_by (ntf_ID ?dl) (clr_WorkerID (sample_claim ''w1'' 6))
        (bson_time (clr_Now (sample_claim ''w1'' 6) + clr_LeaseDuration (sample_claim ''w1'' 6))) op"
    by (simp add: dl sample_claim_def sample_complete_def bson_time_def Millisecond_def Second_def)
  have q: "cpr_ID (sample_complete ''w1'' 10) = ntf_ID ?dl"
    "cpr_WorkerID (sample_complete ''w1'' 10) = clr_WorkerID (sample_claim ''w1'' 6)"
    unfolding dl by (simp_all add: sample_complete_def sample_claim_def)
  from lease_excludes_others [OF mem.mongo_server_axioms sample_claimed h q] show ?thesis
    unfolding dl sample_claimed snd_conv .
qed

theorem settled_is_final_witness:
  "\<exists>d'. db_outbox (mem_view (perform_all mem_mongo sample_world [DoClaim (sample_claim ''w1'' 6)])) ''d1'' = Some d'
     \<and> ob_Attempts d' \<le> 1"
  using settled_is_final [OF mem.mongo_server_axioms, of sample_world "''d1''" sample_outbox
      "[DoClaim (sample_claim ''w1'' 6)]"]
  by (auto simp: mem_view_def by_id_def sample_world_def sample_outbox_def)


lemma sample_committed:
  "fst (Commit mem_mongo sample_world (sample_commit ''h2'')) = None"
  "mem_view (snd (Commit mem_mongo sample_world (sample_commit ''h2''))) \<noteq> mem_view sample_world"
  by (simp_all add: Commit_def validateCommit_def validateIncident_def sample_commit_def sample_stored_def
      sample_world_def commitCallback_def updateIncident_def mem_simps set_incident_def
      incidentToDocument_def and_then_def fun_eq_iff DB.ext_inject)

theorem Commit_atomic_witness:
  "committed (sample_commit ''h2'') (mem_view sample_world)
     (mem_view (snd (Commit mem_mongo sample_world (sample_commit ''h2''))))
   \<and> mem_view (snd (Commit mem_mongo (snd (Commit mem_mongo sample_world (sample_commit ''h2''))) (sample_commit ''h2'')))
     = mem_view (snd (Commit mem_mongo sample_world (sample_commit ''h2'')))"
  using Commit_atomic [OF mem.mongo_server_axioms surjective_pairing, of sample_world "sample_commit ''h2''"]
    sample_committed by simp

theorem Commit_no_lost_update_witness:
  "mem_view (snd (Commit mem_mongo (perform_all mem_mongo
      (snd (Commit mem_mongo sample_world (sample_commit ''h2''))) [DoListOpenIncidents]) (sample_commit ''h3'')))
   = mem_view (perform_all mem_mongo (snd (Commit mem_mongo sample_world (sample_commit ''h2''))) [DoListOpenIncidents])"
  by (rule Commit_no_lost_update [OF mem.mongo_server_axioms surjective_pairing sample_committed(2)])
    (simp_all add: sample_commit_def)

end
