(* ===== verification/Go_JSON.thy ===== *)
theory Go_JSON
  imports Go_Prelude
begin

text \<open>
  What the sources use of \<^verbatim>\<open>encoding/json\<close> and \<^verbatim>\<open>net/url\<close>: \<open>json.Valid\<close>, as the state machine of the
  library's scanner over bytes with its stack of open objects and arrays; the encoding of strings
  by \<open>json.Marshal\<close>, with its escapes and its treatment of ill-formed UTF-8; and \<open>url.PathEscape\<close>.
\<close>

section \<open>The scanner (json.Valid)\<close>

datatype parse_state = ParseObjectKey | ParseObjectValue | ParseArrayValue

datatype scan_state =
    BeginValue
  | BeginValueOrEmpty
  | BeginStringOrEmpty
  | BeginString
  | EndValue
  | EndTop
  | InString
  | InStringEsc
  | InHex nat
  | InNeg
  | InInt1
  | InInt0
  | InDot
  | InDot0
  | InE
  | InESign
  | InE0
  | InLit string

type_synonym scanner = "scan_state \<times> parse_state list"

definition json_space :: "char \<Rightarrow> bool" where
  "json_space c \<longleftrightarrow> c = CHR '' '' \<or> c = CHR 0x09 \<or> c = CHR 0x0D \<or> c = CHR 0x0A"

definition is_digit :: "char \<Rightarrow> bool" where
  "is_digit c \<longleftrightarrow> CHR ''0'' \<le> c \<and> c \<le> CHR ''9''"

definition is_hex :: "char \<Rightarrow> bool" where
  "is_hex c \<longleftrightarrow> is_digit c \<or> (CHR ''a'' \<le> c \<and> c \<le> CHR ''f'') \<or> (CHR ''A'' \<le> c \<and> c \<le> CHR ''F'')"

text \<open>Opening an object or array beyond the nesting limit is an error.\<close>

definition maxNestingDepth :: nat where
  "maxNestingDepth = 10000"

definition push :: "scan_state \<Rightarrow> parse_state \<Rightarrow> parse_state list \<Rightarrow> scanner option" where
  "push st p stack = (if length (p # stack) \<le> maxNestingDepth then Some (st, p # stack) else None)"

definition pop :: "parse_state list \<Rightarrow> scanner" where
  "pop stack = (if tl stack = [] then (EndTop, []) else (EndValue, tl stack))"

definition begin_value :: "char \<Rightarrow> parse_state list \<Rightarrow> scanner option" where
  "begin_value c stack =
     (if json_space c then Some (BeginValue, stack)
      else if c = CHR ''{'' then push BeginStringOrEmpty ParseObjectKey stack
      else if c = CHR ''['' then push BeginValueOrEmpty ParseArrayValue stack
      else if c = CHR 0x22 then Some (InString, stack)
      else if c = CHR ''-'' then Some (InNeg, stack)
      else if c = CHR ''0'' then Some (InInt0, stack)
      else if c = CHR ''t'' then Some (InLit ''rue'', stack)
      else if c = CHR ''f'' then Some (InLit ''alse'', stack)
      else if c = CHR ''n'' then Some (InLit ''ull'', stack)
      else if CHR ''1'' \<le> c \<and> c \<le> CHR ''9'' then Some (InInt1, stack)
      else None)"

definition begin_string :: "char \<Rightarrow> parse_state list \<Rightarrow> scanner option" where
  "begin_string c stack =
     (if json_space c then Some (BeginString, stack)
      else if c = CHR 0x22 then Some (InString, stack)
      else None)"

definition end_value :: "char \<Rightarrow> parse_state list \<Rightarrow> scanner option" where
  "end_value c stack =
     (case stack of
        [] \<Rightarrow> if json_space c then Some (EndTop, []) else None
      | p # rest \<Rightarrow>
          if json_space c then Some (EndValue, stack)
          else case p of
            ParseObjectKey \<Rightarrow>
              if c = CHR '':'' then Some (BeginValue, ParseObjectValue # rest) else None
          | ParseObjectValue \<Rightarrow>
              if c = CHR '','' then Some (BeginString, ParseObjectKey # rest)
              else if c = CHR ''}'' then Some (pop stack) else None
          | ParseArrayValue \<Rightarrow>
              if c = CHR '','' then Some (BeginValue, stack)
              else if c = CHR '']'' then Some (pop stack) else None)"

definition after_digits :: "char \<Rightarrow> parse_state list \<Rightarrow> scanner option" where
  "after_digits c stack =
     (if c = CHR ''.'' then Some (InDot, stack)
      else if c = CHR ''e'' \<or> c = CHR ''E'' then Some (InE, stack)
      else end_value c stack)"

fun scan_step :: "scanner \<Rightarrow> char \<Rightarrow> scanner option" where
  "scan_step (BeginValue, stack) c = begin_value c stack"
| "scan_step (BeginValueOrEmpty, stack) c =
     (if json_space c then Some (BeginValueOrEmpty, stack)
      else if c = CHR '']'' then end_value c stack else begin_value c stack)"
| "scan_step (BeginStringOrEmpty, stack) c =
     (if json_space c then Some (BeginStringOrEmpty, stack)
      else if c = CHR ''}'' then end_value c (ParseObjectValue # tl stack)
      else begin_string c stack)"
| "scan_step (BeginString, stack) c = begin_string c stack"
| "scan_step (EndValue, stack) c = end_value c stack"
| "scan_step (EndTop, stack) c = (if json_space c then Some (EndTop, stack) else None)"
| "scan_step (InString, stack) c =
     (if c = CHR 0x22 then Some (EndValue, stack)
      else if c = CHR 0x5C then Some (InStringEsc, stack)
      else if (of_char c :: nat) < 0x20 then None else Some (InString, stack))"
| "scan_step (InStringEsc, stack) c =
     (if c \<in> {CHR ''b'', CHR ''f'', CHR ''n'', CHR ''r'', CHR ''t'', CHR 0x5C, CHR ''/'', CHR 0x22}
      then Some (InString, stack)
      else if c = CHR ''u'' then Some (InHex 3, stack) else None)"
| "scan_step (InHex n, stack) c =
     (if is_hex c then Some (if n = 0 then InString else InHex (n - 1), stack) else None)"
| "scan_step (InNeg, stack) c =
     (if c = CHR ''0'' then Some (InInt0, stack)
      else if CHR ''1'' \<le> c \<and> c \<le> CHR ''9'' then Some (InInt1, stack) else None)"
| "scan_step (InInt1, stack) c = (if is_digit c then Some (InInt1, stack) else after_digits c stack)"
| "scan_step (InInt0, stack) c = after_digits c stack"
| "scan_step (InDot, stack) c = (if is_digit c then Some (InDot0, stack) else None)"
| "scan_step (InDot0, stack) c =
     (if is_digit c then Some (InDot0, stack)
      else if c = CHR ''e'' \<or> c = CHR ''E'' then Some (InE, stack) else end_value c stack)"
| "scan_step (InE, stack) c =
     (if c = CHR ''+'' \<or> c = CHR ''-'' then Some (InESign, stack)
      else if is_digit c then Some (InE0, stack) else None)"
| "scan_step (InESign, stack) c = (if is_digit c then Some (InE0, stack) else None)"
| "scan_step (InE0, stack) c = (if is_digit c then Some (InE0, stack) else end_value c stack)"
| "scan_step (InLit rest, stack) c =
     (case rest of
        [] \<Rightarrow> None
      | x # xs \<Rightarrow> if c = x then Some (if xs = [] then EndValue else InLit xs, stack) else None)"

text \<open>\<open>eof\<close> is one step on a space, which must reach the end of the top-level value.\<close>

fun scan :: "scanner \<Rightarrow> string \<Rightarrow> bool" where
  "scan s [] = (case scan_step s (CHR '' '') of Some (EndTop, _) \<Rightarrow> True | _ \<Rightarrow> False)"
| "scan s (c # cs) = (case scan_step s c of None \<Rightarrow> False | Some s' \<Rightarrow> scan s' cs)"

definition json_Valid :: "string \<Rightarrow> bool" where
  "json_Valid data = scan (BeginValue, []) data"

section \<open>UTF-8 (unicode/utf8)\<close>

definition continuation :: "char \<Rightarrow> bool" where
  "continuation c \<longleftrightarrow> 0x80 \<le> (of_char c :: nat) \<and> (of_char c :: nat) \<le> 0xBF"

text \<open>The length of the rune at the front of a string, or nothing where it is ill formed.\<close>

fun rune_length :: "string \<Rightarrow> nat option" where
  "rune_length [] = None"
| "rune_length (c # cs) =
     (let b = (of_char c :: nat);
          second = (\<lambda>lo hi. case cs of [] \<Rightarrow> False | d # _ \<Rightarrow> lo \<le> (of_char d :: nat) \<and> (of_char d :: nat) \<le> hi);
          more = (\<lambda>n. n < length cs \<and> continuation (cs ! n))
      in if b < 0x80 then Some 1
         else if 0xC2 \<le> b \<and> b \<le> 0xDF then (if second 0x80 0xBF then Some 2 else None)
         else if 0xE0 \<le> b \<and> b \<le> 0xEF then
           (if second (if b = 0xE0 then 0xA0 else 0x80) (if b = 0xED then 0x9F else 0xBF) \<and> more 1
            then Some 3 else None)
         else if 0xF0 \<le> b \<and> b \<le> 0xF4 then
           (if second (if b = 0xF0 then 0x90 else 0x80) (if b = 0xF4 then 0x8F else 0xBF) \<and> more 1 \<and> more 2
            then Some 4 else None)
         else None)"

lemma rune_length_pos: "rune_length s = Some n \<Longrightarrow> 0 < n"
  by (cases s) (auto simp: Let_def split: if_splits)

section \<open>Strings (json.Marshal)\<close>

definition hex_digit :: "nat \<Rightarrow> char" where
  "hex_digit n = (if n < 10 then char_of (48 + n) else char_of (87 + n))"

definition escape_byte :: "char \<Rightarrow> string" where
  "escape_byte c =
     (let b = (of_char c :: nat) in
      if c = CHR 0x5C \<or> c = CHR 0x22 then [CHR 0x5C, c]
      else if b = 8 then [CHR 0x5C, CHR ''b'']
      else if b = 12 then [CHR 0x5C, CHR ''f'']
      else if b = 10 then [CHR 0x5C, CHR ''n'']
      else if b = 13 then [CHR 0x5C, CHR ''r'']
      else if b = 9 then [CHR 0x5C, CHR ''t'']
      else [CHR 0x5C, CHR ''u'', CHR ''0'', CHR ''0'', hex_digit (b div 16), hex_digit (b mod 16)])"

definition html_safe :: "char \<Rightarrow> bool" where
  "html_safe c \<longleftrightarrow>
     0x20 \<le> (of_char c :: nat) \<and> c \<notin> {CHR 0x22, CHR 0x5C, CHR ''<'', CHR ''>'', CHR ''&''}"

definition escape_unicode :: "string \<Rightarrow> string" where
  "escape_unicode digits = [CHR 0x5C, CHR ''u''] @ digits"

text \<open>The runes U+2028 and U+2029 are escaped; every other rune is copied.\<close>

function quote_body :: "string \<Rightarrow> string" where
  "quote_body [] = []"
| "quote_body (c # cs) =
     (if (of_char c :: nat) < 0x80
      then (if html_safe c then [c] else escape_byte c) @ quote_body cs
      else case rune_length (c # cs) of
        None \<Rightarrow> escape_unicode ''fffd'' @ quote_body cs
      | Some n \<Rightarrow>
          (if take n (c # cs) = [CHR 0xE2, CHR 0x80, CHR 0xA8] then escape_unicode ''2028''
           else if take n (c # cs) = [CHR 0xE2, CHR 0x80, CHR 0xA9] then escape_unicode ''2029''
           else take n (c # cs)) @ quote_body (drop (n - 1) cs))"
  by pat_completeness auto
termination by (relation "measure length") auto

definition json_quote :: "string \<Rightarrow> string" where
  "json_quote s = [CHR 0x22] @ quote_body s @ [CHR 0x22]"

section \<open>Path segments (net/url)\<close>

definition unreserved :: "char \<Rightarrow> bool" where
  "unreserved c \<longleftrightarrow>
     (CHR ''a'' \<le> c \<and> c \<le> CHR ''z'') \<or> (CHR ''A'' \<le> c \<and> c \<le> CHR ''Z'') \<or> is_digit c
     \<or> c \<in> {CHR ''-'', CHR ''_'', CHR ''.'', CHR ''~'', CHR ''$'', CHR ''&'', CHR ''+'', CHR ''='', CHR '':'', CHR ''@''}"

definition upper_hex :: "nat \<Rightarrow> char" where
  "upper_hex n = (if n < 10 then char_of (48 + n) else char_of (55 + n))"

definition PathEscape :: "string \<Rightarrow> string" where
  "PathEscape s =
     concat (map (\<lambda>c. if unreserved c then [c]
                      else [CHR ''%'', upper_hex (of_char c div 16), upper_hex (of_char c mod 16)]) s)"

section \<open>Quoted strings are scanned as strings\<close>

fun steps :: "scanner \<Rightarrow> string \<Rightarrow> scanner option" where
  "steps s [] = Some s"
| "steps s (c # cs) = (case scan_step s c of None \<Rightarrow> None | Some s' \<Rightarrow> steps s' cs)"

lemma steps_append: "steps s (xs @ ys) = (case steps s xs of None \<Rightarrow> None | Some s' \<Rightarrow> steps s' ys)"
  by (induction s xs rule: steps.induct) (auto split: option.splits)

lemma scan_steps: "steps s xs = Some s' \<Longrightarrow> scan s (xs @ ys) = scan s' ys"
  by (induction s xs rule: steps.induct) (auto split: option.splits)

lemma steps_in_string:
  assumes "\<forall>c \<in> set cs. 0x20 \<le> (of_char c :: nat) \<and> c \<noteq> CHR 0x22 \<and> c \<noteq> CHR 0x5C"
  shows "steps (InString, stack) cs = Some (InString, stack)"
  using assms by (induction cs) auto

lemma is_hex_hex_digit: "n < 16 \<Longrightarrow> is_hex (hex_digit n)"
proof -
  have "\<forall>n \<in> set [0 ..< 16]. is_hex (hex_digit n)" by code_simp
  then show "n < 16 \<Longrightarrow> is_hex (hex_digit n)" by simp
qed

lemma steps_escape_unicode:
  "length ds = 4 \<Longrightarrow> \<forall>d \<in> set ds. is_hex d \<Longrightarrow>
   steps (InString, stack) (escape_unicode ds) = Some (InString, stack)"
  by (auto simp: escape_unicode_def numeral_eq_Suc length_Suc_conv)

lemma steps_escape_byte:
  assumes "(of_char c :: nat) < 0x80"
  shows "steps (InString, stack) (escape_byte c) = Some (InString, stack)"
proof -
  let ?b = "of_char c :: nat"
  have "is_hex (hex_digit (?b div 16))" "is_hex (hex_digit (?b mod 16))"
    using assms by (auto intro: is_hex_hex_digit)
  moreover have "is_hex (CHR ''0'')" by (simp add: is_hex_def is_digit_def)
  ultimately have u: "steps (InString, stack)
      (escape_unicode [CHR ''0'', CHR ''0'', hex_digit (?b div 16), hex_digit (?b mod 16)]) = Some (InString, stack)"
    by (intro steps_escape_unicode) simp_all
  show ?thesis
    using u by (auto simp: escape_byte_def escape_unicode_def Let_def)
qed

lemma rune_bytes:
  assumes "rune_length (c # cs) = Some n" "\<not> (of_char c :: nat) < 0x80" "d \<in> set (take n (c # cs))"
  shows "0x80 \<le> (of_char d :: nat)"
proof -
  have "n \<le> 4" using assms(1) by (auto simp: Let_def split: if_splits)
  have second: "0x80 \<le> (of_char (cs ! 0) :: nat)" if "2 \<le> n"
    using assms(1) that by (cases cs) (auto simp: Let_def split: if_splits)
  have third: "0x80 \<le> (of_char (cs ! 1) :: nat)" if "3 \<le> n"
    using assms(1) that by (auto simp: Let_def continuation_def split: if_splits)
  have fourth: "0x80 \<le> (of_char (cs ! 2) :: nat)" if "4 \<le> n"
    using assms(1) that by (auto simp: Let_def continuation_def split: if_splits)
  obtain i where i: "i < n" "i < length (c # cs)" "d = (c # cs) ! i"
    using assms(3) by (auto simp: in_set_conv_nth)
  then consider "i = 0" | "i = 1" | "i = 2" | "i = 3" using \<open>n \<le> 4\<close> by linarith
  then show ?thesis
    using i assms(2) second third fourth by cases (auto simp: numeral_eq_Suc)
qed

lemma steps_quote_body: "steps (InString, stack) (quote_body s) = Some (InString, stack)"
proof (induction s rule: quote_body.induct)
  case (2 c cs)
  show ?case
  proof (cases "(of_char c :: nat) < 0x80")
    case True
    have "steps (InString, stack) (if html_safe c then [c] else escape_byte c) = Some (InString, stack)"
      using True steps_escape_byte by (auto simp: html_safe_def)
    then show ?thesis using 2(1) [OF True] True by (simp add: steps_append)
  next
    case False
    show ?thesis
    proof (cases "rune_length (c # cs)")
      case None
      have "steps (InString, stack) (escape_unicode ''fffd'') = Some (InString, stack)"
        by (rule steps_escape_unicode) (simp_all add: is_hex_def)
      then show ?thesis using 2(2) [OF False None] False None by (simp add: steps_append del: rune_length.simps)
    next
      case (Some n)
      let ?r = "if take n (c # cs) = [CHR 0xE2, CHR 0x80, CHR 0xA8] then escape_unicode ''2028''
           else if take n (c # cs) = [CHR 0xE2, CHR 0x80, CHR 0xA9] then escape_unicode ''2029''
           else take n (c # cs)"
      have "\<forall>d \<in> set (take n (c # cs)). 0x80 \<le> (of_char d :: nat)"
        using rune_bytes [OF Some False] by blast
      then have "steps (InString, stack) (take n (c # cs)) = Some (InString, stack)"
        by (intro steps_in_string) fastforce
      moreover have "steps (InString, stack) (escape_unicode ''2028'') = Some (InString, stack)"
        "steps (InString, stack) (escape_unicode ''2029'') = Some (InString, stack)"
        by (rule steps_escape_unicode; simp add: is_hex_def is_digit_def)+
      ultimately have "steps (InString, stack) ?r = Some (InString, stack)"
        by presburger
      then show ?thesis
        using 2(3) [OF False Some] False Some by (simp only: quote_body.simps if_False option.case steps_append)
    qed
  qed
qed simp

lemma scan_json_quote: "scan (InString, stack) (quote_body s @ CHR 0x22 # rest) = scan (EndValue, stack) rest"
  using scan_steps [OF steps_quote_body] by simp

end
