(* ===== verification/Go_SHA256.thy ===== *)
theory Go_SHA256
  imports Go_Prelude "HOL-Library.Word"
begin

text \<open>
  SHA-256 (FIPS 180-4), HMAC (RFC 2104) and lower-case hexadecimal, which the sources use through
  \<^verbatim>\<open>crypto/sha256\<close>, \<^verbatim>\<open>crypto/hmac\<close> and \<^verbatim>\<open>encoding/hex\<close>. A byte string is a list of characters.
\<close>

unbundle bit_operations_syntax

type_synonym word32 = "32 word"

definition rotr :: "nat \<Rightarrow> word32 \<Rightarrow> word32" where
  "rotr n x = drop_bit n x OR push_bit (32 - n) x"

text \<open>
  The constants of the standard: the first 32 bits of the fractional parts of the cube roots of the
  first 64 primes, and of the square roots of the first eight. The greatest number whose power is
  not above a bound is found bit by bit.
\<close>

fun integer_root :: "nat \<Rightarrow> nat \<Rightarrow> nat \<Rightarrow> nat \<Rightarrow> nat" where
  "integer_root k bound 0 r = r"
| "integer_root k bound (Suc i) r = integer_root k bound i (if (r + 2 ^ i) ^ k \<le> bound then r + 2 ^ i else r)"

definition root_fraction :: "nat \<Rightarrow> nat \<Rightarrow> word32" where
  "root_fraction k p = word_of_nat (integer_root k (p * 2 ^ (32 * k)) 36 0)"

definition small_primes :: "nat list" where
  "small_primes = filter (\<lambda>p. \<forall>q \<in> set [2 ..< p]. p mod q \<noteq> 0) [2 ..< 312]"

definition round_constants :: "word32 list" where
  "round_constants = map (root_fraction 3) small_primes"

datatype sha_state = SHA (sa: word32) (sb: word32) (sc: word32) (sd: word32)
  (se: word32) (sf: word32) (sg: word32) (sh: word32)

definition initial_state :: sha_state where
  "initial_state =
     (let h = (\<lambda>i. root_fraction 2 (small_primes ! i))
      in SHA (h 0) (h 1) (h 2) (h 3) (h 4) (h 5) (h 6) (h 7))"

fun sha_round :: "sha_state \<Rightarrow> word32 \<times> word32 \<Rightarrow> sha_state" where
  "sha_round (SHA a b c d e f g h) (k, w) =
     (let t1 = h + (rotr 6 e XOR rotr 11 e XOR rotr 25 e) + ((e AND f) XOR (NOT e AND g)) + k + w;
          t2 = (rotr 2 a XOR rotr 13 a XOR rotr 22 a) + ((a AND b) XOR (a AND c) XOR (b AND c))
      in SHA (t1 + t2) a b c (d + t1) e f g)"

text \<open>The message schedule, most recent word first.\<close>

fun extend_schedule :: "nat \<Rightarrow> word32 list \<Rightarrow> word32 list" where
  "extend_schedule 0 ws = ws"
| "extend_schedule (Suc n) ws =
     (let w2 = ws ! 1; w7 = ws ! 6; w15 = ws ! 14; w16 = ws ! 15;
          s0 = rotr 7 w15 XOR rotr 18 w15 XOR drop_bit 3 w15;
          s1 = rotr 17 w2 XOR rotr 19 w2 XOR drop_bit 10 w2
      in extend_schedule n ((w16 + s0 + w7 + s1) # ws))"

definition word_of_bytes :: "nat list \<Rightarrow> word32" where
  "word_of_bytes bs = foldl (\<lambda>acc b. push_bit 8 acc OR word_of_nat b) 0 bs"

definition bytes_of_word :: "word32 \<Rightarrow> nat list" where
  "bytes_of_word w = map (\<lambda>i. unat (drop_bit (8 * i) w AND 0xFF)) [3, 2, 1, 0]"

fun group :: "nat \<Rightarrow> nat \<Rightarrow> 'a list \<Rightarrow> 'a list list" where
  "group 0 n xs = []"
| "group (Suc k) n xs = take n xs # group k n (drop n xs)"

definition compress :: "sha_state \<Rightarrow> nat list \<Rightarrow> sha_state" where
  "compress st block =
     (let ws = rev (extend_schedule 48 (rev (map word_of_bytes (group 16 4 block))));
          r = foldl sha_round st (zip round_constants ws)
      in SHA (sa st + sa r) (sb st + sb r) (sc st + sc r) (sd st + sd r)
             (se st + se r) (sf st + sf r) (sg st + sg r) (sh st + sh r))"

definition pad :: "nat list \<Rightarrow> nat list" where
  "pad bs =
     (let n = length bs
      in bs @ [0x80] @ replicate ((119 - n mod 64) mod 64) 0
           @ map (\<lambda>i. (8 * n) div 256 ^ i mod 256) [7, 6, 5, 4, 3, 2, 1, 0])"

definition sha256_bytes :: "nat list \<Rightarrow> nat list" where
  "sha256_bytes bs =
     (let blocks = pad bs;
          r = foldl compress initial_state (group (length blocks div 64) 64 blocks)
      in concat (map bytes_of_word [sa r, sb r, sc r, sd r, se r, sf r, sg r, sh r]))"

definition bytes :: "string \<Rightarrow> nat list" where
  "bytes s = map of_char s"

definition hmac_sha256 :: "nat list \<Rightarrow> nat list \<Rightarrow> nat list" where
  "hmac_sha256 secret message =
     (let key = (if 64 < length secret then sha256_bytes secret else secret);
          padded = key @ replicate (64 - length key) 0
      in sha256_bytes (map (\<lambda>b. b XOR 0x5C) padded
           @ sha256_bytes (map (\<lambda>b. b XOR 0x36) padded @ message)))"

section \<open>Hexadecimal\<close>

definition lower_hex :: "nat \<Rightarrow> char" where
  "lower_hex n = (if n < 10 then char_of (48 + n) else char_of (87 + n))"

definition EncodeToString :: "nat list \<Rightarrow> string" where
  "EncodeToString bs = concat (map (\<lambda>b. [lower_hex (b div 16), lower_hex (b mod 16)]) bs)"

definition from_hex :: "char \<Rightarrow> nat option" where
  "from_hex c =
     (let n = (of_char c :: nat) in
      if 48 \<le> n \<and> n \<le> 57 then Some (n - 48)
      else if 97 \<le> n \<and> n \<le> 102 then Some (n - 87)
      else if 65 \<le> n \<and> n \<le> 70 then Some (n - 55)
      else None)"

fun DecodeString :: "string \<Rightarrow> nat list option" where
  "DecodeString [] = Some []"
| "DecodeString [_] = None"
| "DecodeString (a # b # cs) =
     (case (from_hex a, from_hex b, DecodeString cs) of
        (Some x, Some y, Some bs) \<Rightarrow> Some ((16 * x + y) # bs)
      | _ \<Rightarrow> None)"

lemma from_hex_lower [simp]: "n < 16 \<Longrightarrow> from_hex (lower_hex n) = Some n"
  by (auto simp: from_hex_def lower_hex_def Let_def)

lemma DecodeString_EncodeToString [simp]:
  "\<forall>b \<in> set bs. b < 256 \<Longrightarrow> DecodeString (EncodeToString bs) = Some bs"
  by (induction bs) (auto simp: EncodeToString_def)

lemma length_EncodeToString [simp]: "length (EncodeToString bs) = 2 * length bs"
  by (induction bs) (auto simp: EncodeToString_def)

lemma bytes_of_word_props [simp]: "length (bytes_of_word w) = 4" "\<forall>b \<in> set (bytes_of_word w). b < 256"
proof -
  have "unat (x AND 0xFF :: word32) < 256" for x
    using word_and_le1 [of x "0xFF"] by (simp add: word_le_nat_alt)
  then show "\<forall>b \<in> set (bytes_of_word w). b < 256" by (auto simp: bytes_of_word_def)
qed (simp add: bytes_of_word_def)

lemma sha256_bytes_props [simp]: "length (sha256_bytes bs) = 32" "\<forall>b \<in> set (sha256_bytes bs). b < 256"
  using bytes_of_word_props by (auto simp: sha256_bytes_def Let_def)

lemma hmac_props [simp]: "length (hmac_sha256 k m) = 32" "\<forall>b \<in> set (hmac_sha256 k m). b < 256"
  unfolding hmac_sha256_def Let_def by (rule sha256_bytes_props)+

end
