(* ===== verification/Notifier.thy ===== *)
theory Notifier
  imports Store_Contract Go_JSON Go_SHA256
begin

text \<open>
  Envelopes and errors of notifiers (\<^verbatim>\<open>internal/notify/notifier.go\<close>), the registry of notifier types
  (\<^verbatim>\<open>internal/notify/registry.go\<close>) and the signature of a request body
  (\<^verbatim>\<open>internal/notify/signing.go\<close>).
\<close>

section \<open>Envelopes (notifier.go)\<close>

definition CloudEventsSpecVersion :: string where
  "CloudEventsSpecVersion = ''1.0''"

definition EnvelopeSchemaVersion :: string where
  "EnvelopeSchemaVersion = ''v1''"

record Envelope =
  env_SpecVersion :: string
  env_ID :: string
  env_Source :: string
  env_Type :: string
  env_Time :: gotime
  env_DataContentType :: string
  env_SchemaVersion :: string
  env_Data :: string

definition NewEnvelope :: "string \<Rightarrow> string \<Rightarrow> string \<Rightarrow> gotime \<Rightarrow> string \<Rightarrow> string + Envelope" where
  "NewEnvelope eid eventType clusterID occurredAt data =
     (if blank eid \<or> blank eventType \<or> blank clusterID \<or> IsZero occurredAt
      then Inl ''event ID, type, cluster ID, and time are required''
      else if length data = 0 \<or> \<not> json_Valid data
      then Inl ''event data must be valid JSON''
      else Inr
        \<lparr>env_SpecVersion = CloudEventsSpecVersion, env_ID = eid,
         env_Source = ''urn:ruleraven:cluster:'' @ PathEscape clusterID, env_Type = eventType,
         env_Time = occurredAt, env_DataContentType = ''application/json'',
         env_SchemaVersion = EnvelopeSchemaVersion, env_Data = data\<rparr>)"

section \<open>Errors (notifier.go)\<close>

record NotifyError =
  ne_StatusCode :: int
  ne_Retryable :: bool
  ne_RetryDelay :: duration
  ne_Kind :: string

definition RetryAfter :: "NotifyError \<Rightarrow> duration" where
  "RetryAfter e = ne_RetryDelay e"

definition Error_text :: "NotifyError \<Rightarrow> string" where
  "Error_text e =
     (if ne_StatusCode e \<noteq> 0
      then ''notification delivery failed: '' @ ne_Kind e @ '' (HTTP '' @ FormatInt (ne_StatusCode e) @ '')''
      else ''notification delivery failed: '' @ ne_Kind e)"

text \<open>What a notifier may return: a classified error, one of the errors of its context, or another.\<close>

datatype DeliveryError =
    Classified NotifyError
  | DeadlineExceeded
  | Canceled
  | OtherError string

section \<open>The registry (registry.go)\<close>

datatype RegistryError =
    TypeRequired
  | FactoryRequired
  | ErrDuplicateNotifierType string
  | ErrUnknownNotifierType string

text \<open>The map of factories; a nil factory is \<open>None\<close>.\<close>

type_synonym 'f Registry = "(string \<times> 'f) list"

definition NewRegistry :: "'f Registry" where
  "NewRegistry = []"

definition Register :: "'f Registry \<Rightarrow> string \<Rightarrow> 'f option \<Rightarrow> RegistryError option \<times> 'f Registry" where
  "Register r notifierType factory =
     (let notifierType = TrimSpace notifierType
      in if notifierType = [] then (Some TypeRequired, r)
         else case factory of
           None \<Rightarrow> (Some FactoryRequired, r)
         | Some f \<Rightarrow>
             if map_of r notifierType \<noteq> None then (Some (ErrDuplicateNotifierType notifierType), r)
             else (None, (notifierType, f) # r))"

definition Create :: "('c \<Rightarrow> 'r) Registry \<Rightarrow> string \<Rightarrow> 'c \<Rightarrow> RegistryError + 'r" where
  "Create r notifierType config =
     (case map_of r notifierType of
        None \<Rightarrow> Inl (ErrUnknownNotifierType notifierType)
      | Some factory \<Rightarrow> Inr (factory config))"

definition Types :: "'f Registry \<Rightarrow> string list" where
  "Types r = sort (map fst r)"

section \<open>Signatures (signing.go)\<close>

text \<open>\<open>time.Unix\<close>: the whole seconds since 1970, rounded down.\<close>

definition unix_epoch :: gotime where
  "unix_epoch = 62135596800 * Second"

definition Unix :: "gotime \<Rightarrow> int" where
  "Unix t = (t - unix_epoch) div Second"

definition signed_message :: "gotime \<Rightarrow> string \<Rightarrow> string" where
  "signed_message timestamp rawBody = FormatInt (Unix timestamp) @ ''.'' @ rawBody"

definition Sign :: "string \<Rightarrow> gotime \<Rightarrow> string \<Rightarrow> string" where
  "Sign secret timestamp rawBody =
     EncodeToString (hmac_sha256 (bytes secret) (bytes (signed_message timestamp rawBody)))"

definition Verify :: "string \<Rightarrow> gotime \<Rightarrow> string \<Rightarrow> string \<Rightarrow> bool" where
  "Verify secret timestamp rawBody signature =
     (if length signature \<noteq> 32 * 2 then False
      else case DecodeString signature of
        None \<Rightarrow> False
      | Some decoded \<Rightarrow>
          if EncodeToString decoded \<noteq> signature then False
          else case DecodeString (Sign secret timestamp rawBody) of
            None \<Rightarrow> False
          | Some actual \<Rightarrow> actual = decoded)"

section \<open>Properties\<close>

text \<open>
  C34: \<open>Verify\<close> accepts exactly one signature for a secret, timestamp and body: the one that \<open>Sign\<close>
  makes, in lower-case hexadecimal.
\<close>

theorem Verify_iff_Sign: "Verify secret timestamp body signature \<longleftrightarrow> signature = Sign secret timestamp body"
proof
  assume "Verify secret timestamp body signature"
  then obtain decoded where "EncodeToString decoded = signature"
    "DecodeString (Sign secret timestamp body) = Some decoded"
    by (auto simp: Verify_def split: if_splits option.splits)
  then show "signature = Sign secret timestamp body" by (simp add: Sign_def)
qed (simp add: Verify_def Sign_def)

lemma Itoa_digits: "c \<in> set (Itoa n) \<Longrightarrow> \<exists>d < 10. c = digit d"
proof (induction n rule: Itoa.induct)
  case (1 n)
  show ?case
  proof (cases "n < 10")
    case True
    then show ?thesis using "1.prems" by (auto simp: Itoa.simps [of n])
  next
    case False
    then consider "c \<in> set (Itoa (n div 10))" | "c = digit (n mod 10)"
      using "1.prems" by (auto simp: Itoa.simps [of n])
    then show ?thesis
    proof cases
      case 1
      then show ?thesis using "1.IH" [OF False] by blast
    next
      case 2
      have "n mod 10 < 10" by simp
      with 2 show ?thesis by blast
    qed
  qed
qed

lemma dot_not_in_FormatInt: "CHR ''.'' \<notin> set (FormatInt i)"
proof -
  have "digit d \<noteq> CHR ''.''" if "d < 10" for d
    using that by (auto simp: digit_def dest: arg_cong [of _ _ "of_char :: char \<Rightarrow> nat"])
  then have "CHR ''.'' \<notin> set (Itoa n)" for n
    using Itoa_digits [of "CHR ''.''" n] by metis
  then show ?thesis by (simp add: FormatInt_def)
qed

lemma split_at_dot:
  "CHR ''.'' \<notin> set a \<Longrightarrow> CHR ''.'' \<notin> set b \<Longrightarrow> a @ CHR ''.'' # x = b @ CHR ''.'' # y \<longleftrightarrow> a = b \<and> x = y"
proof (induction a arbitrary: b)
  case Nil
  then show ?case by (cases b) auto
next
  case (Cons c a)
  then show ?case by (cases b) auto
qed

text \<open>
  The timestamp and the body are signed together without ambiguity: requests with different
  timestamps in seconds or different bodies sign different byte strings.
\<close>

theorem signed_message_inj:
  "signed_message t body = signed_message t' body' \<longleftrightarrow> Unix t = Unix t' \<and> body = body'"
  using split_at_dot [OF dot_not_in_FormatInt dot_not_in_FormatInt, of "Unix t" body "Unix t'" body']
  by (auto simp: signed_message_def)

lemma registry_wf: "Register r ty f = (err, r') \<Longrightarrow> wf_map r \<Longrightarrow> wf_map r'"
  by (auto simp: Register_def Let_def map_of_eq_None_iff split: if_splits option.splits)

text \<open>
  The registry. A type registers once: registering it again fails and changes nothing; after a
  registration, the type creates notifiers with its factory, every other type behaves as before,
  and the listed types stay sorted and without repetition.
\<close>

theorem Register_Create:
  assumes "wf_map r" "Register r ty (Some f) = (err, r')"
  shows "if blank ty then err = Some TypeRequired \<and> r' = r
    else if TrimSpace ty \<in> set (Types r) then err = Some (ErrDuplicateNotifierType (TrimSpace ty)) \<and> r' = r
    else err = None
      \<and> Create r' (TrimSpace ty) config = Inr (f config)
      \<and> (\<forall>other. other \<noteq> TrimSpace ty \<longrightarrow> Create r' other config = Create r other config)
      \<and> sorted (Types r') \<and> distinct (Types r') \<and> set (Types r') = insert (TrimSpace ty) (set (Types r))"
  using assms registry_wf [OF assms(2,1)]
  by (auto simp: Register_def Create_def Types_def Let_def map_of_eq_None_iff split: if_splits)

theorem Register_Create_witness:
  "\<exists>r'. Register (NewRegistry :: (unit \<Rightarrow> string + unit) Registry) ''webhook'' (Some Inr) = (None, r')
     \<and> Create r' ''webhook'' () = Inr (Inr ())"
proof -
  obtain err r' where r: "Register (NewRegistry :: (unit \<Rightarrow> string + unit) Registry) ''webhook'' (Some Inr) = (err, r')"
    by fastforce
  have "TrimSpace ''webhook'' = ''webhook''" by (simp add: TrimSpace_graphic graphic_def)
  then show ?thesis
    using Register_Create [OF _ r, of "()"] r by (simp add: NewRegistry_def Types_def)
qed

end
