(* ===== verification/Dispatcher.thy ===== *)
theory Dispatcher
  imports Store_Runs Notifier
begin

text \<open>
  The dispatcher of notifications, from \<^verbatim>\<open>internal/notify/dispatcher.go\<close>: it claims one delivery from
  the outbox, hands it to the notifier of its destination, and completes, reschedules or fails it.

  The store, the notifiers, the clock and the context are interfaces of the code, fields or
  arguments here, and act on the world, in which other workers may act as well. Metrics and log
  lines are left out: they do not change what the dispatcher does. The two strings that the code
  encodes as JSON always encode, so that error branch is left out too.
\<close>

section \<open>Configuration\<close>

record 'w OutboxStore =
  os_ClaimDelivery :: "'w \<Rightarrow> ClaimRequest \<Rightarrow> (StoreError + Delivery) \<times> 'w"
  os_CompleteDelivery :: "'w \<Rightarrow> CompleteRequest \<Rightarrow> StoreError option \<times> 'w"
  os_RescheduleDelivery :: "'w \<Rightarrow> RescheduleRequest \<Rightarrow> StoreError option \<times> 'w"

record 'w NotifierImpl =
  nf_Name :: string
  nf_Deliver :: "'w \<Rightarrow> Envelope \<Rightarrow> DeliveryError option \<times> 'w"

record 'w DispatcherConfig =
  dc_Store :: "'w OutboxStore option"
  dc_Notifiers :: "'w NotifierImpl option list"
  dc_WorkerID :: string
  dc_Workers :: int
  dc_ClusterID :: string
  dc_LeaseDuration :: duration
  dc_MaxAttempts :: int
  dc_InitialBackoff :: duration
  dc_MaxBackoff :: duration
  dc_DeliveredExpiry :: duration
  dc_FailedExpiry :: duration
  dc_Now :: "('w \<Rightarrow> gotime \<times> 'w) option"

record 'w Dispatcher =
  dsp_store :: "'w OutboxStore"
  dsp_notifiers :: "(string \<times> 'w NotifierImpl) list"
  dsp_workerID :: string
  dsp_workers :: int
  dsp_clusterID :: string
  dsp_leaseDuration :: duration
  dsp_maxAttempts :: int
  dsp_initialBackoff :: duration
  dsp_maxBackoff :: duration
  dsp_deliveredExpiry :: duration
  dsp_failedExpiry :: duration
  dsp_now :: "'w \<Rightarrow> gotime \<times> 'w"

datatype DispatcherError =
    StoreRequired
  | IDsRequired
  | LimitsInconsistent
  | ExpiryNegative
  | ClockRequired
  | NotifierRequired
  | DuplicateDestination string

fun indexNotifiers ::
  "'w NotifierImpl option list \<Rightarrow> (string \<times> 'w NotifierImpl) list \<Rightarrow>
   DispatcherError + (string \<times> 'w NotifierImpl) list" where
  "indexNotifiers [] notifiers = Inr notifiers"
| "indexNotifiers (None # rest) notifiers = Inl NotifierRequired"
| "indexNotifiers (Some notifier # rest) notifiers =
     (if blank (nf_Name notifier) then Inl NotifierRequired
      else if map_of notifiers (nf_Name notifier) \<noteq> None
      then Inl (DuplicateDestination (nf_Name notifier))
      else indexNotifiers rest ((nf_Name notifier, notifier) # notifiers))"

definition NewDispatcher :: "'w DispatcherConfig \<Rightarrow> DispatcherError + 'w Dispatcher" where
  "NewDispatcher config =
     (case dc_Store config of
        None \<Rightarrow> Inl StoreRequired
      | Some store \<Rightarrow>
          if blank (dc_WorkerID config) \<or> blank (dc_ClusterID config)
          then Inl IDsRequired
          else if dc_Workers config \<le> 0 \<or> dc_LeaseDuration config \<le> 0 \<or> dc_MaxAttempts config \<le> 0
            \<or> dc_InitialBackoff config \<le> 0 \<or> dc_MaxBackoff config < dc_InitialBackoff config
          then Inl LimitsInconsistent
          else if dc_DeliveredExpiry config < 0 \<or> dc_FailedExpiry config < 0
          then Inl ExpiryNegative
          else case dc_Now config of
            None \<Rightarrow> Inl ClockRequired
          | Some now \<Rightarrow>
              (case indexNotifiers (dc_Notifiers config) [] of
                 Inl err \<Rightarrow> Inl err
               | Inr notifiers \<Rightarrow>
                   Inr \<lparr>dsp_store = store, dsp_notifiers = notifiers,
                     dsp_workerID = dc_WorkerID config, dsp_workers = dc_Workers config,
                     dsp_clusterID = dc_ClusterID config, dsp_leaseDuration = dc_LeaseDuration config,
                     dsp_maxAttempts = dc_MaxAttempts config,
                     dsp_initialBackoff = dc_InitialBackoff config,
                     dsp_maxBackoff = dc_MaxBackoff config,
                     dsp_deliveredExpiry = dc_DeliveredExpiry config,
                     dsp_failedExpiry = dc_FailedExpiry config, dsp_now = now\<rparr>))"

section \<open>One delivery\<close>

fun backoff_loop :: "duration \<Rightarrow> nat \<Rightarrow> duration \<Rightarrow> duration" where
  "backoff_loop maxBackoff 0 delay = (if maxBackoff < delay then maxBackoff else delay)"
| "backoff_loop maxBackoff (Suc n) delay =
     (if maxBackoff sdiv 2 \<le> delay then maxBackoff
      else backoff_loop maxBackoff n (wrap64 (delay * 2)))"

definition backoff :: "'w Dispatcher \<Rightarrow> int \<Rightarrow> duration" where
  "backoff d attempt = backoff_loop (dsp_maxBackoff d) (nat (attempt - 1)) (dsp_initialBackoff d)"

definition expiry :: "gotime \<Rightarrow> duration \<Rightarrow> gotime option" where
  "expiry now retention = (if retention \<le> 0 then None else Some (now + retention))"

definition notifyErr :: "string \<Rightarrow> DeliveryError" where
  "notifyErr kind =
     Classified \<lparr>ne_StatusCode = 0, ne_Retryable = False, ne_RetryDelay = 0, ne_Kind = kind\<rparr>"

definition deliveryData :: "Delivery \<Rightarrow> string" where
  "deliveryData delivery =
     (if length (ntf_Payload delivery) = 0
      then ''{'' @ json_quote ''evaluationId'' @ '':'' @ json_quote (ntf_EvaluationID delivery) @ '',''
           @ json_quote ''destinationId'' @ '':'' @ json_quote (ntf_DestinationID delivery) @ ''}''
      else ntf_Payload delivery)"

definition attemptDelivery ::
  "'w Dispatcher \<Rightarrow> 'w \<Rightarrow> gotime \<Rightarrow> Delivery \<Rightarrow> DeliveryError option \<times> 'w" where
  "attemptDelivery d w now delivery =
     (case map_of (dsp_notifiers d) (ntf_DestinationID delivery) of
        None \<Rightarrow> (Some (notifyErr ''unknown_destination''), w)
      | Some notifier \<Rightarrow>
          (case NewEnvelope (ntf_ID delivery) (ntf_EventType delivery) (dsp_clusterID d) now
                  (deliveryData delivery) of
             Inl _ \<Rightarrow> (Some (notifyErr ''invalid_delivery''), w)
           | Inr event \<Rightarrow> nf_Deliver notifier w event))"

fun retryable :: "DeliveryError \<Rightarrow> bool" where
  "retryable (Classified e) \<longleftrightarrow> ne_Retryable e"
| "retryable DeadlineExceeded \<longleftrightarrow> True"
| "retryable _ \<longleftrightarrow> False"

fun requestedDelay :: "DeliveryError \<Rightarrow> duration option" where
  "requestedDelay (Classified e) = Some (RetryAfter e)"
| "requestedDelay _ = None"

definition classifyFailure :: "'w Dispatcher \<Rightarrow> Delivery \<Rightarrow> DeliveryError \<Rightarrow> FailureClass \<times> duration" where
  "classifyFailure d delivery deliveryErr =
     (if retryable deliveryErr \<and> ntf_Attempts delivery < dsp_maxAttempts d then
        let delay = backoff d (ntf_Attempts delivery)
        in (FailureRetryable,
            case requestedDelay deliveryErr of
              None \<Rightarrow> delay
            | Some requested \<Rightarrow>
                if delay < requested
                then (if dsp_maxBackoff d < requested then dsp_maxBackoff d else requested)
                else delay)
      else (FailurePermanent, 0))"

datatype DispatchError =
    ContextError DeliveryError
  | ClaimError StoreError
  | CompleteError StoreError
  | FinalizeError StoreError

definition DispatchOne ::
  "('w \<Rightarrow> DeliveryError option) \<Rightarrow> 'w Dispatcher \<Rightarrow> 'w \<Rightarrow> (bool \<times> DispatchError option) \<times> 'w" where
  "DispatchOne ctx d w =
     (case ctx w of
        Some err \<Rightarrow> ((False, Some (ContextError err)), w)
      | None \<Rightarrow>
          let (now, w) = dsp_now d w;
              (claimed, w) = os_ClaimDelivery (dsp_store d) w
                \<lparr>clr_WorkerID = dsp_workerID d, clr_Now = now, clr_LeaseDuration = dsp_leaseDuration d\<rparr>
          in case claimed of
               Inl err \<Rightarrow>
                 if err = ErrNotFound then ((False, None), w) else ((False, Some (ClaimError err)), w)
             | Inr delivery \<Rightarrow>
                 let (deliveryErr, w) = attemptDelivery d w now delivery
                 in case deliveryErr of
                      None \<Rightarrow>
                        let (completedAt, w) = dsp_now d w;
                            (err, w) = os_CompleteDelivery (dsp_store d) w
                              \<lparr>cpr_ID = ntf_ID delivery, cpr_WorkerID = dsp_workerID d,
                               cpr_CompletedAt = completedAt,
                               cpr_ExpiresAt = expiry completedAt (dsp_deliveredExpiry d)\<rparr>
                        in ((True, map_option CompleteError err), w)
                    | Some failed \<Rightarrow>
                        (case ctx w of
                           Some err \<Rightarrow> ((True, Some (ContextError err)), w)
                         | None \<Rightarrow>
                             let (failure, delay) = classifyFailure d delivery failed;
                                 (requestNow, w) = dsp_now d w;
                                 (err, w) = os_RescheduleDelivery (dsp_store d) w
                                   \<lparr>rsr_ID = ntf_ID delivery, rsr_WorkerID = dsp_workerID d,
                                    rsr_Now = requestNow, rsr_NextAttemptAt = requestNow + delay,
                                    rsr_Failure = failure,
                                    rsr_ExpiresAt = (if failure = FailurePermanent
                                      then expiry requestNow (dsp_failedExpiry d) else None)\<rparr>
                             in ((True, map_option FinalizeError err), w)))"

text \<open>
  The loop of one worker of \<open>Run\<close>: it stops at an error or when nothing is left to claim. Whether
  it stops depends on the world, so not stopping is the value \<open>None\<close>.
\<close>

partial_function (option) workerLoop ::
  "('w \<Rightarrow> DeliveryError option) \<Rightarrow> 'w Dispatcher \<Rightarrow> 'w \<Rightarrow> (DispatchError option \<times> 'w) option" where
  "workerLoop ctx d w =
     (case DispatchOne ctx d w of
        ((processed, Some err), w') \<Rightarrow> Some (Some err, w')
      | ((processed, None), w') \<Rightarrow> if \<not> processed then Some (None, w') else workerLoop ctx d w')"

section \<open>Backoff\<close>

text \<open>A dispatcher that \<open>NewDispatcher\<close> made, its durations within int64.\<close>

definition wf_dispatcher :: "'w Dispatcher \<Rightarrow> bool" where
  "wf_dispatcher d \<longleftrightarrow>
     \<not> blank (dsp_workerID d) \<and> \<not> blank (dsp_clusterID d) \<and> 0 < dsp_workers d \<and> 0 < dsp_leaseDuration d
     \<and> 0 < dsp_maxAttempts d \<and> 0 < dsp_initialBackoff d \<and> dsp_initialBackoff d \<le> dsp_maxBackoff d
     \<and> dsp_maxBackoff d \<le> maxDuration \<and> 0 \<le> dsp_deliveredExpiry d \<and> 0 \<le> dsp_failedExpiry d
     \<and> wf_map (dsp_notifiers d)"

lemma backoff_loop_bounds:
  assumes "0 < delay" "delay \<le> maxB" "maxB \<le> maxDuration"
  shows "min maxB (delay * 2 ^ n) \<le> backoff_loop maxB n delay
    \<and> backoff_loop maxB n delay \<le> min maxB (delay * 2 ^ n + 1)"
  using assms
proof (induction n arbitrary: delay)
  case 0
  then show ?case by simp
next
  case (Suc n)
  have half: "maxB sdiv 2 = maxB div 2" using Suc.prems by (simp add: signed_divide_int_def)
  show ?case
  proof (cases "maxB sdiv 2 \<le> delay")
    case True
    then have "maxB \<le> delay * 2 + 1" using half by linarith
    moreover have "delay * 2 * 1 \<le> delay * 2 * 2 ^ n"
      using Suc.prems(1) by (intro mult_left_mono) auto
    ultimately have "maxB \<le> delay * 2 * 2 ^ n + 1" by linarith
    then show ?thesis using True by simp
  next
    case False
    then have small: "delay * 2 \<le> maxB" "delay * 2 < maxB" using half by linarith+
    then have "int64_range (delay * 2)"
      using Suc.prems by (simp add: int64_range_def maxDuration_def)
    then have w: "wrap64 (delay * 2) = delay * 2" by (rule wrap64_id)
    show ?thesis using Suc.IH [of "delay * 2"] Suc.prems small False by (simp add: w mult.assoc)
  qed
qed

lemma backoff_range:
  assumes "wf_dispatcher d"
  shows "dsp_initialBackoff d \<le> backoff d n" "backoff d n \<le> dsp_maxBackoff d"
proof -
  have p: "0 < dsp_initialBackoff d" "dsp_initialBackoff d \<le> dsp_maxBackoff d" "dsp_maxBackoff d \<le> maxDuration"
    using assms by (simp_all add: wf_dispatcher_def)
  have "dsp_initialBackoff d * 1 \<le> dsp_initialBackoff d * 2 ^ nat (n - 1)"
    using p(1) by (intro mult_left_mono) auto
  then show "dsp_initialBackoff d \<le> backoff d n" "backoff d n \<le> dsp_maxBackoff d"
    using backoff_loop_bounds [OF p, of "nat (n - 1)"] p(2) unfolding backoff_def by linarith+
qed

lemma indexNotifiers_wf:
  "indexNotifiers ns notifiers = Inr r \<Longrightarrow> wf_map notifiers \<Longrightarrow> wf_map r"
  by (induction ns notifiers rule: indexNotifiers.induct)
    (auto simp: map_of_eq_None_iff split: if_splits)

lemma NewDispatcher_wf:
  assumes "NewDispatcher config = Inr d" "dc_MaxBackoff config \<le> maxDuration"
  shows "wf_dispatcher d"
  using assms indexNotifiers_wf [of "dc_Notifiers config" "[]"]
  by (auto simp: NewDispatcher_def wf_dispatcher_def split: option.splits if_splits sum.splits)

text \<open>
  C32: The delay before a retry doubles from the initial backoff and is capped. After the attempt
  \<open>n\<close> it is at least \<open>initial * 2^(n-1)\<close> or the maximum, whichever is less, and exceeds that by at
  most one nanosecond. It never overflows and is never below the initial backoff nor above the
  maximum.
\<close>

theorem backoff_bounds:
  assumes "NewDispatcher config = Inr d" "dc_MaxBackoff config \<le> maxDuration"
  shows "min (dsp_maxBackoff d) (dsp_initialBackoff d * 2 ^ nat (n - 1)) \<le> backoff d n
    \<and> backoff d n \<le> min (dsp_maxBackoff d) (dsp_initialBackoff d * 2 ^ nat (n - 1) + 1)
    \<and> dsp_initialBackoff d \<le> backoff d n"
proof -
  have wf: "wf_dispatcher d" by (rule NewDispatcher_wf [OF assms])
  then have p: "0 < dsp_initialBackoff d" "dsp_initialBackoff d \<le> dsp_maxBackoff d" "dsp_maxBackoff d \<le> maxDuration"
    by (simp_all add: wf_dispatcher_def)
  show ?thesis
    using backoff_loop_bounds [OF p, of "nat (n - 1)"] backoff_range(1) [OF wf, of n]
    unfolding backoff_def by linarith
qed

lemma classifyFailure_cases:
  assumes "classifyFailure d delivery err = (failure, delay)" "wf_dispatcher d"
  shows "(failure = FailurePermanent \<and> delay = 0)
    \<or> (failure = FailureRetryable \<and> retryable err \<and> ntf_Attempts delivery < dsp_maxAttempts d
       \<and> dsp_initialBackoff d \<le> delay \<and> delay \<le> dsp_maxBackoff d)"
proof -
  have "dsp_initialBackoff d \<le> dsp_maxBackoff d" using assms(2) by (simp add: wf_dispatcher_def)
  then show ?thesis
    using assms(1) backoff_range [OF assms(2), of "ntf_Attempts delivery"]
    by (auto simp: classifyFailure_def Let_def split: if_splits option.splits)
qed

section \<open>The store as the dispatcher sees it\<close>

text \<open>
  What the dispatcher needs of its store, in terms of the deliveries it holds: a claim takes the
  earliest delivery that is due, and completing or rescheduling changes a delivery that is leased.
\<close>

locale outbox_store =
  fixes store :: "'w OutboxStore"
    and contents :: "'w \<Rightarrow> string \<rightharpoonup> outboxDocument"
  assumes claim_Inr: "os_ClaimDelivery store w r = (Inr dl, w') \<Longrightarrow>
      \<exists>b. contents w (ntf_ID dl) = Some b \<and> earliest (contents w) (clr_Now r) b
        \<and> ntf_Attempts dl = ob_Attempts b + 1 \<and> contents w' = (contents w)(ntf_ID dl \<mapsto> lease r b)"
    and claim_NotFound: "os_ClaimDelivery store w r = (Inl ErrNotFound, w') \<Longrightarrow>
      contents w' = contents w \<and> (\<forall>b \<in> ran (contents w). \<not> claimable (clr_Now r) b)"
    and complete_None: "os_CompleteDelivery store w q = (None, w') \<Longrightarrow>
      outbox_step (contents w) (Completed q) (contents w')"
    and reschedule_None: "os_RescheduleDelivery store w p = (None, w') \<Longrightarrow>
      outbox_step (contents w) (Rescheduled p) (contents w')"

text \<open>What became of a delivery that the dispatcher has finished with.\<close>

definition finalized :: "'w Dispatcher \<Rightarrow> int \<Rightarrow> outboxDocument \<Rightarrow> bool" where
  "finalized d attempts b \<longleftrightarrow>
     ob_LeaseOwner b = [] \<and> ob_LeaseUntil b = None
     \<and> (ob_Status b = NotificationDelivered
        \<or> ob_Status b = NotificationFailed \<and> ob_LastFailure b = FailurePermanent
        \<or> ob_Status b = NotificationPending \<and> ob_LastFailure b = FailureRetryable
          \<and> attempts < dsp_maxAttempts d
          \<and> (\<exists>now delay. ob_NextAttemptAt b = bson_time (now + delay)
               \<and> dsp_initialBackoff d \<le> delay \<and> delay \<le> dsp_maxBackoff d))"

lemma completed_finalizes:
  assumes "outbox_step c (Completed q) c'"
  shows "\<exists>b b'. c (cpr_ID q) = Some b \<and> c' = c(cpr_ID q \<mapsto> b') \<and> finalized d n b' \<and> ob_Attempts b' = ob_Attempts b"
  using assms
proof (rule completeE)
  fix b
  assume "c (cpr_ID q) = Some b" "c' = c(cpr_ID q \<mapsto> set_delivered q b)"
  then show ?thesis
    by (intro exI [of _ b] exI [of _ "set_delivered q b"]) (simp add: finalized_def set_delivered_def)
qed

lemma rescheduled_finalizes:
  assumes "outbox_step c (Rescheduled p) c'" "classifyFailure d dl err = (rsr_Failure p, delay)"
    "rsr_NextAttemptAt p = now + delay" "wf_dispatcher d"
  shows "\<exists>b b'. c (rsr_ID p) = Some b \<and> c' = c(rsr_ID p \<mapsto> b') \<and> finalized d (ntf_Attempts dl) b'
    \<and> ob_Attempts b' = ob_Attempts b"
  using assms(1)
proof (rule rescheduleE)
  fix b status
  assume b: "c (rsr_ID p) = Some b" "c' = c(rsr_ID p \<mapsto> set_rescheduled status p b)"
    and status: "rescheduled_status (rsr_Failure p) = Some status"
  have "finalized d (ntf_Attempts dl) (set_rescheduled status p b)"
    using classifyFailure_cases [OF assms(2,4)] status assms(3)
    by (auto simp: finalized_def set_rescheduled_def)
  then show ?thesis
    using b by (intro exI [of _ b] exI [of _ "set_rescheduled status p b"]) (simp add: set_rescheduled_def)
qed

text \<open>
  One successful round in its parts: the claim, the attempt, and the last step, which changes the
  claimed delivery only.
\<close>

lemma DispatchOne_True:
  assumes "DispatchOne ctx d w = ((True, None), w')"
  obtains now w1 dl w2 r w3 t w4 where
    "dsp_now d w = (now, w1)"
    "os_ClaimDelivery (dsp_store d) w1
       \<lparr>clr_WorkerID = dsp_workerID d, clr_Now = now, clr_LeaseDuration = dsp_leaseDuration d\<rparr> = (Inr dl, w2)"
    "attemptDelivery d w2 now dl = (r, w3)" "dsp_now d w3 = (t, w4)"
    "r = None \<and> os_CompleteDelivery (dsp_store d) w4
         \<lparr>cpr_ID = ntf_ID dl, cpr_WorkerID = dsp_workerID d, cpr_CompletedAt = t,
          cpr_ExpiresAt = expiry t (dsp_deliveredExpiry d)\<rparr> = (None, w')
     \<or> (\<exists>err failure delay. r = Some err \<and> classifyFailure d dl err = (failure, delay)
         \<and> os_RescheduleDelivery (dsp_store d) w4
         \<lparr>rsr_ID = ntf_ID dl, rsr_WorkerID = dsp_workerID d, rsr_Now = t, rsr_NextAttemptAt = t + delay,
          rsr_Failure = failure,
          rsr_ExpiresAt = (if failure = FailurePermanent then expiry t (dsp_failedExpiry d) else None)\<rparr>
           = (None, w'))"
  using assms
  by (simp add: DispatchOne_def Let_def split: option.splits prod.splits sum.splits if_splits)

lemma DispatchOne_False:
  assumes "DispatchOne ctx d w = ((False, None), w')"
  obtains now w1 where "dsp_now d w = (now, w1)"
    "os_ClaimDelivery (dsp_store d) w1
       \<lparr>clr_WorkerID = dsp_workerID d, clr_Now = now, clr_LeaseDuration = dsp_leaseDuration d\<rparr>
     = (Inl ErrNotFound, w')"
  using assms
  by (simp add: DispatchOne_def Let_def split: option.splits prod.splits sum.splits if_splits)

lemma DispatchOne_delivers:
  assumes "ctx w = None" "dsp_now d w = (now, w1)"
    "os_ClaimDelivery (dsp_store d) w1
       \<lparr>clr_WorkerID = dsp_workerID d, clr_Now = now, clr_LeaseDuration = dsp_leaseDuration d\<rparr> = (Inr dl, w2)"
    "attemptDelivery d w2 now dl = (None, w3)" "dsp_now d w3 = (t, w4)"
    "fst (os_CompleteDelivery (dsp_store d) w4
         \<lparr>cpr_ID = ntf_ID dl, cpr_WorkerID = dsp_workerID d, cpr_CompletedAt = t,
          cpr_ExpiresAt = expiry t (dsp_deliveredExpiry d)\<rparr>) = None"
  shows "fst (DispatchOne ctx d w) = (True, None)"
  using assms by (simp add: DispatchOne_def case_prod_beta)

text \<open>No other process touches the outbox while this dispatcher runs.\<close>

definition quiet :: "('w \<Rightarrow> 'c) \<Rightarrow> 'w Dispatcher \<Rightarrow> bool" where
  "quiet contents d \<longleftrightarrow>
     (\<forall>w. contents (snd (dsp_now d w)) = contents w)
     \<and> (\<forall>(name, notifier) \<in> set (dsp_notifiers d). \<forall>w event. contents (snd (nf_Deliver notifier w event)) = contents w)"

lemma quiet_now: "quiet contents d \<Longrightarrow> dsp_now d w = (t, w') \<Longrightarrow> contents w' = contents w"
  unfolding quiet_def by (metis snd_conv)

lemma quiet_attempt:
  assumes "quiet contents d" "attemptDelivery d w now dl = (r, w')"
  shows "contents w' = contents w"
proof (cases "map_of (dsp_notifiers d) (ntf_DestinationID dl)")
  case None
  then show ?thesis using assms(2) by (simp add: attemptDelivery_def)
next
  case (Some notifier)
  then have "(ntf_DestinationID dl, notifier) \<in> set (dsp_notifiers d)" by (rule map_of_SomeD)
  then have "contents (snd (nf_Deliver notifier w event)) = contents w" for event
    using assms(1) by (auto simp: quiet_def)
  from this [of "projr (NewEnvelope (ntf_ID dl) (ntf_EventType dl) (dsp_clusterID d) now (deliveryData dl))"]
  show ?thesis using assms(2) Some by (auto simp: attemptDelivery_def split: sum.splits)
qed

text \<open>The claims that a delivery still allows, and their sum over the outbox.\<close>

definition remaining :: "int \<Rightarrow> outboxDocument \<Rightarrow> nat" where
  "remaining maxAttempts b = (if settled b then 0 else 1 + nat (maxAttempts - ob_Attempts b))"

definition work :: "int \<Rightarrow> (string \<rightharpoonup> outboxDocument) \<Rightarrow> nat" where
  "work maxAttempts c = (\<Sum>i \<in> dom c. remaining maxAttempts (the (c i)))"

lemma work_upd:
  assumes "finite (dom c)" "c i = Some b" "remaining n b' < remaining n b"
  shows "work n (c(i \<mapsto> b')) < work n c"
proof -
  have d: "dom (c(i \<mapsto> b')) = dom c" using assms(2) by auto
  show ?thesis
    unfolding work_def d
    by (rule sum_strict_mono_ex1 [OF assms(1)]) (use assms in \<open>auto intro!: bexI [of _ i]\<close>)
qed

context outbox_store
begin

lemma DispatchOne_last:
  assumes "DispatchOne ctx d w = ((True, None), w')" "dsp_store d = store" "wf_dispatcher d"
  obtains now w1 dl w2 r w3 t w4 b b' where
    "dsp_now d w = (now, w1)"
    "os_ClaimDelivery store w1
       \<lparr>clr_WorkerID = dsp_workerID d, clr_Now = now, clr_LeaseDuration = dsp_leaseDuration d\<rparr> = (Inr dl, w2)"
    "attemptDelivery d w2 now dl = (r, w3)" "dsp_now d w3 = (t, w4)"
    "contents w4 (ntf_ID dl) = Some b" "contents w' = (contents w4)(ntf_ID dl \<mapsto> b')"
    "finalized d (ntf_Attempts dl) b'" "ob_Attempts b' = ob_Attempts b"
proof -
  obtain now w1 dl w2 r w3 t w4 where parts:
    "dsp_now d w = (now, w1)"
    "os_ClaimDelivery store w1
       \<lparr>clr_WorkerID = dsp_workerID d, clr_Now = now, clr_LeaseDuration = dsp_leaseDuration d\<rparr> = (Inr dl, w2)"
    "attemptDelivery d w2 now dl = (r, w3)" "dsp_now d w3 = (t, w4)"
    and fin: "r = None \<and> os_CompleteDelivery store w4
         \<lparr>cpr_ID = ntf_ID dl, cpr_WorkerID = dsp_workerID d, cpr_CompletedAt = t,
          cpr_ExpiresAt = expiry t (dsp_deliveredExpiry d)\<rparr> = (None, w')
     \<or> (\<exists>err failure delay. r = Some err \<and> classifyFailure d dl err = (failure, delay)
         \<and> os_RescheduleDelivery store w4
         \<lparr>rsr_ID = ntf_ID dl, rsr_WorkerID = dsp_workerID d, rsr_Now = t, rsr_NextAttemptAt = t + delay,
          rsr_Failure = failure,
          rsr_ExpiresAt = (if failure = FailurePermanent then expiry t (dsp_failedExpiry d) else None)\<rparr>
           = (None, w'))"
    using DispatchOne_True [OF assms(1)] unfolding assms(2) by metis
  have "\<exists>b b'. contents w4 (ntf_ID dl) = Some b \<and> contents w' = (contents w4)(ntf_ID dl \<mapsto> b')
      \<and> finalized d (ntf_Attempts dl) b' \<and> ob_Attempts b' = ob_Attempts b"
    using fin
  proof (elim disjE exE conjE)
    assume "os_CompleteDelivery store w4
         \<lparr>cpr_ID = ntf_ID dl, cpr_WorkerID = dsp_workerID d, cpr_CompletedAt = t,
          cpr_ExpiresAt = expiry t (dsp_deliveredExpiry d)\<rparr> = (None, w')"
    from completed_finalizes [OF complete_None [OF this]] show ?thesis by simp
  next
    fix err failure delay
    assume failing: "classifyFailure d dl err = (failure, delay)"
      and saved: "os_RescheduleDelivery store w4
         \<lparr>rsr_ID = ntf_ID dl, rsr_WorkerID = dsp_workerID d, rsr_Now = t, rsr_NextAttemptAt = t + delay,
          rsr_Failure = failure,
          rsr_ExpiresAt = (if failure = FailurePermanent then expiry t (dsp_failedExpiry d) else None)\<rparr>
           = (None, w')"
    show ?thesis
      using rescheduled_finalizes [OF reschedule_None [OF saved], of d dl err delay t] failing assms(3)
      by simp
  qed
  then show ?thesis using that parts by blast
qed

lemma DispatchOne_work:
  assumes "DispatchOne ctx d w = ((True, None), w')" "dsp_store d = store" "wf_dispatcher d"
    "quiet contents d" "finite (dom (contents w))"
  shows "work (dsp_maxAttempts d) (contents w') < work (dsp_maxAttempts d) (contents w)
    \<and> dom (contents w') = dom (contents w)"
proof -
  obtain now w1 dl w2 r w3 t w4 b b' where p:
    "dsp_now d w = (now, w1)"
    "os_ClaimDelivery store w1
       \<lparr>clr_WorkerID = dsp_workerID d, clr_Now = now, clr_LeaseDuration = dsp_leaseDuration d\<rparr> = (Inr dl, w2)"
    "attemptDelivery d w2 now dl = (r, w3)" "dsp_now d w3 = (t, w4)"
    "contents w4 (ntf_ID dl) = Some b" "contents w' = (contents w4)(ntf_ID dl \<mapsto> b')"
    "finalized d (ntf_Attempts dl) b'" "ob_Attempts b' = ob_Attempts b"
    using DispatchOne_last [OF assms(1-3)] .
  let ?r = "\<lparr>clr_WorkerID = dsp_workerID d, clr_Now = now, clr_LeaseDuration = dsp_leaseDuration d\<rparr>"
  have same: "contents w1 = contents w" "contents w4 = contents w2"
    using p quiet_now [OF assms(4)] quiet_attempt [OF assms(4)] by metis+
  obtain a where a: "contents w (ntf_ID dl) = Some a" "earliest (contents w) now a"
    "ntf_Attempts dl = ob_Attempts a + 1" "contents w2 = (contents w)(ntf_ID dl \<mapsto> lease ?r a)"
    using claim_Inr [OF p(2)] same(1) by auto
  have b: "b = lease ?r a" using p(5) same(2) a(4) by simp
  have w': "contents w' = (contents w)(ntf_ID dl \<mapsto> b')" using p(6) same(2) a(4) by simp
  have "ob_Attempts b' = ob_Attempts a + 1" using p(8) b by (simp add: lease_def)
  moreover have "\<not> settled a" using a(2) by (auto simp: earliest_def claimable_def settled_def)
  ultimately have "remaining (dsp_maxAttempts d) b' < remaining (dsp_maxAttempts d) a"
    using p(7) a(3) by (auto simp: remaining_def finalized_def settled_def)
  from work_upd [OF assms(5) a(1) this] show ?thesis using w' a(1) by auto
qed

lemma workerLoop_returns:
  assumes "dsp_store d = store" "wf_dispatcher d" "quiet contents d" "finite (dom (contents w))"
  shows "\<exists>err w'. workerLoop ctx d w = Some (err, w')
    \<and> (err = None \<longrightarrow> (\<exists>u now. fst (dsp_now d u) = now \<and> (\<forall>b \<in> ran (contents w'). \<not> claimable now b)))"
  using assms(4)
proof (induction "work (dsp_maxAttempts d) (contents w)" arbitrary: w rule: less_induct)
  case less
  obtain processed err w1 where one: "DispatchOne ctx d w = ((processed, err), w1)" by (metis surj_pair)
  show ?case
  proof (cases "err = None \<and> processed")
    case True
    with one have "DispatchOne ctx d w = ((True, None), w1)" by simp
    note step = DispatchOne_work [OF this assms(1-3) less.prems]
    have "workerLoop ctx d w = workerLoop ctx d w1"
      using one True by (subst workerLoop.simps) simp
    then show ?thesis using less.hyps [of w1] step less.prems by simp
  next
    case False
    then have loop: "workerLoop ctx d w = Some (err, w1)"
      using one by (subst workerLoop.simps) (cases err; simp)
    have "\<exists>u now. fst (dsp_now d u) = now \<and> (\<forall>b \<in> ran (contents w1). \<not> claimable now b)" if "err = None"
    proof -
      have "DispatchOne ctx d w = ((False, None), w1)" using one False that by simp
      then obtain now w0 where now: "dsp_now d w = (now, w0)"
        "os_ClaimDelivery store w0
         \<lparr>clr_WorkerID = dsp_workerID d, clr_Now = now, clr_LeaseDuration = dsp_leaseDuration d\<rparr>
          = (Inl ErrNotFound, w1)"
        using DispatchOne_False assms(1) by metis
      from claim_NotFound [OF now(2)] now(1) show ?thesis by (intro exI [of _ w] exI [of _ now]) simp
    qed
    then show ?thesis using loop by blast
  qed
qed

end

definition mongo_outbox :: "('w, 'any) mongo \<Rightarrow> 'w OutboxStore" where
  "mongo_outbox m =
     \<lparr>os_ClaimDelivery = ClaimDelivery m, os_CompleteDelivery = CompleteDelivery m,
      os_RescheduleDelivery = RescheduleDelivery m\<rparr>"

sublocale mongo_server \<subseteq> ob: outbox_store "mongo_outbox m" "\<lambda>w. db_outbox (view w)"
proof (unfold_locales, goal_cases)
  case (1 w r dl w')
  then have "ClaimDelivery m w r = (Inr dl, w')" by (simp add: mongo_outbox_def)
  from ClaimDelivery_Inr [OF this] show ?case
    by (auto simp: deliveryFromDocument_def lease_def)
next
  case (2 w r w')
  then have "ClaimDelivery m w r = (Inl ErrNotFound, w')" by (simp add: mongo_outbox_def)
  from ClaimDelivery_Inl [OF this] show ?case by auto
next
  case (3 w q w')
  then have "CompleteDelivery m w q = (None, w')" by (simp add: mongo_outbox_def)
  from CompleteDelivery_effect [OF this] show ?case by auto
next
  case (4 w p w')
  then have "RescheduleDelivery m w p = (None, w')" by (simp add: mongo_outbox_def)
  from RescheduleDelivery_effect [OF this] show ?case by auto
qed

context mongo_server
begin

lemmas axioms_ob = ob.outbox_store_axioms

end

lemma json_Valid_deliveryData: "ntf_Payload delivery = [] \<Longrightarrow> json_Valid (deliveryData delivery)"
  by (simp add: deliveryData_def json_Valid_def json_quote_def scan_json_quote begin_value_def
      begin_string_def end_value_def push_def pop_def json_space_def maxNestingDepth_def
      del: quote_body.simps)

lemma deliveryData_nonempty: "ntf_Payload delivery = [] \<Longrightarrow> deliveryData delivery \<noteq> []"
  by (simp add: deliveryData_def del: quote_body.simps)

section \<open>Properties\<close>


text \<open>
  A round that reports nothing to do and no error has left the outbox as it was, and no delivery
  in it was due at the time of the claim.
\<close>

theorem DispatchOne_idle:
  assumes "mongo_server m view" "dsp_store d = mongo_outbox m" "DispatchOne ctx d w = ((False, None), w')"
  shows "\<exists>now w1. dsp_now d w = (now, w1) \<and> db_outbox (view w') = db_outbox (view w1)
    \<and> (\<forall>b \<in> ran (db_outbox (view w')). \<not> claimable now b)"
proof -
  have ob: "outbox_store (mongo_outbox m) (\<lambda>w. db_outbox (view w))"
    by (rule mongo_server.axioms_ob [OF assms(1)])
  obtain now w1 where now: "dsp_now d w = (now, w1)"
    "os_ClaimDelivery (mongo_outbox m) w1
       \<lparr>clr_WorkerID = dsp_workerID d, clr_Now = now, clr_LeaseDuration = dsp_leaseDuration d\<rparr>
     = (Inl ErrNotFound, w')"
    using DispatchOne_False [OF assms(3)] unfolding assms(2) .
  from outbox_store.claim_NotFound [OF ob now(2)] now(1) show ?thesis by simp
qed


text \<open>
  A delivery without a payload is sent with the evaluation and the destination as its data, which
  is valid JSON whatever bytes the two identifiers contain. The envelope is then never refused for
  its data.
\<close>

theorem deliveryData_Valid:
  assumes "ntf_Payload delivery = []"
  shows "NewEnvelope eid eventType clusterID now (deliveryData delivery) \<noteq> Inl ''event data must be valid JSON''"
proof -
  have "json_Valid (deliveryData delivery)" "deliveryData delivery \<noteq> []"
    using assms by (rule json_Valid_deliveryData, rule deliveryData_nonempty)
  then show ?thesis by (simp add: NewEnvelope_def)
qed

section \<open>Witnesses on the in-memory server\<close>

definition sample_config :: "unit mem DispatcherConfig" where
  "sample_config =
     \<lparr>dc_Store = Some (mongo_outbox mem_mongo),
      dc_Notifiers = [Some \<lparr>nf_Name = ''ops'', nf_Deliver = (\<lambda>w event. (None, w))\<rparr>],
      dc_WorkerID = ''w1'', dc_Workers = 1, dc_ClusterID = ''c1'', dc_LeaseDuration = 30 * Second,
      dc_MaxAttempts = 5, dc_InitialBackoff = Second, dc_MaxBackoff = 60 * Second,
      dc_DeliveredExpiry = 0, dc_FailedExpiry = 0, dc_Now = Some (\<lambda>w. (6 * Second, w))\<rparr>"

definition sample_dispatcher :: "unit mem Dispatcher" where
  "sample_dispatcher =
     \<lparr>dsp_store = mongo_outbox mem_mongo,
      dsp_notifiers = [(''ops'', \<lparr>nf_Name = ''ops'', nf_Deliver = (\<lambda>w event. (None, w))\<rparr>)],
      dsp_workerID = ''w1'', dsp_workers = 1, dsp_clusterID = ''c1'', dsp_leaseDuration = 30 * Second,
      dsp_maxAttempts = 5, dsp_initialBackoff = Second, dsp_maxBackoff = 60 * Second,
      dsp_deliveredExpiry = 0, dsp_failedExpiry = 0, dsp_now = (\<lambda>w. (6 * Second, w))\<rparr>"

lemma sample_dispatcher_made:
  "NewDispatcher sample_config = Inr sample_dispatcher" "dc_MaxBackoff sample_config \<le> maxDuration"
  "dsp_store sample_dispatcher = mongo_outbox mem_mongo"
  by (simp_all add: NewDispatcher_def sample_config_def sample_dispatcher_def TrimSpace_graphic graphic_def
      Second_def maxDuration_def)

lemma sample_attempt:
  assumes "ntf_ID dl = ''d1''" "ntf_EventType dl = ''opened''" "ntf_DestinationID dl = ''ops''" "ntf_Payload dl = []"
  shows "attemptDelivery sample_dispatcher w (6 * Second) dl = (None, w)"
  using json_Valid_deliveryData [OF assms(4)] deliveryData_nonempty [OF assms(4)]
  by (simp add: attemptDelivery_def sample_dispatcher_def NewEnvelope_def assms TrimSpace_graphic graphic_def
      IsZero_def Second_def)

lemma sample_completed:
  "fst (CompleteDelivery mem_mongo
     (sample_world\<lparr>mem_outbox := [lease (sample_claim ''w1'' 6) sample_outbox, sample_outbox]\<rparr>)
     \<lparr>cpr_ID = ''d1'', cpr_WorkerID = ''w1'', cpr_CompletedAt = 6 * Second, cpr_ExpiresAt = None\<rparr>) = None"
  by (simp add: CompleteDelivery_def mem_simps leased_by_def lease_def sample_outbox_def sample_claim_def
      sample_world_def)

lemma sample_dispatched:
  "fst (DispatchOne (\<lambda>w. None) sample_dispatcher sample_world) = (True, None)"
proof -
  let ?dl = "deliveryFromDocument (lease (sample_claim ''w1'' 6) sample_outbox)"
  have claim: "os_ClaimDelivery (dsp_store sample_dispatcher) sample_world
      \<lparr>clr_WorkerID = dsp_workerID sample_dispatcher, clr_Now = 6 * Second,
       clr_LeaseDuration = dsp_leaseDuration sample_dispatcher\<rparr>
    = (Inr ?dl, sample_world\<lparr>mem_outbox := [lease (sample_claim ''w1'' 6) sample_outbox, sample_outbox]\<rparr>)"
    using sample_claimed by (simp add: sample_dispatcher_def mongo_outbox_def sample_claim_def)
  have now: "dsp_now sample_dispatcher w = (6 * Second, w)" for w by (simp add: sample_dispatcher_def)
  have dl: "ntf_ID ?dl = ''d1''" "ntf_EventType ?dl = ''opened''" "ntf_DestinationID ?dl = ''ops''" "ntf_Payload ?dl = []"
    by (simp_all add: deliveryFromDocument_def lease_def sample_outbox_def)
  have complete: "fst (os_CompleteDelivery (dsp_store sample_dispatcher)
      (sample_world\<lparr>mem_outbox := [lease (sample_claim ''w1'' 6) sample_outbox, sample_outbox]\<rparr>)
      \<lparr>cpr_ID = ''d1'', cpr_WorkerID = dsp_workerID sample_dispatcher, cpr_CompletedAt = 6 * Second,
       cpr_ExpiresAt = expiry (6 * Second) (dsp_deliveredExpiry sample_dispatcher)\<rparr>) = None"
    using sample_completed by (simp add: sample_dispatcher_def mongo_outbox_def expiry_def)
  show ?thesis
    by (rule DispatchOne_delivers [OF refl now claim sample_attempt [OF dl] now, unfolded dl(1), OF complete])
qed


theorem DispatchOne_idle_witness:
  "\<exists>now w1. dsp_now sample_dispatcher (sample_world\<lparr>mem_outbox := []\<rparr>) = (now, w1)
    \<and> db_outbox (mem_view (sample_world\<lparr>mem_outbox := []\<rparr>)) = db_outbox (mem_view w1)
    \<and> (\<forall>b \<in> ran (db_outbox (mem_view (sample_world\<lparr>mem_outbox := []\<rparr>))). \<not> claimable now b)"
  by (rule DispatchOne_idle [OF mem.mongo_server_axioms sample_dispatcher_made(3), of "\<lambda>w. None"])
    (simp add: DispatchOne_def sample_dispatcher_def mongo_outbox_def ClaimDelivery_def mem_simps)


theorem backoff_bounds_witness:
  "min (dsp_maxBackoff sample_dispatcher) (dsp_initialBackoff sample_dispatcher * 2 ^ nat (4 - 1))
     \<le> backoff sample_dispatcher 4 \<and> backoff sample_dispatcher 4 \<le> dsp_initialBackoff sample_dispatcher * 8 + 1"
  using backoff_bounds [OF sample_dispatcher_made(1,2), of 4] by simp

theorem deliveryData_Valid_witness:
  "NewEnvelope ''d1'' ''opened'' ''c1'' 1 (deliveryData (deliveryFromDocument sample_outbox))
     \<noteq> Inl ''event data must be valid JSON''"
  by (rule deliveryData_Valid) (simp add: deliveryFromDocument_def sample_outbox_def)

end
