(* ===== verification/Go_Encoding.thy ===== *)
theory Go_Encoding
  imports Go_JSON
begin

text \<open>
  \<^verbatim>\<open>json.Marshal\<close> of structs, maps, slices, strings, integers and booleans, by way of JSON values
  whose members are in the order of their output, and of instants, as \<^verbatim>\<open>Time.MarshalJSON\<close> encodes
  them. An instant has no location here and is printed in UTC. Also \<^verbatim>\<open>strings.Join\<close>.
\<close>

section \<open>Joining\<close>

fun Join :: "string list \<Rightarrow> string \<Rightarrow> string" where
  "Join [] sep = []"
| "Join [s] sep = s"
| "Join (s # t # ts) sep = s @ sep @ Join (t # ts) sep"

section \<open>Values\<close>

datatype json =
    JNull
  | JBool bool
  | JInt int
  | JString string
  | JArray "json list"
  | JObject "(string \<times> json) list"

fun render :: "json \<Rightarrow> string" where
  "render JNull = ''null''"
| "render (JBool b) = (if b then ''true'' else ''false'')"
| "render (JInt i) = FormatInt i"
| "render (JString s) = json_quote s"
| "render (JArray js) = ''['' @ Join (map render js) '','' @ '']''"
| "render (JObject kvs) = ''{'' @ Join (map (\<lambda>(k, j). json_quote k @ '':'' @ render j) kvs) '','' @ ''}''"

text \<open>Members of a struct: always present, or left out when empty.\<close>

definition field :: "string \<Rightarrow> json \<Rightarrow> (string \<times> json) list" where
  "field k j = [(k, j)]"

definition omitempty :: "bool \<Rightarrow> string \<Rightarrow> json \<Rightarrow> (string \<times> json) list" where
  "omitempty isEmpty k j = (if isEmpty then [] else [(k, j)])"

definition omitempty_string :: "string \<Rightarrow> string \<Rightarrow> (string \<times> json) list" where
  "omitempty_string k s = omitempty (s = []) k (JString s)"

definition omitempty_int :: "string \<Rightarrow> int \<Rightarrow> (string \<times> json) list" where
  "omitempty_int k i = omitempty (i = 0) k (JInt i)"

definition omitempty_pointer :: "('a \<Rightarrow> json) \<Rightarrow> string \<Rightarrow> 'a option \<Rightarrow> (string \<times> json) list" where
  "omitempty_pointer f k p = (case p of None \<Rightarrow> [] | Some x \<Rightarrow> [(k, f x)])"

definition omitempty_array :: "string \<Rightarrow> json list \<Rightarrow> (string \<times> json) list" where
  "omitempty_array k js = omitempty (js = []) k (JArray js)"

text \<open>A map is written with its keys in order.\<close>

definition string_map :: "(string \<times> string) list \<Rightarrow> json" where
  "string_map m = JObject (map (\<lambda>(k, v). (k, JString v)) (sort_key fst m))"

section \<open>Instants (RFC 3339)\<close>

definition is_leap :: "int \<Rightarrow> bool" where
  "is_leap y \<longleftrightarrow> y mod 4 = 0 \<and> (y mod 100 \<noteq> 0 \<or> y mod 400 = 0)"

text \<open>The year and the day of the year, both from their start, of a day since 1 January of year 1.\<close>

definition year_yday :: "int \<Rightarrow> int \<times> int" where
  "year_yday days =
     (let n400 = days div 146097; d = days mod 146097;
          n100 = min 3 (d div 36524); d = d - n100 * 36524;
          n4 = d div 1461; d = d mod 1461;
          n1 = min 3 (d div 365)
      in (n400 * 400 + n100 * 100 + n4 * 4 + n1 + 1, d - n1 * 365))"

definition month_lengths :: "int \<Rightarrow> int list" where
  "month_lengths y = [31, if is_leap y then 29 else 28, 31, 30, 31, 30, 31, 31, 30, 31, 30, 31]"

fun month_day :: "int list \<Rightarrow> int \<Rightarrow> int \<Rightarrow> int \<times> int" where
  "month_day [] m d = (m, d + 1)"
| "month_day (l # ls) m d = (if d < l then (m, d + 1) else month_day ls (m + 1) (d - l))"

definition padded :: "nat \<Rightarrow> int \<Rightarrow> string" where
  "padded width i = (let s = Itoa (nat i) in replicate (width - length s) (CHR ''0'') @ s)"

fun drop_zeros :: "string \<Rightarrow> string" where
  "drop_zeros [] = []"
| "drop_zeros (c # cs) = (if c = CHR ''0'' then drop_zeros cs else c # cs)"

definition fraction :: "int \<Rightarrow> string" where
  "fraction ns = (if ns = 0 then [] else ''.'' @ rev (drop_zeros (rev (padded 9 ns))))"

definition MarshalTime :: "gotime \<Rightarrow> json option" where
  "MarshalTime t =
     (let secs = t div 1000000000; ns = t mod 1000000000;
          (year, yday) = year_yday (secs div 86400); s = secs mod 86400;
          (month, day) = month_day (month_lengths year) 1 yday
      in if year < 0 \<or> 9999 < year then None
         else Some (JString (padded 4 year @ ''-'' @ padded 2 month @ ''-'' @ padded 2 day @ ''T''
           @ padded 2 (s div 3600) @ '':'' @ padded 2 (s div 60 mod 60) @ '':'' @ padded 2 (s mod 60)
           @ fraction ns @ ''Z'')))"

section \<open>Raw messages\<close>

definition escaped_separator :: "string \<Rightarrow> string option" where
  "escaped_separator s =
     (if HasPrefix s [CHR 0xE2, CHR 0x80, CHR 0xA8] then Some (escape_unicode ''2028'')
      else if HasPrefix s [CHR 0xE2, CHR 0x80, CHR 0xA9] then Some (escape_unicode ''2029'')
      else None)"

text \<open>
  A raw message is copied without the space between its tokens, and with the characters escaped that
  \<open>Marshal\<close> escapes for HTML. The count is of the bytes whose copy has been replaced already.
\<close>

fun compact :: "scanner \<Rightarrow> nat \<Rightarrow> string \<Rightarrow> string option" where
  "compact s n [] = (if scan s [] then Some [] else None)"
| "compact s n (c # cs) =
     (case scan_step s c of
        None \<Rightarrow> None
      | Some s' \<Rightarrow>
          if 0 < n then compact s' (n - 1) cs
          else case escaped_separator (c # cs) of
            Some text \<Rightarrow> map_option ((@) text) (compact s' 2 cs)
          | None \<Rightarrow>
              if c \<in> {CHR ''<'', CHR ''>'', CHR ''&''} then map_option ((@) (escape_byte c)) (compact s' 0 cs)
              else if json_space c \<and> fst s \<noteq> InString then compact s' 0 cs
              else map_option ((#) c) (compact s' 0 cs))"

definition rawMessage :: "string \<Rightarrow> string option" where
  "rawMessage data = (if data = [] then Some ''null'' else compact (BeginValue, []) 0 data)"

section \<open>Encoded values are valid\<close>

fun depth :: "json \<Rightarrow> nat" where
  "depth (JArray js) = Suc (fold max (map depth js) 0)"
| "depth (JObject kvs) = Suc (fold max (map (\<lambda>(k, j). depth j) kvs) 0)"
| "depth _ = 0"

lemma le_fold_max: "x \<in> set xs \<or> x \<le> a \<Longrightarrow> (x :: nat) \<le> fold max xs a"
proof (induction xs arbitrary: a)
  case (Cons y ys)
  then have "x \<in> set ys \<or> x \<le> max y a" by (auto simp: le_max_iff_disj)
  from Cons.IH [OF this] show ?case by simp
qed simp

text \<open>What may follow a value: the end, or the next delimiter of the enclosing value.\<close>

definition ends :: "string \<Rightarrow> bool" where
  "ends rest \<longleftrightarrow> rest = [] \<or> hd rest \<in> {CHR '','', CHR '']'', CHR ''}''}"

lemma ends_simps [simp]: "ends []" "ends (CHR '','' # r)" "ends (CHR '']'' # r)" "ends (CHR ''}'' # r)"
  by (simp_all add: ends_def)

fun composite :: "json \<Rightarrow> bool" where
  "composite (JArray _) \<longleftrightarrow> True"
| "composite (JObject _) \<longleftrightarrow> True"
| "composite _ \<longleftrightarrow> False"

lemma scan_ends_number:
  assumes "ends rest" "st = InInt1 \<or> st = InInt0"
  shows "scan (st, stack) rest = scan (EndValue, stack) rest"
  using assms by (cases rest) (auto simp: ends_def after_digits_def is_digit_def less_eq_char_def)

lemma digit_cases: "n < 10 \<Longrightarrow> is_digit (digit n) \<and> (n \<noteq> 0 \<longrightarrow> CHR ''1'' \<le> digit n \<and> digit n \<noteq> CHR ''0'')
   \<and> digit n \<le> CHR ''9'' \<and> \<not> json_space (digit n) \<and> digit n \<notin> {CHR ''{'', CHR ''['', CHR 0x22, CHR ''-'', CHR '']''}"
proof -
  have "\<forall>n \<in> set [0 ..< 10]. is_digit (digit n) \<and> (n \<noteq> 0 \<longrightarrow> CHR ''1'' \<le> digit n \<and> digit n \<noteq> CHR ''0'')
   \<and> digit n \<le> CHR ''9'' \<and> \<not> json_space (digit n) \<and> digit n \<notin> {CHR ''{'', CHR ''['', CHR 0x22, CHR ''-'', CHR '']''}"
    by code_simp
  then show "n < 10 \<Longrightarrow> ?thesis" by simp
qed

lemma steps_Itoa:
  "steps (BeginValue, stack) (Itoa n) = Some (if n = 0 then InInt0 else InInt1, stack)"
  "0 < n \<Longrightarrow> steps (InNeg, stack) (Itoa n) = Some (InInt1, stack)"
proof (induction n rule: Itoa.induct)
  case (1 n)
  have small: "is_digit (digit k)" "k \<noteq> 0 \<Longrightarrow> CHR ''1'' \<le> digit k" "k \<noteq> 0 \<Longrightarrow> digit k \<noteq> CHR ''0''" "digit k \<le> CHR ''9''"
    "\<not> json_space (digit k)" "digit k \<notin> {CHR ''{'', CHR ''['', CHR 0x22, CHR ''-'', CHR '']''}" if "k < 10" for k
    using digit_cases [OF that] by auto
  have letters: "digit k \<noteq> CHR ''t''" "digit k \<noteq> CHR ''f''" "digit k \<noteq> CHR ''n''" if "k < 10" for k
    using small(4) [OF that] by (auto simp: less_eq_char_def)
  have zero: "digit 0 = CHR ''0''" by code_simp
  show "steps (BeginValue, stack) (Itoa n) = Some (if n = 0 then InInt0 else InInt1, stack)"
  proof (cases "n < 10")
    case True
    then show ?thesis
      using small [OF True] letters [OF True] by (subst Itoa.simps) (auto simp: begin_value_def zero)
  next
    case False
    then have "n div 10 \<noteq> 0" by simp
    then show ?thesis
      using 1(1) False small(1) [of "n mod 10"] by (subst Itoa.simps) (simp add: steps_append)
  qed
  show "steps (InNeg, stack) (Itoa n) = Some (InInt1, stack)" if "0 < n"
  proof (cases "n < 10")
    case True
    then show ?thesis using small [OF True] that by (subst Itoa.simps) auto
  next
    case False
    then show ?thesis
      using 1(2) small(1) [of "n mod 10"] by (subst Itoa.simps) (simp add: steps_append div_greater_zero_iff)
  qed
qed

lemma scan_FormatInt:
  assumes "ends rest"
  shows "scan (BeginValue, stack) (FormatInt i @ rest) = scan (EndValue, stack) rest"
proof (cases "i < 0")
  case True
  then have "steps (BeginValue, stack) (FormatInt i) = Some (InInt1, stack)"
    using steps_Itoa(2) [of "nat (- i)" stack] by (simp add: FormatInt_def begin_value_def json_space_def)
  from scan_steps [OF this] show ?thesis using scan_ends_number [OF assms] by simp
next
  case False
  then have "steps (BeginValue, stack) (FormatInt i) = Some (if nat i = 0 then InInt0 else InInt1, stack)"
    using steps_Itoa(1) [of stack "nat i"] by (simp add: FormatInt_def)
  from scan_steps [OF this] show ?thesis using scan_ends_number [OF assms] by simp
qed

lemma FormatInt_first: "\<exists>c cs. FormatInt i = c # cs \<and> \<not> json_space c \<and> c \<noteq> CHR '']''"
proof -
  have "\<exists>c cs. Itoa n = c # cs \<and> \<not> json_space c \<and> c \<noteq> CHR '']''" for n
  proof (induction n rule: Itoa.induct)
    case (1 n)
    then show ?case using digit_cases [of n] by (subst Itoa.simps) auto
  qed
  then show ?thesis by (auto simp: FormatInt_def json_space_def)
qed

lemma render_first: "\<exists>c cs. render j = c # cs \<and> \<not> json_space c \<and> c \<noteq> CHR '']''"
proof (cases j)
  case (JInt i)
  then show ?thesis using FormatInt_first [of i] by simp
qed (auto simp: json_quote_def json_space_def)

lemma scan_first_element:
  "scan (BeginValueOrEmpty, stack) (render j @ rest) = scan (BeginValue, stack) (render j @ rest)"
  using render_first [of j] by auto

lemma scan_key:
  assumes "st = BeginString \<or> st = BeginStringOrEmpty"
  shows "scan (st, ParseObjectKey # stack) (json_quote k @ CHR '':'' # rest)
    = scan (BeginValue, ParseObjectValue # stack) rest"
proof -
  have "scan (st, ParseObjectKey # stack) (json_quote k @ CHR '':'' # rest)
      = scan (InString, ParseObjectKey # stack) (quote_body k @ CHR 0x22 # CHR '':'' # rest)"
    using assms by (auto simp: json_quote_def begin_string_def json_space_def)
  also have "\<dots> = scan (EndValue, ParseObjectKey # stack) (CHR '':'' # rest)" by (rule scan_json_quote)
  also have "\<dots> = scan (BeginValue, ParseObjectValue # stack) rest"
    by (simp add: end_value_def json_space_def)
  finally show ?thesis .
qed

text \<open>The elements after the first of an array, and the members after the first of an object.\<close>

lemma scan_elements:
  assumes "\<forall>j \<in> set js. \<forall>rest. ends rest \<longrightarrow>
      scan (BeginValue, ParseArrayValue # stack) (render j @ rest) = scan (EndValue, ParseArrayValue # stack) rest"
    and "js \<noteq> []"
  shows "scan (BeginValue, ParseArrayValue # stack) (Join (map render js) '','' @ CHR '']'' # rest)
    = scan (pop (ParseArrayValue # stack)) rest"
  using assms
proof (induction js)
  case (Cons j js)
  show ?case
  proof (cases js)
    case Nil
    then show ?thesis using Cons.prems(1) by (simp add: end_value_def json_space_def)
  next
    case js: (Cons k ks)
    have "scan (BeginValue, ParseArrayValue # stack) (Join (map render (j # js)) '','' @ CHR '']'' # rest)
        = scan (EndValue, ParseArrayValue # stack) (CHR '','' # Join (map render js) '','' @ CHR '']'' # rest)"
      using Cons.prems(1) by (simp add: js)
    also have "\<dots> = scan (BeginValue, ParseArrayValue # stack) (Join (map render js) '','' @ CHR '']'' # rest)"
      by (simp add: end_value_def json_space_def)
    also have "\<dots> = scan (pop (ParseArrayValue # stack)) rest" using Cons js by simp
    finally show ?thesis .
  qed
qed simp

lemma scan_members:
  assumes "\<forall>(k, j) \<in> set kvs. \<forall>rest. ends rest \<longrightarrow>
      scan (BeginValue, ParseObjectValue # stack) (render j @ rest) = scan (EndValue, ParseObjectValue # stack) rest"
    and "kvs \<noteq> []"
    and "st = BeginString \<or> st = BeginStringOrEmpty"
  shows "scan (st, ParseObjectKey # stack)
      (Join (map (\<lambda>(k, j). json_quote k @ '':'' @ render j) kvs) '','' @ CHR ''}'' # rest)
    = scan (pop (ParseObjectValue # stack)) rest"
  using assms
proof (induction kvs arbitrary: st)
  case (Cons kv kvs)
  obtain k j where kv: "kv = (k, j)" by fastforce
  show ?case
  proof (cases "kvs = []")
    case True
    then show ?thesis
      using scan_key [OF Cons.prems(3), of stack k "render j @ CHR ''}'' # rest"] Cons.prems(1)
      by (simp add: kv end_value_def json_space_def)
  next
    case False
    let ?members = "\<lambda>kvs. Join (map (\<lambda>(k, j). json_quote k @ '':'' @ render j) kvs) '',''"
    have split: "?members (kv # kvs) = json_quote k @ CHR '':'' # render j @ CHR '','' # ?members kvs"
      using False by (cases kvs) (simp_all add: kv)
    have "scan (st, ParseObjectKey # stack) (?members (kv # kvs) @ CHR ''}'' # rest)
        = scan (BeginValue, ParseObjectValue # stack) (render j @ CHR '','' # ?members kvs @ CHR ''}'' # rest)"
      unfolding split using scan_key [OF Cons.prems(3), of stack k "render j @ CHR '','' # ?members kvs @ CHR ''}'' # rest"]
      by simp
    also have "\<dots> = scan (EndValue, ParseObjectValue # stack) (CHR '','' # ?members kvs @ CHR ''}'' # rest)"
      using Cons.prems(1) by (simp add: kv)
    also have "\<dots> = scan (BeginString, ParseObjectKey # stack) (?members kvs @ CHR ''}'' # rest)"
      by (simp add: end_value_def json_space_def)
    also have "\<dots> = scan (pop (ParseObjectValue # stack)) rest" using Cons False by simp
    finally show ?thesis .
  qed
qed simp

lemma scan_render:
  assumes "depth j + length stack \<le> maxNestingDepth" "ends rest"
  shows "scan (BeginValue, stack) (render j @ rest)
    = scan (if stack = [] \<and> composite j then EndTop else EndValue, stack) rest"
  using assms
proof (induction j arbitrary: stack rest)
  case (JArray js)
  have push: "push BeginValueOrEmpty ParseArrayValue stack = Some (BeginValueOrEmpty, ParseArrayValue # stack)"
    using JArray.prems(1) by (simp add: push_def)
  have elements: "\<forall>j \<in> set js. \<forall>rest. ends rest \<longrightarrow>
      scan (BeginValue, ParseArrayValue # stack) (render j @ rest) = scan (EndValue, ParseArrayValue # stack) rest"
  proof (intro ballI allI impI)
    fix j rest
    assume j: "j \<in> set js" and "ends rest"
    then have "depth j \<le> fold max (map depth js) 0" by (intro le_fold_max) simp
    then show "scan (BeginValue, ParseArrayValue # stack) (render j @ rest) = scan (EndValue, ParseArrayValue # stack) rest"
      using JArray.IH [OF j, of "ParseArrayValue # stack" rest] JArray.prems(1) \<open>ends rest\<close> by simp
  qed
  have popped: "pop (ParseArrayValue # stack) = (if stack = [] then EndTop else EndValue, stack)"
    by (simp add: pop_def)
  show ?case
  proof (cases js)
    case Nil
    then show ?thesis by (simp add: begin_value_def json_space_def push end_value_def popped)
  next
    case (Cons j ks)
    have "scan (BeginValue, stack) (render (JArray js) @ rest)
        = scan (BeginValueOrEmpty, ParseArrayValue # stack) (Join (map render js) '','' @ CHR '']'' # rest)"
      by (simp add: begin_value_def json_space_def push)
    also have "\<dots> = scan (BeginValue, ParseArrayValue # stack) (Join (map render js) '','' @ CHR '']'' # rest)"
      using scan_first_element by (cases ks) (simp_all add: Cons)
    also have "\<dots> = scan (pop (ParseArrayValue # stack)) rest"
      by (rule scan_elements [OF elements]) (simp add: Cons)
    finally show ?thesis by (simp add: popped)
  qed
next
  case (JObject kvs)
  have push: "push BeginStringOrEmpty ParseObjectKey stack = Some (BeginStringOrEmpty, ParseObjectKey # stack)"
    using JObject.prems(1) by (simp add: push_def)
  have members: "\<forall>(k, j) \<in> set kvs. \<forall>rest. ends rest \<longrightarrow>
      scan (BeginValue, ParseObjectValue # stack) (render j @ rest) = scan (EndValue, ParseObjectValue # stack) rest"
  proof (clarify)
    fix k j rest
    assume kj: "(k, j) \<in> set kvs" and "ends rest"
    then have "depth j \<le> fold max (map (\<lambda>(k, j). depth j) kvs) 0" by (intro le_fold_max) force
    then show "scan (BeginValue, ParseObjectValue # stack) (render j @ rest) = scan (EndValue, ParseObjectValue # stack) rest"
      using JObject.IH [OF kj, of j "ParseObjectValue # stack" rest] JObject.prems(1) \<open>ends rest\<close> by simp
  qed
  have popped: "pop (ParseObjectValue # stack) = (if stack = [] then EndTop else EndValue, stack)"
    by (simp add: pop_def)
  show ?case
  proof (cases "kvs = []")
    case True
    then show ?thesis by (simp add: begin_value_def json_space_def push end_value_def popped)
  next
    case False
    have "scan (BeginValue, stack) (render (JObject kvs) @ rest)
        = scan (BeginStringOrEmpty, ParseObjectKey # stack)
            (Join (map (\<lambda>(k, j). json_quote k @ '':'' @ render j) kvs) '','' @ CHR ''}'' # rest)"
      by (simp add: begin_value_def json_space_def push)
    also have "\<dots> = scan (pop (ParseObjectValue # stack)) rest"
      by (rule scan_members [OF members False]) simp
    finally show ?thesis by (simp add: popped)
  qed
next
  case (JInt i)
  then show ?case by (simp add: scan_FormatInt)
next
  case (JString s)
  then show ?case
    using scan_json_quote [of stack s rest] by (simp add: json_quote_def begin_value_def json_space_def)
qed (auto simp: begin_value_def json_space_def)

lemma render_Valid: "depth j \<le> maxNestingDepth \<Longrightarrow> json_Valid (render j)"
  using scan_render [of j "[]" "[]"]
  by (simp add: json_Valid_def end_value_def json_space_def split: if_splits)

lemma render_nonempty [simp]: "render j \<noteq> []"
  using render_first [of j] by auto

end
