(* ===== verification/Kube_Objects.thy ===== *)
theory Kube_Objects
  imports Domain Go_Encoding
begin

text \<open>
  The Kubernetes API objects that \<^verbatim>\<open>internal/kube\<close> handles, as the fields of the API types that the
  sources read: the metadata of every object and, for each supported kind, the parts of its
  specification and status. An object of an unstructured type gives its conditions as the result
  of \<open>unstructured.NestedSlice\<close>: an error, nothing, or the elements.
\<close>

record TypeMeta =
  tm_APIVersion :: string
  tm_Kind :: string

record KubeOwner =
  ko_APIVersion :: string
  ko_Kind :: string
  ko_Name :: string
  ko_UID :: string
  ko_Controller :: "bool option"

record ObjectMeta =
  om_Name :: string
  om_Namespace :: string
  om_UID :: string
  om_ResourceVersion :: string
  om_Generation :: int
  om_Labels :: "(string \<times> string) list"
  om_OwnerReferences :: "KubeOwner list"

record KubeCondition =
  kc_Type :: string
  kc_Status :: string
  kc_Reason :: string
  kc_LastTransitionTime :: gotime

record KubeObject =
  kb_Type :: TypeMeta
  kb_Meta :: ObjectMeta

record KubeContainerState =
  kcs_Waiting :: "string option"
  kcs_Running :: bool
  kcs_Terminated :: "(string \<times> int) option"

record ContainerStatus =
  kst_Name :: string
  kst_Ready :: bool
  kst_RestartCount :: int
  kst_State :: KubeContainerState

record Pod = KubeObject +
  pod_Conditions :: "KubeCondition list"
  pod_ContainerStatuses :: "ContainerStatus list"

record Deployment = KubeObject +
  dpl_SpecReplicas :: "int option"
  dpl_Replicas :: int
  dpl_ReadyReplicas :: int
  dpl_AvailableReplicas :: int
  dpl_UpdatedReplicas :: int
  dpl_UnavailableReplicas :: int
  dpl_Conditions :: "KubeCondition list"

record StatefulSet = KubeObject +
  sts_SpecReplicas :: "int option"
  sts_CurrentReplicas :: int
  sts_ReadyReplicas :: int
  sts_AvailableReplicas :: int
  sts_UpdatedReplicas :: int
  sts_Conditions :: "KubeCondition list"

record DaemonSet = KubeObject +
  dst_DesiredNumberScheduled :: int
  dst_CurrentNumberScheduled :: int
  dst_NumberReady :: int
  dst_NumberAvailable :: int
  dst_UpdatedNumberScheduled :: int
  dst_NumberUnavailable :: int
  dst_Conditions :: "KubeCondition list"

record Job = KubeObject +
  jb_BackoffLimit :: "int option"
  jb_Active :: int
  jb_Succeeded :: int
  jb_Failed :: int
  jb_Conditions :: "KubeCondition list"

record Event = KubeObject +
  evt_Type :: string
  evt_Reason :: string
  evt_Message :: string
  evt_InvolvedObjectUID :: string
  evt_Count :: int
  evt_EventTime :: gotime
  evt_LastTimestamp :: gotime

text \<open>An element of an unstructured list is a map, of which the string members are given, or not.\<close>

record Unstructured = KubeObject +
  un_Conditions :: "string + (string \<times> string) list option list option"

datatype Object =
    PodObject Pod
  | DeploymentObject Deployment
  | StatefulSetObject StatefulSet
  | DaemonSetObject DaemonSet
  | JobObject Job
  | EventObject Event
  | SecretObject KubeObject
  | UnstructuredObject Unstructured
  | OtherObject KubeObject

fun object_base :: "Object \<Rightarrow> KubeObject" where
  "object_base (PodObject p) = \<lparr>kb_Type = kb_Type p, kb_Meta = kb_Meta p\<rparr>"
| "object_base (DeploymentObject d) = \<lparr>kb_Type = kb_Type d, kb_Meta = kb_Meta d\<rparr>"
| "object_base (StatefulSetObject s) = \<lparr>kb_Type = kb_Type s, kb_Meta = kb_Meta s\<rparr>"
| "object_base (DaemonSetObject d) = \<lparr>kb_Type = kb_Type d, kb_Meta = kb_Meta d\<rparr>"
| "object_base (JobObject j) = \<lparr>kb_Type = kb_Type j, kb_Meta = kb_Meta j\<rparr>"
| "object_base (EventObject e) = \<lparr>kb_Type = kb_Type e, kb_Meta = kb_Meta e\<rparr>"
| "object_base (SecretObject b) = b"
| "object_base (UnstructuredObject u) = \<lparr>kb_Type = kb_Type u, kb_Meta = kb_Meta u\<rparr>"
| "object_base (OtherObject b) = b"

abbreviation object_meta :: "Object \<Rightarrow> ObjectMeta" where
  "object_meta object \<equiv> kb_Meta (object_base object)"

end
