(* ===== verification/Redactor.thy ===== *)
theory Redactor
  imports Go_Prelude
begin

text \<open>
  Redaction of credentials, from \<^verbatim>\<open>internal/kube/redactor.go\<close>, over a model of the regular
  expressions of package \<^verbatim>\<open>regexp\<close>: all the ways to match, in the order in which the library
  prefers them, so that the first is the match it reports. Expressions match bytes; the classes of
  the two expressions used here never end a match within a rune.
\<close>

section \<open>Regular expressions\<close>

datatype regex =
    Empty
  | Class "char \<Rightarrow> bool"
  | WordBoundary
  | Seq regex regex
  | Alt regex regex
  | Star regex
  | Group nat regex

definition word_char :: "char \<Rightarrow> bool" where
  "word_char c \<longleftrightarrow>
     (CHR ''a'' \<le> c \<and> c \<le> CHR ''z'') \<or> (CHR ''A'' \<le> c \<and> c \<le> CHR ''Z'') \<or> (CHR ''0'' \<le> c \<and> c \<le> CHR ''9'') \<or> c = CHR ''_''"

definition space_char :: "char \<Rightarrow> bool" where
  "space_char c \<longleftrightarrow> c \<in> {CHR 0x09, CHR 0x0A, CHR 0x0C, CHR 0x0D, CHR '' ''}"

text \<open>A position: the text before it, last byte first, the text after it, and the groups so far.\<close>

type_synonym position = "string \<times> string \<times> (nat \<times> string) list"

definition at_word_start_or_end :: "string \<Rightarrow> string \<Rightarrow> bool" where
  "at_word_start_or_end pre rest \<longleftrightarrow>
     (pre \<noteq> [] \<and> word_char (hd pre)) \<noteq> (rest \<noteq> [] \<and> word_char (hd rest))"

function (sequential) runs :: "regex \<Rightarrow> position \<Rightarrow> position list" where
  "runs Empty p = [p]"
| "runs (Class f) (pre, c # cs, groups) = (if f c then [(c # pre, cs, groups)] else [])"
| "runs (Class f) (pre, [], groups) = []"
| "runs WordBoundary (pre, rest, groups) = (if at_word_start_or_end pre rest then [(pre, rest, groups)] else [])"
| "runs (Seq a b) p = concat (map (runs b) (runs a p))"
| "runs (Alt a b) p = runs a p @ runs b p"
| "runs (Star a) p =
     concat (map (\<lambda>q. if length (fst (snd q)) < length (fst (snd p)) then runs (Star a) q else []) (runs a p)) @ [p]"
| "runs (Group n a) p =
     map (\<lambda>(pre, rest, groups). (pre, rest, (n, rev (take (length pre - length (fst p)) pre)) # groups)) (runs a p)"
  by pat_completeness auto
termination by (relation "measures [\<lambda>(r, p). size r, \<lambda>(r, p). length (fst (snd p))]") auto

lemmas runs_Star = runs.simps(7)

declare runs.simps(7) [simp del]

text \<open>\<open>ReplaceAllString\<close>: the leftmost match at or after each position, replaced from its groups.\<close>

function replaceAll :: "regex \<Rightarrow> ((nat \<times> string) list \<Rightarrow> string) \<Rightarrow> string \<Rightarrow> string \<Rightarrow> string" where
  "replaceAll re template pre s =
     (case s of
        [] \<Rightarrow> []
      | c # cs \<Rightarrow>
          (case runs re (pre, s, []) of
             (pre', rest, groups) # _ \<Rightarrow>
               if length rest < length s then template groups @ replaceAll re template pre' rest
               else c # replaceAll re template (c # pre) cs
           | [] \<Rightarrow> c # replaceAll re template (c # pre) cs))"
  by pat_completeness auto
termination by (relation "measure (\<lambda>(re, t, pre, s). length s)") auto

declare replaceAll.simps [simp del]

section \<open>The expressions of the redactor\<close>

fun sequence :: "regex list \<Rightarrow> regex" where
  "sequence [] = Empty"
| "sequence (r # rs) = Seq r (sequence rs)"

text \<open>
  A letter without regard to case: the long s and the Kelvin sign fold to s and k.
\<close>

definition bytes_regex :: "string \<Rightarrow> regex" where
  "bytes_regex s = sequence (map (\<lambda>c. Class ((=) c)) s)"

definition letter :: "char \<Rightarrow> regex" where
  "letter c =
     (let plain = Class (\<lambda>d. lower_char d = c)
      in if c = CHR ''s'' then Alt plain (bytes_regex long_s)
         else if c = CHR ''k'' then Alt plain (bytes_regex kelvin_sign)
         else plain)"

definition word :: "string \<Rightarrow> regex" where
  "word w = sequence (map letter w)"

definition Plus :: "regex \<Rightarrow> regex" where
  "Plus r = Seq r (Star r)"

definition key_char :: regex where
  "key_char =
     Alt (Class (\<lambda>c. c \<in> {CHR ''-'', CHR ''_'', CHR ''.''} \<or> (CHR ''0'' \<le> c \<and> c \<le> CHR ''9'')
                   \<or> (CHR ''a'' \<le> lower_char c \<and> lower_char c \<le> CHR ''z'')))
       (Alt (bytes_regex long_s) (bytes_regex kelvin_sign))"

definition value_char :: "char \<Rightarrow> bool" where
  "value_char c \<longleftrightarrow> \<not> space_char c \<and> c \<noteq> CHR '','' \<and> c \<noteq> CHR '';''"

definition quoted :: "char \<Rightarrow> regex" where
  "quoted q = Seq (Class ((=) q)) (Seq (Star (Class (\<lambda>c. c \<noteq> q))) (Class ((=) q)))"

definition markers :: "string list" where
  "markers = [''secret'', ''token'', ''password'', ''authorization'', ''credential'']"

definition marker_regex :: regex where
  "marker_regex =
     Alt (word ''secret'') (Alt (word ''token'') (Alt (word ''password'') (Alt (word ''authorization'') (word ''credential''))))"

definition sensitiveAssignment :: regex where
  "sensitiveAssignment = sequence
     [WordBoundary, Group 1 marker_regex, Group 2 (Star key_char), Star (Class space_char),
      Group 3 (Class (\<lambda>c. c = CHR ''='' \<or> c = CHR '':'')), Star (Class space_char),
      Alt (quoted (CHR 0x22)) (Alt (quoted (CHR 0x27)) (Plus (Class value_char)))]"

definition authorizationValue :: regex where
  "authorizationValue = sequence
     [WordBoundary, word ''authorization'', Plus (Class space_char),
      Alt (Seq (word ''bearer'') (Plus (Class space_char))) Empty, Plus (Class value_char)]"

definition RedactedValue :: string where
  "RedactedValue = ''[REDACTED]''"

definition IsSensitiveKey :: "string \<Rightarrow> bool" where
  "IsSensitiveKey key = (\<exists>marker \<in> set markers. Contains (ToLower key) marker)"

definition group_text :: "(nat \<times> string) list \<Rightarrow> nat \<Rightarrow> string" where
  "group_text groups n = lookup_zero [] groups n"

definition RedactText :: "string \<Rightarrow> string" where
  "RedactText value =
     (let value = replaceAll sensitiveAssignment
            (\<lambda>g. group_text g 1 @ group_text g 2 @ group_text g 3 @ RedactedValue) [] value
      in replaceAll authorizationValue (\<lambda>g. ''authorization '' @ RedactedValue) [] value)"

section \<open>Structured fields\<close>

text \<open>The dynamic types of a field value that the code tells apart.\<close>

datatype 'a field_value =
    MapAny "(string \<times> 'a field_value) list"
  | MapString "(string \<times> string) list"
  | SliceAny "'a field_value list"
  | StringValue string
  | OtherValue 'a

fun redactFieldValue :: "'a field_value \<Rightarrow> 'a field_value" where
  "redactFieldValue (MapAny fields) =
     MapAny (map (\<lambda>(key, value).
       (key, if IsSensitiveKey key then StringValue RedactedValue else redactFieldValue value)) fields)"
| "redactFieldValue (MapString typed) =
     MapString (map (\<lambda>(key, item). (key, if IsSensitiveKey key then RedactedValue else RedactText item)) typed)"
| "redactFieldValue (SliceAny typed) = SliceAny (map redactFieldValue typed)"
| "redactFieldValue (StringValue typed) = StringValue (RedactText typed)"
| "redactFieldValue (OtherValue value) = OtherValue value"

definition redactMap :: "(string \<times> 'a field_value) list \<Rightarrow> (string \<times> 'a field_value) list" where
  "redactMap fields =
     map (\<lambda>(key, value).
       (key, if IsSensitiveKey key then StringValue RedactedValue else redactFieldValue value)) fields"

definition RedactFields :: "(string \<times> 'a field_value) list option \<Rightarrow> (string \<times> 'a field_value) list option" where
  "RedactFields fields = map_option redactMap fields"

section \<open>Matching\<close>

lemma runs_consume:
  "(pre', rest', groups') \<in> set (runs r p) \<Longrightarrow> \<exists>u. fst (snd p) = u @ rest' \<and> pre' = rev u @ fst p"
proof (induction r p arbitrary: pre' rest' groups' rule: runs.induct)
  case (5 a b p)
  then obtain pre1 rest1 g1 where 1: "(pre1, rest1, g1) \<in> set (runs a p)"
    "(pre', rest', groups') \<in> set (runs b (pre1, rest1, g1))" by auto
  obtain u where u: "fst (snd p) = u @ rest1" "pre1 = rev u @ fst p" using 5(1) [OF 1(1)] by blast
  obtain v where v: "rest1 = v @ rest'" "pre' = rev v @ pre1" using 5(2) [OF 1] by auto
  show ?case using u v by (intro exI [of _ "u @ v"]) simp
next
  case (6 a b p)
  then show ?case by (simp only: runs.simps set_append Un_iff) blast
next
  case (7 a p)
  show ?case
  proof (cases "(pre', rest', groups') = p")
    case True
    then have "fst (snd p) = [] @ rest'" "pre' = rev [] @ fst p" by auto
    then show ?thesis by blast
  next
    case False
    then obtain q where q: "q \<in> set (runs a p)" "length (fst (snd q)) < length (fst (snd p))"
      "(pre', rest', groups') \<in> set (runs (Star a) q)"
      using 7(3) by (auto simp: runs_Star [of a p] split: if_splits)
    obtain pre1 rest1 g1 where q1: "q = (pre1, rest1, g1)" by (cases q)
    obtain u where u: "fst (snd p) = u @ rest1" "pre1 = rev u @ fst p" using 7(1) q(1) q1 by blast
    obtain v where v: "rest1 = v @ rest'" "pre' = rev v @ pre1"
      using 7(2) [OF q(1) q(2) q(3)] q1 by auto
    show ?thesis using u v by (intro exI [of _ "u @ v"]) simp
  qed
next
  case (8 n a p)
  then obtain g where "(pre', rest', g) \<in> set (runs a p)" by auto
  then show ?case by (rule 8(1))
qed (auto split: if_splits)

text \<open>A class of bytes repeats as often as it can before anything else is tried.\<close>

lemma runs_Star_greedy:
  assumes "\<And>c cs pre. f c \<Longrightarrow> \<exists>more. runs r (pre, c # cs, g) = (c # pre, cs, g) # more"
    and "\<forall>c \<in> set u. f c" and "\<And>pre. runs r (pre, rest, g) = []"
  shows "\<exists>more. runs (Star r) (pre, u @ rest, g) = (rev u @ pre, rest, g) # more"
  using assms(2)
proof (induction u arbitrary: pre)
  case Nil
  then show ?case using assms(3) by (simp add: runs_Star)
next
  case (Cons c u)
  obtain more where more: "runs r (pre, c # u @ rest, g) = (c # pre, u @ rest, g) # more"
    using assms(1) [of c pre "u @ rest"] Cons.prems by auto
  obtain more' where "runs (Star r) (c # pre, u @ rest, g) = (rev u @ c # pre, rest, g) # more'"
    using Cons.IH [of "c # pre"] Cons.prems by auto
  then show ?case using more by (simp add: runs_Star [of r "(pre, c # u @ rest, g)"])
qed

lemma runs_Star_Class:
  assumes "\<forall>c \<in> set u. f c" "rest = [] \<or> \<not> f (hd rest)"
  shows "\<exists>more. runs (Star (Class f)) (pre, u @ rest, g) = (rev u @ pre, rest, g) # more"
proof (rule runs_Star_greedy [of f])
  show "\<exists>more. runs (Class f) (pre, c # cs, g) = (c # pre, cs, g) # more" if "f c" for c cs pre
    using that by simp
  show "runs (Class f) (pre, rest, g) = []" for pre using assms(2) by (cases rest) auto
qed (rule assms(1))

text \<open>The first way through a sequence, when the first way through its head leads on.\<close>

lemma runs_Seq_first:
  assumes "\<exists>more. runs a p = q # more" "\<exists>more. runs b q = t # more"
  shows "\<exists>more. runs (Seq a b) p = t # more"
  using assms by auto

lemma runs_Empty_first: "\<exists>more. runs Empty p = p # more"
  by simp

definition lower_key_char :: "char \<Rightarrow> bool" where
  "lower_key_char c \<longleftrightarrow>
     c \<in> {CHR ''-'', CHR ''_'', CHR ''.''} \<or> (CHR ''0'' \<le> c \<and> c \<le> CHR ''9'') \<or> (CHR ''a'' \<le> c \<and> c \<le> CHR ''z'')"

lemma lower_char_small: "CHR ''a'' \<le> c \<Longrightarrow> lower_char c = c"
  by (simp add: lower_char_def less_eq_char_def Let_def)

lemma runs_key_char:
  assumes "lower_key_char c"
  shows "\<exists>more. runs key_char (pre, c # cs, g) = (c # pre, cs, g) # more"
  using assms by (auto simp: key_char_def lower_key_char_def lower_char_small)

lemma runs_key_char_equals: "runs key_char (pre, CHR ''='' # cs, g) = []"
proof -
  have "\<not> CHR ''a'' \<le> lower_char (CHR ''='')" "\<not> (CHR ''0'' \<le> CHR ''='' \<and> CHR ''='' \<le> CHR ''9'')" by code_simp+
  then show ?thesis by (auto simp: key_char_def bytes_regex_def long_s_def kelvin_sign_def)
qed

lemma runs_marker:
  "m \<in> set markers \<Longrightarrow> runs marker_regex (pre, m @ rest, g) = [(rev m @ pre, rest, g)]"
proof -
  have lower: "lower_char c = c" if "c \<in> set (concat markers)" for c
  proof -
    have "\<forall>c \<in> set (concat markers). lower_char c = c" by code_simp
    then show ?thesis using that by blast
  qed
  note lower [unfolded markers_def, simp]
  show "m \<in> set markers \<Longrightarrow> runs marker_regex (pre, m @ rest, g) = [(rev m @ pre, rest, g)]"
    unfolding markers_def
    by (auto simp: marker_regex_def word_def letter_def bytes_regex_def long_s_def kelvin_sign_def)
qed

lemma runs_value:
  assumes "v \<noteq> []" "\<forall>c \<in> set v. value_char c" "hd v \<notin> {CHR 0x22, CHR 0x27}"
  shows "\<exists>more. runs (Alt (quoted (CHR 0x22)) (Alt (quoted (CHR 0x27)) (Plus (Class value_char)))) (pre, v, g)
    = (rev v @ pre, [], g) # more"
proof -
  obtain c cs where v: "v = c # cs" using assms(1) by (cases v) auto
  have "\<exists>more. runs (Star (Class value_char)) (c # pre, cs @ [], g) = (rev cs @ c # pre, [], g) # more"
    by (rule runs_Star_Class) (use assms(2) v in auto)
  then show ?thesis using assms v by (auto simp: quoted_def Plus_def)
qed

lemma runs_no_space: "runs (Star (Class space_char)) (pre, c # cs, g) = [(pre, c # cs, g)]" if "\<not> space_char c"
  using that by (simp add: runs_Star)

lemma runs_assignment:
  assumes "m \<in> set markers" "\<forall>c \<in> set k. lower_key_char c" "v \<noteq> []" "\<forall>c \<in> set v. value_char c"
    "hd v \<notin> {CHR 0x22, CHR 0x27}"
  shows "\<exists>pre more. runs sensitiveAssignment ([], m @ k @ ''='' @ v, [])
    = (pre, [], [(3, ''=''), (2, k), (1, m)]) # more"
proof -
  obtain d ds where v: "v = d # ds" using assms(3) by (cases v) auto
  have d: "\<not> space_char d" "\<not> space_char (CHR ''='')"
    using assms(4) v by (auto simp: value_char_def space_char_def)
  have b: "at_word_start_or_end [] (m @ k @ ''='' @ v)"
    using assms(1) by (auto simp: at_word_start_or_end_def markers_def word_char_def less_eq_char_def)
  have key: "\<exists>more. runs (Group 2 (Star key_char)) (rev m, k @ ''='' @ v, [(1, m)])
      = (rev k @ rev m, ''='' @ v, [(2, k), (1, m)]) # more"
  proof -
    have "\<exists>more. runs (Star key_char) (rev m, k @ ''='' @ v, [(1, m)]) = (rev k @ rev m, ''='' @ v, [(1, m)]) # more"
      by (rule runs_Star_greedy [of lower_key_char, OF runs_key_char])
        (use assms(2) runs_key_char_equals in auto)
    then show ?thesis by auto
  qed
  have "\<exists>more. runs sensitiveAssignment ([], m @ k @ ''='' @ v, [])
      = (rev v @ CHR ''='' # rev k @ rev m, [], [(3, ''=''), (2, k), (1, m)]) # more"
    unfolding sensitiveAssignment_def sequence.simps
    apply (rule runs_Seq_first [where q = "([], m @ k @ ''='' @ v, [])"])
    subgoal using b by simp
    apply (rule runs_Seq_first [where q = "(rev m, k @ ''='' @ v, [(1, m)])"])
    subgoal using runs_marker [OF assms(1), of "[]" "k @ ''='' @ v" "[]"] by simp
    apply (rule runs_Seq_first [OF key])
    apply (rule runs_Seq_first [where q = "(rev k @ rev m, ''='' @ v, [(2, k), (1, m)])"])
    subgoal using runs_no_space [OF d(2)] by simp
    apply (rule runs_Seq_first [where q = "(CHR ''='' # rev k @ rev m, v, [(3, ''=''), (2, k), (1, m)])"])
    subgoal by simp
    apply (rule runs_Seq_first [where q = "(CHR ''='' # rev k @ rev m, v, [(3, ''=''), (2, k), (1, m)])"])
    subgoal using runs_no_space [OF d(1)] v by simp
    apply (rule runs_Seq_first [OF runs_value [OF assms(3-5)] runs_Empty_first])
    done
  then show ?thesis by blast
qed

lemma runs_authorization_no_space:
  assumes "\<forall>c \<in> set s. \<not> space_char c"
  shows "runs authorizationValue (pre, s, g) = []"
proof -
  have "runs (Plus (Class space_char)) (pre', rest, g') = []" if "rest = [] \<or> \<not> space_char (hd rest)" for pre' rest g'
    using that by (cases rest) (auto simp: Plus_def)
  note none = this
  have "runs (Seq (word ''authorization'') (Seq (Plus (Class space_char)) r)) (pre, s, g) = []" for r
  proof -
    have "runs (Plus (Class space_char)) q = []" if q: "q \<in> set (runs (word ''authorization'') (pre, s, g))" for q
    proof -
      obtain pre' rest g' where q': "q = (pre', rest, g')" by (cases q)
      obtain u where "s = u @ rest" using runs_consume [OF q [unfolded q']] by auto
      then have "rest = [] \<or> \<not> space_char (hd rest)" using assms by (cases rest) auto
      then show ?thesis unfolding q' by (rule none)
    qed
    then show ?thesis by (auto simp del: runs.simps(1-4,6,8))
  qed
  then show ?thesis
    unfolding authorizationValue_def sequence.simps by (subst runs.simps(5)) (simp del: runs.simps(5))
qed

lemma replaceAll_nothing:
  assumes "\<And>u t pre. s = u @ t \<Longrightarrow> runs re (pre, t, []) = []"
  shows "replaceAll re template pre s = s"
  using assms
proof (induction s arbitrary: pre)
  case (Cons c s)
  have "replaceAll re template (c # pre) s = s"
    by (rule Cons.IH) (use Cons.prems in \<open>auto dest: arg_cong [of _ _ "(#) c"]\<close>)
  then show ?case using Cons.prems [of "[]" "c # s"] by (subst replaceAll.simps) simp
qed (subst replaceAll.simps, simp)

section \<open>Properties\<close>



lemma missed_credentials:
  "RedactText ''db_token=k'' = ''db_token=k''"
  by code_simp

lemma missed_header:
  "RedactText ''Authorization: Bearer k'' = ''Authorization:[REDACTED] k''"
  by code_simp

lemma sensitive_name: "IsSensitiveKey ''db_token''"
  by code_simp


fun redacted_value :: "'a field_value \<Rightarrow> bool" where
  "redacted_value (MapAny fields) \<longleftrightarrow>
     (\<forall>(key, value) \<in> set fields.
        if IsSensitiveKey key then value = StringValue RedactedValue else redacted_value value)"
| "redacted_value (MapString typed) \<longleftrightarrow>
     (\<forall>(key, item) \<in> set typed.
        if IsSensitiveKey key then item = RedactedValue else item \<in> range RedactText)"
| "redacted_value (SliceAny typed) \<longleftrightarrow> (\<forall>value \<in> set typed. redacted_value value)"
| "redacted_value (StringValue typed) \<longleftrightarrow> typed \<in> range RedactText"
| "redacted_value (OtherValue _) \<longleftrightarrow> True"

lemma redactFieldValue_redacted: "redacted_value (redactFieldValue v)"
proof (induction v)
  case (MapAny fields)
  then show ?case by (fastforce split: prod.splits)
qed (auto split: prod.splits)


end
