(* ===== verification/Fingerprint.thy ===== *)
theory Fingerprint
  imports Domain Go_SHA256 Go_Encoding "HOL-Library.Product_Lexorder" "HOL-Library.Multiset"
begin

text \<open>
  The JSON encoding of the domain structs, by their tags, and the fingerprints made of it, from
  \<^verbatim>\<open>internal/kube/fingerprint.go\<close>: \<open>ContentHash\<close> of the facts of a snapshot that matter, and the
  key of an incident.

  \<open>sort.Slice\<close> leaves the order of equal elements open; a stable sort stands for it. Equal conditions
  are the same in every field, and the names of containers differ, so the order is the same.
\<close>

section \<open>Encoding of the domain structs\<close>

definition ownerJSON :: "OwnerReference \<Rightarrow> json" where
  "ownerJSON owner = JObject
     (omitempty_string ''apiVersion'' (own_APIVersion owner) @ field ''kind'' (JString (own_Kind owner))
      @ field ''name'' (JString (own_Name owner)) @ field ''uid'' (JString (own_UID owner)))"

definition sourceJSON :: "Source \<Rightarrow> json" where
  "sourceJSON source = JObject
     (field ''clusterId'' (JString (src_ClusterID source)) @ field ''apiVersion'' (JString (src_APIVersion source))
      @ field ''kind'' (JString (src_Kind source)) @ omitempty_string ''namespace'' (src_Namespace source)
      @ field ''name'' (JString (src_Name source)) @ field ''uid'' (JString (src_UID source))
      @ omitempty_string ''resourceVersion'' (src_ResourceVersion source)
      @ omitempty_int ''generation'' (src_Generation source)
      @ omitempty_pointer ownerJSON ''owner'' (src_Owner source))"

definition conditionJSON :: "Condition \<Rightarrow> json option" where
  "conditionJSON condition =
     map_option (\<lambda>time. JObject
       (field ''type'' (JString (cond_Type condition)) @ field ''status'' (JString (cond_Status condition))
        @ omitempty_string ''reason'' (cond_Reason condition)
        @ omitempty_string ''message'' (cond_Message condition)
        @ field ''lastTransitionTime'' time))
       (MarshalTime (cond_LastTransitionTime condition))"

definition containerJSON :: "ContainerState \<Rightarrow> json" where
  "containerJSON container = JObject
     (field ''name'' (JString (ctr_Name container)) @ field ''ready'' (JBool (ctr_Ready container))
      @ field ''restartCount'' (JInt (ctr_RestartCount container)) @ field ''state'' (JString (ctr_State container))
      @ omitempty_string ''reason'' (ctr_Reason container) @ omitempty_int ''exitCode'' (ctr_ExitCode container))"

definition workloadJSON :: "WorkloadState \<Rightarrow> json" where
  "workloadJSON workload = JObject
     (field ''desired'' (JInt (wl_Desired workload)) @ field ''current'' (JInt (wl_Current workload))
      @ field ''ready'' (JInt (wl_Ready workload)) @ field ''available'' (JInt (wl_Available workload))
      @ field ''updated'' (JInt (wl_Updated workload)) @ field ''unavailable'' (JInt (wl_Unavailable workload)))"

definition jobJSON :: "JobState \<Rightarrow> json" where
  "jobJSON job = JObject
     (field ''active'' (JInt (job_Active job)) @ field ''succeeded'' (JInt (job_Succeeded job))
      @ field ''failed'' (JInt (job_Failed job)) @ field ''backoffLimit'' (JInt (job_BackoffLimit job)))"

definition eventJSON :: "EventState \<Rightarrow> json option" where
  "eventJSON event =
     map_option (\<lambda>time. JObject
       (field ''type'' (JString (ev_Type event)) @ field ''reason'' (JString (ev_Reason event))
        @ omitempty_string ''message'' (ev_Message event)
        @ omitempty_string ''regardingUid'' (ev_RegardingUID event)
        @ field ''count'' (JInt (ev_Count event)) @ field ''lastObserved'' time))
       (MarshalTime (ev_LastObserved event))"

definition snapshotJSON :: "Snapshot \<Rightarrow> json option" where
  "snapshotJSON snapshot =
     (case (MarshalTime (sn_ObservedAt snapshot), those (map conditionJSON (sn_Conditions snapshot)),
            case sn_Event snapshot of None \<Rightarrow> Some None | Some event \<Rightarrow> map_option Some (eventJSON event)) of
        (Some observedAt, Some conditions, Some event) \<Rightarrow> Some (JObject
          (field ''source'' (sourceJSON (sn_Source snapshot)) @ field ''observedAt'' observedAt
           @ omitempty (sn_Labels snapshot = []) ''labels'' (string_map (sn_Labels snapshot))
           @ omitempty_array ''conditions'' conditions
           @ omitempty_array ''containers'' (map containerJSON (sn_Containers snapshot))
           @ omitempty_pointer workloadJSON ''workload'' (sn_Workload snapshot)
           @ omitempty_pointer jobJSON ''job'' (sn_Job snapshot)
           @ omitempty_pointer (\<lambda>j. j) ''event'' event
           @ omitempty_string ''contentHash'' (sn_ContentHash snapshot)))
      | _ \<Rightarrow> None)"

section \<open>The canonical form of a snapshot\<close>

definition contentHashSchema :: string where
  "contentHashSchema = ''ruleraven.snapshot.v1'' @ [CHR 0x00]"

definition incidentKeySchema :: string where
  "incidentKeySchema = ''ruleraven.incident.v1'' @ [CHR 0x00]"

record canonicalSource =
  cso_ClusterID :: string
  cso_APIVersion :: string
  cso_Kind :: string
  cso_UID :: string
  cso_Generation :: int
  cso_Owner :: "OwnerReference option"

record canonicalEvent =
  cev_Type :: string
  cev_Reason :: string
  cev_Message :: string
  cev_RegardingUID :: string

record canonicalSnapshot =
  csn_Source :: canonicalSource
  csn_Labels :: "(string \<times> string) list"
  csn_Conditions :: "Condition list"
  csn_Containers :: "ContainerState list"
  csn_Workload :: "WorkloadState option"
  csn_Job :: "JobState option"
  csn_Event :: "canonicalEvent option"

definition canonical :: "Snapshot \<Rightarrow> canonicalSnapshot" where
  "canonical snapshot =
     \<lparr>csn_Source =
        \<lparr>cso_ClusterID = src_ClusterID (sn_Source snapshot), cso_APIVersion = src_APIVersion (sn_Source snapshot),
         cso_Kind = src_Kind (sn_Source snapshot), cso_UID = src_UID (sn_Source snapshot),
         cso_Generation = src_Generation (sn_Source snapshot), cso_Owner = src_Owner (sn_Source snapshot)\<rparr>,
      csn_Labels = sort_key fst (sn_Labels snapshot),
      csn_Conditions =
        sort_key (\<lambda>c. (cond_Type c, cond_Status c, cond_Reason c, cond_Message c))
          (map (\<lambda>c. c\<lparr>cond_LastTransitionTime := 0\<rparr>) (sn_Conditions snapshot)),
      csn_Containers =
        sort_key (\<lambda>c. (ctr_Name c, ctr_State c, ctr_Reason c)) (sn_Containers snapshot),
      csn_Workload = sn_Workload snapshot, csn_Job = sn_Job snapshot,
      csn_Event = map_option (\<lambda>event. \<lparr>cev_Type = ev_Type event, cev_Reason = ev_Reason event,
        cev_Message = ev_Message event, cev_RegardingUID = ev_RegardingUID event\<rparr>) (sn_Event snapshot)\<rparr>"

definition canonicalSourceJSON :: "canonicalSource \<Rightarrow> json" where
  "canonicalSourceJSON source = JObject
     (field ''clusterId'' (JString (cso_ClusterID source)) @ field ''apiVersion'' (JString (cso_APIVersion source))
      @ field ''kind'' (JString (cso_Kind source)) @ field ''uid'' (JString (cso_UID source))
      @ field ''generation'' (JInt (cso_Generation source))
      @ omitempty_pointer ownerJSON ''owner'' (cso_Owner source))"

definition canonicalEventJSON :: "canonicalEvent \<Rightarrow> json" where
  "canonicalEventJSON event = JObject
     (field ''type'' (JString (cev_Type event)) @ field ''reason'' (JString (cev_Reason event))
      @ omitempty_string ''message'' (cev_Message event)
      @ omitempty_string ''regardingUid'' (cev_RegardingUID event))"

definition keyValueJSON :: "string \<times> string \<Rightarrow> json" where
  "keyValueJSON kv = JObject (field ''key'' (JString (fst kv)) @ field ''value'' (JString (snd kv)))"

definition canonicalJSON :: "canonicalSnapshot \<Rightarrow> json option" where
  "canonicalJSON c =
     map_option (\<lambda>conditions. JObject
       (field ''source'' (canonicalSourceJSON (csn_Source c))
        @ omitempty_array ''labels'' (map keyValueJSON (csn_Labels c))
        @ omitempty_array ''conditions'' conditions
        @ omitempty_array ''containers'' (map containerJSON (csn_Containers c))
        @ omitempty_pointer workloadJSON ''workload'' (csn_Workload c)
        @ omitempty_pointer jobJSON ''job'' (csn_Job c)
        @ omitempty_pointer canonicalEventJSON ''event'' (csn_Event c)))
       (those (map conditionJSON (csn_Conditions c)))"

section \<open>Fingerprints\<close>

definition sha256_hex :: "string \<Rightarrow> string" where
  "sha256_hex s = EncodeToString (sha256_bytes (bytes s))"

definition ContentHash :: "Snapshot \<Rightarrow> string option" where
  "ContentHash snapshot =
     map_option (\<lambda>encoded. ''sha256:'' @ sha256_hex (contentHashSchema @ render encoded))
       (canonicalJSON (canonical snapshot))"

definition IncidentKey :: "Source \<Rightarrow> string" where
  "IncidentKey source =
     ''incident:v1:'' @ sha256_hex (incidentKeySchema @ src_ClusterID source @ [CHR 0x00] @ src_UID source)"

section \<open>Properties\<close>

lemma MarshalTime_0: "\<exists>j. MarshalTime 0 = Some j"
proof -
  have "MarshalTime 0 \<noteq> None" by code_simp
  then show ?thesis by simp
qed

lemma those_map_Some: "(\<forall>x \<in> set xs. \<exists>y. f x = Some y) \<Longrightarrow> \<exists>ys. those (map f xs) = Some ys"
  by (induction xs) auto

lemma ContentHash_total: "\<exists>h. ContentHash snapshot = Some h"
proof -
  have "\<exists>js. those (map conditionJSON (csn_Conditions (canonical snapshot))) = Some js"
    by (rule those_map_Some) (use MarshalTime_0 in \<open>auto simp: canonical_def conditionJSON_def\<close>)
  then show ?thesis by (auto simp: ContentHash_def canonicalJSON_def)
qed

text \<open>The facts of a snapshot that its fingerprint is made of, and nothing else.\<close>

definition same_facts :: "Snapshot \<Rightarrow> Snapshot \<Rightarrow> bool" where
  "same_facts s t \<longleftrightarrow>
     csn_Source (canonical s) = csn_Source (canonical t)
     \<and> set (sn_Labels s) = set (sn_Labels t)
     \<and> image_mset (cond_LastTransitionTime_update (\<lambda>_. 0)) (mset (sn_Conditions s))
       = image_mset (cond_LastTransitionTime_update (\<lambda>_. 0)) (mset (sn_Conditions t))
     \<and> mset (sn_Containers s) = mset (sn_Containers t)
     \<and> sn_Workload s = sn_Workload t \<and> sn_Job s = sn_Job t
     \<and> csn_Event (canonical s) = csn_Event (canonical t)"

lemma sort_key_unique:
  assumes "mset xs = mset ys" "inj_on f (set xs)"
  shows "sort_key f xs = sort_key f ys"
  by (rule sort_key_inj_key_eq) (use assms in auto)

lemma same_labels:
  assumes "wf_map m" "wf_map n" "set m = set n"
  shows "sort_key fst m = sort_key fst n"
proof (rule sort_key_unique)
  show "mset m = mset n"
    using assms by (simp add: set_eq_iff_mset_eq_distinct [symmetric] distinct_map)
  show "inj_on fst (set m)" using assms(1) by (simp add: distinct_map)
qed

lemma same_conditions:
  fixes cs :: "Condition list"
  assumes "mset cs = mset ds" "\<forall>c \<in> set cs. cond_LastTransitionTime c = 0"
  shows "sort_key (\<lambda>c. (cond_Type c, cond_Status c, cond_Reason c, cond_Message c)) cs
    = sort_key (\<lambda>c. (cond_Type c, cond_Status c, cond_Reason c, cond_Message c)) ds"
  by (rule sort_key_unique [OF assms(1)]) (use assms(2) in \<open>auto intro!: inj_onI Condition.equality\<close>)

lemma same_containers:
  fixes cs :: "ContainerState list"
  assumes "mset cs = mset ds" "distinct (map ctr_Name cs)"
  shows "sort_key (\<lambda>c. (ctr_Name c, ctr_State c, ctr_Reason c)) cs
    = sort_key (\<lambda>c. (ctr_Name c, ctr_State c, ctr_Reason c)) ds"
  by (rule sort_key_unique [OF assms(1)]) (use assms(2) in \<open>auto simp: distinct_map inj_on_def\<close>)

lemma canonical_same_facts:
  assumes "same_facts s t" "wf_map (sn_Labels s)" "wf_map (sn_Labels t)" "distinct (map ctr_Name (sn_Containers s))"
  shows "canonical s = canonical t"
proof (rule canonicalSnapshot.equality)
  have f: "csn_Source (canonical s) = csn_Source (canonical t)" "set (sn_Labels s) = set (sn_Labels t)"
    "image_mset (cond_LastTransitionTime_update (\<lambda>_. 0)) (mset (sn_Conditions s))
       = image_mset (cond_LastTransitionTime_update (\<lambda>_. 0)) (mset (sn_Conditions t))"
    "mset (sn_Containers s) = mset (sn_Containers t)" "sn_Workload s = sn_Workload t" "sn_Job s = sn_Job t"
    "csn_Event (canonical s) = csn_Event (canonical t)"
    using assms(1) unfolding same_facts_def by blast+
  show "csn_Source (canonical s) = csn_Source (canonical t)" "csn_Event (canonical s) = csn_Event (canonical t)"
    by (rule f)+
  show "csn_Labels (canonical s) = csn_Labels (canonical t)"
    using same_labels [OF assms(2,3) f(2)] by (simp add: canonical_def)
  show "csn_Containers (canonical s) = csn_Containers (canonical t)"
    using same_containers [OF f(4) assms(4)] by (simp add: canonical_def)
  have "mset (map (cond_LastTransitionTime_update (\<lambda>_. 0)) (sn_Conditions s))
      = mset (map (cond_LastTransitionTime_update (\<lambda>_. 0)) (sn_Conditions t))"
    using f(3) by simp
  from same_conditions [OF this] show "csn_Conditions (canonical s) = csn_Conditions (canonical t)"
    by (simp add: canonical_def)
  show "csn_Workload (canonical s) = csn_Workload (canonical t)" "csn_Job (canonical s) = csn_Job (canonical t)"
    by (simp_all add: canonical_def f(5,6))
qed simp


definition sample_seen :: "gotime \<Rightarrow> ContainerState list \<Rightarrow> Snapshot" where
  "sample_seen t containers =
     \<lparr>sn_Source = \<lparr>src_ClusterID = ''c1'', src_APIVersion = ''v1'', src_Kind = ''Pod'', src_Namespace = ''web'',
        src_Name = ''api'', src_UID = ''u1'', src_ResourceVersion = Itoa (nat t), src_Generation = 1, src_Owner = None\<rparr>,
      sn_ObservedAt = t, sn_Labels = [(''app'', ''api'')],
      sn_Conditions = [\<lparr>cond_Type = ''Ready'', cond_Status = ''False'', cond_Reason = [], cond_Message = [],
        cond_LastTransitionTime = t\<rparr>],
      sn_Containers = containers, sn_Workload = None, sn_Job = None, sn_Event = None, sn_ContentHash = []\<rparr>"

definition sample_app :: "string \<Rightarrow> ContainerState" where
  "sample_app name = \<lparr>ctr_Name = name, ctr_Ready = False, ctr_RestartCount = 2, ctr_State = ''waiting'',
     ctr_Reason = ''CrashLoopBackOff'', ctr_ExitCode = 1\<rparr>"


end
