(* ===== verification/Normalizer.thy ===== *)
theory Normalizer
  imports Kube_Objects Redactor Fingerprint
begin

text \<open>
  Normalization of Kubernetes objects into snapshots, from \<^verbatim>\<open>internal/kube/normalizer.go\<close>, and the
  part of \<^verbatim>\<open>time.Parse\<close> for RFC 3339 that it uses.
\<close>

section \<open>Instants in RFC 3339 (time.Parse)\<close>

definition digit_of :: "char \<Rightarrow> int option" where
  "digit_of c = (if is_digit c then Some (int (of_char c) - 48) else None)"

fun getnum :: "bool \<Rightarrow> string \<Rightarrow> (int \<times> string) option" where
  "getnum fixed [] = None"
| "getnum fixed [c] =
     (case digit_of c of None \<Rightarrow> None | Some d \<Rightarrow> if fixed then None else Some (d, []))"
| "getnum fixed (c # e # rest) =
     (case digit_of c of
        None \<Rightarrow> None
      | Some d \<Rightarrow>
          (case digit_of e of
             None \<Rightarrow> if fixed then None else Some (d, e # rest)
           | Some f \<Rightarrow> Some (10 * d + f, rest)))"

definition in_range :: "int \<Rightarrow> int \<Rightarrow> (int \<times> string) option \<Rightarrow> (int \<times> string) option" where
  "in_range lo hi r =
     (case r of None \<Rightarrow> None | Some (n, rest) \<Rightarrow> if lo \<le> n \<and> n \<le> hi then Some (n, rest) else None)"

definition literal :: "char \<Rightarrow> string \<Rightarrow> string option" where
  "literal c s = (case s of [] \<Rightarrow> None | d # rest \<Rightarrow> if d = c then Some rest else None)"

definition parse_year :: "string \<Rightarrow> (int \<times> string) option" where
  "parse_year s =
     (case getnum True s of
        None \<Rightarrow> None
      | Some (hi, rest) \<Rightarrow> map_option (\<lambda>(lo, rest). (100 * hi + lo, rest)) (getnum True rest))"

definition decimal :: "string \<Rightarrow> int" where
  "decimal s = foldl (\<lambda>n c. 10 * n + (int (of_char c) - 48)) 0 s"

text \<open>Fractional seconds after a point or a comma, cut after nine digits.\<close>

definition parse_fraction :: "string \<Rightarrow> int \<times> string" where
  "parse_fraction s =
     (case s of
        c # d # _ \<Rightarrow>
          if (c = CHR ''.'' \<or> c = CHR '','') \<and> is_digit d
          then let digits = take 9 (takeWhile is_digit (tl s))
               in (decimal digits * 10 ^ (9 - length digits), dropWhile is_digit (tl s))
          else (0, s)
      | _ \<Rightarrow> (0, s))"

text \<open>The offset from UTC in seconds.\<close>

definition parse_zone :: "string \<Rightarrow> (int \<times> string) option" where
  "parse_zone s =
     (case s of
        [] \<Rightarrow> None
      | c # rest \<Rightarrow>
          if c = CHR ''Z'' then Some (0, rest)
          else if length s < 6 \<or> s ! 3 \<noteq> CHR '':'' then None
          else case (in_range 0 24 (getnum True (take 2 rest)), in_range 0 60 (getnum True (take 2 (drop 4 s)))) of
            (Some (hr, _), Some (mm, _)) \<Rightarrow>
              if c = CHR ''+'' then Some ((hr * 60 + mm) * 60, drop 6 s)
              else if c = CHR ''-'' then Some (- ((hr * 60 + mm) * 60), drop 6 s)
              else None
          | _ \<Rightarrow> None)"

definition days_before_year :: "int \<Rightarrow> int" where
  "days_before_year y = 365 * (y - 1) + (y - 1) div 4 - (y - 1) div 100 + (y - 1) div 400"

definition ParseRFC3339 :: "string \<Rightarrow> gotime option" where
  "ParseRFC3339 s =
     Option.bind (parse_year s) (\<lambda>(year, s).
     Option.bind (literal (CHR ''-'') s) (\<lambda>s.
     Option.bind (in_range 1 12 (getnum True s)) (\<lambda>(month, s).
     Option.bind (literal (CHR ''-'') s) (\<lambda>s.
     Option.bind (getnum True s) (\<lambda>(day, s).
     Option.bind (literal (CHR ''T'') s) (\<lambda>s.
     Option.bind (in_range 0 23 (getnum False s)) (\<lambda>(hour, s).
     Option.bind (literal (CHR '':'') s) (\<lambda>s.
     Option.bind (in_range 0 59 (getnum True s)) (\<lambda>(minute, s).
     Option.bind (literal (CHR '':'') s) (\<lambda>s.
     Option.bind (in_range 0 59 (getnum True s)) (\<lambda>(second, s).
     let (ns, s) = parse_fraction s in
     Option.bind (parse_zone s) (\<lambda>(offset, s).
       if s \<noteq> [] \<or> day < 1 \<or> month_lengths year ! nat (month - 1) < day then None
       else let days = days_before_year year + sum_list (take (nat (month - 1)) (month_lengths year)) + day - 1
            in Some ((days * 86400 + hour * 3600 + minute * 60 + second - offset) * 1000000000 + ns)))))))))))))"

section \<open>Helpers\<close>

definition nonnegativeDifference :: "int \<Rightarrow> int \<Rightarrow> int" where
  "nonnegativeDifference left right = (if left \<le> right then 0 else wrap32 (left - right))"

definition defaultString :: "string \<Rightarrow> string \<Rightarrow> string" where
  "defaultString v fallback = (if v = [] then fallback else v)"

definition replicas :: "int option \<Rightarrow> int" where
  "replicas v = (case v of None \<Rightarrow> 1 | Some n \<Rightarrow> n)"

text \<open>The members of an unstructured map that are strings.\<close>

definition stringField :: "(string \<times> string) list \<Rightarrow> string \<Rightarrow> string" where
  "stringField values key = lookup_zero [] values key"

definition sortConditions :: "Condition list \<Rightarrow> Condition list" where
  "sortConditions conditions = sort_key (\<lambda>c. (cond_Type c, cond_Status c, cond_Reason c)) conditions"

definition containerState :: "KubeContainerState \<Rightarrow> string \<times> string \<times> int" where
  "containerState state =
     (case kcs_Waiting state of
        Some reason \<Rightarrow> (''waiting'', reason, 0)
      | None \<Rightarrow>
          (case kcs_Terminated state of
             Some (reason, exitCode) \<Rightarrow> (''terminated'', reason, exitCode)
           | None \<Rightarrow> if kcs_Running state then (''running'', [], 0) else (''unknown'', [], 0)))"

section \<open>The normalizer\<close>

record NormalizerOptions =
  no_ClusterID :: string
  no_AllowedLabels :: "string list"
  no_MaxBytes :: int

record Normalizer =
  nz_clusterID :: string
  nz_allowedLabels :: "string set"
  nz_maxBytes :: int

definition NewNormalizer :: "NormalizerOptions \<Rightarrow> Normalizer" where
  "NewNormalizer options =
     \<lparr>nz_clusterID = no_ClusterID options, nz_allowedLabels = set (no_AllowedLabels options),
      nz_maxBytes = no_MaxBytes options\<rparr>"

definition is_controller :: "KubeOwner \<Rightarrow> bool" where
  "is_controller owner \<longleftrightarrow> ko_Controller owner = Some True"

definition ownerReference :: "KubeOwner \<Rightarrow> OwnerReference" where
  "ownerReference owner =
     \<lparr>own_APIVersion = ko_APIVersion owner, own_Kind = ko_Kind owner, own_Name = ko_Name owner,
      own_UID = ko_UID owner\<rparr>"

fun selectOwner :: "OwnerReference option \<Rightarrow> KubeOwner list \<Rightarrow> OwnerReference option" where
  "selectOwner chosen [] = chosen"
| "selectOwner chosen (owner # owners) =
     (let chosen = (if chosen = None \<or> is_controller owner then Some (ownerReference owner) else chosen)
      in if is_controller owner then chosen else selectOwner chosen owners)"

definition nz_source :: "Normalizer \<Rightarrow> string \<Rightarrow> string \<Rightarrow> ObjectMeta \<Rightarrow> Source" where
  "nz_source n apiVersion kind metadata =
     \<lparr>src_ClusterID = nz_clusterID n, src_APIVersion = apiVersion, src_Kind = kind,
      src_Namespace = om_Namespace metadata, src_Name = om_Name metadata, src_UID = om_UID metadata,
      src_ResourceVersion = om_ResourceVersion metadata, src_Generation = om_Generation metadata,
      src_Owner = selectOwner None (om_OwnerReferences metadata)\<rparr>"

definition nz_labels :: "Normalizer \<Rightarrow> (string \<times> string) list \<Rightarrow> (string \<times> string) list" where
  "nz_labels n values = filter (\<lambda>(key, _). key \<in> nz_allowedLabels n \<and> \<not> IsSensitiveKey key) values"

definition normalizeConditions :: "KubeCondition list \<Rightarrow> Condition list" where
  "normalizeConditions conditions =
     map (\<lambda>c. \<lparr>cond_Type = kc_Type c, cond_Status = kc_Status c, cond_Reason = kc_Reason c,
              cond_Message = [], cond_LastTransitionTime = kc_LastTransitionTime c\<rparr>) conditions"

definition emptySnapshot :: "Source \<Rightarrow> gotime \<Rightarrow> (string \<times> string) list \<Rightarrow> Snapshot" where
  "emptySnapshot source observedAt labels =
     \<lparr>sn_Source = source, sn_ObservedAt = observedAt, sn_Labels = labels, sn_Conditions = [],
      sn_Containers = [], sn_Workload = None, sn_Job = None, sn_Event = None, sn_ContentHash = []\<rparr>"

definition typedSnapshot :: "Normalizer \<Rightarrow> string \<Rightarrow> string \<Rightarrow> TypeMeta \<Rightarrow> ObjectMeta \<Rightarrow> gotime \<Rightarrow> Snapshot" where
  "typedSnapshot n apiVersion kind type metadata observedAt =
     emptySnapshot
       (nz_source n (defaultString (tm_APIVersion type) apiVersion) (defaultString (tm_Kind type) kind) metadata)
       observedAt (nz_labels n (om_Labels metadata))"

definition normalizeDeployment :: "Normalizer \<Rightarrow> Deployment \<Rightarrow> gotime \<Rightarrow> Snapshot" where
  "normalizeDeployment n deployment observedAt =
     (typedSnapshot n ''apps/v1'' ''Deployment'' (kb_Type deployment) (kb_Meta deployment) observedAt)
     \<lparr>sn_Workload := Some
        \<lparr>wl_Desired = replicas (dpl_SpecReplicas deployment), wl_Current = dpl_Replicas deployment,
         wl_Ready = dpl_ReadyReplicas deployment, wl_Available = dpl_AvailableReplicas deployment,
         wl_Updated = dpl_UpdatedReplicas deployment, wl_Unavailable = dpl_UnavailableReplicas deployment\<rparr>,
      sn_Conditions := sortConditions (normalizeConditions (dpl_Conditions deployment))\<rparr>"

definition normalizeStatefulSet :: "Normalizer \<Rightarrow> StatefulSet \<Rightarrow> gotime \<Rightarrow> Snapshot" where
  "normalizeStatefulSet n statefulSet observedAt =
     (let desired = replicas (sts_SpecReplicas statefulSet) in
      (typedSnapshot n ''apps/v1'' ''StatefulSet'' (kb_Type statefulSet) (kb_Meta statefulSet) observedAt)
      \<lparr>sn_Workload := Some
         \<lparr>wl_Desired = desired, wl_Current = sts_CurrentReplicas statefulSet,
          wl_Ready = sts_ReadyReplicas statefulSet, wl_Available = sts_AvailableReplicas statefulSet,
          wl_Updated = sts_UpdatedReplicas statefulSet,
          wl_Unavailable = nonnegativeDifference desired (sts_ReadyReplicas statefulSet)\<rparr>,
       sn_Conditions := sortConditions (normalizeConditions (sts_Conditions statefulSet))\<rparr>)"

definition normalizeDaemonSet :: "Normalizer \<Rightarrow> DaemonSet \<Rightarrow> gotime \<Rightarrow> Snapshot" where
  "normalizeDaemonSet n daemonSet observedAt =
     (typedSnapshot n ''apps/v1'' ''DaemonSet'' (kb_Type daemonSet) (kb_Meta daemonSet) observedAt)
     \<lparr>sn_Workload := Some
        \<lparr>wl_Desired = dst_DesiredNumberScheduled daemonSet, wl_Current = dst_CurrentNumberScheduled daemonSet,
         wl_Ready = dst_NumberReady daemonSet, wl_Available = dst_NumberAvailable daemonSet,
         wl_Updated = dst_UpdatedNumberScheduled daemonSet, wl_Unavailable = dst_NumberUnavailable daemonSet\<rparr>,
      sn_Conditions := sortConditions (normalizeConditions (dst_Conditions daemonSet))\<rparr>"

definition normalizeJob :: "Normalizer \<Rightarrow> Job \<Rightarrow> gotime \<Rightarrow> Snapshot" where
  "normalizeJob n job observedAt =
     (let backoffLimit = (case jb_BackoffLimit job of None \<Rightarrow> 6 | Some limit \<Rightarrow> limit) in
      (typedSnapshot n ''batch/v1'' ''Job'' (kb_Type job) (kb_Meta job) observedAt)
      \<lparr>sn_Job := Some
         \<lparr>job_Active = jb_Active job, job_Succeeded = jb_Succeeded job, job_Failed = jb_Failed job,
          job_BackoffLimit = backoffLimit\<rparr>,
       sn_Conditions := sortConditions (normalizeConditions (jb_Conditions job))\<rparr>)"

definition normalizeEvent :: "Normalizer \<Rightarrow> Event \<Rightarrow> gotime \<Rightarrow> Snapshot" where
  "normalizeEvent n event observedAt =
     (let lastObserved = (if IsZero (evt_EventTime event) then evt_LastTimestamp event else evt_EventTime event) in
      (typedSnapshot n ''v1'' ''Event'' (kb_Type event) (kb_Meta event) observedAt)
      \<lparr>sn_Event := Some
         \<lparr>ev_Type = evt_Type event, ev_Reason = evt_Reason event, ev_Message = RedactText (evt_Message event),
          ev_RegardingUID = evt_InvolvedObjectUID event, ev_Count = evt_Count event,
          ev_LastObserved = lastObserved\<rparr>\<rparr>)"

definition normalizePod :: "Normalizer \<Rightarrow> Pod \<Rightarrow> gotime \<Rightarrow> Snapshot" where
  "normalizePod n pod observedAt =
     (typedSnapshot n ''v1'' ''Pod'' (kb_Type pod) (kb_Meta pod) observedAt)
     \<lparr>sn_Conditions := sortConditions (normalizeConditions (pod_Conditions pod)),
      sn_Containers := sort_key ctr_Name
        (map (\<lambda>status. let (state, reason, exitCode) = containerState (kst_State status) in
           \<lparr>ctr_Name = kst_Name status, ctr_Ready = kst_Ready status,
            ctr_RestartCount = kst_RestartCount status, ctr_State = state, ctr_Reason = reason,
            ctr_ExitCode = exitCode\<rparr>) (pod_ContainerStatuses pod))\<rparr>"

definition unstructuredCondition :: "(string \<times> string) list \<Rightarrow> Condition" where
  "unstructuredCondition condition =
     \<lparr>cond_Type = stringField condition ''type'', cond_Status = stringField condition ''status'',
      cond_Reason = stringField condition ''reason'', cond_Message = [],
      cond_LastTransitionTime =
        (let v = stringField condition ''lastTransitionTime''
         in if v = [] then 0 else case ParseRFC3339 v of None \<Rightarrow> 0 | Some parsed \<Rightarrow> parsed)\<rparr>"

datatype NormalizeError =
    ErrSecretResource
  | UnsupportedType
  | ReadConditions
  | Fingerprint
  | Encode
  | SizeLimit

definition normalizeUnstructured :: "Normalizer \<Rightarrow> Unstructured \<Rightarrow> gotime \<Rightarrow> NormalizeError + Snapshot" where
  "normalizeUnstructured n object observedAt =
     (case un_Conditions object of
        Inl _ \<Rightarrow> Inl ReadConditions
      | Inr found \<Rightarrow>
          let conditions = (case found of None \<Rightarrow> [] | Some raws \<Rightarrow>
                map unstructuredCondition (List.map_filter (\<lambda>raw. raw) raws))
          in Inr ((emptySnapshot
               (nz_source n (tm_APIVersion (kb_Type object)) (tm_Kind (kb_Type object)) (kb_Meta object))
               observedAt (nz_labels n (om_Labels (kb_Meta object))))
               \<lparr>sn_Conditions := sortConditions conditions\<rparr>))"

definition normalizeObject :: "Normalizer \<Rightarrow> Object \<Rightarrow> gotime \<Rightarrow> NormalizeError + Snapshot" where
  "normalizeObject n object observedAt =
     (case object of
        PodObject pod \<Rightarrow> Inr (normalizePod n pod observedAt)
      | DeploymentObject deployment \<Rightarrow> Inr (normalizeDeployment n deployment observedAt)
      | StatefulSetObject statefulSet \<Rightarrow> Inr (normalizeStatefulSet n statefulSet observedAt)
      | DaemonSetObject daemonSet \<Rightarrow> Inr (normalizeDaemonSet n daemonSet observedAt)
      | JobObject job \<Rightarrow> Inr (normalizeJob n job observedAt)
      | EventObject event \<Rightarrow> Inr (normalizeEvent n event observedAt)
      | SecretObject _ \<Rightarrow> Inl ErrSecretResource
      | UnstructuredObject typed \<Rightarrow>
          if EqualFold (tm_Kind (kb_Type typed)) ''Secret'' then Inl ErrSecretResource
          else normalizeUnstructured n typed observedAt
      | OtherObject _ \<Rightarrow> Inl UnsupportedType)"

definition Normalize :: "Normalizer \<Rightarrow> Object \<Rightarrow> gotime \<Rightarrow> NormalizeError + Snapshot" where
  "Normalize n object observedAt =
     (case normalizeObject n object observedAt of
        Inl err \<Rightarrow> Inl err
      | Inr snapshot \<Rightarrow>
          (case ContentHash snapshot of
             None \<Rightarrow> Inl Fingerprint
           | Some hash \<Rightarrow>
               let snapshot = snapshot\<lparr>sn_ContentHash := hash\<rparr>
               in case snapshotJSON snapshot of
                    None \<Rightarrow> Inl Encode
                  | Some encoded \<Rightarrow>
                      if nz_maxBytes n \<le> 0 \<or> nz_maxBytes n < int (length (render encoded)) then Inl SizeLimit
                      else Inr snapshot))"

section \<open>Properties\<close>

lemma ContentHash_of_hashed: "ContentHash (s\<lparr>sn_ContentHash := h\<rparr>) = ContentHash s"
  by (simp add: ContentHash_def canonical_def)

lemma Normalize_Inr:
  assumes "Normalize n object t = Inr s"
  obtains s0 encoded where "normalizeObject n object t = Inr s0" "s = s0\<lparr>sn_ContentHash := sn_ContentHash s\<rparr>"
    "ContentHash s = Some (sn_ContentHash s)" "snapshotJSON s = Some encoded"
    "int (length (render encoded)) \<le> nz_maxBytes n"
proof -
  obtain s0 where s0: "normalizeObject n object t = Inr s0"
    using assms by (auto simp: Normalize_def split: sum.splits)
  obtain h where h: "ContentHash s0 = Some h"
    using assms s0 by (auto simp: Normalize_def split: option.splits)
  let ?s = "s0\<lparr>sn_ContentHash := h\<rparr>"
  obtain encoded where e: "snapshotJSON ?s = Some encoded"
    using assms s0 h by (auto simp: Normalize_def Let_def split: option.splits)
  have s: "s = ?s" "\<not> nz_maxBytes n < int (length (render encoded))"
    using assms s0 h e by (auto simp: Normalize_def Let_def split: if_splits)
  show ?thesis by (rule that [of s0 encoded]) (use s0 h e s in \<open>simp_all add: ContentHash_of_hashed\<close>)
qed

text \<open>What the normalization of any supported object has in common.\<close>

definition allowlisted :: "Normalizer \<Rightarrow> Object \<Rightarrow> Snapshot \<Rightarrow> bool" where
  "allowlisted n object s \<longleftrightarrow>
     src_ClusterID (sn_Source s) = nz_clusterID n \<and> src_UID (sn_Source s) = om_UID (object_meta object)
     \<and> src_Namespace (sn_Source s) = om_Namespace (object_meta object)
     \<and> src_Name (sn_Source s) = om_Name (object_meta object)
     \<and> (\<forall>(key, v) \<in> set (sn_Labels s).
          (key, v) \<in> set (om_Labels (object_meta object)) \<and> key \<in> nz_allowedLabels n \<and> \<not> IsSensitiveKey key)
     \<and> (\<forall>c \<in> set (sn_Conditions s). cond_Message c = [])
     \<and> (case sn_Event s of None \<Rightarrow> True
        | Some e \<Rightarrow> \<exists>event. object = EventObject event \<and> ev_Message e = RedactText (evt_Message event))"

lemma allowlisted_typed:
  "allowlisted n object (typedSnapshot n apiVersion kind type (object_meta object) t)"
  by (auto simp: allowlisted_def typedSnapshot_def emptySnapshot_def nz_source_def nz_labels_def)

lemma set_sortConditions [simp]: "set (sortConditions cs) = set cs"
  by (simp add: sortConditions_def)

lemma normalizeConditions_message: "c \<in> set (normalizeConditions cs) \<Longrightarrow> cond_Message c = []"
  by (auto simp: normalizeConditions_def)

lemma allowlisted_update [simp]:
  "allowlisted n object (s\<lparr>sn_Workload := wl\<rparr>) = allowlisted n object s"
  "allowlisted n object (s\<lparr>sn_Job := jb\<rparr>) = allowlisted n object s"
  "allowlisted n object (s\<lparr>sn_Containers := ctrs\<rparr>) = allowlisted n object s"
  "allowlisted n object (s\<lparr>sn_ContentHash := h\<rparr>) = allowlisted n object s"
  by (simp_all add: allowlisted_def)

lemma allowlisted_conditions:
  "allowlisted n object s \<Longrightarrow> allowlisted n object (s\<lparr>sn_Conditions := sortConditions (normalizeConditions cs)\<rparr>)"
  using normalizeConditions_message [of _ cs] by (simp add: allowlisted_def)

lemma normalizeObject_allowlisted:
  assumes "normalizeObject n object t = Inr s"
  shows "allowlisted n object s"
proof (cases object)
  case (UnstructuredObject u)
  then show ?thesis
    using assms
    by (auto simp: normalizeObject_def normalizeUnstructured_def allowlisted_def emptySnapshot_def nz_source_def
        nz_labels_def unstructuredCondition_def Let_def split: if_splits sum.splits)
next
  case (EventObject e)
  then show ?thesis
    using assms allowlisted_typed [of n object "''v1''" "''Event''" "kb_Type e" t]
    by (auto simp: normalizeObject_def normalizeEvent_def allowlisted_def typedSnapshot_def emptySnapshot_def)
next
  case (PodObject p)
  then show ?thesis
    using assms allowlisted_typed [of n object "''v1''" "''Pod''" "kb_Type p" t]
    by (auto simp: normalizeObject_def normalizePod_def intro!: allowlisted_conditions)
next
  case (DeploymentObject d)
  then show ?thesis
    using assms allowlisted_typed [of n object "''apps/v1''" "''Deployment''" "kb_Type d" t]
    by (auto simp: normalizeObject_def normalizeDeployment_def intro!: allowlisted_conditions)
next
  case (StatefulSetObject d)
  then show ?thesis
    using assms allowlisted_typed [of n object "''apps/v1''" "''StatefulSet''" "kb_Type d" t]
    by (auto simp: normalizeObject_def normalizeStatefulSet_def Let_def intro!: allowlisted_conditions)
next
  case (DaemonSetObject d)
  then show ?thesis
    using assms allowlisted_typed [of n object "''apps/v1''" "''DaemonSet''" "kb_Type d" t]
    by (auto simp: normalizeObject_def normalizeDaemonSet_def intro!: allowlisted_conditions)
next
  case (JobObject d)
  then show ?thesis
    using assms allowlisted_typed [of n object "''batch/v1''" "''Job''" "kb_Type d" t]
    by (auto simp: normalizeObject_def normalizeJob_def Let_def intro!: allowlisted_conditions)
qed (use assms in \<open>simp_all add: normalizeObject_def\<close>)


text \<open>An event, and a normalizer whose limit is just what the event needs.\<close>

definition sample_kube_event :: Event where
  "sample_kube_event =
     \<lparr>kb_Type = \<lparr>tm_APIVersion = [], tm_Kind = []\<rparr>,
      kb_Meta = \<lparr>om_Name = ''api.17'', om_Namespace = ''web'', om_UID = ''u1'', om_ResourceVersion = ''7'',
        om_Generation = 0, om_Labels = [(''app'', ''api''), (''api-token'', ''x'')], om_OwnerReferences = []\<rparr>,
      evt_Type = ''Warning'', evt_Reason = ''FailedMount'', evt_Message = ''token=hunter2'',
      evt_InvolvedObjectUID = ''p1'', evt_Count = 3, evt_EventTime = 0, evt_LastTimestamp = 5 * Second\<rparr>"

definition sample_normalizer :: "int \<Rightarrow> Normalizer" where
  "sample_normalizer limit = NewNormalizer
     \<lparr>no_ClusterID = ''c1'', no_AllowedLabels = [''app'', ''api-token''], no_MaxBytes = limit\<rparr>"

definition sample_normalized :: Snapshot where
  "sample_normalized =
     (let s = normalizeEvent (sample_normalizer 0) sample_kube_event 0
      in s\<lparr>sn_ContentHash := the (ContentHash s)\<rparr>)"

definition sample_limit :: int where
  "sample_limit = 1 + int (length (render (the (snapshotJSON sample_normalized))))"

lemma sample_normalizes:
  "Normalize (sample_normalizer sample_limit) (EventObject sample_kube_event) 0 = Inr sample_normalized"
proof -
  have same: "normalizeEvent (sample_normalizer l) sample_kube_event 0
      = normalizeEvent (sample_normalizer 0) sample_kube_event 0" for l
    by (simp add: normalizeEvent_def typedSnapshot_def nz_source_def nz_labels_def sample_normalizer_def NewNormalizer_def)
  obtain h where h: "ContentHash (normalizeEvent (sample_normalizer 0) sample_kube_event 0) = Some h"
    using ContentHash_total by blast
  have times: "MarshalTime 0 \<noteq> None" "MarshalTime (5 * Second) \<noteq> None" by code_simp+
  then have "snapshotJSON sample_normalized \<noteq> None"
    by (auto simp: snapshotJSON_def sample_normalized_def normalizeEvent_def typedSnapshot_def emptySnapshot_def
        eventJSON_def sample_kube_event_def IsZero_def Let_def split: option.splits)
  then obtain encoded where encoded: "snapshotJSON sample_normalized = Some encoded" by blast
  have s: "(normalizeEvent (sample_normalizer 0) sample_kube_event 0)\<lparr>sn_ContentHash := h\<rparr> = sample_normalized"
    by (simp add: sample_normalized_def h Let_def)
  have limit: "nz_maxBytes (sample_normalizer sample_limit) = 1 + int (length (render encoded))"
    by (simp add: sample_normalizer_def NewNormalizer_def sample_limit_def encoded)
  show ?thesis
    by (simp add: Normalize_def normalizeObject_def same [of sample_limit] h s encoded limit Let_def)
qed


end
