(* ===== verification/Kube_Watch.thy ===== *)
theory Kube_Watch
  imports Kube_Objects
begin

text \<open>
  Watching the cluster: keys and the event handler (\<^verbatim>\<open>internal/kube/event_handler.go\<close>), fetching the
  current object (\<^verbatim>\<open>internal/kube/resolver.go\<close>), the selection of resources and namespaces
  (\<^verbatim>\<open>internal/kube/informer_factory.go\<close>) and the worker of the manager (\<^verbatim>\<open>internal/kube/manager.go\<close>).

  The work queue, the API server and the reconciler are parameters that act on the world. The
  informers themselves are client-go; they deliver objects to the event handler.
\<close>

section \<open>Keys (event_handler.go)\<close>

record ResourceKey =
  rk_Kind :: string
  rk_Namespace :: string
  rk_Name :: string
  rk_UID :: string

definition key_Source :: "ResourceKey \<Rightarrow> string \<Rightarrow> Source" where
  "key_Source k clusterID =
     \<lparr>src_ClusterID = clusterID, src_APIVersion = [], src_Kind = rk_Kind k, src_Namespace = rk_Namespace k,
      src_Name = rk_Name k, src_UID = rk_UID k, src_ResourceVersion = [], src_Generation = 0, src_Owner = None\<rparr>"

definition key_Validate :: "ResourceKey \<Rightarrow> string option" where
  "key_Validate k =
     (if rk_Kind k = [] \<or> rk_Name k = [] \<or> rk_UID k = []
      then Some ''resource kind, name, and UID are required'' else None)"

section \<open>The event handler (event_handler.go)\<close>

text \<open>
  What an informer hands to its callbacks: an object, the tombstone of a deleted one, or a value that
  is neither. The queue is the effect of its \<open>Add\<close> on the world.
\<close>

datatype watched = Live Object | Tombstone "Object option" | Unknown

record 'w EventHandler =
  eh_namespaces :: "string set"
  eh_queue :: "('w \<Rightarrow> ResourceKey \<Rightarrow> 'w) option"
  eh_stopped :: bool

definition NewEventHandler :: "string list \<Rightarrow> ('w \<Rightarrow> ResourceKey \<Rightarrow> 'w) option \<Rightarrow> 'w EventHandler" where
  "NewEventHandler namespaces queue =
     \<lparr>eh_namespaces = set (filter (\<lambda>v. v \<noteq> []) (map TrimSpace namespaces)), eh_queue = queue, eh_stopped = False\<rparr>"

definition handler_Stop :: "'w EventHandler \<Rightarrow> 'w EventHandler" where
  "handler_Stop h = h\<lparr>eh_stopped := True\<rparr>"

fun objectKind :: "Object \<Rightarrow> string" where
  "objectKind object =
     (let kind = tm_Kind (kb_Type (object_base object)) in
      if kind \<noteq> [] then kind
      else case object of
        PodObject _ \<Rightarrow> ''Pod''
      | EventObject _ \<Rightarrow> ''Event''
      | DeploymentObject _ \<Rightarrow> ''Deployment''
      | StatefulSetObject _ \<Rightarrow> ''StatefulSet''
      | DaemonSetObject _ \<Rightarrow> ''DaemonSet''
      | JobObject _ \<Rightarrow> ''Job''
      | _ \<Rightarrow> [])"

definition enqueue :: "'w EventHandler \<Rightarrow> 'w \<Rightarrow> Object option \<Rightarrow> 'w" where
  "enqueue h w object =
     (if eh_stopped h then w
      else case eh_queue h of
        None \<Rightarrow> w
      | Some add \<Rightarrow>
          (case object of
             None \<Rightarrow> w
           | Some object \<Rightarrow>
               let metadata = object_meta object in
               if om_Name metadata = [] \<or> om_UID metadata = [] then w
               else if eh_namespaces h \<noteq> {} \<and> om_Namespace metadata \<notin> eh_namespaces h then w
               else if objectKind object = [] then w
               else add w \<lparr>rk_Kind = objectKind object, rk_Namespace = om_Namespace metadata,
                           rk_Name = om_Name metadata, rk_UID = om_UID metadata\<rparr>))"

fun as_object :: "watched \<Rightarrow> Object option" where
  "as_object (Live object) = Some object"
| "as_object _ = None"

definition OnAdd :: "'w EventHandler \<Rightarrow> 'w \<Rightarrow> watched \<Rightarrow> 'w" where
  "OnAdd h w object = enqueue h w (as_object object)"

definition OnUpdate :: "'w EventHandler \<Rightarrow> 'w \<Rightarrow> watched \<Rightarrow> 'w" where
  "OnUpdate h w current = enqueue h w (as_object current)"

definition OnDelete :: "'w EventHandler \<Rightarrow> 'w \<Rightarrow> watched \<Rightarrow> 'w" where
  "OnDelete h w object = enqueue h w (case object of Tombstone inner \<Rightarrow> inner | other \<Rightarrow> as_object other)"

section \<open>The resolver (resolver.go)\<close>

text \<open>The typed clients of the API server, and its answers.\<close>

datatype api_error = ApiNotFound | ApiError string

record 'w KubeClient =
  kub_Pods :: "'w \<Rightarrow> string \<Rightarrow> string \<Rightarrow> (api_error + Pod) \<times> 'w"
  kub_Events :: "'w \<Rightarrow> string \<Rightarrow> string \<Rightarrow> (api_error + Event) \<times> 'w"
  kub_Deployments :: "'w \<Rightarrow> string \<Rightarrow> string \<Rightarrow> (api_error + Deployment) \<times> 'w"
  kub_StatefulSets :: "'w \<Rightarrow> string \<Rightarrow> string \<Rightarrow> (api_error + StatefulSet) \<times> 'w"
  kub_DaemonSets :: "'w \<Rightarrow> string \<Rightarrow> string \<Rightarrow> (api_error + DaemonSet) \<times> 'w"
  kub_Jobs :: "'w \<Rightarrow> string \<Rightarrow> string \<Rightarrow> (api_error + Job) \<times> 'w"

datatype ResolveError =
    ResolveNotFound
  | InvalidKey string
  | UnsupportedKind string
  | ResolveFailed ResourceKey string

definition fetched :: "('a \<Rightarrow> Object) \<Rightarrow> (api_error + 'a) \<times> 'w \<Rightarrow> (api_error + Object) \<times> 'w" where
  "fetched f r = (case r of (Inl err, w) \<Rightarrow> (Inl err, w) | (Inr x, w) \<Rightarrow> (Inr (f x), w))"

definition clientGet ::
  "'w KubeClient \<Rightarrow> 'w \<Rightarrow> ResourceKey \<Rightarrow> ((api_error + Object) \<times> 'w) option" where
  "clientGet client w k =
     (if rk_Kind k = ''Pod'' then Some (fetched PodObject (kub_Pods client w (rk_Namespace k) (rk_Name k)))
      else if rk_Kind k = ''Event'' then Some (fetched EventObject (kub_Events client w (rk_Namespace k) (rk_Name k)))
      else if rk_Kind k = ''Deployment''
      then Some (fetched DeploymentObject (kub_Deployments client w (rk_Namespace k) (rk_Name k)))
      else if rk_Kind k = ''StatefulSet''
      then Some (fetched StatefulSetObject (kub_StatefulSets client w (rk_Namespace k) (rk_Name k)))
      else if rk_Kind k = ''DaemonSet''
      then Some (fetched DaemonSetObject (kub_DaemonSets client w (rk_Namespace k) (rk_Name k)))
      else if rk_Kind k = ''Job'' then Some (fetched JobObject (kub_Jobs client w (rk_Namespace k) (rk_Name k)))
      else None)"

definition Resolve :: "'w KubeClient \<Rightarrow> 'w \<Rightarrow> ResourceKey \<Rightarrow> (ResolveError + Object) \<times> 'w" where
  "Resolve client w k =
     (case key_Validate k of
        Some err \<Rightarrow> (Inl (InvalidKey err), w)
      | None \<Rightarrow>
          (case clientGet client w k of
             None \<Rightarrow> (Inl (UnsupportedKind (rk_Kind k)), w)
           | Some (Inl ApiNotFound, w) \<Rightarrow> (Inl ResolveNotFound, w)
           | Some (Inl (ApiError err), w) \<Rightarrow> (Inl (ResolveFailed k err), w)
           | Some (Inr object, w) \<Rightarrow>
               (if om_UID (object_meta object) \<noteq> rk_UID k then Inl ResolveNotFound else Inr object, w)))"

section \<open>Resources and namespaces (informer_factory.go)\<close>

definition supportedResources :: "string list" where
  "supportedResources = [''pods'', ''events'', ''deployments'', ''statefulsets'', ''daemonsets'', ''jobs'']"

datatype ResourcesError = NoResource | UnsupportedResource string | DuplicateResource string

fun selectResources :: "string list \<Rightarrow> string list \<Rightarrow> ResourcesError + string list" where
  "selectResources selected [] = Inr selected"
| "selectResources selected (resource # resources) =
     (let resource = ToLower (TrimSpace resource) in
      if resource \<notin> set supportedResources then Inl (UnsupportedResource resource)
      else if resource \<in> set selected then Inl (DuplicateResource resource)
      else selectResources (selected @ [resource]) resources)"

definition normalizeResources :: "string list \<Rightarrow> ResourcesError + string list" where
  "normalizeResources resources =
     (if length resources = 0 then Inl NoResource
      else case selectResources [] resources of Inl err \<Rightarrow> Inl err | Inr selected \<Rightarrow> Inr (sort selected))"

fun selectNamespaces :: "string list \<Rightarrow> string list \<Rightarrow> string list" where
  "selectNamespaces result [] = result"
| "selectNamespaces result (namespace # namespaces) =
     (let namespace = TrimSpace namespace in
      if namespace = [] \<or> namespace \<in> set result then selectNamespaces result namespaces
      else selectNamespaces (result @ [namespace]) namespaces)"

definition normalizeNamespaces :: "string list \<Rightarrow> string list" where
  "normalizeNamespaces namespaces = sort (selectNamespaces [] namespaces)"

section \<open>The worker of the manager (manager.go)\<close>

text \<open>The rate-limited queue of client-go, as the effect of its operations on the world.\<close>

record 'w WorkQueue =
  wq_Get :: "'w \<Rightarrow> (ResourceKey option \<times> bool) \<times> 'w"
  wq_Done :: "'w \<Rightarrow> ResourceKey option \<Rightarrow> 'w"
  wq_Forget :: "'w \<Rightarrow> ResourceKey option \<Rightarrow> 'w"
  wq_AddRateLimited :: "'w \<Rightarrow> ResourceKey \<Rightarrow> 'w"
  wq_AddAfter :: "'w \<Rightarrow> ResourceKey \<Rightarrow> duration \<Rightarrow> 'w"

text \<open>
  One round of \<open>runWorker\<close>: an item that is not a key is \<open>None\<close>; the second component tells that the
  queue has shut down. The reconciler returns the delay after which to look again, or an error.
\<close>

definition runItem ::
  "'w WorkQueue \<Rightarrow> ('w \<Rightarrow> bool) \<Rightarrow> ('w \<Rightarrow> ResourceKey \<Rightarrow> ('e + duration) \<times> 'w) \<Rightarrow> 'w \<Rightarrow> ResourceKey option \<Rightarrow> 'w" where
  "runItem queue cancelled reconcile w item =
     (case item of
        None \<Rightarrow> wq_Done queue (wq_Forget queue w None) None
      | Some k \<Rightarrow>
          let (result, w) = reconcile w k
          in case result of
               Inl err \<Rightarrow> wq_Done queue (if cancelled w then w else wq_AddRateLimited queue w k) (Some k)
             | Inr requeueAfter \<Rightarrow>
                 let w = wq_Forget queue w (Some k)
                 in wq_Done queue
                      (if 0 < requeueAfter \<and> \<not> cancelled w then wq_AddAfter queue w k requeueAfter else w) (Some k))"

definition runWorkerOnce ::
  "'w WorkQueue \<Rightarrow> ('w \<Rightarrow> bool) \<Rightarrow> ('w \<Rightarrow> ResourceKey \<Rightarrow> ('e + duration) \<times> 'w) \<Rightarrow> 'w \<Rightarrow> bool \<times> 'w" where
  "runWorkerOnce queue cancelled reconcile w =
     (let ((item, shutdown), w) = wq_Get queue w
      in if shutdown then (False, w) else (True, runItem queue cancelled reconcile w item))"

section \<open>Properties\<close>

lemma selectResources_spec:
  "selectResources selected rs = Inr out \<longleftrightarrow>
     (let names = map (\<lambda>r. ToLower (TrimSpace r)) rs in
      set names \<subseteq> set supportedResources \<and> distinct names \<and> set names \<inter> set selected = {} \<and> out = selected @ names)"
  by (induction selected rs rule: selectResources.induct) (auto simp: Let_def)

text \<open>
  C25: The resources to watch are accepted exactly when there is at least one, each is supported up to
  letter case and surrounding white space, and none is named twice; they are then watched in
  alphabetical order.
\<close>

theorem normalizeResources_iff:
  "normalizeResources rs = Inr out \<longleftrightarrow>
     (let names = map (\<lambda>r. ToLower (TrimSpace r)) rs in
      rs \<noteq> [] \<and> set names \<subseteq> set supportedResources \<and> distinct names \<and> out = sort names)"
proof (cases "selectResources [] rs")
  case (Inl err)
  then show ?thesis
    using selectResources_spec [of "[]" rs "map (\<lambda>r. ToLower (TrimSpace r)) rs"] by (auto simp: normalizeResources_def Let_def)
next
  case (Inr names)
  then show ?thesis
    using selectResources_spec [of "[]" rs names] by (auto simp: normalizeResources_def Let_def)
qed

lemma enqueue_cases:
  "enqueue h w object = w
   \<or> (\<exists>add key. eh_queue h = Some add \<and> \<not> eh_stopped h \<and> enqueue h w object = add w key
        \<and> key_Validate key = None \<and> (eh_namespaces h = {} \<or> rk_Namespace key \<in> eh_namespaces h))"
proof (cases "enqueue h w object = w")
  case False
  then obtain add x where x: "\<not> eh_stopped h" "eh_queue h = Some add" "object = Some x"
    by (auto simp: enqueue_def split: option.splits if_splits)
  let ?key = "\<lparr>rk_Kind = objectKind x, rk_Namespace = om_Namespace (object_meta x),
    rk_Name = om_Name (object_meta x), rk_UID = om_UID (object_meta x)\<rparr>"
  have "enqueue h w object = add w ?key" "key_Validate ?key = None"
    "eh_namespaces h = {} \<or> rk_Namespace ?key \<in> eh_namespaces h"
    using False unfolding enqueue_def Let_def x key_Validate_def by (simp_all split: if_splits del: objectKind.simps)
  then show ?thesis using x(1,2) by blast
qed simp

text \<open>
  C24: Whatever the informers report, the event handler leaves the queue alone or adds one key that is
  valid and in a watched namespace; a deletion adds the same key as the object did when it
  appeared, also through a tombstone; and nothing is added after the handler has stopped.
\<close>

theorem handler_adds_valid_keys:
  "(let changed = {OnAdd h w x, OnUpdate h w x, OnDelete h w x} in
      changed \<subseteq> {w} \<union> {add w key | add key. eh_queue h = Some add \<and> key_Validate key = None
        \<and> (eh_namespaces h = {} \<or> rk_Namespace key \<in> eh_namespaces h)})
   \<and> OnDelete h w (Tombstone (Some object)) = OnAdd h w (Live object)
   \<and> OnDelete h w (Live object) = OnAdd h w (Live object)
   \<and> OnAdd (handler_Stop h) w x = w \<and> OnUpdate (handler_Stop h) w x = w \<and> OnDelete (handler_Stop h) w x = w"
proof -
  have "enqueue h w y \<in> {w} \<union> {add w key | add key. eh_queue h = Some add \<and> key_Validate key = None
        \<and> (eh_namespaces h = {} \<or> rk_Namespace key \<in> eh_namespaces h)}" for y
    using enqueue_cases [of h w y] by blast
  then show ?thesis
    by (simp add: OnAdd_def OnUpdate_def OnDelete_def handler_Stop_def enqueue_def [of "h\<lparr>eh_stopped := True\<rparr>"])
qed

end
