(* ===== verification/Provider_Call.thy ===== *)
theory Provider_Call
  imports Provider
begin

text \<open>
  The call of a provider, from \<^verbatim>\<open>internal/provider/provider.go\<close>: a request with the state to judge and
  the questions, a response with answers and audit data, and the interface of a provider, which acts
  on the world.
\<close>

record EvaluationRequest =
  er_State :: string
  er_Questions :: "(string \<times> Question) list"
  er_RubricVersion :: string
  er_RequestID :: string
  er_RequestedModel :: string

record Usage =
  usg_InputTokens :: int
  usg_OutputTokens :: int

record EvaluationResponse =
  ep_Answers :: "(string \<times> Answer) list"
  ep_Provider :: string
  ep_RequestedModel :: string
  ep_ResolvedModel :: string
  ep_RequestID :: string
  ep_ProviderRequestID :: string
  ep_Usage :: Usage
  ep_Latency :: duration
  ep_Attempts :: int
  ep_RawResponseHash :: string

definition zeroResponse :: EvaluationResponse where
  "zeroResponse =
     \<lparr>ep_Answers = [], ep_Provider = [], ep_RequestedModel = [], ep_ResolvedModel = [], ep_RequestID = [],
      ep_ProviderRequestID = [], ep_Usage = \<lparr>usg_InputTokens = 0, usg_OutputTokens = 0\<rparr>, ep_Latency = 0,
      ep_Attempts = 0, ep_RawResponseHash = []\<rparr>"

record ('w, 'e) ProviderImpl =
  pv_Name :: string
  pv_Evaluate :: "'w \<Rightarrow> EvaluationRequest \<Rightarrow> ('e + EvaluationResponse) \<times> 'w"

end
