(* ===== verification/Reconciler.thy ===== *)
theory Reconciler
  imports Rules Composer Store_Runs Dispatcher Normalizer Kube_Watch Provider_Call
begin

text \<open>
  The reconciler, from \<^verbatim>\<open>internal/controller/reconciler.go\<close>: it fetches an object, normalizes it, lets
  the rules judge it, asks a provider where they leave it open, and commits the new state of the
  incident with its evaluation and notifications.

  The resolver, the normalizer, the rules, the store, the providers, the clock and the generator of
  identifiers are interfaces of the code and fields here; those with effects act on the world.
  Metrics and log lines are left out. A nil slice and an empty one are the same list, and the
  payload of a notification writes it as an empty array.
\<close>

section \<open>Interfaces and configuration\<close>

definition eventOpened :: string where
  "eventOpened = ''io.ruleraven.incident.opened''"

definition eventUpdated :: string where
  "eventUpdated = ''io.ruleraven.incident.updated''"

definition eventResolved :: string where
  "eventResolved = ''io.ruleraven.incident.resolved''"

record 'w IncidentStore =
  is_GetIncident :: "'w \<Rightarrow> string \<Rightarrow> string \<Rightarrow> (StoreError + Incident) \<times> 'w"
  is_UpsertIncident :: "'w \<Rightarrow> Incident \<Rightarrow> gotime option \<Rightarrow> (StoreError + Incident \<times> bool) \<times> 'w"
  is_UpsertSnapshot :: "'w \<Rightarrow> string \<Rightarrow> Snapshot \<Rightarrow> gotime option \<Rightarrow> (StoreError + StoredSnapshot \<times> bool) \<times> 'w"
  is_Commit :: "'w \<Rightarrow> Answer CommitRequest \<Rightarrow> StoreError option \<times> 'w"

record ('w, 'o, 'e) Config =
  cf_ClusterID :: string
  cf_Resolver :: "('w \<Rightarrow> ResourceKey \<Rightarrow> (ResolveError + 'o) \<times> 'w) option"
  cf_Normalizer :: "('o \<Rightarrow> gotime \<Rightarrow> NormalizeError + Snapshot) option"
  cf_Rules :: "('w \<Rightarrow> Snapshot \<Rightarrow> Incident option \<Rightarrow> Result \<times> 'w) option"
  cf_Store :: "'w IncidentStore option"
  cf_Primary :: "('w, 'e) ProviderImpl option"
  cf_Fallback :: "('w, 'e) ProviderImpl option"
  cf_Composer :: Composer
  cf_ProviderConfigHash :: string
  cf_Destinations :: "string list"
  cf_ReconcileTimeout :: duration
  cf_EventQuietPeriod :: duration
  cf_Now :: "('w \<Rightarrow> gotime \<times> 'w) option"
  cf_NewID :: "(string \<Rightarrow> string) option"

record ('w, 'o, 'e) Reconciler =
  rc_clusterID :: string
  rc_resolver :: "'w \<Rightarrow> ResourceKey \<Rightarrow> (ResolveError + 'o) \<times> 'w"
  rc_normalizer :: "'o \<Rightarrow> gotime \<Rightarrow> NormalizeError + Snapshot"
  rc_rules :: "'w \<Rightarrow> Snapshot \<Rightarrow> Incident option \<Rightarrow> Result \<times> 'w"
  rc_store :: "'w IncidentStore"
  rc_primary :: "('w, 'e) ProviderImpl"
  rc_fallback :: "('w, 'e) ProviderImpl option"
  rc_composer :: Composer
  rc_providerConfigHash :: string
  rc_destinations :: "string list"
  rc_timeout :: duration
  rc_eventQuietPeriod :: duration
  rc_now :: "'w \<Rightarrow> gotime \<times> 'w"
  rc_newID :: "string \<Rightarrow> string"

datatype ReconcilerError = DependenciesRequired | PrimaryRequired | TimingRequired | DestinationsInvalid

fun destinations_ok :: "string list \<Rightarrow> bool" where
  "destinations_ok [] \<longleftrightarrow> True"
| "destinations_ok [d] \<longleftrightarrow> \<not> blank d"
| "destinations_ok (d # e # ds) \<longleftrightarrow> \<not> blank d \<and> e \<noteq> d \<and> destinations_ok (e # ds)"

definition NewReconciler :: "('w, 'o, 'e) Config \<Rightarrow> ReconcilerError + ('w, 'o, 'e) Reconciler" where
  "NewReconciler config =
     (case (cf_Resolver config, cf_Normalizer config, cf_Rules config, cf_Store config) of
        (Some resolver, Some normalizer, Some rules, Some store) \<Rightarrow>
          if blank (cf_ClusterID config) then Inl DependenciesRequired
          else (case cf_Primary config of
             None \<Rightarrow> Inl PrimaryRequired
           | Some primary \<Rightarrow>
               if cf_ReconcileTimeout config \<le> 0 \<or> cf_EventQuietPeriod config \<le> 0 then Inl TimingRequired
               else (case (cf_Now config, cf_NewID config) of
                  (Some now, Some newID) \<Rightarrow>
                    let destinations = sort (cf_Destinations config) in
                    if \<not> destinations_ok destinations then Inl DestinationsInvalid
                    else Inr \<lparr>rc_clusterID = cf_ClusterID config, rc_resolver = resolver,
                      rc_normalizer = normalizer, rc_rules = rules, rc_store = store, rc_primary = primary,
                      rc_fallback = cf_Fallback config, rc_composer = cf_Composer config,
                      rc_providerConfigHash = cf_ProviderConfigHash config, rc_destinations = destinations,
                      rc_timeout = cf_ReconcileTimeout config, rc_eventQuietPeriod = cf_EventQuietPeriod config,
                      rc_now = now, rc_newID = newID\<rparr>
                | _ \<Rightarrow> Inl TimingRequired))
      | _ \<Rightarrow> Inl DependenciesRequired)"

section \<open>Status and identifiers\<close>

definition isRecovery :: "Result \<Rightarrow> bool" where
  "isRecovery result \<longleftrightarrow>
     (\<exists>match \<in> set (res_Matches result). m_RuleID match = ''recovered'' \<or> m_RuleID match = ''resource-deleted'')"

definition statusFor :: "Result \<Rightarrow> IncidentStatus" where
  "statusFor result =
     (if isRecovery result then IncidentResolved
      else if res_Disposition result = DispositionSuppress then IncidentSuppressed
      else IncidentOpen)"

definition eventRequeue :: "Snapshot \<Rightarrow> gotime \<Rightarrow> Result \<Rightarrow> duration \<Rightarrow> duration" where
  "eventRequeue snapshot now result quietPeriod =
     (case sn_Event snapshot of
        None \<Rightarrow> 0
      | Some event \<Rightarrow>
          if res_Disposition result \<noteq> DispositionSemantic \<or> IsZero (ev_LastObserved event) then 0
          else let remaining = time_Sub (ev_LastObserved event + quietPeriod) now
               in if remaining \<le> 0 then Millisecond else remaining)"

definition StableID :: "string \<Rightarrow> string" where
  "StableID seed = sha256_hex seed"

abbreviation NUL :: string where
  "NUL \<equiv> [CHR 0x00]"

section \<open>Provider evidence\<close>

definition auditHash :: "string \<Rightarrow> string" where
  "auditHash v = (if v = [] then [] else ''sha256:'' @ sha256_hex v)"

definition model_char :: "char \<Rightarrow> bool" where
  "model_char c \<longleftrightarrow>
     (CHR ''a'' \<le> c \<and> c \<le> CHR ''z'') \<or> (CHR ''A'' \<le> c \<and> c \<le> CHR ''Z'') \<or> (CHR ''0'' \<le> c \<and> c \<le> CHR ''9'')
     \<or> c \<in> {CHR ''-'', CHR ''.'', CHR ''_'', CHR '':'', CHR ''/''}"

definition trustedResolvedModel :: "string \<Rightarrow> string \<Rightarrow> string" where
  "trustedResolvedModel requested resolved =
     (if resolved = [] \<or> 256 < length resolved then []
      else if resolved \<noteq> requested
        \<and> \<not> (\<exists>separator \<in> set [''-'', ''.'', '':'', ''/'']. HasPrefix resolved (requested @ separator)) then []
      else if \<forall>c \<in> set resolved. model_char c then resolved else [])"

datatype 'e EvaluateError = ProviderFailed 'e | InconsistentMetadata | InvalidAnswers ValidationError

definition evaluateProvider ::
  "('w, 'e) ProviderImpl \<Rightarrow> 'w \<Rightarrow> EvaluationRequest \<Rightarrow> ('e EvaluateError + EvaluationResponse) \<times> 'w" where
  "evaluateProvider evaluator w request =
     (let (r, w) = pv_Evaluate evaluator w request
      in (case r of
            Inl err \<Rightarrow> Inl (ProviderFailed err)
          | Inr response \<Rightarrow>
              if ep_Provider response \<noteq> pv_Name evaluator \<or> blank (ep_RequestedModel response)
              then Inl InconsistentMetadata
              else case ValidateAnswers (er_Questions request) (ep_Answers response) of
                Some err \<Rightarrow> Inl (InvalidAnswers err)
              | None \<Rightarrow> Inr response, w))"

definition providerAudit :: "EvaluationResponse \<Rightarrow> ProviderAudit" where
  "providerAudit response =
     \<lparr>pa_Provider = ep_Provider response, pa_RequestedModel = ep_RequestedModel response,
      pa_ResolvedModel = trustedResolvedModel (ep_RequestedModel response) (ep_ResolvedModel response),
      pa_ResolvedModelHash = auditHash (ep_ResolvedModel response),
      pa_ProviderRequestIDHash = auditHash (ep_ProviderRequestID response),
      pa_Usage = \<lparr>us_InputTokens = usg_InputTokens (ep_Usage response),
                  us_OutputTokens = usg_OutputTokens (ep_Usage response)\<rparr>,
      pa_Latency = ep_Latency response, pa_Attempts = ep_Attempts response,
      pa_RawResponseHash = ep_RawResponseHash response\<rparr>"

text \<open>
  The decision is \<open>None\<close> where the composer would dereference a nil pointer. An encoding error of the
  snapshot is passed on as any provider error.
\<close>

definition evaluateWithFallback ::
  "('w, 'o, 'e) Reconciler \<Rightarrow> 'w \<Rightarrow> EvaluationRequest \<Rightarrow> ('e EvaluateError + EvaluationResponse) \<times> 'w" where
  "evaluateWithFallback r w request =
     (let (response, w) = evaluateProvider (rc_primary r) w request
      in case (response, rc_fallback r) of
           (Inl _, Some fallback) \<Rightarrow> evaluateProvider fallback w request
         | _ \<Rightarrow> (response, w))"

definition decide ::
  "('w, 'o, 'e) Reconciler \<Rightarrow> 'w \<Rightarrow> Snapshot \<Rightarrow> Result \<Rightarrow> string \<Rightarrow>
   (Decision option \<times> (string \<times> Answer) list \<times> ProviderAudit option) \<times> 'w" where
  "decide r w snapshot result incidentID =
     (if res_Disposition result \<noteq> DispositionSemantic
      then ((Compose (rc_composer r) result [] (None :: unit option), [], None), w)
      else case snapshotJSON snapshot of
        None \<Rightarrow> ((Compose (rc_composer r) result [] (Some ()), [], None), w)
      | Some state \<Rightarrow>
          let requestID = rc_newID r (''request'' @ NUL @ incidentID @ NUL @ sn_ContentHash snapshot);
              request = \<lparr>er_State = render state, er_Questions = OperationalTriageV1Questions,
                er_RubricVersion = res_QuestionSet result, er_RequestID = requestID, er_RequestedModel = []\<rparr>;
              (response, w) = evaluateWithFallback r w request
          in case response of
               Inl err \<Rightarrow> ((Compose (rc_composer r) result [] (Some err), [], None), w)
             | Inr response \<Rightarrow>
                 ((Compose (rc_composer r) result (ep_Answers response) (None :: unit option),
                   ep_Answers response, Some (providerAudit response)), w))"

section \<open>Notifications\<close>

fun statusText :: "IncidentStatus \<Rightarrow> string" where
  "statusText IncidentOpen = ''open''"
| "statusText IncidentResolved = ''resolved''"
| "statusText IncidentSuppressed = ''suppressed''"
| "statusText (IncidentStatusOther s) = s"

fun severityText :: "Severity \<Rightarrow> string" where
  "severityText SeverityInfo = ''info''"
| "severityText SeverityWarning = ''warning''"
| "severityText SeverityCritical = ''critical''"
| "severityText (SeverityOther s) = s"

fun actionText :: "Action \<Rightarrow> string" where
  "actionText ActionRecord = ''record''"
| "actionText ActionNotify = ''notify''"
| "actionText ActionPage = ''page''"
| "actionText ActionSuppress = ''suppress''"
| "actionText (ActionOther s) = s"

text \<open>The error of the encoding is dropped, and the payload is then empty.\<close>

definition deliveryPayload :: "Incident \<Rightarrow> Snapshot \<Rightarrow> string \<Rightarrow> Decision \<Rightarrow> IncidentStatus \<Rightarrow> string" where
  "deliveryPayload incident snapshot evaluationID decision status =
     (case MarshalTime (sn_ObservedAt snapshot) of
        None \<Rightarrow> []
      | Some observedAt \<Rightarrow> render (JObject
          (field ''incident_id'' (JString (inc_ID incident)) @ field ''evaluation_id'' (JString evaluationID)
           @ field ''status'' (JString (statusText status))
           @ field ''severity'' (JString (severityText (dec_Severity decision)))
           @ field ''action'' (JString (actionText (dec_Action decision)))
           @ field ''summary'' (JString (dec_Summary decision))
           @ field ''resource'' (sourceJSON (sn_Source snapshot))
           @ field ''rule_ids'' (JArray (map JString (dec_RuleIDs decision)))
           @ field ''reason_codes'' (JArray (map JString (dec_ReasonCodes decision)))
           @ field ''observed_at'' observedAt)))"

definition deliveries ::
  "('w, 'o, 'e) Reconciler \<Rightarrow> Incident \<Rightarrow> Snapshot \<Rightarrow> string \<Rightarrow> string \<Rightarrow> Decision \<Rightarrow> IncidentStatus \<Rightarrow> gotime \<Rightarrow>
   Notification list" where
  "deliveries r incident snapshot evaluationID eventType decision status now =
     (if status \<noteq> IncidentResolved \<and> dec_Action decision \<noteq> ActionNotify \<and> dec_Action decision \<noteq> ActionPage
      then []
      else map (\<lambda>destination.
        \<lparr>ntf_ID = rc_newID r (Join [''delivery'', evaluationID, destination, eventType] NUL),
         ntf_EvaluationID = evaluationID, ntf_DestinationID = destination, ntf_EventType = eventType,
         ntf_Status = NotificationPending, ntf_Attempts = 0, ntf_NextAttemptAt = now,
         ntf_Payload = deliveryPayload incident snapshot evaluationID decision status\<rparr>) (rc_destinations r))"

section \<open>Persisting a result\<close>

datatype ReconcileError =
    BadKey string
  | ResolverError ResolveError
  | NormalizerError NormalizeError
  | FingerprintError
  | GetIncidentError StoreError
  | UpsertIncidentError StoreError
  | UpsertSnapshotError StoreError
  | CommitError StoreError
  | NilDereference

definition newIncident :: "('w, 'o, 'e) Reconciler \<Rightarrow> Snapshot \<Rightarrow> gotime \<Rightarrow> Incident" where
  "newIncident r snapshot now =
     (let incidentKey = IncidentKey (sn_Source snapshot) in
      \<lparr>inc_ID = rc_newID r (''incident'' @ NUL @ incidentKey), inc_Key = incidentKey,
       inc_ClusterID = rc_clusterID r, inc_Source = sn_Source snapshot, inc_Status = IncidentOpen,
       inc_OpenedAt = now, inc_UpdatedAt = now, inc_ResolvedAt = None, inc_ContentHash = [], inc_Version = 1\<rparr>)"

definition nextIncident :: "Incident \<Rightarrow> Snapshot \<Rightarrow> Result \<Rightarrow> gotime \<Rightarrow> Incident" where
  "nextIncident incident snapshot result now =
     incident\<lparr>inc_Source := sn_Source snapshot, inc_Status := statusFor result,
       inc_ContentHash := sn_ContentHash snapshot, inc_UpdatedAt := now,
       inc_ResolvedAt := (if statusFor result = IncidentResolved then Some now else None)\<rparr>"

definition evaluationFor ::
  "('w, 'o, 'e) Reconciler \<Rightarrow> string \<Rightarrow> Snapshot \<Rightarrow> Result \<Rightarrow> Decision \<Rightarrow> (string \<times> Answer) list \<Rightarrow>
   ProviderAudit option \<Rightarrow> gotime \<Rightarrow> Answer Evaluation" where
  "evaluationFor r incidentID snapshot result decision answers audit now =
     (let policyVersion = res_PolicyVersion result @ ''+'' @ composer_PolicyVersion (rc_composer r);
          rubricVersion = res_QuestionSet result;
          evaluationSeed = Join [incidentID, sn_ContentHash snapshot, policyVersion, rubricVersion,
            rc_providerConfigHash r] NUL
      in \<lparr>evl_ID = rc_newID r (''evaluation'' @ NUL @ evaluationSeed), evl_IncidentID = incidentID,
          evl_SnapshotHash = sn_ContentHash snapshot, evl_PolicyVersion = policyVersion,
          evl_RubricVersion = rubricVersion, evl_ProviderConfigHash = rc_providerConfigHash r,
          evl_Decision = decision, evl_Answers = answers, evl_ProviderAudit = audit, evl_CreatedAt = now\<rparr>)"

definition commitFor ::
  "('w, 'o, 'e) Reconciler \<Rightarrow> bool \<Rightarrow> Incident \<Rightarrow> Snapshot \<Rightarrow> Result \<Rightarrow> Decision \<Rightarrow> (string \<times> Answer) list \<Rightarrow>
   ProviderAudit option \<Rightarrow> gotime \<Rightarrow> Answer CommitRequest" where
  "commitFor r created incident snapshot result decision answers audit now =
     (let status = statusFor result;
          next = nextIncident incident snapshot result now;
          evaluation = evaluationFor r (inc_ID incident) snapshot result decision answers audit now;
          eventType = (if status = IncidentResolved then eventResolved
                       else if created then eventOpened else eventUpdated)
      in \<lparr>cmr_Incident = next, cmr_ExpectedVersion = inc_Version next, cmr_Evaluation = evaluation,
          cmr_Deliveries = deliveries r next snapshot (evl_ID evaluation) eventType decision status now,
          cmr_ExpiresAt = None\<rparr>)"

definition persist ::
  "('w, 'o, 'e) Reconciler \<Rightarrow> 'w \<Rightarrow> Snapshot \<Rightarrow> Incident option \<Rightarrow> Result \<Rightarrow> gotime \<Rightarrow>
   ReconcileError option \<times> 'w" where
  "persist r w snapshot previous result now =
     (let (found, w) = (case previous of
            Some incident \<Rightarrow> (Inr (incident, False), w)
          | None \<Rightarrow> is_UpsertIncident (rc_store r) w (newIncident r snapshot now) None)
      in case found of
           Inl err \<Rightarrow> (Some (UpsertIncidentError err), w)
         | Inr (incident, created) \<Rightarrow>
             if \<not> created \<and> inc_ContentHash incident = sn_ContentHash snapshot \<and> \<not> isRecovery result
             then (None, w)
             else let (stored, w) = is_UpsertSnapshot (rc_store r) w (inc_ID incident) snapshot None
                  in case stored of
                       Inl err \<Rightarrow> (Some (UpsertSnapshotError err), w)
                     | Inr _ \<Rightarrow>
                         let ((decision, answers, audit), w) = decide r w snapshot result (inc_ID incident)
                         in case decision of
                              None \<Rightarrow> (Some NilDereference, w)
                            | Some decision \<Rightarrow>
                                let (err, w) = is_Commit (rc_store r) w
                                      (commitFor r created incident snapshot result decision answers audit now)
                                in (map_option CommitError err, w))"

section \<open>Reconciling\<close>

definition deletionResult :: Result where
  "deletionResult =
     \<lparr>res_Matches = [\<lparr>m_RuleID = ''resource-deleted'', m_Reason = ''observed resource was deleted'',
        m_Severity = SeverityInfo\<rparr>],
      res_Disposition = DispositionTerminal,
      res_Decision = Some \<lparr>dec_Severity = SeverityInfo, dec_Action = ActionRecord,
        dec_Summary = ''observed resource was deleted'', dec_ReasonCodes = [''resource_deleted''],
        dec_RuleIDs = [''resource-deleted'']\<rparr>,
      res_QuestionSet = [], res_PolicyVersion = PolicyVersion\<rparr>"

definition deletionSnapshot :: "Source \<Rightarrow> gotime \<Rightarrow> Snapshot" where
  "deletionSnapshot source now =
     (emptySnapshot source now [])\<lparr>sn_Conditions :=
       [\<lparr>cond_Type = ''Deleted'', cond_Status = ''True'', cond_Reason = ''ResourceDeleted'',
         cond_Message = [], cond_LastTransitionTime = 0\<rparr>]\<rparr>"

definition resolveDeletion :: "('w, 'o, 'e) Reconciler \<Rightarrow> 'w \<Rightarrow> ResourceKey \<Rightarrow> ReconcileError option \<times> 'w" where
  "resolveDeletion r w key =
     (let source = key_Source key (rc_clusterID r);
          (found, w) = is_GetIncident (rc_store r) w (rc_clusterID r) (IncidentKey source)
      in case found of
           Inl ErrNotFound \<Rightarrow> (None, w)
         | Inl err \<Rightarrow> (Some (GetIncidentError err), w)
         | Inr previous \<Rightarrow>
             if inc_Status previous = IncidentResolved then (None, w)
             else let (now, w) = rc_now r w; snapshot = deletionSnapshot source now
                  in case ContentHash snapshot of
                       None \<Rightarrow> (Some FingerprintError, w)
                     | Some hash \<Rightarrow>
                         persist r w (snapshot\<lparr>sn_ContentHash := hash\<rparr>) (Some previous) deletionResult now)"

definition quietCondition :: Condition where
  "quietCondition = \<lparr>cond_Type = ''QuietPeriodElapsed'', cond_Status = ''True'',
     cond_Reason = ''EventQuietPeriod'', cond_Message = [], cond_LastTransitionTime = 0\<rparr>"

definition markQuiet :: "Snapshot \<Rightarrow> Result \<Rightarrow> Snapshot option" where
  "markQuiet snapshot result =
     (if isRecovery result \<and> sn_Event snapshot \<noteq> None
      then let snapshot = snapshot\<lparr>sn_Conditions := sn_Conditions snapshot @ [quietCondition]\<rparr>
           in map_option (\<lambda>hash. snapshot\<lparr>sn_ContentHash := hash\<rparr>) (ContentHash snapshot)
      else Some snapshot)"

definition reconcileSnapshot ::
  "('w, 'o, 'e) Reconciler \<Rightarrow> 'w \<Rightarrow> Snapshot \<Rightarrow> gotime \<Rightarrow> (ReconcileError + duration) \<times> 'w" where
  "reconcileSnapshot r w snapshot now =
     (let (found, w) = is_GetIncident (rc_store r) w (rc_clusterID r) (IncidentKey (sn_Source snapshot))
      in case (case found of Inr incident \<Rightarrow> Inr (Some incident) | Inl ErrNotFound \<Rightarrow> Inr None | Inl err \<Rightarrow> Inl err) of
           Inl err \<Rightarrow> (Inl (GetIncidentError err), w)
         | Inr previous \<Rightarrow>
             let (result, w) = rc_rules r w snapshot previous
             in case markQuiet snapshot result of
                  None \<Rightarrow> (Inl FingerprintError, w)
                | Some snapshot \<Rightarrow>
                    let requeue = eventRequeue snapshot now result (rc_eventQuietPeriod r) in
                    if (case previous of None \<Rightarrow> False
                        | Some incident \<Rightarrow> inc_ContentHash incident = sn_ContentHash snapshot \<and> \<not> isRecovery result)
                    then (Inr requeue, w)
                    else if res_Disposition result = DispositionNoMatch \<and> previous = None then (Inr requeue, w)
                    else if (case previous of None \<Rightarrow> False
                        | Some incident \<Rightarrow> inc_Status incident = IncidentResolved
                            \<and> res_Disposition result = DispositionNoMatch)
                    then (Inr 0, w)
                    else let (err, w) = persist r w snapshot previous result now
                         in (case err of Some e \<Rightarrow> Inl e | None \<Rightarrow> Inr requeue, w))"

definition Reconcile ::
  "('w, 'o, 'e) Reconciler \<Rightarrow> 'w \<Rightarrow> ResourceKey \<Rightarrow> (ReconcileError + duration) \<times> 'w" where
  "Reconcile r w key =
     (case key_Validate key of
        Some err \<Rightarrow> (Inl (BadKey err), w)
      | None \<Rightarrow>
          let (object, w) = rc_resolver r w key
          in case object of
               Inl ResolveNotFound \<Rightarrow>
                 let (err, w) = resolveDeletion r w key
                 in (case err of Some e \<Rightarrow> Inl e | None \<Rightarrow> Inr 0, w)
             | Inl err \<Rightarrow> (Inl (ResolverError err), w)
             | Inr object \<Rightarrow>
                 let (now, w) = rc_now r w
                 in case rc_normalizer r object now of
                      Inl err \<Rightarrow> (Inl (NormalizerError err), w)
                    | Inr snapshot \<Rightarrow> reconcileSnapshot r w snapshot now)"

end
