(* ===== verification/Reconciler_Runs.thy ===== *)
theory Reconciler_Runs
  imports Reconciler
begin

text \<open>
  What the reconciler does to the store, to decisions and to notifications: lemmas over an abstract
  incident store, its implementation by the MongoDB store, and the properties.
\<close>

section \<open>The store as the reconciler sees it\<close>

text \<open>The collections that matter: incidents, evaluations and the outbox.\<close>

definition core :: "'any DB \<Rightarrow> (string \<rightharpoonup> incidentDocument) \<times> (string \<rightharpoonup> 'any evaluationDocument) \<times> (string \<rightharpoonup> outboxDocument)" where
  "core db = (db_incidents db, db_evaluations db, db_outbox db)"

locale incident_store =
  fixes store :: "'w IncidentStore"
    and view :: "'w \<Rightarrow> Answer DB"
  assumes get: "is_GetIncident store w cluster key = (found, w') \<Longrightarrow> view w' = view w"
    and upsert_incident: "is_UpsertIncident store w incident x = (up, w') \<Longrightarrow>
      view w' = view w
      \<or> (\<exists>c. inserted_new (db_incidents (view w)) (incident_filter (inc_ClusterID incident) (inc_Key incident))
              (inc_ID incident) (bson_incident (incidentToDocument incident x)) c
            \<and> view w' = (view w)\<lparr>db_incidents := c\<rparr>)"
    and upsert_snapshot: "is_UpsertSnapshot store w i s x = (stored, w') \<Longrightarrow> core (view w') = core (view w)"
    and commit: "is_Commit store w request = (err, w') \<Longrightarrow>
      view w' = view w \<and> (err = None \<longrightarrow> evaluated request (view w))
      \<or> \<not> evaluated request (view w) \<and> committed request (view w) (view w')"

text \<open>Nothing but the store operations of the reconciler changes the database meanwhile.\<close>

definition undisturbed :: "('w \<Rightarrow> 'v) \<Rightarrow> ('w, 'o, 'e) Reconciler \<Rightarrow> bool" where
  "undisturbed view r \<longleftrightarrow>
     (\<forall>w key. view (snd (rc_resolver r w key)) = view w)
     \<and> (\<forall>w s i. view (snd (rc_rules r w s i)) = view w)
     \<and> (\<forall>w. view (snd (rc_now r w)) = view w)
     \<and> (\<forall>w q. view (snd (pv_Evaluate (rc_primary r) w q)) = view w)
     \<and> (\<forall>p w q. rc_fallback r = Some p \<longrightarrow> view (snd (pv_Evaluate p w q)) = view w)"

lemma undisturbedD:
  assumes "undisturbed view r"
  shows "rc_resolver r w key = (x, w') \<Longrightarrow> view w' = view w"
    and "rc_rules r w s i = (y, w') \<Longrightarrow> view w' = view w"
    and "rc_now r w = (t, w') \<Longrightarrow> view w' = view w"
    and "pv_Evaluate (rc_primary r) w q = (z, w') \<Longrightarrow> view w' = view w"
    and "rc_fallback r = Some p \<Longrightarrow> pv_Evaluate p w q = (z, w') \<Longrightarrow> view w' = view w"
  using assms unfolding undisturbed_def by (metis snd_conv)+

lemma evaluateProvider_world: "snd (evaluateProvider p w q) = snd (pv_Evaluate p w q)"
  by (simp add: evaluateProvider_def case_prod_beta)

lemma evaluateWithFallback_view:
  assumes "undisturbed view r" "evaluateWithFallback r w q = (x, w')"
  shows "view w' = view w"
proof -
  obtain y w1 where y: "evaluateProvider (rc_primary r) w q = (y, w1)" by fastforce
  have "snd (pv_Evaluate (rc_primary r) w q) = w1" by (metis evaluateProvider_world snd_conv y)
  then have 1: "view w1 = view w" using undisturbedD(4) [OF assms(1)] by (metis surjective_pairing)
  show ?thesis
  proof (cases "\<exists>e p. y = Inl e \<and> rc_fallback r = Some p")
    case True
    then obtain p where p: "rc_fallback r = Some p" "evaluateProvider p w1 q = (x, w')"
      using assms(2) y by (auto simp: evaluateWithFallback_def)
    have "snd (pv_Evaluate p w1 q) = w'" by (metis evaluateProvider_world snd_conv p(2))
    then show ?thesis using undisturbedD(5) [OF assms(1) p(1)] 1 by (metis surjective_pairing)
  next
    case False
    then show ?thesis using assms(2) y 1 by (auto simp: evaluateWithFallback_def split: sum.splits option.splits)
  qed
qed

lemma decide_view:
  assumes "undisturbed view r" "decide r w s result i = (x, w')"
  shows "view w' = view w"
proof (cases "res_Disposition result \<noteq> DispositionSemantic \<or> snapshotJSON s = None")
  case True
  then show ?thesis using assms(2) by (auto simp: decide_def split: if_splits)
next
  case False
  then obtain state where state: "snapshotJSON s = Some state" by blast
  let ?q = "\<lparr>er_State = render state, er_Questions = OperationalTriageV1Questions,
    er_RubricVersion = res_QuestionSet result,
    er_RequestID = rc_newID r (''request'' @ NUL @ i @ NUL @ sn_ContentHash s), er_RequestedModel = []\<rparr>"
  obtain y w1 where y: "evaluateWithFallback r w ?q = (y, w1)" by fastforce
  have "w' = w1" using assms(2) False state y by (auto simp: decide_def Let_def split: sum.splits)
  then show ?thesis using evaluateWithFallback_view [OF assms(1) y] by simp
qed

text \<open>The identity of the evaluation that a result leads to, and whether it is stored.\<close>

definition already_evaluated :: "('w, 'o, 'e) Reconciler \<Rightarrow> Answer DB \<Rightarrow> string \<Rightarrow> Snapshot \<Rightarrow> Result \<Rightarrow> bool" where
  "already_evaluated r db incidentID s result \<longleftrightarrow>
     (\<exists>d \<in> ran (db_evaluations db).
        evd_IncidentID d = incidentID \<and> evd_SnapshotHash d = sn_ContentHash s
        \<and> evd_PolicyVersion d = res_PolicyVersion result @ ''+'' @ composer_PolicyVersion (rc_composer r)
        \<and> evd_RubricVersion d = res_QuestionSet result
        \<and> evd_ProviderConfigHash d = rc_providerConfigHash r)"

lemma evaluated_commitFor:
  "evaluated (commitFor r created incident s result decision answers audit now) db
     = already_evaluated r db (inc_ID incident) s result"
  by (auto simp: evaluated_def already_evaluated_def commitFor_def evaluationFor_def same_identity_def Let_def)

text \<open>
  The effect of a reconciliation that persists a result: the incident is there or is inserted, and
  then one commit is carried out, or refused because the same evaluation is stored already.
\<close>

definition begun :: "('w, 'o, 'e) Reconciler \<Rightarrow> Snapshot \<Rightarrow> gotime \<Rightarrow> Answer DB \<Rightarrow> Answer DB \<Rightarrow> bool" where
  "begun r s now db db' \<longleftrightarrow>
     core db' = core db
     \<or> (\<exists>c. let incident = newIncident r s now in
          inserted_new (db_incidents db) (incident_filter (inc_ClusterID incident) (inc_Key incident))
            (inc_ID incident) (bson_incident (incidentToDocument incident None)) c
          \<and> core db' = (c, db_evaluations db, db_outbox db))"

definition one_commit ::
  "('w, 'o, 'e) Reconciler \<Rightarrow> Snapshot \<Rightarrow> Result \<Rightarrow> gotime \<Rightarrow> Answer DB \<Rightarrow> Answer DB \<Rightarrow> bool" where
  "one_commit r s result now db db' \<longleftrightarrow>
     begun r s now db db'
     \<or> (\<exists>created incident decision answers audit db1.
          begun r s now db db1
          \<and> \<not> already_evaluated r db1 (inc_ID incident) s result
          \<and> committed (commitFor r created incident s result decision answers audit now) db1 db')"

text \<open>
  What a reconciliation judges: the deletion of a missing object, or the result of the rules for the
  normalized object, with the condition that marks a quiet event.
\<close>

definition judged ::
  "('w, 'o, 'e) Reconciler \<Rightarrow> 'w \<Rightarrow> ResourceKey \<Rightarrow> Snapshot \<Rightarrow> Result \<Rightarrow> gotime \<Rightarrow> bool" where
  "judged r w key s result now \<longleftrightarrow>
     (case fst (rc_resolver r w key) of
        Inl err \<Rightarrow> err = ResolveNotFound \<and> result = deletionResult
          \<and> (\<exists>hash. let gone = deletionSnapshot (key_Source key (rc_clusterID r)) now in
               ContentHash gone = Some hash \<and> s = gone\<lparr>sn_ContentHash := hash\<rparr>)
      | Inr object \<Rightarrow> \<exists>s0 w1 previous. rc_normalizer r object now = Inr s0
          \<and> result = fst (rc_rules r w1 s0 previous) \<and> markQuiet s0 result = Some s)"

context incident_store
begin

lemma persist_effect:
  assumes "persist r w s previous result now = (None, w')" "rc_store r = store" "undisturbed view r"
  shows "one_commit r s result now (view w) (view w')"
proof -
  obtain found w1 where found: "(case previous of Some incident \<Rightarrow> (Inr (incident, False), w)
      | None \<Rightarrow> is_UpsertIncident store w (newIncident r s now) None) = (found, w1)"
    by (metis surj_pair)
  obtain incident created where inc: "found = Inr (incident, created)"
    using assms(1,2) found by (auto simp: persist_def split: sum.splits)
  have begun: "begun r s now (view w) (view w1)"
  proof (cases previous)
    case None
    then have "is_UpsertIncident store w (newIncident r s now) None = (found, w1)" using found by simp
    from upsert_incident [OF this] show ?thesis by (auto simp: begun_def core_def Let_def)
  qed (use found in \<open>simp add: begun_def\<close>)
  show ?thesis
  proof (cases "\<not> created \<and> inc_ContentHash incident = sn_ContentHash s \<and> \<not> isRecovery result")
    case True
    then have w': "w' = w1" using assms(1,2) found inc by (auto simp: persist_def)
    show ?thesis using begun w' by (simp add: one_commit_def)
  next
    case False
    obtain stored w2 where stored: "is_UpsertSnapshot store w1 (inc_ID incident) s None = (stored, w2)" by fastforce
    obtain decision answers audit w3 where d: "decide r w2 s result (inc_ID incident) = ((decision, answers, audit), w3)"
      by (metis surj_pair)
    obtain dec where dec: "decision = Some dec"
      using assms(1,2) found inc False stored d
      by (auto simp: persist_def split: sum.splits option.splits)
    obtain err w4 where c: "is_Commit store w3
        (commitFor r created incident s result dec answers audit now) = (err, w4)" by fastforce
    have ok: "err = None" "w' = w4"
      using assms(1,2) found inc False stored d dec c by (auto simp: persist_def split: sum.splits)
    have "core (view w3) = core (view w1)"
      using upsert_snapshot [OF stored] decide_view [OF assms(3) d] by simp
    then have db1: "begun r s now (view w) (view w3)" using begun by (simp add: begun_def)
    show ?thesis
      using commit [OF c] db1 ok unfolding one_commit_def evaluated_commitFor by metis
  qed
qed

lemma get_view: "rc_store r = store \<Longrightarrow> is_GetIncident (rc_store r) w c k = (x, w') \<Longrightarrow> view w' = view w"
  using get by simp

lemma resolveDeletion_effect:
  assumes "resolveDeletion r w key = (None, w')" "rc_store r = store" "undisturbed view r"
  shows "core (view w') = core (view w) \<or> (\<exists>now hash. let gone = deletionSnapshot (key_Source key (rc_clusterID r)) now in
    ContentHash gone = Some hash
    \<and> one_commit r (gone\<lparr>sn_ContentHash := hash\<rparr>) deletionResult now (view w) (view w'))"
proof -
  let ?source = "key_Source key (rc_clusterID r)"
  obtain found w1 where found: "is_GetIncident store w (rc_clusterID r) (IncidentKey ?source) = (found, w1)" by fastforce
  have v1: "view w1 = view w" by (rule get [OF found])
  show ?thesis
  proof (cases "w' = w1")
    case True
    then show ?thesis using v1 by simp
  next
    case False
    then obtain previous where prev: "found = Inr previous" "inc_Status previous \<noteq> IncidentResolved"
      using assms(1,2) found by (auto simp: resolveDeletion_def split: sum.splits StoreError.splits if_splits)
    obtain now w2 where now: "rc_now r w1 = (now, w2)" by fastforce
    obtain hash where hash: "ContentHash (deletionSnapshot ?source now) = Some hash" using ContentHash_total by blast
    have "persist r w2 ((deletionSnapshot ?source now)\<lparr>sn_ContentHash := hash\<rparr>) (Some previous) deletionResult now
        = (None, w')"
      using assms(1,2) found prev now hash by (simp add: resolveDeletion_def)
    from persist_effect [OF this assms(2,3)] undisturbedD(3) [OF assms(3) now] v1 hash show ?thesis
      unfolding Let_def by metis
  qed
qed

lemma reconcileSnapshot_effect:
  assumes "reconcileSnapshot r w s now = (Inr delay, w')" "rc_store r = store" "undisturbed view r"
  shows "core (view w') = core (view w)
    \<or> (\<exists>w1 previous s'. let result = fst (rc_rules r w1 s previous) in
         markQuiet s result = Some s' \<and> one_commit r s' result now (view w) (view w'))"
proof -
  obtain found w1 where found: "is_GetIncident store w (rc_clusterID r) (IncidentKey (sn_Source s)) = (found, w1)"
    by fastforce
  obtain previous where prev: "(case found of Inr incident \<Rightarrow> Inr (Some incident) | Inl ErrNotFound \<Rightarrow> Inr None
      | Inl err \<Rightarrow> Inl err) = Inr previous"
    using assms(1,2) found by (auto simp: reconcileSnapshot_def split: sum.splits)
  obtain result w2 where result: "rc_rules r w1 s previous = (result, w2)" by fastforce
  have v2: "view w2 = view w" using get [OF found] undisturbedD(2) [OF assms(3) result] by simp
  obtain s2 where s2: "markQuiet s result = Some s2"
    using assms(1,2) found prev result by (auto simp: reconcileSnapshot_def split: option.splits)
  obtain err w3 where p: "persist r w2 s2 previous result now = (err, w3)" by fastforce
  have "w' = w2 \<or> err = None \<and> w' = w3"
    using assms(1,2) found prev result s2 p
    by (auto simp: reconcileSnapshot_def Let_def split: if_splits option.splits)
  then show ?thesis
  proof
    assume "w' = w2"
    then show ?thesis using v2 by simp
  next
    assume "err = None \<and> w' = w3"
    then have "one_commit r s2 result now (view w) (view w')" using persist_effect [OF _ assms(2,3)] p v2 by metis
    moreover have "fst (rc_rules r w1 s previous) = result" using result by simp
    ultimately show ?thesis using s2 unfolding Let_def by metis
  qed
qed

lemma Reconcile_effect:
  assumes "Reconcile r w key = (Inr delay, w')" "rc_store r = store" "undisturbed view r"
  shows "core (view w') = core (view w)
    \<or> (\<exists>s result now. judged r w key s result now \<and> one_commit r s result now (view w) (view w'))"
proof -
  have valid: "key_Validate key = None" using assms(1) by (auto simp: Reconcile_def split: option.splits)
  obtain found w1 where found: "rc_resolver r w key = (found, w1)" by fastforce
  have v1: "view w1 = view w" by (rule undisturbedD(1) [OF assms(3) found])
  show ?thesis
  proof (cases found)
    case (Inl e)
    then have e: "e = ResolveNotFound"
      using assms(1) valid found by (auto simp: Reconcile_def split: ResolveError.splits)
    obtain err w2 where "resolveDeletion r w1 key = (err, w2)" by fastforce
    then have "resolveDeletion r w1 key = (None, w')"
      using assms(1) valid found Inl e by (auto simp: Reconcile_def split: option.splits)
    from resolveDeletion_effect [OF this assms(2,3)] v1 show ?thesis
      by (auto simp: judged_def found Inl e Let_def)
  next
    case (Inr object)
    obtain now w2 where now: "rc_now r w1 = (now, w2)" by fastforce
    obtain s where s: "rc_normalizer r object now = Inr s"
      using assms(1) valid found Inr now by (auto simp: Reconcile_def split: sum.splits)
    have "reconcileSnapshot r w2 s now = (Inr delay, w')"
      using assms(1) valid found Inr now s by (simp add: Reconcile_def)
    from reconcileSnapshot_effect [OF this assms(2,3)] undisturbedD(3) [OF assms(3) now] v1 s show ?thesis
      by (fastforce simp: judged_def found Inr Let_def)
  qed
qed

text \<open>A result whose evaluation is stored already changes nothing, whatever the outcome.\<close>

lemma persist_evaluated:
  assumes "persist r w s (Some incident) result now = (err, w')" "rc_store r = store" "undisturbed view r"
    "already_evaluated r (view w) (inc_ID incident) s result"
  shows "core (view w') = core (view w)"
proof (cases "inc_ContentHash incident = sn_ContentHash s \<and> \<not> isRecovery result")
  case True
  then show ?thesis using assms(1) by (simp add: persist_def)
next
  case False
  obtain stored w2 where stored: "is_UpsertSnapshot store w (inc_ID incident) s None = (stored, w2)" by fastforce
  note v2 = upsert_snapshot [OF stored]
  obtain decision answers audit w3 where d: "decide r w2 s result (inc_ID incident) = ((decision, answers, audit), w3)"
    by (metis surj_pair)
  note v3 = decide_view [OF assms(3) d]
  have again: "already_evaluated r (view w3) (inc_ID incident) s result"
    using assms(4) v2 v3 by (simp add: already_evaluated_def core_def)
  show ?thesis
  proof (cases "w' = w2 \<or> w' = w3")
    case True
    then show ?thesis using v2 v3 by auto
  next
    case no: False
    then obtain dec where dec: "decision = Some dec"
      using assms(1,2) False stored d by (auto simp: persist_def split: sum.splits option.splits if_splits)
    obtain e w4 where c: "is_Commit store w3
        (commitFor r False incident s result dec answers audit now) = (e, w4)" by fastforce
    have "w' = w4 \<or> w' = w2"
      using assms(1,2) False stored d dec c by (auto simp: persist_def split: sum.splits if_splits)
    then show ?thesis
      using commit [OF c] again no v2 v3 unfolding evaluated_commitFor by metis
  qed
qed

end

definition mongo_incidents :: "('w, Answer) mongo \<Rightarrow> 'w IncidentStore" where
  "mongo_incidents m =
     \<lparr>is_GetIncident = GetIncident m, is_UpsertIncident = UpsertIncident m,
      is_UpsertSnapshot = UpsertSnapshot m, is_Commit = Commit m\<rparr>"

lemma mongo_incident_store:
  assumes "mongo_server m view"
  shows "incident_store (mongo_incidents m) view"
proof
  fix w cluster key found w'
  assume "is_GetIncident (mongo_incidents m) w cluster key = (found, w')"
  then show "view w' = view w"
    using mongo_server.GetIncident_effect [OF assms] by (simp add: mongo_incidents_def)
next
  fix w incident x up w'
  assume "is_UpsertIncident (mongo_incidents m) w incident x = (up, w')"
  then show "view w' = view w
      \<or> (\<exists>c. inserted_new (db_incidents (view w)) (incident_filter (inc_ClusterID incident) (inc_Key incident))
              (inc_ID incident) (bson_incident (incidentToDocument incident x)) c
            \<and> view w' = (view w)\<lparr>db_incidents := c\<rparr>)"
    using mongo_server.UpsertIncident_effect [OF assms] by (simp add: mongo_incidents_def)
next
  fix w i s x stored w'
  assume "is_UpsertSnapshot (mongo_incidents m) w i s x = (stored, w')"
  then have "UpsertSnapshot m w i s x = (stored, w')" by (simp add: mongo_incidents_def)
  from mongo_server.UpsertSnapshot_effect [OF assms this] obtain c where "view w' = (view w)\<lparr>db_snapshots := c\<rparr>"
    by blast
  then show "core (view w') = core (view w)" by (simp add: core_def)
next
  fix w request err w'
  assume "is_Commit (mongo_incidents m) w request = (err, w')"
  then show "view w' = view w \<and> (err = None \<longrightarrow> evaluated request (view w))
      \<or> \<not> evaluated request (view w) \<and> committed request (view w) (view w')"
    using mongo_server.Commit_effect [OF assms] by (simp add: mongo_incidents_def)
qed

interpretation memory: incident_store "mongo_incidents mem_mongo" mem_view
  by (rule mongo_incident_store [OF mem.mongo_server_axioms])

section \<open>Decisions\<close>

text \<open>The answers of a provider are a map.\<close>

definition wf_provider :: "('w, 'e) ProviderImpl \<Rightarrow> bool" where
  "wf_provider p \<longleftrightarrow>
     (\<forall>w q. case fst (pv_Evaluate p w q) of Inl _ \<Rightarrow> True | Inr response \<Rightarrow> wf_answers (ep_Answers response))"

definition wf_providers :: "('w, 'o, 'e) Reconciler \<Rightarrow> bool" where
  "wf_providers r \<longleftrightarrow> wf_provider (rc_primary r) \<and> (\<forall>p. rc_fallback r = Some p \<longrightarrow> wf_provider p)"

lemma wf_answers_Nil [simp]: "wf_answers []"
  by (simp add: wf_answers_def)

lemma evaluateProvider_wf:
  assumes "wf_provider p" "evaluateProvider p w q = (Inr response, w')"
  shows "wf_answers (ep_Answers response)"
proof -
  obtain x w1 where x: "pv_Evaluate p w q = (x, w1)" by fastforce
  have "x = Inr response"
    using assms(2) x by (auto simp: evaluateProvider_def split: sum.splits if_splits option.splits)
  then show ?thesis using assms(1) x unfolding wf_provider_def by (metis fst_conv sum.simps(6))
qed

lemma evaluateWithFallback_wf:
  assumes "wf_providers r" "evaluateWithFallback r w q = (Inr response, w')"
  shows "wf_answers (ep_Answers response)"
proof -
  obtain y w1 where y: "evaluateProvider (rc_primary r) w q = (y, w1)" by fastforce
  show ?thesis
  proof (cases "\<exists>e p. y = Inl e \<and> rc_fallback r = Some p")
    case True
    then show ?thesis
      using assms y evaluateProvider_wf by (auto simp: evaluateWithFallback_def wf_providers_def)
  next
    case False
    then show ?thesis
      using assms y evaluateProvider_wf [of "rc_primary r" w q response w1]
      by (auto simp: evaluateWithFallback_def wf_providers_def split: sum.splits option.splits)
  qed
qed

text \<open>Every decision is one of the composer, for answers that form a map.\<close>

lemma decide_composed:
  fixes r :: "('w, 'o, 'e) Reconciler"
  assumes "wf_providers r" "decide r w s result i = ((decision, answers, audit), w')"
  shows "\<exists>as (err :: 'e EvaluateError option) (err' :: unit option). wf_answers as
    \<and> (decision = Compose (rc_composer r) result as err \<or> decision = Compose (rc_composer r) result as err')"
proof (cases "res_Disposition result \<noteq> DispositionSemantic \<or> snapshotJSON s = None")
  case True
  then have "\<exists>err' :: unit option. decision = Compose (rc_composer r) result [] err'"
    using assms(2) by (auto simp: decide_def split: if_splits)
  then show ?thesis using wf_answers_Nil by blast
next
  case False
  then obtain state where state: "snapshotJSON s = Some state" by blast
  let ?q = "\<lparr>er_State = render state, er_Questions = OperationalTriageV1Questions,
    er_RubricVersion = res_QuestionSet result,
    er_RequestID = rc_newID r (''request'' @ NUL @ i @ NUL @ sn_ContentHash s), er_RequestedModel = []\<rparr>"
  obtain y w1 where y: "evaluateWithFallback r w ?q = (y, w1)" by fastforce
  show ?thesis
  proof (cases y)
    case (Inl e)
    then have "decision = Compose (rc_composer r) result [] (Some e)"
      using assms(2) False state y by (auto simp: decide_def Let_def)
    then show ?thesis using wf_answers_Nil by blast
  next
    case (Inr response)
    then have "decision = Compose (rc_composer r) result (ep_Answers response) (None :: unit option)"
      using assms(2) False state y by (auto simp: decide_def Let_def)
    then show ?thesis using evaluateWithFallback_wf [OF assms(1) y [unfolded Inr]] by blast
  qed
qed

lemma decide_defined:
  assumes "wf_providers r" "decide r w s result i = ((decision, answers, audit), w')"
  shows "decision \<noteq> None"
  using decide_composed [OF assms] Compose_defined by (metis option.distinct(1))

lemma persist_no_panic:
  assumes "wf_providers r"
  shows "fst (persist r w s previous result now) \<noteq> Some NilDereference"
proof
  assume bad: "fst (persist r w s previous result now) = Some NilDereference"
  obtain found w1 where found: "(case previous of Some incident \<Rightarrow> (Inr (incident, False), w)
      | None \<Rightarrow> is_UpsertIncident (rc_store r) w (newIncident r s now) None) = (found, w1)"
    by (metis surj_pair)
  obtain incident created where inc: "found = Inr (incident, created)"
    using bad found by (auto simp: persist_def split: sum.splits)
  have new: "\<not> (\<not> created \<and> inc_ContentHash incident = sn_ContentHash s \<and> \<not> isRecovery result)"
    using bad found inc by (auto simp: persist_def split: if_splits)
  obtain stored w2 where stored: "is_UpsertSnapshot (rc_store r) w1 (inc_ID incident) s None = (stored, w2)"
    by fastforce
  obtain decision answers audit w3 where d: "decide r w2 s result (inc_ID incident) = ((decision, answers, audit), w3)"
    by (metis surj_pair)
  obtain dec where dec: "decision = Some dec" using decide_defined [OF assms d] by blast
  obtain err w4 where c: "is_Commit (rc_store r) w3
      (commitFor r created incident s result dec answers audit now) = (err, w4)" by fastforce
  have "fst (persist r w s previous result now)
      = (case stored of Inl e \<Rightarrow> Some (UpsertSnapshotError e) | Inr _ \<Rightarrow> map_option CommitError err)"
    unfolding persist_def Let_def found case_prod_conv inc sum.case if_not_P [OF new] stored d dec option.case c
    by (simp split: sum.split)
  then show False using bad by (cases err; cases stored) simp_all
qed

section \<open>Payloads\<close>

lemma fold_max_bound: "\<forall>x \<in> set xs. x \<le> n \<Longrightarrow> a \<le> n \<Longrightarrow> fold max xs a \<le> (n :: nat)"
proof (induction xs arbitrary: a)
  case (Cons x xs)
  then show ?case using Cons.IH [of "max x a"] by simp
qed simp

lemma depth_JObject_le: "\<forall>(k, j) \<in> set kvs. depth j \<le> n \<Longrightarrow> depth (JObject kvs) \<le> Suc n"
  using fold_max_bound [of "map (\<lambda>(k, j). depth j) kvs" n 0] by (auto split: prod.splits)

lemma depth_JArray_strings: "depth (JArray (map JString xs)) \<le> 1"
proof -
  have "fold max (map depth (map JString xs)) 0 = 0" by (induction xs) auto
  then show ?thesis by simp
qed

lemma depth_ownerJSON: "depth (ownerJSON x) \<le> 1"
  unfolding ownerJSON_def One_nat_def
  by (rule depth_JObject_le) (auto simp: field_def omitempty_string_def omitempty_def split: if_splits)

lemma depth_sourceJSON: "depth (sourceJSON x) \<le> 2"
  unfolding sourceJSON_def numeral_2_eq_2
  by (rule depth_JObject_le)
    (use depth_ownerJSON in \<open>auto simp: field_def omitempty_string_def omitempty_int_def omitempty_pointer_def
       omitempty_def split: if_splits option.splits\<close>)

lemma depth_MarshalTime: "MarshalTime t = Some j \<Longrightarrow> depth j = 0"
  by (auto simp: MarshalTime_def Let_def split: prod.splits if_splits)

lemma deliveryPayload_Valid:
  assumes "deliveryPayload incident s e decision status \<noteq> []"
  shows "json_Valid (deliveryPayload incident s e decision status)"
proof -
  obtain t where t: "MarshalTime (sn_ObservedAt s) = Some t"
    using assms by (auto simp: deliveryPayload_def split: option.splits)
  note dt = depth_MarshalTime [OF t]
  show ?thesis
    unfolding deliveryPayload_def t option.case
  proof (rule render_Valid, rule order.trans [OF depth_JObject_le])
    show "\<forall>(k, j) \<in> set (field ''incident_id'' (JString (inc_ID incident)) @ field ''evaluation_id'' (JString e)
           @ field ''status'' (JString (statusText status))
           @ field ''severity'' (JString (severityText (dec_Severity decision)))
           @ field ''action'' (JString (actionText (dec_Action decision)))
           @ field ''summary'' (JString (dec_Summary decision))
           @ field ''resource'' (sourceJSON (sn_Source s))
           @ field ''rule_ids'' (JArray (map JString (dec_RuleIDs decision)))
           @ field ''reason_codes'' (JArray (map JString (dec_ReasonCodes decision)))
           @ field ''observed_at'' t). depth j \<le> 2"
      using depth_sourceJSON [of "sn_Source s"] depth_JArray_strings [of "dec_RuleIDs decision"]
        depth_JArray_strings [of "dec_ReasonCodes decision"] dt
      by (simp add: field_def del: depth.simps(1,2))
  qed (simp add: maxNestingDepth_def)
qed

section \<open>Properties\<close>


text \<open>
  C6: No provider brings the reconciler down or lowers a decision of the rules. Whatever the primary
  and the fallback provider answer, reconciling never follows a nil pointer, and the decision it
  takes ranks at least as high as that of the rules and names their rules.
\<close>

theorem Reconcile_keeps_floor:
  fixes r :: "('w, 'o, 'e) Reconciler"
  assumes "wf_providers r"
  shows "fst (Reconcile r w key) \<noteq> Inl NilDereference
    \<and> (\<forall>f. res_Decision result = Some f \<longrightarrow>
        (\<exists>d. fst (fst (decide r w s result i)) = Some d
          \<and> severityRank (dec_Severity f) \<le> severityRank (dec_Severity d)
          \<and> actionRank (dec_Action f) \<le> actionRank (dec_Action d)
          \<and> set (dec_RuleIDs f) - {[]} \<subseteq> set (dec_RuleIDs d)))"
proof (intro conjI allI impI)
  note persist = persist_no_panic [OF assms]
  have snapshot: "fst (reconcileSnapshot r w s now) \<noteq> Inl NilDereference" for w s now
    using persist by (auto simp: reconcileSnapshot_def Let_def case_prod_beta split: sum.splits option.splits if_splits)
  have deletion: "fst (resolveDeletion r w key) \<noteq> Some NilDereference" for w
    using persist by (auto simp: resolveDeletion_def Let_def case_prod_beta split: sum.splits StoreError.splits option.splits)
  show "fst (Reconcile r w key) \<noteq> Inl NilDereference"
    using snapshot deletion
    by (auto simp: Reconcile_def Let_def case_prod_beta split: sum.splits ResolveError.splits option.splits)
  fix f
  assume f: "res_Decision result = Some f"
  obtain decision answers audit w' where d: "decide r w s result i = ((decision, answers, audit), w')"
    by (metis surj_pair)
  from decide_composed [OF assms d]
  obtain as and err :: "'e EvaluateError option" and err' :: "unit option" where "wf_answers as"
    "decision = Compose (rc_composer r) result as err \<or> decision = Compose (rc_composer r) result as err'"
    by blast
  then show "\<exists>d. fst (fst (decide r w s result i)) = Some d
          \<and> severityRank (dec_Severity f) \<le> severityRank (dec_Severity d)
          \<and> actionRank (dec_Action f) \<le> actionRank (dec_Action d)
          \<and> set (dec_RuleIDs f) - {[]} \<subseteq> set (dec_RuleIDs d)"
    using Compose_above_floor [of as result f "rc_composer r" err] Compose_above_floor [of as result f "rc_composer r" err'] f
    unfolding d fst_conv by auto
qed

text \<open>
  C16: A recurrence is lost. When a resolved incident matches again with a snapshot that was evaluated
  before, persisting the result leaves the incident resolved and queues no notification: the
  commit takes the stored evaluation for its own.
\<close>

theorem recurrence_lost:
  assumes "mongo_server m view" "rc_store r = mongo_incidents m" "undisturbed view r"
    "db_incidents (view w) (id_ID d) = Some d" "id_Status d = IncidentResolved" "statusFor result = IncidentOpen"
    "already_evaluated r (view w) (id_ID d) s result"
    "persist r w s (Some (incidentFromDocument d)) result now = (err, w')"
  shows "db_incidents (view w') (id_ID d) = Some d \<and> db_outbox (view w') = db_outbox (view w)"
proof -
  have i: "inc_ID (incidentFromDocument d) = id_ID d" by (simp add: incidentFromDocument_def)
  from incident_store.persist_evaluated [OF mongo_incident_store [OF assms(1)] assms(8,2,3)] assms(7) i
  have "core (view w') = core (view w)" by simp
  then show ?thesis using assms(4) by (simp add: core_def)
qed


text \<open>
  C22: Notifications of the reconciler reach their notifier. The payload of every notification that a
  commit queues is valid JSON or empty, so the envelope that the dispatcher makes of it is never
  refused for its data.
\<close>

theorem notifications_have_envelopes:
  assumes "n \<in> set (cmr_Deliveries (commitFor r created incident s result decision answers audit now))"
    "ntf_Payload dl = ntf_Payload n"
  shows "NewEnvelope eid eventType clusterID t (deliveryData dl) \<noteq> Inl ''event data must be valid JSON''"
proof -
  obtain incident' e status where payload: "ntf_Payload n = deliveryPayload incident' s e decision status"
    using assms(1) by (auto simp: commitFor_def deliveries_def Let_def split: if_splits)
  have "json_Valid (deliveryData dl) \<and> deliveryData dl \<noteq> []"
  proof (cases "ntf_Payload dl = []")
    case True
    then show ?thesis using json_Valid_deliveryData deliveryData_nonempty by blast
  next
    case False
    then show ?thesis using deliveryPayload_Valid assms(2) payload by (simp add: deliveryData_def)
  qed
  then show ?thesis by (simp add: NewEnvelope_def)
qed

text \<open>
  C23: Text that a provider controls does not enter the audit record: the resolved model that is kept
  is empty, or is the requested model, possibly with a suffix after a separator, of at most 256
  characters that are letters, digits or one of a few separators. Everything else is a hash.
\<close>

theorem providerAudit_trusted:
  assumes "pa_ResolvedModel (providerAudit response) \<noteq> []"
  shows "pa_ResolvedModel (providerAudit response) = ep_ResolvedModel response
    \<and> length (ep_ResolvedModel response) \<le> 256 \<and> (\<forall>c \<in> set (ep_ResolvedModel response). model_char c)
    \<and> (ep_ResolvedModel response = ep_RequestedModel response
       \<or> (\<exists>separator rest. separator \<in> set ''-.:/''
            \<and> ep_ResolvedModel response = ep_RequestedModel response @ separator # rest))"
proof -
  let ?q = "ep_RequestedModel response" and ?m = "ep_ResolvedModel response"
  have prefix: "\<exists>separator rest. separator \<in> set ''-.:/'' \<and> ?m = ?q @ separator # rest"
    if "HasPrefix ?m (?q @ [separator])" "separator \<in> set ''-.:/''" for separator
  proof -
    have "?m = take (length (?q @ [separator])) ?m @ drop (length (?q @ [separator])) ?m" by simp
    then have "?m = (?q @ [separator]) @ drop (length (?q @ [separator])) ?m"
      using that(1) unfolding HasPrefix_def by metis
    then show ?thesis using that(2) by auto
  qed
  show ?thesis
    using assms prefix by (auto simp: providerAudit_def trustedResolvedModel_def split: if_splits)
qed

text \<open>
  C14: A deletion closes the incident that the observations of the object opened. The key of the
  incident that is looked up when an object is gone is the key under which the snapshots of the
  object, as resolved and normalized for the same resource key, are kept.
\<close>

theorem deletion_same_incident:
  assumes "Resolve client w key = (Inr object, w')" "Normalize n object t = Inr s"
  shows "IncidentKey (sn_Source s) = IncidentKey (key_Source key (nz_clusterID n))"
proof -
  have "om_UID (object_meta object) = rk_UID key"
    using assms(1) by (auto simp: Resolve_def split: option.splits sum.splits api_error.splits if_splits)
  moreover obtain s0 where "normalizeObject n object t = Inr s0" "sn_Source s = sn_Source s0"
    using Normalize_Inr [OF assms(2)] by (metis Snapshot.select_convs(1) Snapshot.simps(19) Snapshot.surjective)
  ultimately show ?thesis
    using normalizeObject_allowlisted by (auto simp: allowlisted_def IncidentKey_def key_Source_def)
qed

section \<open>Witnesses on the in-memory server\<close>

lemma lower_hex_graphic: "n < 16 \<Longrightarrow> graphic (lower_hex n)"
  by (simp add: lower_hex_def graphic_def of_char_of)

lemma sha256_hex_graphic: "sha256_hex x \<noteq> [] \<and> (\<forall>c \<in> set (sha256_hex x). graphic c)"
proof -
  have "length (sha256_hex x) = 64" by (simp add: sha256_hex_def)
  moreover have "graphic c" if "c \<in> set (EncodeToString bs)" "\<forall>b \<in> set bs. b < 256" for c bs
    using that by (auto simp: EncodeToString_def intro!: lower_hex_graphic)
  then have "\<forall>c \<in> set (sha256_hex x). graphic c" using sha256_bytes_props(2) unfolding sha256_hex_def by blast
  ultimately show ?thesis by auto
qed

lemma prefixed_nonblank: "p \<noteq> [] \<Longrightarrow> graphic (hd p) \<Longrightarrow> \<not> blank (p @ sha256_hex x)"
  using sha256_hex_graphic [of x] by (simp add: TrimSpace_graphic)

lemma hash_nonblank [simp]: "\<not> blank (sha256_hex x)" "\<not> blank (IncidentKey source)"
  using sha256_hex_graphic [of x] prefixed_nonblank [of "''incident:v1:''"]
  by (simp_all add: TrimSpace_graphic IncidentKey_def graphic_def)

lemma ContentHash_nonblank: "ContentHash s = Some hash \<Longrightarrow> \<not> blank hash"
  using prefixed_nonblank [of "''sha256:''"] by (auto simp: ContentHash_def graphic_def)

definition sample_key :: ResourceKey where
  "sample_key = \<lparr>rk_Kind = ''Event'', rk_Namespace = ''web'', rk_Name = ''api.17'', rk_UID = ''u1''\<rparr>"

definition sample_silent :: "('w, unit) ProviderImpl" where
  "sample_silent = \<lparr>pv_Name = ''silent'', pv_Evaluate = (\<lambda>w q. (Inl (), w))\<rparr>"

text \<open>A reconciler for which every object is gone, with one open incident for the key above.\<close>

definition sample_reconciler :: "(Answer mem, unit, unit) Reconciler" where
  "sample_reconciler =
     \<lparr>rc_clusterID = ''c1'', rc_resolver = (\<lambda>w k. (Inl ResolveNotFound, w)),
      rc_normalizer = (\<lambda>u now. Inr sample_pod),
      rc_rules = (\<lambda>w s i. (Evaluate (NewEngine sample_options) (\<lambda>_. 900 * Second) s i, w)),
      rc_store = mongo_incidents mem_mongo, rc_primary = sample_silent, rc_fallback = Some sample_silent,
      rc_composer = NewComposer, rc_providerConfigHash = ''cfg'', rc_destinations = [''ops''],
      rc_timeout = Second, rc_eventQuietPeriod = 600 * Second, rc_now = (\<lambda>w. (9 * Second, w)),
      rc_newID = StableID\<rparr>"

definition sample_held :: Incident where
  "sample_held = sample_stored\<lparr>inc_Key := IncidentKey (key_Source sample_key ''c1'')\<rparr>"

definition sample_memory :: "Incident \<Rightarrow> Answer mem" where
  "sample_memory incident =
     \<lparr>mem_incidents = [incidentToDocument incident None], mem_snapshots = [], mem_evaluations = [],
      mem_outbox = [], mem_next = 0\<rparr>"

lemma sample_undisturbed:
  "undisturbed mem_view sample_reconciler" "wf_providers sample_reconciler"
  "rc_store sample_reconciler = mongo_incidents mem_mongo"
  by (simp_all add: undisturbed_def wf_providers_def wf_provider_def sample_reconciler_def sample_silent_def)

lemma sample_upserted:
  assumes "\<not> blank i" "\<not> blank (sn_ContentHash s)" "mem_snapshots w = []"
  shows "\<exists>stored c n. UpsertSnapshot mem_mongo w i s None = (Inr stored, w\<lparr>mem_next := n, mem_snapshots := c\<rparr>)"
  using assms by (auto simp: UpsertSnapshot_def mem_mongo_def Let_def live_def by_id_def)

lemma sample_reconciled:
  "\<exists>w'. Reconcile sample_reconciler (sample_memory sample_held) sample_key = (Inr 0, w') \<and> mem_outbox w' \<noteq> []"
proof -
  let ?gone = "deletionSnapshot (key_Source sample_key ''c1'') (9 * Second)"
  obtain hash where hash: "ContentHash ?gone = Some hash" using ContentHash_total by blast
  then have nb: "\<not> blank hash" by (rule ContentHash_nonblank)
  let ?i = "incidentFromDocument (incidentToDocument sample_held None)" and ?s = "?gone\<lparr>sn_ContentHash := hash\<rparr>"
  have get: "GetIncident mem_mongo (sample_memory sample_held) ''c1'' (IncidentKey (key_Source sample_key ''c1''))
      = (Inr ?i, sample_memory sample_held)"
    by (simp add: GetIncident_def mem_simps sample_memory_def incident_filter_def
        incidentToDocument_def sample_held_def sample_stored_def)
  obtain stored c n where up: "UpsertSnapshot mem_mongo (sample_memory sample_held) (inc_ID ?i) ?s None
      = (Inr stored, (sample_memory sample_held)\<lparr>mem_next := n, mem_snapshots := c\<rparr>)"
    using sample_upserted [of "inc_ID ?i" ?s "sample_memory sample_held"] nb
    by (auto simp: sample_memory_def incidentFromDocument_def incidentToDocument_def sample_held_def sample_stored_def)
  obtain d where d: "res_Decision deletionResult = Some d" "\<And>w i. decide sample_reconciler w ?s deletionResult i = ((Some d, [], None), w)"
    by (simp add: decide_def deletionResult_def Compose_def)
  let ?q = "commitFor sample_reconciler False ?i ?s deletionResult d [] None (9 * Second)"
  obtain w' where commit: "Commit mem_mongo ((sample_memory sample_held)\<lparr>mem_next := n, mem_snapshots := c\<rparr>) ?q = (None, w')"
    "mem_outbox w' \<noteq> []"
  proof -
    have "validateCommit ?q = None"
      by (simp add: validateCommit_def validateIncident_def commitFor_def nextIncident_def evaluationFor_def
          deliveries_def Let_def sample_reconciler_def StableID_def incidentFromDocument_def incidentToDocument_def
          sample_held_def sample_stored_def and_then_def)
    then have "\<exists>w'. Commit mem_mongo ((sample_memory sample_held)\<lparr>mem_next := n, mem_snapshots := c\<rparr>) ?q = (None, w')
        \<and> mem_outbox w' \<noteq> []"
      by (simp add: Commit_def commitCallback_def updateIncident_def mem_simps sample_memory_def outboxDocuments_def
          commitFor_def nextIncident_def evaluationFor_def deliveries_def Let_def sample_reconciler_def
          incidentFromDocument_def incidentToDocument_def sample_held_def sample_stored_def statusFor_def
          isRecovery_def deletionResult_def set_incident_def)
    then show ?thesis using that by blast
  qed
  have "isRecovery deletionResult" by (simp add: isRecovery_def deletionResult_def)
  then have "persist sample_reconciler (sample_memory sample_held) ?s (Some ?i) deletionResult (9 * Second) = (None, w')"
    using up d(2) commit(1) by (simp add: persist_def sample_undisturbed(3) mongo_incidents_def)
  moreover have "inc_Status ?i = IncidentOpen"
    by (simp add: incidentFromDocument_def incidentToDocument_def sample_held_def sample_stored_def)
  ultimately have "resolveDeletion sample_reconciler (sample_memory sample_held) sample_key = (None, w')"
    using get hash by (simp add: resolveDeletion_def sample_undisturbed(3) mongo_incidents_def)
      (simp add: sample_reconciler_def)
  then show ?thesis using commit(2)
    by (simp add: Reconcile_def key_Validate_def sample_key_def) (simp add: sample_reconciler_def)
qed


theorem Reconcile_keeps_floor_witness:
  "fst (Reconcile sample_reconciler (sample_memory sample_held) sample_key) \<noteq> Inl NilDereference
   \<and> (\<exists>d. fst (fst (decide sample_reconciler (sample_memory sample_held) sample_pod sample_floor ''i1'')) = Some d
        \<and> severityRank SeverityCritical \<le> severityRank (dec_Severity d)
        \<and> actionRank ActionPage \<le> actionRank (dec_Action d)
        \<and> set [''job-failed''] - {[]} \<subseteq> set (dec_RuleIDs d))"
  using Reconcile_keeps_floor [OF sample_undisturbed(2), of "sample_memory sample_held" sample_key sample_floor sample_pod "''i1''"]
  by (simp add: sample_floor_def)

text \<open>The same incident after its resolution, with the evaluation of a snapshot that comes again.\<close>

definition sample_again :: "Answer mem" where
  "sample_again =
     (sample_memory (sample_held\<lparr>inc_Status := IncidentResolved, inc_ContentHash := ''h2''\<rparr>))
     \<lparr>mem_evaluations := [evaluationToDocument
        (evaluationFor sample_reconciler ''i1'' sample_pod sample_floor (the (res_Decision sample_floor)) [] None 0) None]\<rparr>"

theorem recurrence_lost_witness:
  "id_Status (hd (mem_incidents sample_again)) = IncidentResolved
   \<and> db_incidents (mem_view (snd (persist sample_reconciler sample_again sample_pod
        (Some (incidentFromDocument (hd (mem_incidents sample_again)))) sample_floor Second))) ''i1''
      = Some (hd (mem_incidents sample_again))
   \<and> db_outbox (mem_view (snd (persist sample_reconciler sample_again sample_pod
        (Some (incidentFromDocument (hd (mem_incidents sample_again)))) sample_floor Second))) = db_outbox (mem_view sample_again)"
proof -
  let ?d = "hd (mem_incidents sample_again)"
  have d: "id_ID ?d = ''i1''" "id_Status ?d = IncidentResolved"
    by (simp_all add: sample_again_def sample_memory_def incidentToDocument_def sample_held_def sample_stored_def)
  have stored: "db_incidents (mem_view sample_again) (id_ID ?d) = Some ?d"
    by (simp add: mem_view_def by_id_def sample_again_def sample_memory_def)
  have evaluated: "already_evaluated sample_reconciler (mem_view sample_again) (id_ID ?d) sample_pod sample_floor"
    unfolding d by (simp add: already_evaluated_def mem_view_def by_id_def sample_again_def evaluationToDocument_def
      evaluationFor_def Let_def ran_def)
  have "statusFor sample_floor = IncidentOpen"
    by (simp add: statusFor_def isRecovery_def sample_floor_def)
  from recurrence_lost [OF mem.mongo_server_axioms sample_undisturbed(3,1) stored d(2) this evaluated surjective_pairing]
  show ?thesis using d by simp
qed


theorem notifications_have_envelopes_witness:
  "\<exists>n. cmr_Deliveries (commitFor sample_reconciler True sample_held sample_pod sample_floor
         (the (res_Decision sample_floor)) [] None Second) = [n]
     \<and> NewEnvelope ''d1'' eventOpened ''c1'' Second (deliveryData (deliveryFromDocument (sample_outbox\<lparr>ob_Payload := ntf_Payload n\<rparr>))) \<noteq> Inl ''event data must be valid JSON''"
proof -
  obtain n where n: "cmr_Deliveries (commitFor sample_reconciler True sample_held sample_pod sample_floor
      (the (res_Decision sample_floor)) [] None Second) = [n]"
    by (simp add: commitFor_def deliveries_def Let_def sample_floor_def sample_reconciler_def)
  show ?thesis
    using notifications_have_envelopes [of n sample_reconciler True sample_held sample_pod sample_floor
        "the (res_Decision sample_floor)" "[]" None Second "deliveryFromDocument (sample_outbox\<lparr>ob_Payload := ntf_Payload n\<rparr>)"] n
    by (simp add: deliveryFromDocument_def)
qed

theorem providerAudit_trusted_witness:
  "pa_ResolvedModel (providerAudit (zeroResponse\<lparr>ep_RequestedModel := ''m-4'', ep_ResolvedModel := ''m-4-mini''\<rparr>)) = ''m-4-mini''
   \<and> length ''m-4-mini'' \<le> 256"
proof -
  let ?r = "zeroResponse\<lparr>ep_RequestedModel := ''m-4'', ep_ResolvedModel := ''m-4-mini''\<rparr>"
  have "trustedResolvedModel ''m-4'' ''m-4-mini'' \<noteq> []" by code_simp
  then have "pa_ResolvedModel (providerAudit ?r) \<noteq> []" by (simp add: providerAudit_def)
  from providerAudit_trusted [OF this] show ?thesis by simp
qed

theorem deletion_same_incident_witness:
  "IncidentKey (sn_Source sample_normalized) = IncidentKey (key_Source sample_key ''c1'')"
proof -
  let ?client = "\<lparr>kub_Pods = (\<lambda>w n m. (Inl ApiNotFound, w)), kub_Events = (\<lambda>w n m. (Inr sample_kube_event, w)),
    kub_Deployments = (\<lambda>w n m. (Inl ApiNotFound, w)), kub_StatefulSets = (\<lambda>w n m. (Inl ApiNotFound, w)),
    kub_DaemonSets = (\<lambda>w n m. (Inl ApiNotFound, w)), kub_Jobs = (\<lambda>w n m. (Inl ApiNotFound, w))\<rparr> :: unit KubeClient"
  have "Resolve ?client () sample_key = (Inr (EventObject sample_kube_event), ())"
    by (simp add: Resolve_def clientGet_def fetched_def key_Validate_def sample_key_def
        sample_kube_event_def)
  from deletion_same_incident [OF this sample_normalizes] show ?thesis
    by (simp add: sample_normalizer_def NewNormalizer_def)
qed

end
