(* ===== verification/Work_Queue.thy ===== *)
theory Work_Queue
  imports Reconciler_Runs
begin

text \<open>
  What feeds and drains the queue of keys: the resolution sweeper, from
  \<^verbatim>\<open>internal/controller/resolution_sweeper.go\<close>, and the rounds of the workers of
  \<^verbatim>\<open>internal/kube/manager.go\<close>. The rate-limited queue belongs to client-go; \<open>keeps_work\<close> states
  what is documented of it: a key that was added, at once or for later, is owed until a worker
  gets it.
\<close>

section \<open>The resolution sweeper\<close>

record 'w ResolutionSweeper =
  sw_store :: "'w \<Rightarrow> (StoreError + Incident list) \<times> 'w"
  sw_queue :: "'w \<Rightarrow> ResourceKey \<Rightarrow> 'w"
  sw_clusterID :: string
  sw_interval :: duration

definition NewResolutionSweeper ::
  "('w \<Rightarrow> (StoreError + Incident list) \<times> 'w) option \<Rightarrow> ('w \<Rightarrow> ResourceKey \<Rightarrow> 'w) option \<Rightarrow> string \<Rightarrow> duration \<Rightarrow>
   'w ResolutionSweeper option" where
  "NewResolutionSweeper store queue clusterID interval =
     (case (store, queue) of
        (Some store, Some queue) \<Rightarrow>
          if blank clusterID \<or> interval \<le> 0 then None
          else Some \<lparr>sw_store = store, sw_queue = queue, sw_clusterID = clusterID, sw_interval = interval\<rparr>
      | _ \<Rightarrow> None)"

definition sweepKey :: "Incident \<Rightarrow> ResourceKey" where
  "sweepKey incident =
     \<lparr>rk_Kind = ''Event'', rk_Namespace = src_Namespace (inc_Source incident),
      rk_Name = src_Name (inc_Source incident), rk_UID = src_UID (inc_Source incident)\<rparr>"

fun sweepAll :: "'w ResolutionSweeper \<Rightarrow> Incident list \<Rightarrow> 'w \<Rightarrow> 'w" where
  "sweepAll s [] w = w"
| "sweepAll s (incident # incidents) w =
     (if inc_ClusterID incident \<noteq> sw_clusterID s \<or> \<not> EqualFold (src_Kind (inc_Source incident)) ''Event''
      then sweepAll s incidents w
      else sweepAll s incidents (sw_queue s w (sweepKey incident)))"

definition SweepOnce :: "'w ResolutionSweeper \<Rightarrow> 'w \<Rightarrow> StoreError option \<times> 'w" where
  "SweepOnce s w =
     (let (listed, w) = sw_store s w
      in case listed of
           Inl err \<Rightarrow> (Some err, w)
         | Inr incidents \<Rightarrow> (None, sweepAll s incidents w))"

text \<open>
  The loop of \<open>Run\<close> over what its \<open>select\<close> receives. It has not returned when the signals are used
  up.
\<close>

datatype signal = Done | Tick

datatype sweep_outcome = Sweeping | Stopped "StoreError option"

fun sweepLoop :: "'w ResolutionSweeper \<Rightarrow> signal list \<Rightarrow> 'w \<Rightarrow> sweep_outcome \<times> 'w" where
  "sweepLoop s [] w = (Sweeping, w)"
| "sweepLoop s (Done # signals) w = (Stopped None, w)"
| "sweepLoop s (Tick # signals) w =
     (let (err, w) = SweepOnce s w
      in case err of Some e \<Rightarrow> (Stopped (Some e), w) | None \<Rightarrow> sweepLoop s signals w)"

definition sweeper_Run :: "('w \<Rightarrow> bool) \<Rightarrow> 'w ResolutionSweeper \<Rightarrow> signal list \<Rightarrow> 'w \<Rightarrow> sweep_outcome \<times> 'w" where
  "sweeper_Run cancelled s signals w =
     (let (err, w) = SweepOnce s w
      in if err \<noteq> None \<and> \<not> cancelled w then (Stopped err, w) else sweepLoop s signals w)"

section \<open>The queue\<close>

definition keeps_work :: "'w WorkQueue \<Rightarrow> ('w \<Rightarrow> ResourceKey \<Rightarrow> 'w) \<Rightarrow> ('w \<Rightarrow> ResourceKey set) \<Rightarrow> bool" where
  "keeps_work queue add owed \<longleftrightarrow>
     (\<forall>w k. insert k (owed w) \<subseteq> owed (add w k))
     \<and> (\<forall>w item shutdown w'. wq_Get queue w = ((item, shutdown), w') \<longrightarrow>
          owed w - (if shutdown then {} else set_option item) \<subseteq> owed w')
     \<and> (\<forall>w item. owed w \<subseteq> owed (wq_Done queue w item) \<and> owed w \<subseteq> owed (wq_Forget queue w item))
     \<and> (\<forall>w k. insert k (owed w) \<subseteq> owed (wq_AddRateLimited queue w k))
     \<and> (\<forall>w k d. insert k (owed w) \<subseteq> owed (wq_AddAfter queue w k d))"

text \<open>The reconciliation that a round of a worker makes, if any.\<close>

definition attempted ::
  "'w WorkQueue \<Rightarrow> ('w \<Rightarrow> ResourceKey \<Rightarrow> ('e + duration) \<times> 'w) \<Rightarrow> 'w \<Rightarrow> (ResourceKey \<times> ('e + duration)) option" where
  "attempted queue reconcile w =
     (case wq_Get queue w of
        ((Some k, False), w) \<Rightarrow> Some (k, fst (reconcile w k))
      | _ \<Rightarrow> None)"

fun workerRounds ::
  "'w WorkQueue \<Rightarrow> ('w \<Rightarrow> bool) \<Rightarrow> ('w \<Rightarrow> ResourceKey \<Rightarrow> ('e + duration) \<times> 'w) \<Rightarrow> nat \<Rightarrow> 'w \<Rightarrow> 'w" where
  "workerRounds queue cancelled reconcile 0 w = w"
| "workerRounds queue cancelled reconcile (Suc n) w =
     workerRounds queue cancelled reconcile n (snd (runWorkerOnce queue cancelled reconcile w))"

lemma keeps_work_laws:
  assumes "keeps_work queue add owed"
  shows "insert k (owed w) \<subseteq> owed (add w k)"
    and "wq_Get queue w = ((item, shutdown), w') \<Longrightarrow> owed w - (if shutdown then {} else set_option item) \<subseteq> owed w'"
    and "owed w \<subseteq> owed (wq_Done queue w item) \<and> owed w \<subseteq> owed (wq_Forget queue w item)"
    and "insert k (owed w) \<subseteq> owed (wq_AddRateLimited queue w k)"
    and "insert k (owed w) \<subseteq> owed (wq_AddAfter queue w k d)"
  using assms unfolding keeps_work_def by presburger+

lemma keeps_workD:
  assumes "keeps_work queue add owed" "x \<in> owed w"
  shows "x \<in> owed (add w k)"
    and "wq_Get queue w = ((item, shutdown), w') \<Longrightarrow> \<not> (\<not> shutdown \<and> item = Some x) \<Longrightarrow> x \<in> owed w'"
    and "x \<in> owed (wq_Done queue w item)" "x \<in> owed (wq_Forget queue w item)"
    and "x \<in> owed (wq_AddRateLimited queue w k)" "x \<in> owed (wq_AddAfter queue w k d)"
proof -
  note laws = keeps_work_laws [OF assms(1)]
  show "x \<in> owed (add w k)" using laws(1) [of k w] assms(2) by blast
  show "x \<in> owed (wq_Done queue w item)" "x \<in> owed (wq_Forget queue w item)"
    using laws(3) [of w item] assms(2) by blast+
  show "x \<in> owed (wq_AddRateLimited queue w k)" using laws(4) [of k w] assms(2) by blast
  show "x \<in> owed (wq_AddAfter queue w k d)" using laws(5) [of k w d] assms(2) by blast
  assume g: "wq_Get queue w = ((item, shutdown), w')" "\<not> (\<not> shutdown \<and> item = Some x)"
  show "x \<in> owed w'" using laws(2) [OF g(1)] g(2) assms(2) by (auto split: if_splits)
qed

lemma keeps_work_added:
  assumes "keeps_work queue add owed"
  shows "k \<in> owed (add w k)" "k \<in> owed (wq_AddRateLimited queue w k)" "k \<in> owed (wq_AddAfter queue w k d)"
  using keeps_work_laws(1) [OF assms, of k w] keeps_work_laws(4) [OF assms, of k w] keeps_work_laws(5) [OF assms, of k w d]
  by blast+

lemma runItem_keeps:
  assumes "keeps_work queue add owed" "\<And>w k. owed w \<subseteq> owed (snd (reconcile w k))" "x \<in> owed w"
  shows "x \<in> owed (runItem queue cancelled reconcile w item)"
proof (cases item)
  case (Some k)
  obtain r w1 where r: "reconcile w k = (r, w1)" by fastforce
  then have x1: "x \<in> owed w1" using assms(2) [of w k] assms(3) by auto
  note kept = keeps_workD [OF assms(1)]
  show ?thesis
  proof (cases r)
    case (Inl e)
    have "x \<in> owed (if cancelled w1 then w1 else wq_AddRateLimited queue w1 k)" using x1 kept(5) [OF x1, of k] by simp
    from kept(3) [OF this, of "Some k"] show ?thesis by (simp add: runItem_def Some r Inl)
  next
    case (Inr d)
    let ?w = "wq_Forget queue w1 (Some k)"
    have x2: "x \<in> owed ?w" by (rule kept(4) [OF x1])
    have "x \<in> owed (if 0 < d \<and> \<not> cancelled ?w then wq_AddAfter queue ?w k d else ?w)"
      using x2 kept(6) [OF x2, of k d] by simp
    from kept(3) [OF this, of "Some k"] show ?thesis by (simp add: runItem_def Some r Inr Let_def)
  qed
next
  case None
  from keeps_workD(3) [OF assms(1) keeps_workD(4) [OF assms(1,3)]] show ?thesis by (simp add: runItem_def None)
qed

lemma runWorkerOnce_keeps:
  assumes "keeps_work queue add owed" "\<And>w k. owed w \<subseteq> owed (snd (reconcile w k))" "\<And>w. \<not> cancelled w" "x \<in> owed w"
  shows "x \<in> owed (snd (runWorkerOnce queue cancelled reconcile w)) \<or> (\<exists>d. attempted queue reconcile w = Some (x, Inr d))"
proof -
  obtain item shutdown w1 where g: "wq_Get queue w = ((item, shutdown), w1)" by (metis prod.exhaust)
  show ?thesis
  proof (cases "\<not> shutdown \<and> item = Some x")
    case False
    have x1: "x \<in> owed w1" by (rule keeps_workD(2) [OF assms(1,4) g False])
    have "x \<in> owed (runItem queue cancelled reconcile w1 item)" by (rule runItem_keeps [OF assms(1,2) x1])
    then show ?thesis using g x1 by (cases shutdown) (simp_all add: runWorkerOnce_def)
  next
    case True
    obtain r w2 where r: "reconcile w1 x = (r, w2)" by fastforce
    show ?thesis
    proof (cases r)
      case (Inl e)
      have "x \<in> owed (wq_Done queue (wq_AddRateLimited queue w2 x) (Some x))"
        by (rule keeps_workD(3) [OF assms(1) keeps_work_added(2) [OF assms(1)]])
      then show ?thesis using True g r Inl assms(3) by (simp add: runWorkerOnce_def runItem_def)
    next
      case (Inr d)
      then show ?thesis using True g r by (simp add: attempted_def)
    qed
  qed
qed

section \<open>A queue in memory\<close>

text \<open>It shows that a queue can keep its promise: it hands the keys out in order and shuts down when none is left.\<close>

type_synonym 'v queued = "'v \<times> ResourceKey list"

definition mem_add :: "'v queued \<Rightarrow> ResourceKey \<Rightarrow> 'v queued" where
  "mem_add w k = (fst w, snd w @ [k])"

definition mem_owed :: "'v queued \<Rightarrow> ResourceKey set" where
  "mem_owed w = set (snd w)"

definition mem_queue :: "'v queued WorkQueue" where
  "mem_queue =
     \<lparr>wq_Get = (\<lambda>w. case snd w of [] \<Rightarrow> ((None, True), w) | k # ks \<Rightarrow> ((Some k, False), (fst w, ks))),
      wq_Done = (\<lambda>w item. w), wq_Forget = (\<lambda>w item. w), wq_AddRateLimited = mem_add,
      wq_AddAfter = (\<lambda>w k d. mem_add w k)\<rparr>"

lemma mem_queue_keeps: "keeps_work mem_queue mem_add mem_owed"
  by (auto simp: keeps_work_def mem_queue_def mem_add_def mem_owed_def split: list.splits)

definition sample_attempts :: "nat queued \<Rightarrow> ResourceKey \<Rightarrow> (unit + duration) \<times> nat queued" where
  "sample_attempts w k = (if fst w = 0 then Inl () else Inr 0, (Suc (fst w), snd w))"

definition sample_sweeper :: "Answer mem queued ResolutionSweeper" where
  "sample_sweeper =
     \<lparr>sw_store = (\<lambda>(v, q). case ListOpenIncidents mem_mongo v of (r, v') \<Rightarrow> (r, (v', q))), sw_queue = mem_add,
      sw_clusterID = ''c1'', sw_interval = Second\<rparr>"

definition sample_event :: Incident where
  "sample_event = sample_stored\<lparr>inc_Source := (inc_Source sample_stored)\<lparr>src_Kind := ''Event''\<rparr>\<rparr>"

section \<open>Properties\<close>

text \<open>
  C10: No work is lost. However many rounds a worker makes, until shutdown is requested, a key that is
  owed stays owed until a reconciliation of it has succeeded: failures put it back.
\<close>

theorem workers_keep_work:
  assumes "keeps_work queue add owed" "\<And>w k. owed w \<subseteq> owed (snd (reconcile w k))" "\<And>w. \<not> cancelled w" "x \<in> owed w"
  shows "x \<in> owed (workerRounds queue cancelled reconcile n w)
    \<or> (\<exists>i < n. \<exists>d. attempted queue reconcile (workerRounds queue cancelled reconcile i w) = Some (x, Inr d))"
  using assms(4)
proof (induction n arbitrary: w)
  case (Suc n)
  let ?w = "snd (runWorkerOnce queue cancelled reconcile w)"
  show ?case
  proof (cases "x \<in> owed ?w")
    case True
    from Suc.IH [OF this] show ?thesis
      by (metis Suc_less_eq workerRounds.simps(2))
  next
    case False
    then obtain d where "attempted queue reconcile w = Some (x, Inr d)"
      using runWorkerOnce_keeps [where reconcile = reconcile and cancelled = cancelled, OF assms(1-3) Suc.prems] by blast
    then show ?thesis by (intro disjI2 exI [of _ 0]) simp
  qed
qed simp

theorem workers_keep_work_witness:
  "keeps_work mem_queue mem_add (mem_owed :: nat queued \<Rightarrow> _)
   \<and> sample_key \<in> mem_owed (workerRounds mem_queue (\<lambda>w. False) sample_attempts 1 (0, [sample_key]))
   \<and> attempted mem_queue sample_attempts (workerRounds mem_queue (\<lambda>w. False) sample_attempts 1 (0, [sample_key]))
       = Some (sample_key, Inr 0)"
proof -
  have "attempted mem_queue sample_attempts (0, [sample_key]) = Some (sample_key, Inl ())"
    by (simp add: attempted_def mem_queue_def sample_attempts_def)
  moreover have "sample_key \<in> mem_owed (workerRounds mem_queue (\<lambda>w. False) sample_attempts 1 (0, [sample_key]))
    \<or> (\<exists>i < 1. \<exists>d. attempted mem_queue sample_attempts
         (workerRounds mem_queue (\<lambda>w. False) sample_attempts i (0, [sample_key])) = Some (sample_key, Inr d))"
    by (rule workers_keep_work [OF mem_queue_keeps]) (auto simp: mem_owed_def sample_attempts_def)
  ultimately show ?thesis
    by (simp add: mem_queue_keeps)
      (simp add: attempted_def mem_queue_def sample_attempts_def runWorkerOnce_def runItem_def mem_add_def)
qed

lemma sweepAll_keeps:
  assumes "keeps_work queue (sw_queue s) owed" "x \<in> owed w"
  shows "x \<in> owed (sweepAll s incidents w)"
  using assms(2)
proof (induction incidents arbitrary: w)
  case (Cons i incidents)
  then show ?case using keeps_workD(1) [OF assms(1) Cons.prems, of "sweepKey i"] by simp
qed simp

lemma sweepAll_adds:
  assumes "keeps_work queue (sw_queue s) owed" "incident \<in> set incidents" "inc_ClusterID incident = sw_clusterID s"
    "EqualFold (src_Kind (inc_Source incident)) ''Event''"
  shows "sweepKey incident \<in> owed (sweepAll s incidents w)"
  using assms(2) 
proof (induction incidents arbitrary: w)
  case (Cons i incidents)
  then show ?case
    using assms(3,4) sweepAll_keeps [OF assms(1) keeps_work_added(1) [OF assms(1)]] by auto
qed simp

text \<open>
  C12: After a sweep, every open incident of an event in this cluster is owed a reconciliation, under a
  key that leads back to the incident: the reconciler derives from it the incident key that the source
  has in this cluster.
\<close>

theorem sweep_covers_open_events:
  assumes "mongo_server m view" "keeps_work queue (sw_queue s) owed"
    "sw_store s = (\<lambda>(v, q). case ListOpenIncidents m v of (r, v') \<Rightarrow> (r, (v', q)))"
    "SweepOnce s (v, q) = (None, w')" "d \<in> ran (db_incidents (view v))" "id_Status d = IncidentOpen"
    "id_ClusterID d = sw_clusterID s" "EqualFold (src_Kind (inc_Source (incidentFromDocument d))) ''Event''"
  shows "sweepKey (incidentFromDocument d) \<in> owed w'
    \<and> IncidentKey (key_Source (sweepKey (incidentFromDocument d)) (sw_clusterID s))
        = IncidentKey ((inc_Source (incidentFromDocument d))\<lparr>src_ClusterID := sw_clusterID s\<rparr>)"
proof -
  obtain incidents v' where l: "ListOpenIncidents m v = (Inr incidents, v')" "w' = sweepAll s incidents (v', q)"
    using assms(3,4) by (auto simp: SweepOnce_def split: prod.splits sum.splits)
  have "incidentFromDocument d \<in> set incidents"
    using mongo_server.ListOpenIncidents_effect [OF assms(1) l(1)] assms(5,6) by blast
  moreover have "inc_ClusterID (incidentFromDocument d) = sw_clusterID s"
    using assms(7) by (simp add: incidentFromDocument_def)
  ultimately have "sweepKey (incidentFromDocument d) \<in> owed w'"
    using sweepAll_adds [OF assms(2) _ _ assms(8)] l(2) by simp
  then show ?thesis by (simp add: IncidentKey_def key_Source_def sweepKey_def)
qed

theorem sweep_covers_open_events_witness:
  "sweepKey sample_event \<in> mem_owed (snd (SweepOnce sample_sweeper (sample_memory sample_event, [])))"
proof -
  let ?d = "incidentToDocument sample_event None" and ?v = "sample_memory sample_event"
  have fold: "EqualFold ''Event'' ''Event''" by code_simp
  have keeps: "keeps_work mem_queue (sw_queue sample_sweeper) mem_owed"
    using mem_queue_keeps by (simp add: sample_sweeper_def)
  have key: "sweepKey (incidentFromDocument ?d) = sweepKey sample_event"
    by (simp add: sweepKey_def incidentFromDocument_def incidentToDocument_def)
  have run: "SweepOnce sample_sweeper (?v, []) = (None, snd (SweepOnce sample_sweeper (?v, [])))"
    by (simp add: SweepOnce_def sample_sweeper_def ListOpenIncidents_def mem_mongo_def)
  have "sweepKey (incidentFromDocument ?d) \<in> mem_owed (snd (SweepOnce sample_sweeper (?v, [])))"
    by (rule sweep_covers_open_events [OF mem.mongo_server_axioms keeps _ run, THEN conjunct1])
      (simp_all add: sample_sweeper_def fold mem_view_def sample_memory_def by_id_def
        incidentToDocument_def incidentFromDocument_def sample_event_def sample_stored_def)
  then show ?thesis by (simp add: key)
qed

end
