(* ===== verification/Mongo_Indexes.thy ===== *)
theory Mongo_Indexes
  imports Mongo_Server Float64
begin

text \<open>
  The indexes that the store needs, from \<^verbatim>\<open>internal/store/mongo/indexes.go\<close>: their list, the comparison
  of an existing index with a required one, and the start-up check that creates what is missing.
  The collections of the server and their indexes are reached through the driver: \<open>IndexServer\<close> holds
  the calls, and \<open>index_server\<close> the laws that MongoDB documents for them. A direction is an integer
  or a double in BSON, or, for indexes of other kinds, some other value.
\<close>

section \<open>Index specifications\<close>

record indexKey =
  ik_Field :: string
  ik_Direction :: int

record indexSpec =
  ix_Name :: string
  ix_Keys :: "indexKey list"
  ix_Unique :: bool
  ix_TTL :: "duration option"

definition index_on :: "string \<Rightarrow> (string \<times> int) list \<Rightarrow> bool \<Rightarrow> duration option \<Rightarrow> indexSpec" where
  "index_on name keys unique ttl =
     \<lparr>ix_Name = name, ix_Keys = map (\<lambda>(f, d). \<lparr>ik_Field = f, ik_Direction = d\<rparr>) keys, ix_Unique = unique, ix_TTL = ttl\<rparr>"

definition incidentsCollection :: string where
  "incidentsCollection = ''incidents''"

definition snapshotsCollection :: string where
  "snapshotsCollection = ''snapshots''"

definition evaluationsCollection :: string where
  "evaluationsCollection = ''evaluations''"

definition outboxCollection :: string where
  "outboxCollection = ''outbox''"

definition requiredIndexes :: "(string \<times> indexSpec list) list" where
  "requiredIndexes =
     [(incidentsCollection,
       [index_on ''ux_incidents_cluster_id_incident_key'' [(''cluster_id'', 1), (''incident_key'', 1)] True None,
        index_on ''ix_incidents_status_updated_at'' [(''status'', 1), (''updated_at'', - 1)] False None,
        index_on ''ttl_incidents_expires_at'' [(''expires_at'', 1)] False (Some 0)]),
      (snapshotsCollection,
       [index_on ''ux_snapshots_incident_id_content_hash'' [(''incident_id'', 1), (''content_hash'', 1)] True None,
        index_on ''ix_snapshots_incident_id_observed_at'' [(''incident_id'', 1), (''observed_at'', - 1)] False None,
        index_on ''ttl_snapshots_expires_at'' [(''expires_at'', 1)] False (Some 0)]),
      (evaluationsCollection,
       [index_on ''ux_evaluations_identity'' [(''incident_id'', 1), (''snapshot_hash'', 1), (''policy_version'', 1),
          (''rubric_version'', 1), (''provider_config_hash'', 1)] True None,
        index_on ''ix_evaluations_incident_id_created_at'' [(''incident_id'', 1), (''created_at'', - 1)] False None,
        index_on ''ttl_evaluations_expires_at'' [(''expires_at'', 1)] False (Some 0)]),
      (outboxCollection,
       [index_on ''ux_outbox_evaluation_destination_event''
          [(''evaluation_id'', 1), (''destination_id'', 1), (''event_type'', 1)] True None,
        index_on ''ix_outbox_claim'' [(''status'', 1), (''next_attempt_at'', 1), (''lease_until'', 1)] False None,
        index_on ''ix_outbox_evaluation_id'' [(''evaluation_id'', 1)] False None,
        index_on ''ttl_outbox_expires_at'' [(''expires_at'', 1)] False (Some 0)])]"

text \<open>Conversions of doubles to integers truncate; outside the range they give the least integer.\<close>

fun fl_to_int64 :: "float64 \<Rightarrow> int" where
  "fl_to_int64 (Fin q) =
     (let t = (if q < 0 then \<lceil>q\<rceil> else \<lfloor>q\<rfloor>) in if - (2 ^ 63) \<le> t \<and> t < 2 ^ 63 then t else - (2 ^ 63))"
| "fl_to_int64 _ = - (2 ^ 63)"

definition duration_Seconds :: "duration \<Rightarrow> float64" where
  "duration_Seconds d =
     (let sec = sgn d * (\<bar>d\<bar> div Second); nsec = d - sec * Second
      in fl_add (round64 (of_int sec)) (round64 (of_int nsec / 10 ^ 9)))"

datatype bson_value = BsonInt int | BsonInt32 int | BsonInt64 int | BsonDouble float64 | BsonOther

type_synonym bson_doc = "(string \<times> bson_value) list"

definition bsonKeys :: "indexSpec \<Rightarrow> bson_doc" where
  "bsonKeys s = map (\<lambda>k. (ik_Field k, BsonInt (ik_Direction k))) (ix_Keys s)"

record IndexModel =
  im_Keys :: bson_doc
  im_Name :: string
  im_Unique :: bool
  im_ExpireAfterSeconds :: "int option"

definition index_model :: "indexSpec \<Rightarrow> IndexModel" where
  "index_model s =
     \<lparr>im_Keys = bsonKeys s, im_Name = ix_Name s, im_Unique = ix_Unique s,
      im_ExpireAfterSeconds = map_option (\<lambda>ttl. wrap32 (fl_to_int64 (duration_Seconds ttl))) (ix_TTL s)\<rparr>"

record listedIndex =
  li_Name :: string
  li_Key :: bson_doc
  li_Unique :: bool
  li_ExpireAfterSeconds :: "int option"

fun numericDirection :: "bson_value \<Rightarrow> int" where
  "numericDirection (BsonInt n) = n"
| "numericDirection (BsonInt32 n) = n"
| "numericDirection (BsonInt64 n) = n"
| "numericDirection (BsonDouble x) = fl_to_int64 x"
| "numericDirection BsonOther = 0"

definition equalKeys :: "bson_doc \<Rightarrow> bson_doc \<Rightarrow> bool" where
  "equalKeys left right \<longleftrightarrow>
     length left = length right
     \<and> (\<forall>i < length left. fst (left ! i) = fst (right ! i)
          \<and> numericDirection (snd (left ! i)) = numericDirection (snd (right ! i)))"

datatype IndexError =
    IncompatibleKeys string bson_doc
  | IncompatibleUnique string
  | UnexpectedTTL string
  | IncompatibleTTL string
  | IncompatibleName string string
  | ListCollectionsFailed string
  | CreateCollectionFailed string string
  | ListIndexesFailed string
  | CreateIndexFailed string string
  | InCollection string IndexError

definition compareIndex :: "listedIndex \<Rightarrow> indexSpec \<Rightarrow> IndexError option" where
  "compareIndex existing expected =
     (if \<not> equalKeys (li_Key existing) (bsonKeys expected)
      then Some (IncompatibleKeys (ix_Name expected) (li_Key existing))
      else if li_Unique existing \<noteq> ix_Unique expected then Some (IncompatibleUnique (ix_Name expected))
      else case ix_TTL expected of
        None \<Rightarrow> if li_ExpireAfterSeconds existing \<noteq> None then Some (UnexpectedTTL (ix_Name expected)) else None
      | Some ttl \<Rightarrow>
          if li_ExpireAfterSeconds existing \<noteq> Some (fl_to_int64 (duration_Seconds ttl))
          then Some (IncompatibleTTL (ix_Name expected)) else None)"

section \<open>Ensuring the indexes\<close>

record 'w IndexServer =
  ixs_ListCollectionNames :: "'w \<Rightarrow> (string + string list) \<times> 'w"
  ixs_CreateCollection :: "'w \<Rightarrow> string \<Rightarrow> string option \<times> 'w"
  ixs_List :: "'w \<Rightarrow> string \<Rightarrow> (string + listedIndex list) \<times> 'w"
  ixs_CreateOne :: "'w \<Rightarrow> string \<Rightarrow> IndexModel \<Rightarrow> string option \<times> 'w"

text \<open>The last index of a name, as the map built from the list has it.\<close>

definition byName :: "listedIndex list \<Rightarrow> string \<Rightarrow> listedIndex option" where
  "byName current name = find (\<lambda>l. li_Name l = name) (rev current)"

fun ensureEach ::
  "'w IndexServer \<Rightarrow> string \<Rightarrow> listedIndex list \<Rightarrow> indexSpec list \<Rightarrow> 'w \<Rightarrow> IndexError option \<times> 'w" where
  "ensureEach srv c current [] w = (None, w)"
| "ensureEach srv c current (expected # required) w =
     (case byName current (ix_Name expected) of
        Some existing \<Rightarrow>
          (case compareIndex existing expected of
             Some err \<Rightarrow> (Some err, w)
           | None \<Rightarrow> ensureEach srv c current required w)
      | None \<Rightarrow>
          (case find (\<lambda>l. li_Name l \<noteq> ''_id_'' \<and> equalKeys (li_Key l) (bsonKeys expected)) current of
             Some existing \<Rightarrow> (Some (IncompatibleName (ix_Name expected) (li_Name existing)), w)
           | None \<Rightarrow>
               let (created, w) = ixs_CreateOne srv w c (index_model expected)
               in case created of
                    Some err \<Rightarrow> (Some (CreateIndexFailed (ix_Name expected) err), w)
                  | None \<Rightarrow> ensureEach srv c current required w))"

definition ensureCollectionIndexes ::
  "'w IndexServer \<Rightarrow> string \<Rightarrow> indexSpec list \<Rightarrow> 'w \<Rightarrow> IndexError option \<times> 'w" where
  "ensureCollectionIndexes srv c required w =
     (let (listed, w) = ixs_List srv w c
      in case listed of
           Inl err \<Rightarrow> (Some (ListIndexesFailed err), w)
         | Inr current \<Rightarrow> ensureEach srv c current required w)"

definition required_for :: "string \<Rightarrow> indexSpec list" where
  "required_for name = (case map_of requiredIndexes name of Some specs \<Rightarrow> specs | None \<Rightarrow> [])"

fun ensureCollections ::
  "'w IndexServer \<Rightarrow> string list \<Rightarrow> string list \<Rightarrow> 'w \<Rightarrow> IndexError option \<times> 'w" where
  "ensureCollections srv exists [] w = (None, w)"
| "ensureCollections srv exists (name # names) w =
     (let (created, w) = (if name \<in> set exists then (None, w) else ixs_CreateCollection srv w name)
      in case created of
           Some err \<Rightarrow> (Some (CreateCollectionFailed name err), w)
         | None \<Rightarrow>
             let (ensured, w) = ensureCollectionIndexes srv name (required_for name) w
             in case ensured of
                  Some err \<Rightarrow> (Some (InCollection name err), w)
                | None \<Rightarrow> ensureCollections srv exists names w)"

definition ensureIndexes :: "'w IndexServer \<Rightarrow> 'w \<Rightarrow> IndexError option \<times> 'w" where
  "ensureIndexes srv w =
     (let (collections, w) = ixs_ListCollectionNames srv w
      in case collections of
           Inl err \<Rightarrow> (Some (ListCollectionsFailed err), w)
         | Inr exists \<Rightarrow> ensureCollections srv exists (sort (map fst requiredIndexes)) w)"

section \<open>What MongoDB promises\<close>

text \<open>How the server lists an index that was created from a model.\<close>

definition reports :: "listedIndex \<Rightarrow> IndexModel \<Rightarrow> bool" where
  "reports l model \<longleftrightarrow>
     li_Name l = im_Name model \<and> equalKeys (li_Key l) (im_Keys model) \<and> li_Unique l = im_Unique model
     \<and> li_ExpireAfterSeconds l = im_ExpireAfterSeconds model"

text \<open>Names are unique in a collection, listing changes nothing, and creating adds one index or fails.\<close>

locale index_server =
  fixes srv :: "'w IndexServer"
    and indexes :: "'w \<Rightarrow> string \<Rightarrow> listedIndex set"
  assumes names: "inj_on li_Name (indexes w c)"
    and list_collections: "ixs_ListCollectionNames srv w = (r, w') \<Longrightarrow> indexes w' = indexes w"
    and create_collection: "ixs_CreateCollection srv w c = (e, w') \<Longrightarrow> indexes w d \<subseteq> indexes w' d"
    and list_indexes: "ixs_List srv w c = (x, w') \<Longrightarrow>
      indexes w' = indexes w \<and> (\<forall>ls. x = Inr ls \<longrightarrow> set ls = indexes w c)"
    and create_one: "ixs_CreateOne srv w c model = (e, w') \<Longrightarrow>
      if e = None then \<exists>l. reports l model \<and> indexes w' = (indexes w)(c := insert l (indexes w c))
      else indexes w' = indexes w"

definition provides :: "listedIndex set \<Rightarrow> indexSpec \<Rightarrow> bool" where
  "provides ls spec \<longleftrightarrow> (\<exists>l \<in> ls. li_Name l = ix_Name spec \<and> compareIndex l spec = None)"

lemma provides_mono: "provides ls spec \<Longrightarrow> ls \<subseteq> ms \<Longrightarrow> provides ms spec"
  by (auto simp: provides_def)

lemma duration_Seconds_0 [simp]: "duration_Seconds 0 = Fin 0"
  by (simp add: duration_Seconds_def)

text \<open>The times to live that are required, none or zero, survive the conversions.\<close>

definition plain_ttl :: "indexSpec \<Rightarrow> bool" where
  "plain_ttl spec \<longleftrightarrow> ix_TTL spec = None \<or> ix_TTL spec = Some 0"

lemma reports_compare: "reports l (index_model spec) \<Longrightarrow> plain_ttl spec \<Longrightarrow> compareIndex l spec = None"
  by (auto simp: reports_def index_model_def compareIndex_def plain_ttl_def wrap32_def)

lemma required_plain: "\<forall>spec \<in> set (required_for name). plain_ttl spec"
  by (auto simp: required_for_def requiredIndexes_def plain_ttl_def index_on_def split: option.splits if_splits)

lemma byName_Some: "byName current name = Some l \<Longrightarrow> l \<in> set current \<and> li_Name l = name"
  unfolding byName_def find_Some_iff by (metis nth_mem set_rev)

lemma byName_unique:
  assumes "l \<in> set current" "inj_on li_Name (set current)"
  shows "byName current (li_Name l) = Some l"
proof (cases "byName current (li_Name l)")
  case None
  then show ?thesis using assms(1) by (auto simp: byName_def find_None_iff)
next
  case (Some k)
  then show ?thesis using byName_Some [OF Some] assms by (auto dest: inj_onD)
qed

context index_server
begin

lemma ensureEach_provides:
  assumes "ensureEach srv c current required w = (e, w')" "\<forall>spec \<in> set required. plain_ttl spec"
    "set current \<subseteq> indexes w c"
  shows "(\<forall>d. indexes w d \<subseteq> indexes w' d)
    \<and> (e = None \<longrightarrow> (\<forall>spec \<in> set required. provides (indexes w' c) spec))"
  using assms
proof (induction required arbitrary: w)
  case (Cons expected required)
  show ?case
  proof (cases "byName current (ix_Name expected)")
    case (Some existing)
    note l = byName_Some [OF Some]
    show ?thesis
    proof (cases "compareIndex existing expected")
      case None
      have IH: "\<forall>d. indexes w d \<subseteq> indexes w' d" "e = None \<longrightarrow> (\<forall>spec \<in> set required. provides (indexes w' c) spec)"
        using Cons.IH [of w] Cons.prems Some None by auto
      have "provides (indexes w c) expected" using l None Cons.prems(3) by (auto simp: provides_def)
      then show ?thesis using IH provides_mono by (metis set_ConsD)
    qed (use Cons.prems Some in auto)
  next
    case None
    show ?thesis
    proof (cases "find (\<lambda>l. li_Name l \<noteq> ''_id_'' \<and> equalKeys (li_Key l) (bsonKeys expected)) current")
      case Nope: None
      obtain created w1 where c: "ixs_CreateOne srv w c (index_model expected) = (created, w1)" by fastforce
      show ?thesis
      proof (cases created)
        case Ok: None
        from create_one [OF c] Ok obtain l where l: "reports l (index_model expected)"
          "indexes w1 = (indexes w)(c := insert l (indexes w c))"
          by auto
        have rest: "ensureEach srv c current required w1 = (e, w')" "set current \<subseteq> indexes w1 c"
          using Cons.prems None Nope c Ok l(2) by auto
        have IH: "\<forall>d. indexes w1 d \<subseteq> indexes w' d" "e = None \<longrightarrow> (\<forall>spec \<in> set required. provides (indexes w' c) spec)"
          using Cons.IH [OF rest(1) _ rest(2)] Cons.prems(2) by auto
        have "provides (indexes w1 c) expected"
          using l reports_compare [OF l(1)] Cons.prems(2) by (auto simp: provides_def reports_def index_model_def)
        moreover have "\<forall>d. indexes w d \<subseteq> indexes w1 d" using l(2) by auto
        ultimately show ?thesis using IH provides_mono by (metis (no_types, lifting) order_trans set_ConsD)
      next
        case (Some err)
        then show ?thesis using create_one [OF c] Cons.prems None Nope c by auto
      qed
    qed (use Cons.prems None in auto)
  qed
qed auto

lemma ensureCollections_provides:
  assumes "ensureCollections srv exists names w = (e, w')"
  shows "(\<forall>d. indexes w d \<subseteq> indexes w' d)
    \<and> (e = None \<longrightarrow> (\<forall>name \<in> set names. \<forall>spec \<in> set (required_for name). provides (indexes w' name) spec))"
  using assms
proof (induction names arbitrary: w)
  case (Cons name names)
  obtain created w1 where c: "(if name \<in> set exists then (None, w) else ixs_CreateCollection srv w name) = (created, w1)"
    by (metis surj_pair)
  have 1: "indexes w d \<subseteq> indexes w1 d" for d
    using c create_collection by (auto split: if_splits)
  show ?case
  proof (cases created)
    case None
    obtain listed w2 where l: "ixs_List srv w1 name = (listed, w2)" by fastforce
    note 2 = list_indexes [OF l]
    obtain ensured w3 where n: "ensureCollectionIndexes srv name (required_for name) w1 = (ensured, w3)" by fastforce
    have 3: "(\<forall>d. indexes w1 d \<subseteq> indexes w3 d)
        \<and> (ensured = None \<longrightarrow> (\<forall>spec \<in> set (required_for name). provides (indexes w3 name) spec))"
    proof (cases listed)
      case (Inr current)
      then have "ensureEach srv name current (required_for name) w2 = (ensured, w3)"
        using n l by (simp add: ensureCollectionIndexes_def)
      from ensureEach_provides [OF this required_plain] 2 Inr show ?thesis by auto
    qed (use n l 2 in \<open>auto simp: ensureCollectionIndexes_def\<close>)
    show ?thesis
    proof (cases ensured)
      case Ok: None
      have rest: "ensureCollections srv exists names w3 = (e, w')" using Cons.prems c None n Ok by simp
      have later: "\<forall>d. indexes w3 d \<subseteq> indexes w' d" using Cons.IH [OF rest] by blast
      have "provides (indexes w' name) spec" if "spec \<in> set (required_for name)" for spec
        by (rule provides_mono [of "indexes w3 name"]) (use 3 Ok later that in auto)
      moreover have "\<forall>d. indexes w d \<subseteq> indexes w' d" using 1 3 later by blast
      ultimately show ?thesis using Cons.IH [OF rest] by auto
    qed (use Cons.prems c None n 1 3 in auto)
  qed (use Cons.prems c 1 in auto)
qed auto

text \<open>
  A run over collections that provide everything fails only where the server does, since the names
  are unique.
\<close>

lemma ensureEach_settled:
  assumes "\<forall>spec \<in> set required. provides (set current) spec" "inj_on li_Name (set current)"
  shows "ensureEach srv c current required w = (None, w)"
  using assms(1)
proof (induction required)
  case (Cons expected required)
  then obtain l where l: "l \<in> set current" "li_Name l = ix_Name expected" "compareIndex l expected = None"
    by (auto simp: provides_def)
  then show ?case using Cons byName_unique [OF l(1) assms(2)] by simp
qed simp

lemma ensureCollectionIndexes_settled:
  assumes "\<forall>spec \<in> set required. provides (indexes w c) spec"
    "ensureCollectionIndexes srv c required w = (e, w')"
  shows "indexes w' = indexes w \<and> (\<forall>err. e = Some err \<longrightarrow> (\<exists>x. err = ListIndexesFailed x))"
proof -
  obtain listed w1 where l: "ixs_List srv w c = (listed, w1)" by fastforce
  note 1 = list_indexes [OF l]
  show ?thesis
  proof (cases listed)
    case (Inr current)
    then have "set current = indexes w c" "inj_on li_Name (set current)" using 1 names by auto
    from ensureEach_settled [OF _ this(2)] this(1) assms Inr l 1 show ?thesis
      by (auto simp: ensureCollectionIndexes_def)
  qed (use assms(2) l 1 in \<open>auto simp: ensureCollectionIndexes_def\<close>)
qed

lemma ensureCollections_settled:
  assumes "ensureCollections srv exists names w = (e, w')"
    "\<forall>name \<in> set names. \<forall>spec \<in> set (required_for name). provides (indexes w name) spec"
  shows "\<forall>err. e = Some err \<longrightarrow>
    (\<exists>name x. err = CreateCollectionFailed name x \<or> err = InCollection name (ListIndexesFailed x))"
  using assms
proof (induction names arbitrary: w)
  case (Cons name names)
  obtain created w1 where c: "(if name \<in> set exists then (None, w) else ixs_CreateCollection srv w name) = (created, w1)"
    by (metis surj_pair)
  show ?case
  proof (cases created)
    case None
    have 1: "indexes w d \<subseteq> indexes w1 d" for d
      using c create_collection by (auto split: if_splits)
    have given: "provides (indexes w1 n) spec" if "n \<in> set (name # names)" "spec \<in> set (required_for n)" for n spec
      by (rule provides_mono [OF _ 1]) (use Cons.prems(2) that in blast)
    obtain ensured w2 where n: "ensureCollectionIndexes srv name (required_for name) w1 = (ensured, w2)" by fastforce
    have "\<forall>spec \<in> set (required_for name). provides (indexes w1 name) spec" using given by simp
    note 2 = ensureCollectionIndexes_settled [OF this n]
    show ?thesis
    proof (cases ensured)
      case Ok: None
      have "ensureCollections srv exists names w2 = (e, w')" using Cons.prems(1) c None n Ok by simp
      from Cons.IH [OF this] given 2 show ?thesis by auto
    qed (use Cons.prems(1) c None n 2 in auto)
  qed (use Cons.prems(1) c in auto)
qed simp

end

section \<open>Properties\<close>

lemma required_names: "name \<in> set (sort (map fst requiredIndexes)) \<longleftrightarrow> name \<in> fst ` set requiredIndexes"
  by simp


section \<open>An in-memory server\<close>

text \<open>Indexes with their collections, the newest first; a name is taken once per collection.\<close>

type_synonym index_memory = "(string \<times> listedIndex) list"

definition named :: "index_memory \<Rightarrow> ((string \<times> string) \<times> listedIndex) list" where
  "named w = map (\<lambda>(c, l). ((c, li_Name l), l)) w"

definition memory_indexes :: "index_memory IndexServer" where
  "memory_indexes =
     \<lparr>ixs_ListCollectionNames = (\<lambda>w. (Inr (map fst w), w)),
      ixs_CreateCollection = (\<lambda>w c. (None, w)),
      ixs_List = (\<lambda>w c. (Inr (map snd (filter (\<lambda>p. fst (fst p) = c) (AList.clearjunk (named w)))), w)),
      ixs_CreateOne = (\<lambda>w c model.
        if map_of (named w) (c, im_Name model) \<noteq> None then (Some ''index exists'', w)
        else (None, (c, \<lparr>li_Name = im_Name model, li_Key = im_Keys model, li_Unique = im_Unique model,
          li_ExpireAfterSeconds = im_ExpireAfterSeconds model\<rparr>) # w))\<rparr>"

definition memory_view :: "index_memory \<Rightarrow> string \<Rightarrow> listedIndex set" where
  "memory_view w c = {l. map_of (named w) (c, li_Name l) = Some l}"

lemma named_name: "((c, n), l) \<in> set (named w) \<Longrightarrow> n = li_Name l"
  by (auto simp: named_def)

lemma listed_view:
  "set (map snd (filter (\<lambda>p. fst (fst p) = c) (AList.clearjunk (named w)))) = memory_view w c"
proof -
  have kept: "((c, n), l) \<in> set (AList.clearjunk (named w)) \<longleftrightarrow> map_of (named w) (c, n) = Some l" for n l
    by (metis distinct_clearjunk map_of_clearjunk map_of_eq_Some_iff)
  have named: "map_of (named w) (c, n) = Some l \<Longrightarrow> n = li_Name l" for n l
    using map_of_SomeD named_name by fast
  show ?thesis
  proof (rule set_eqI)
    fix l
    have "l \<in> set (map snd (filter (\<lambda>p. fst (fst p) = c) (AList.clearjunk (named w))))
        \<longleftrightarrow> (\<exists>n. ((c, n), l) \<in> set (AList.clearjunk (named w)))"
      by force
    also have "\<dots> \<longleftrightarrow> l \<in> memory_view w c" unfolding kept memory_view_def using named by blast
    finally show "l \<in> set (map snd (filter (\<lambda>p. fst (fst p) = c) (AList.clearjunk (named w)))) \<longleftrightarrow> l \<in> memory_view w c" .
  qed
qed

lemma memory_view_Cons:
  assumes "map_of (named w) (c, li_Name l) = None"
  shows "memory_view ((c, l) # w) = (memory_view w)(c := insert l (memory_view w c))"
proof (intro ext set_eqI)
  fix d k
  show "k \<in> memory_view ((c, l) # w) d \<longleftrightarrow> k \<in> ((memory_view w)(c := insert l (memory_view w c))) d"
    using assms by (cases "(d, li_Name k) = (c, li_Name l)") (auto simp: memory_view_def named_def)
qed

lemma memory_create:
  assumes "ixs_CreateOne memory_indexes w c model = (e, w')"
  shows "if e = None
    then \<exists>l. reports l model \<and> memory_view w' = (memory_view w)(c := insert l (memory_view w c))
    else memory_view w' = memory_view w"
proof (cases "map_of (named w) (c, im_Name model)")
  case None
  let ?l = "\<lparr>li_Name = im_Name model, li_Key = im_Keys model, li_Unique = im_Unique model,
    li_ExpireAfterSeconds = im_ExpireAfterSeconds model\<rparr>"
  have "e = None" "w' = (c, ?l) # w" using assms None by (simp_all add: memory_indexes_def)
  moreover have "reports ?l model" by (simp add: reports_def equalKeys_def)
  ultimately show ?thesis using memory_view_Cons [of w c ?l] None by auto
next
  case (Some l)
  then show ?thesis using assms by (auto simp: memory_indexes_def)
qed

interpretation memory_ix: index_server memory_indexes memory_view
proof
  fix w c
  show "inj_on li_Name (memory_view w c)" by (rule inj_onI) (metis (mono_tags) mem_Collect_eq memory_view_def option.inject)
next
  fix w c x w'
  assume "ixs_List memory_indexes w c = (x, w')"
  then have "x = Inr (map snd (filter (\<lambda>p. fst (fst p) = c) (AList.clearjunk (named w))))" "w' = w"
    by (auto simp: memory_indexes_def)
  then show "memory_view w' = memory_view w \<and> (\<forall>ls. x = Inr ls \<longrightarrow> set ls = memory_view w c)"
    using listed_view by blast
next
  fix w c model e w'
  show "ixs_CreateOne memory_indexes w c model = (e, w') \<Longrightarrow> if e = None
      then \<exists>l. reports l model \<and> memory_view w' = (memory_view w)(c := insert l (memory_view w c))
      else memory_view w' = memory_view w"
    by (rule memory_create)
qed (simp_all add: memory_indexes_def)

text \<open>On an empty server the check creates everything.\<close>

lemma fresh_memory: "fst (ensureIndexes memory_indexes []) = None"
  by code_simp


end
