(* ===== verification/Provider_Retry.thy ===== *)
theory Provider_Retry
  imports Go_Prelude "HOL-Library.Signed_Division"
begin

text \<open>
  Classified provider failures and the retry loop, from \<^verbatim>\<open>internal/provider/retry.go\<close>.
  A context is what it tells about its end in a world; with a timeout it ends also when its clock
  reaches the deadline. The operation, the sleeper and the jitter act on the world. A panic is an
  outcome of its own.
\<close>

section \<open>Failures\<close>

datatype ErrorKind =
    ErrorKindTransport | ErrorKindTimeout | ErrorKindRateLimited | ErrorKindServer | ErrorKindMalformedRequest
  | ErrorKindAuthentication | ErrorKindAuthorization | ErrorKindPaymentRequired | ErrorKindPayloadTooLarge
  | ErrorKindUnsupportedModel | ErrorKindPermanent

fun errorKindText :: "ErrorKind \<Rightarrow> string" where
  "errorKindText ErrorKindTransport = ''transport''"
| "errorKindText ErrorKindTimeout = ''timeout''"
| "errorKindText ErrorKindRateLimited = ''rate_limited''"
| "errorKindText ErrorKindServer = ''server''"
| "errorKindText ErrorKindMalformedRequest = ''malformed_request''"
| "errorKindText ErrorKindAuthentication = ''authentication''"
| "errorKindText ErrorKindAuthorization = ''authorization''"
| "errorKindText ErrorKindPaymentRequired = ''payment_required''"
| "errorKindText ErrorKindPayloadTooLarge = ''payload_too_large''"
| "errorKindText ErrorKindUnsupportedModel = ''unsupported_model''"
| "errorKindText ErrorKindPermanent = ''permanent''"

record HTTPError =
  he_Operation :: string
  he_StatusCode :: int
  he_Kind :: ErrorKind
  he_Retryable :: bool
  he_RetryAfterDelay :: duration

text \<open>The errors of a provider call: classified, the end of the context, or any other text.\<close>

datatype ProviderError = HTTPFailure HTTPError | ContextCanceled | ContextDeadlineExceeded | PlainError string

definition HTTPError_text :: "HTTPError \<Rightarrow> string" where
  "HTTPError_text e =
     ''provider '' @ he_Operation e @ '' failed: '' @ errorKindText (he_Kind e)
     @ (if he_StatusCode e \<noteq> 0 then '' (HTTP '' @ FormatInt (he_StatusCode e) @ '')'' else [])"

definition ClassifyHTTPStatus :: "int \<Rightarrow> ErrorKind \<times> bool" where
  "ClassifyHTTPStatus status =
     (if status = 408 then (ErrorKindTimeout, True)
      else if status = 429 then (ErrorKindRateLimited, True)
      else if status \<in> {500, 502, 503, 524, 529} then (ErrorKindServer, True)
      else if status = 400 then (ErrorKindMalformedRequest, False)
      else if status = 401 then (ErrorKindAuthentication, False)
      else if status = 403 then (ErrorKindAuthorization, False)
      else if status = 402 then (ErrorKindPaymentRequired, False)
      else if status = 413 then (ErrorKindPayloadTooLarge, False)
      else if status = 422 then (ErrorKindUnsupportedModel, False)
      else (ErrorKindPermanent, False))"

definition NewHTTPError :: "string \<Rightarrow> int \<Rightarrow> duration \<Rightarrow> HTTPError" where
  "NewHTTPError operation status retryAfter =
     (let (kind, retryable) = ClassifyHTTPStatus status
      in \<lparr>he_Operation = operation, he_StatusCode = status, he_Kind = kind, he_Retryable = retryable,
          he_RetryAfterDelay = (if retryAfter < 0 then 0 else retryAfter)\<rparr>)"

definition NewTransportError :: "string \<Rightarrow> ProviderError \<Rightarrow> ProviderError" where
  "NewTransportError operation err =
     (case err of
        ContextCanceled \<Rightarrow> ContextCanceled
      | ContextDeadlineExceeded \<Rightarrow> ContextDeadlineExceeded
      | _ \<Rightarrow> HTTPFailure \<lparr>he_Operation = operation, he_StatusCode = 0, he_Kind = ErrorKindTransport,
               he_Retryable = True, he_RetryAfterDelay = 0\<rparr>)"

fun provider_IsRetryable :: "ProviderError \<Rightarrow> bool" where
  "provider_IsRetryable (HTTPFailure e) = he_Retryable e"
| "provider_IsRetryable _ = False"

section \<open>The retry loop\<close>

type_synonym 'w Context = "'w \<Rightarrow> ProviderError option"

definition WithTimeout :: "('w \<Rightarrow> gotime) \<Rightarrow> 'w Context \<Rightarrow> gotime \<Rightarrow> 'w Context" where
  "WithTimeout clock ctx deadline w =
     (case ctx w of Some err \<Rightarrow> Some err | None \<Rightarrow> if deadline \<le> clock w then Some ContextDeadlineExceeded else None)"

record 'w RetryPolicy =
  rp_MaxAttempts :: int
  rp_InitialBackoff :: duration
  rp_MaxBackoff :: duration
  rp_MaxRetryAfter :: duration
  rp_TotalTimeout :: duration
  rp_Sleep :: "('w Context \<Rightarrow> 'w \<Rightarrow> duration \<Rightarrow> ProviderError option \<times> 'w) option"
  rp_Jitter :: "('w \<Rightarrow> duration \<Rightarrow> duration \<times> 'w) option"

definition policy_validate :: "'w RetryPolicy \<Rightarrow> string option" where
  "policy_validate p =
     (if rp_MaxAttempts p \<le> 0 then Some ''retry max attempts must be positive''
      else if rp_InitialBackoff p \<le> 0 then Some ''retry initial backoff must be positive''
      else if rp_MaxBackoff p < rp_InitialBackoff p then Some ''retry max backoff must be at least initial backoff''
      else if rp_MaxRetryAfter p < 0 then Some ''retry max Retry-After must not be negative''
      else if rp_TotalTimeout p < 0 then Some ''retry total timeout must not be negative''
      else if rp_Sleep p = None then Some ''retry sleeper is required''
      else None)"

fun policy_backoff_loop :: "duration \<Rightarrow> nat \<Rightarrow> duration \<Rightarrow> duration" where
  "policy_backoff_loop maxBackoff 0 delay = delay"
| "policy_backoff_loop maxBackoff (Suc n) delay =
     (if maxBackoff sdiv 2 \<le> delay then maxBackoff
      else policy_backoff_loop maxBackoff n (wrap64 (delay * 2)))"

definition policy_backoff :: "'w RetryPolicy \<Rightarrow> 'w \<Rightarrow> int \<Rightarrow> duration \<times> 'w" where
  "policy_backoff p w failedAttempt =
     (let delay = policy_backoff_loop (rp_MaxBackoff p) (nat (failedAttempt - 1)) (rp_InitialBackoff p);
          (delay, w) = (case rp_Jitter p of None \<Rightarrow> (delay, w) | Some jitter \<Rightarrow> jitter w delay);
          delay = (if delay < 0 then 0 else delay)
      in (if rp_MaxBackoff p < delay then rp_MaxBackoff p else delay, w))"

definition retryDelay :: "'w RetryPolicy \<Rightarrow> ProviderError \<Rightarrow> duration \<Rightarrow> duration" where
  "retryDelay p err delay =
     (case err of
        HTTPFailure e \<Rightarrow>
          if 0 < he_RetryAfterDelay e
          then (if 0 < rp_MaxRetryAfter p \<and> rp_MaxRetryAfter p < he_RetryAfterDelay e
                then rp_MaxRetryAfter p else he_RetryAfterDelay e)
          else delay
      | _ \<Rightarrow> delay)"

datatype RetryOutcome = Returned int "ProviderError option" | Panicked string

function retryLoop ::
  "'w RetryPolicy \<Rightarrow> ('w Context \<Rightarrow> 'w \<Rightarrow> duration \<Rightarrow> ProviderError option \<times> 'w) \<Rightarrow> 'w Context \<Rightarrow>
   ('w Context \<Rightarrow> 'w \<Rightarrow> int \<Rightarrow> ProviderError option \<times> 'w) \<Rightarrow> int \<Rightarrow> 'w \<Rightarrow> RetryOutcome \<times> 'w" where
  "retryLoop p sleep ctx operation attempt w =
     (if rp_MaxAttempts p < attempt then (Panicked ''unreachable'', w)
      else case ctx w of
        Some err \<Rightarrow> (Returned (attempt - 1) (Some err), w)
      | None \<Rightarrow>
          let (result, w) = operation ctx w attempt
          in case result of
               None \<Rightarrow> (Returned attempt None, w)
             | Some err \<Rightarrow>
                 (case ctx w of
                    Some contextErr \<Rightarrow> (Returned attempt (Some contextErr), w)
                  | None \<Rightarrow>
                      if \<not> provider_IsRetryable err \<or> attempt = rp_MaxAttempts p
                      then (Returned attempt (Some err), w)
                      else let (delay, w) = policy_backoff p w attempt;
                               (slept, w) = sleep ctx w (retryDelay p err delay)
                           in case slept of
                                Some sleepErr \<Rightarrow> (Returned attempt (Some sleepErr), w)
                              | None \<Rightarrow> retryLoop p sleep ctx operation (attempt + 1) w))"
  by pat_completeness auto
termination
  by (relation "measure (\<lambda>(p, _, _, _, attempt, _). nat (rp_MaxAttempts p + 1 - attempt))") auto

declare retryLoop.simps [simp del]

definition Retry ::
  "('w \<Rightarrow> gotime) \<Rightarrow> 'w Context \<Rightarrow> 'w RetryPolicy \<Rightarrow>
   ('w Context \<Rightarrow> 'w \<Rightarrow> int \<Rightarrow> ProviderError option \<times> 'w) option \<Rightarrow> 'w \<Rightarrow> RetryOutcome \<times> 'w" where
  "Retry clock ctx p operation w =
     (case (policy_validate p, rp_Sleep p, operation) of
        (Some err, _, _) \<Rightarrow> (Returned 0 (Some (PlainError err)), w)
      | (None, Some sleep, Some operation) \<Rightarrow>
          let ctx = (if 0 < rp_TotalTimeout p then WithTimeout clock ctx (clock w + rp_TotalTimeout p) else ctx)
          in retryLoop p sleep ctx operation 1 w
      | _ \<Rightarrow> (Returned 0 (Some (PlainError ''retry operation is required'')), w))"

section \<open>Properties\<close>

text \<open>What a run logs: the attempts begun with their results, and the delays slept.\<close>

definition logs ::
  "('w \<Rightarrow> (int \<times> ProviderError option) list) \<Rightarrow> ('w \<Rightarrow> duration list) \<Rightarrow> 'w RetryPolicy \<Rightarrow>
   ('w Context \<Rightarrow> 'w \<Rightarrow> int \<Rightarrow> ProviderError option \<times> 'w) \<Rightarrow> bool" where
  "logs begun slept p operation \<longleftrightarrow>
     (\<forall>ctx w a. begun (snd (operation ctx w a)) = begun w @ [(a, fst (operation ctx w a))]
        \<and> slept (snd (operation ctx w a)) = slept w)
     \<and> (\<forall>sleep ctx w d. rp_Sleep p = Some sleep \<longrightarrow>
          begun (snd (sleep ctx w d)) = begun w \<and> slept (snd (sleep ctx w d)) = slept w @ [d])
     \<and> (\<forall>jitter w d. rp_Jitter p = Some jitter \<longrightarrow>
          begun (snd (jitter w d)) = begun w \<and> slept (snd (jitter w d)) = slept w)"

lemma logsD:
  assumes "logs begun slept p operation"
  shows "operation ctx w a = (r, w') \<Longrightarrow> begun w' = begun w @ [(a, r)] \<and> slept w' = slept w"
    and "rp_Sleep p = Some sleep \<Longrightarrow> sleep ctx w d = (e, w') \<Longrightarrow> begun w' = begun w \<and> slept w' = slept w @ [d]"
    and "rp_Jitter p = Some jitter \<Longrightarrow> jitter w d = (d', w') \<Longrightarrow> begun w' = begun w \<and> slept w' = slept w"
  using assms unfolding logs_def by (metis fst_conv snd_conv)+

definition delay_ok :: "'w RetryPolicy \<Rightarrow> duration \<Rightarrow> bool" where
  "delay_ok p d \<longleftrightarrow> 0 \<le> d \<and> (0 < rp_MaxRetryAfter p \<longrightarrow> d \<le> max (rp_MaxBackoff p) (rp_MaxRetryAfter p))"

lemma policy_backoff_bounds:
  assumes "policy_backoff p w a = (d, w')" "policy_validate p = None"
  shows "0 \<le> d" "d \<le> rp_MaxBackoff p"
  using assms by (auto simp: policy_backoff_def policy_validate_def Let_def split: option.splits prod.splits if_splits)

lemma retryDelay_ok:
  assumes "0 \<le> d" "d \<le> rp_MaxBackoff p"
  shows "delay_ok p (retryDelay p err d)"
  using assms by (auto simp: retryDelay_def delay_ok_def split: ProviderError.splits)

lemma policy_backoff_logs:
  assumes "logs begun slept p operation" "policy_backoff p w a = (d, w')"
  shows "begun w' = begun w \<and> slept w' = slept w"
proof (cases "rp_Jitter p")
  case None
  then show ?thesis using assms(2) by (auto simp: policy_backoff_def Let_def)
next
  case (Some jitter)
  obtain d1 w1 where j: "jitter w (policy_backoff_loop (rp_MaxBackoff p) (nat (a - 1)) (rp_InitialBackoff p)) = (d1, w1)"
    by fastforce
  then have "w' = w1" using assms(2) Some by (auto simp: policy_backoff_def Let_def)
  then show ?thesis using logsD(3) [OF assms(1) Some j] by simp
qed

text \<open>
  The attempts \<open>rs\<close> of a run from \<open>attempt\<close> on: numbered in order, only the last of them not a retryable
  failure, and the outcome a success exactly when the last one was.
\<close>

definition attempts_ok ::
  "'w RetryPolicy \<Rightarrow> int \<Rightarrow> int \<Rightarrow> (int \<times> ProviderError option) list \<Rightarrow> ProviderError option \<Rightarrow> bool" where
  "attempts_ok p attempt n rs err \<longleftrightarrow>
     n = attempt - 1 + int (length rs) \<and> n \<le> rp_MaxAttempts p \<and> map fst rs = [attempt..n]
     \<and> (\<forall>r \<in> set (butlast rs). \<exists>e. snd r = Some e \<and> provider_IsRetryable e)
     \<and> (err = None \<longleftrightarrow> rs \<noteq> [] \<and> snd (last rs) = None)"

lemma attempts_ok_Cons:
  assumes "attempts_ok p (attempt + 1) n rs err" "provider_IsRetryable e"
  shows "attempts_ok p attempt n ((attempt, Some e) # rs) err"
  using assms by (auto simp: attempts_ok_def upto.simps [of attempt])

lemma attempts_ok_one:
  "attempt \<le> rp_MaxAttempts p \<Longrightarrow> (err = None \<longleftrightarrow> r = None) \<Longrightarrow> attempts_ok p attempt attempt [(attempt, r)] err"
  by (simp add: attempts_ok_def)

lemma retryLoop_log:
  assumes "retryLoop p sleep ctx operation attempt w = (out, w')" "logs begun slept p operation"
    "rp_Sleep p = Some sleep" "policy_validate p = None" "attempt \<le> rp_MaxAttempts p"
  shows "\<exists>n err rs ds. out = Returned n err \<and> begun w' = begun w @ rs \<and> slept w' = slept w @ ds
    \<and> attempts_ok p attempt n rs err \<and> (\<forall>d \<in> set ds. delay_ok p d)"
  using assms(1,5)
proof (induction "nat (rp_MaxAttempts p - attempt)" arbitrary: attempt w rule: less_induct)
  case less
  note unfold = less.prems(1) [unfolded retryLoop.simps [of p sleep ctx operation attempt w]]
  show ?case
  proof (cases "ctx w")
    case (Some e)
    then have "out = Returned (attempt - 1) (Some e)" "w' = w" using unfold less.prems(2) by auto
    moreover have "attempts_ok p attempt (attempt - 1) [] (Some e)" using less.prems(2) by (simp add: attempts_ok_def)
    ultimately show ?thesis by fastforce
  next
    case None
    obtain r w1 where op: "operation ctx w attempt = (r, w1)" by fastforce
    note log1 = logsD(1) [OF assms(2) op]
    show ?thesis
    proof (cases "r = None \<or> ctx w1 \<noteq> None \<or> \<not> provider_IsRetryable (the r) \<or> attempt = rp_MaxAttempts p")
      case True
      then obtain err where "out = Returned attempt err" "w' = w1" "err = None \<longleftrightarrow> r = None"
        using unfold less.prems(2) None op by (auto split: option.splits if_splits)
      then show ?thesis
        using attempts_ok_one [OF less.prems(2), of err r] log1 by (intro exI [of _ attempt] exI [of _ err]
          exI [of _ "[(attempt, r)]"] exI [of _ "[]"]) simp
    next
      case False
      then obtain e where e: "r = Some e" "ctx w1 = None" "provider_IsRetryable e" "attempt < rp_MaxAttempts p"
        using less.prems(2) by auto
      obtain d w2 where d: "policy_backoff p w1 attempt = (d, w2)" by fastforce
      obtain s w3 where s: "sleep ctx w2 (retryDelay p e d) = (s, w3)" by fastforce
      note log2 = policy_backoff_logs [OF assms(2) d] and log3 = logsD(2) [OF assms(2,3) s]
      have ok: "delay_ok p (retryDelay p e d)"
        by (rule retryDelay_ok [OF policy_backoff_bounds [OF d assms(4)]])
      have logged: "begun w3 = begun w @ [(attempt, Some e)]" "slept w3 = slept w @ [retryDelay p e d]"
        using log1 log2 log3 e(1) by auto
      show ?thesis
      proof (cases s)
        case (Some se)
        then have "out = Returned attempt (Some se)" "w' = w3" using unfold less.prems(2) None op e d s by auto
        then show ?thesis
          using attempts_ok_one [OF less.prems(2), of "Some se" "Some e"] logged ok by fastforce
      next
        case None': None
        then have rest: "retryLoop p sleep ctx operation (attempt + 1) w3 = (out, w')"
          using unfold less.prems(2) None op e d s by auto
        from less.hyps [OF _ rest] e(4) obtain n err rs ds where "out = Returned n err"
          "begun w' = begun w3 @ rs" "slept w' = slept w3 @ ds" "attempts_ok p (attempt + 1) n rs err"
          "\<forall>d \<in> set ds. delay_ok p d"
          by auto
        then show ?thesis
          using attempts_ok_Cons [OF _ e(3)] logged ok
          by (intro exI [of _ n] exI [of _ err] exI [of _ "(attempt, Some e) # rs"] exI [of _ "retryDelay p e d # ds"]) auto
      qed
    qed
  qed
qed


text \<open>A provider that is busy twice and then answers.\<close>

record retry_world =
  rw_begun :: "(int \<times> ProviderError option) list"
  rw_slept :: "duration list"

definition sample_policy :: "retry_world RetryPolicy" where
  "sample_policy =
     \<lparr>rp_MaxAttempts = 3, rp_InitialBackoff = 250 * Millisecond, rp_MaxBackoff = 2 * Second,
      rp_MaxRetryAfter = 5 * Second, rp_TotalTimeout = 0,
      rp_Sleep = Some (\<lambda>ctx w d. (None, w\<lparr>rw_slept := rw_slept w @ [d]\<rparr>)), rp_Jitter = None\<rparr>"

definition sample_operation :: "retry_world Context \<Rightarrow> retry_world \<Rightarrow> int \<Rightarrow> ProviderError option \<times> retry_world" where
  "sample_operation ctx w a =
     (let r = (if a < 3 then Some (HTTPFailure (NewHTTPError ''request'' 429 (10 * Second))) else None)
      in (r, w\<lparr>rw_begun := rw_begun w @ [(a, r)]\<rparr>))"


end
