(* ===== verification/Go_URL.thy ===== *)
theory Go_URL
  imports Go_JSON
begin

text \<open>
  What the sources use of package \<open>net/url\<close>: parsing of references and of request URIs, the host
  name of a URL and its string form. Errors carry no detail that the sources look at, so a failed
  parse is \<^term>\<open>None\<close>. User information is a name with an optional password.
\<close>

section \<open>Escaping\<close>

datatype encoding = encodePath | encodeHost | encodeZone | encodeUserPassword | encodeFragment

definition alnum :: "char \<Rightarrow> bool" where
  "alnum c \<longleftrightarrow>
     (CHR ''a'' \<le> c \<and> c \<le> CHR ''z'') \<or> (CHR ''A'' \<le> c \<and> c \<le> CHR ''Z'') \<or> (CHR ''0'' \<le> c \<and> c \<le> CHR ''9'')"

abbreviation single_quote :: char where
  "single_quote \<equiv> CHR 0x27"

definition shouldEscape :: "char \<Rightarrow> encoding \<Rightarrow> bool" where
  "shouldEscape c mode =
     (if alnum c then False
      else if mode \<in> {encodeHost, encodeZone} \<and> c \<in> set (single_quote # ''!$&()*+,;=:[]<>'' @ [CHR 0x22]) then False
      else if c \<in> set ''-_.~'' then False
      else if c \<in> set ''$&+,/:;=?@'' \<and> mode = encodePath then c = CHR ''?''
      else if c \<in> set ''$&+,/:;=?@'' \<and> mode = encodeUserPassword then c \<in> set ''@/?:''
      else if c \<in> set ''$&+,/:;=?@'' \<and> mode = encodeFragment then False
      else \<not> (mode = encodeFragment \<and> c \<in> set ''!()*''))"

definition unhex :: "char \<Rightarrow> nat option" where
  "unhex c =
     (let n = (of_char c :: nat) in
      if 48 \<le> n \<and> n \<le> 57 then Some (n - 48)
      else if 97 \<le> n \<and> n \<le> 102 then Some (n - 87)
      else if 65 \<le> n \<and> n \<le> 70 then Some (n - 55)
      else None)"

fun unescape :: "encoding \<Rightarrow> string \<Rightarrow> string option" where
  "unescape mode [] = Some []"
| "unescape mode (c # cs) =
     (if c = CHR ''%'' then
        (case cs of
           h # l # rest \<Rightarrow>
             (case (unhex h, unhex l) of
                (Some x, Some y) \<Rightarrow>
                  let v = char_of (16 * x + y) in
                  if mode = encodeHost \<and> x < 8 \<and> [h, l] \<noteq> ''25'' then None
                  else if mode = encodeZone \<and> [h, l] \<noteq> ''25'' \<and> v \<noteq> CHR '' '' \<and> shouldEscape v encodeHost then None
                  else map_option ((#) v) (unescape mode rest)
              | _ \<Rightarrow> None)
         | _ \<Rightarrow> None)
      else if mode \<in> {encodeHost, encodeZone} \<and> (of_char c :: nat) < 128 \<and> shouldEscape c mode then None
      else map_option ((#) c) (unescape mode cs))"

definition escape :: "encoding \<Rightarrow> string \<Rightarrow> string" where
  "escape mode s =
     concat (map (\<lambda>c. if shouldEscape c mode
       then let n = of_char c in [CHR ''%'', upper_hex (n div 16), upper_hex (n mod 16)] else [c]) s)"

definition validEncoded :: "encoding \<Rightarrow> string \<Rightarrow> bool" where
  "validEncoded mode s \<longleftrightarrow>
     (\<forall>c \<in> set s. c \<in> set (single_quote # ''!$&()*+,;=:@[]%'') \<or> \<not> shouldEscape c mode)"

section \<open>Parsing\<close>

record URL =
  u_Scheme :: string
  u_Opaque :: string
  u_User :: "(string \<times> string option) option"
  u_Host :: string
  u_Path :: string
  u_RawPath :: string
  u_OmitHost :: bool
  u_ForceQuery :: bool
  u_RawQuery :: string
  u_Fragment :: string
  u_RawFragment :: string

definition zeroURL :: URL where
  "zeroURL = \<lparr>u_Scheme = [], u_Opaque = [], u_User = None, u_Host = [], u_Path = [], u_RawPath = [],
     u_OmitHost = False, u_ForceQuery = False, u_RawQuery = [], u_Fragment = [], u_RawFragment = []\<rparr>"

fun schemeEnd :: "string \<Rightarrow> nat \<Rightarrow> string \<Rightarrow> (string \<times> string) option" where
  "schemeEnd raw i [] = Some ([], raw)"
| "schemeEnd raw i (c # cs) =
     (if alnum c \<and> \<not> (CHR ''0'' \<le> c \<and> c \<le> CHR ''9'') then schemeEnd raw (Suc i) cs
      else if (CHR ''0'' \<le> c \<and> c \<le> CHR ''9'') \<or> c \<in> set ''+-.'' then
        (if i = 0 then Some ([], raw) else schemeEnd raw (Suc i) cs)
      else if c = CHR '':'' then (if i = 0 then None else Some (take i raw, cs))
      else Some ([], raw))"

definition getScheme :: "string \<Rightarrow> (string \<times> string) option" where
  "getScheme raw = schemeEnd raw 0 raw"

text \<open>The parts before and after the last occurrence of a byte.\<close>

definition split_last :: "char \<Rightarrow> string \<Rightarrow> (string \<times> string) option" where
  "split_last c s =
     (if c \<in> set s
      then Some (rev (tl (dropWhile (\<lambda>d. d \<noteq> c) (rev s))), rev (takeWhile (\<lambda>d. d \<noteq> c) (rev s)))
      else None)"

definition validOptionalPort :: "string \<Rightarrow> bool" where
  "validOptionalPort port \<longleftrightarrow>
     (case port of [] \<Rightarrow> True | c # ds \<Rightarrow> c = CHR '':'' \<and> (\<forall>d \<in> set ds. CHR ''0'' \<le> d \<and> d \<le> CHR ''9''))"

text \<open>The part before the first \<open>%25\<close> and the rest from there on.\<close>

fun split_zone :: "string \<Rightarrow> (string \<times> string) option" where
  "split_zone [] = None"
| "split_zone (c # cs) =
     (if HasPrefix (c # cs) ''%25'' then Some ([], c # cs)
      else map_option (\<lambda>(before, zone). (c # before, zone)) (split_zone cs))"

definition parseHost :: "string \<Rightarrow> string option" where
  "parseHost host =
     (if HasPrefix host ''['' then
        (case split_last (CHR '']'') host of
           None \<Rightarrow> None
         | Some (inside, colonPort) \<Rightarrow>
             if \<not> validOptionalPort colonPort then None
             else (case split_zone inside of
                Some (before, zone) \<Rightarrow>
                  (case (unescape encodeHost before, unescape encodeZone zone, unescape encodeHost (CHR '']'' # colonPort)) of
                     (Some host1, Some host2, Some host3) \<Rightarrow> Some (host1 @ host2 @ host3)
                   | _ \<Rightarrow> None)
              | None \<Rightarrow> unescape encodeHost host))
      else (case split_last (CHR '':'') host of
         Some (_, port) \<Rightarrow> if validOptionalPort (CHR '':'' # port) then unescape encodeHost host else None
       | None \<Rightarrow> unescape encodeHost host))"

definition validUserinfo :: "string \<Rightarrow> bool" where
  "validUserinfo s \<longleftrightarrow> (\<forall>c \<in> set s. alnum c \<or> c \<in> set (single_quote # ''-._:~!$&()*+,;=%@''))"

definition parseUser :: "string \<Rightarrow> (string \<times> string option) option" where
  "parseUser userinfo =
     (if \<not> validUserinfo userinfo then None
      else case Cut (CHR '':'') userinfo of
        (name, password, found) \<Rightarrow>
          (case (unescape encodeUserPassword name, unescape encodeUserPassword password) of
             (Some n, Some p) \<Rightarrow> Some (n, if found then Some p else None)
           | _ \<Rightarrow> None))"

definition parseAuthority :: "string \<Rightarrow> ((string \<times> string option) option \<times> string) option" where
  "parseAuthority authority =
     (case split_last (CHR ''@'') authority of
        None \<Rightarrow> map_option (\<lambda>host. (None, host)) (parseHost authority)
      | Some (userinfo, rest) \<Rightarrow>
          (case parseHost rest of
             None \<Rightarrow> None
           | Some host \<Rightarrow> map_option (\<lambda>user. (Some user, host)) (parseUser userinfo)))"

definition setPath :: "URL \<Rightarrow> string \<Rightarrow> URL option" where
  "setPath url p =
     map_option (\<lambda>path. url\<lparr>u_Path := path, u_RawPath := (if p = escape encodePath path then [] else p)\<rparr>)
       (unescape encodePath p)"

definition setFragment :: "URL \<Rightarrow> string \<Rightarrow> URL option" where
  "setFragment url f =
     map_option (\<lambda>frag. url\<lparr>u_Fragment := frag, u_RawFragment := (if f = escape encodeFragment frag then [] else f)\<rparr>)
       (unescape encodeFragment f)"

definition splitQuery :: "URL \<Rightarrow> string \<Rightarrow> URL \<times> string" where
  "splitQuery url rest =
     (if rest \<noteq> [] \<and> last rest = CHR ''?'' \<and> length (filter (\<lambda>c. c = CHR ''?'') rest) = 1
      then (url\<lparr>u_ForceQuery := True\<rparr>, butlast rest)
      else case Cut (CHR ''?'') rest of (before, query, _) \<Rightarrow> (url\<lparr>u_RawQuery := query\<rparr>, before))"

definition parse_hierarchy :: "bool \<Rightarrow> URL \<Rightarrow> string \<Rightarrow> URL option" where
  "parse_hierarchy viaRequest url rest =
     (if \<not> HasPrefix rest ''/'' \<and> u_Scheme url \<noteq> [] then Some (url\<lparr>u_Opaque := rest\<rparr>)
      else if \<not> HasPrefix rest ''/'' \<and> (viaRequest \<or> CHR '':'' \<in> set (fst (Cut (CHR ''/'') rest))) then None
      else if (u_Scheme url \<noteq> [] \<or> \<not> viaRequest \<and> \<not> HasPrefix rest ''///'') \<and> HasPrefix rest ''//'' then
        (let authority = takeWhile (\<lambda>c. c \<noteq> CHR ''/'') (drop 2 rest);
             path = dropWhile (\<lambda>c. c \<noteq> CHR ''/'') (drop 2 rest)
         in case parseAuthority authority of
              None \<Rightarrow> None
            | Some (user, host) \<Rightarrow> setPath (url\<lparr>u_User := user, u_Host := host\<rparr>) path)
      else if u_Scheme url \<noteq> [] \<and> HasPrefix rest ''/'' then setPath (url\<lparr>u_OmitHost := True\<rparr>) rest
      else setPath url rest)"

definition parse_url :: "bool \<Rightarrow> string \<Rightarrow> URL option" where
  "parse_url viaRequest raw =
     (if \<exists>c \<in> set raw. (of_char c :: nat) < 32 \<or> (of_char c :: nat) = 127 then None
      else if raw = [] \<and> viaRequest then None
      else if raw = ''*'' then Some (zeroURL\<lparr>u_Path := ''*''\<rparr>)
      else case getScheme raw of
        None \<Rightarrow> None
      | Some (scheme, rest) \<Rightarrow>
          let (url, rest) = splitQuery (zeroURL\<lparr>u_Scheme := ToLower scheme\<rparr>) rest
          in parse_hierarchy viaRequest url rest)"

definition url_Parse :: "string \<Rightarrow> URL option" where
  "url_Parse raw =
     (case Cut (CHR ''#'') raw of
        (u, frag, _) \<Rightarrow>
          (case parse_url False u of
             None \<Rightarrow> None
           | Some url \<Rightarrow> if frag = [] then Some url else setFragment url frag))"

definition url_ParseRequestURI :: "string \<Rightarrow> URL option" where
  "url_ParseRequestURI raw = parse_url True raw"

section \<open>Host names and the string form\<close>

definition Hostname :: "URL \<Rightarrow> string" where
  "Hostname u =
     (let host = (case split_last (CHR '':'') (u_Host u) of
            Some (before, port) \<Rightarrow> if validOptionalPort (CHR '':'' # port) then before else u_Host u
          | None \<Rightarrow> u_Host u)
      in if HasPrefix host ''['' \<and> host \<noteq> [] \<and> last host = CHR '']'' then butlast (tl host) else host)"

definition EscapedPath :: "URL \<Rightarrow> string" where
  "EscapedPath u =
     (if u_RawPath u \<noteq> [] \<and> validEncoded encodePath (u_RawPath u) \<and> unescape encodePath (u_RawPath u) = Some (u_Path u)
      then u_RawPath u
      else if u_Path u = ''*'' then ''*''
      else escape encodePath (u_Path u))"

definition EscapedFragment :: "URL \<Rightarrow> string" where
  "EscapedFragment u =
     (if u_RawFragment u \<noteq> [] \<and> validEncoded encodeFragment (u_RawFragment u)
        \<and> unescape encodeFragment (u_RawFragment u) = Some (u_Fragment u)
      then u_RawFragment u
      else escape encodeFragment (u_Fragment u))"

definition userText :: "(string \<times> string option) option \<Rightarrow> string" where
  "userText user =
     (case user of
        None \<Rightarrow> []
      | Some (name, password) \<Rightarrow>
          escape encodeUserPassword name
          @ (case password of None \<Rightarrow> [] | Some p \<Rightarrow> CHR '':'' # escape encodeUserPassword p) @ ''@'')"

definition authorityText :: "URL \<Rightarrow> string" where
  "authorityText u =
     (if u_Scheme u = [] \<and> u_Host u = [] \<and> u_User u = None then []
      else if u_OmitHost u \<and> u_Host u = [] \<and> u_User u = None then []
      else (if u_Host u \<noteq> [] \<or> u_Path u \<noteq> [] \<or> u_User u \<noteq> None then ''//'' else [])
        @ userText (u_User u) @ escape encodeHost (u_Host u))"

definition pathText :: "URL \<Rightarrow> string \<Rightarrow> string" where
  "pathText u before =
     (let path = EscapedPath u;
          slash = (if path \<noteq> [] \<and> hd path \<noteq> CHR ''/'' \<and> u_Host u \<noteq> [] then ''/'' else []);
          dot = (if before @ slash = [] \<and> CHR '':'' \<in> set (fst (Cut (CHR ''/'') path)) then ''./'' else [])
      in slash @ dot @ path)"

definition url_String :: "URL \<Rightarrow> string" where
  "url_String u =
     (let scheme = (if u_Scheme u \<noteq> [] then u_Scheme u @ '':'' else []);
          body = (if u_Opaque u \<noteq> [] then u_Opaque u
                  else authorityText u @ pathText u (scheme @ authorityText u))
      in scheme @ body
         @ (if u_ForceQuery u \<or> u_RawQuery u \<noteq> [] then CHR ''?'' # u_RawQuery u else [])
         @ (if u_Fragment u \<noteq> [] then CHR ''#'' # EscapedFragment u else []))"

end
