(* ===== verification/Go_HTTP.thy ===== *)
theory Go_HTTP
  imports Go_URL Go_Encoding "HOL-Library.AList"
begin

text \<open>
  What the sources use of packages \<open>strconv\<close> (\<open>ParseInt\<close>), \<open>net/http\<close> (header maps, requests,
  responses, the dates of RFC 9110) and \<open>io\<close> (bounded reads).
\<close>

section \<open>Signed decimal numbers (strconv.ParseInt)\<close>

definition digit_value :: "char \<Rightarrow> int" where
  "digit_value c = of_char c - 48"

definition decimal :: "string \<Rightarrow> int" where
  "decimal s = foldl (\<lambda>n c. 10 * n + digit_value c) 0 s"

definition ParseInt :: "string \<Rightarrow> int option" where
  "ParseInt s =
     (let neg = HasPrefix s ''-'';
          digits = (if neg \<or> HasPrefix s ''+'' then tl s else s);
          n = (if neg then - decimal digits else decimal digits)
      in if digits = [] \<or> \<not> list_all is_digit digits \<or> \<not> int64_range n then None else Some n)"

section \<open>Dates in headers (http.ParseTime)\<close>

text \<open>
  \<open>time.Parse\<close> walks over the elements of a layout. These are the elements of the three layouts that
  \<open>ParseTime\<close> tries; a literal is matched by \<open>skip\<close>, for which any run of spaces matches any other, and
  a space also the end of the text.
\<close>

datatype element =
  Lit string | WeekDay | LongWeekDay | ZeroDay | UnderDay | Month | Year | LongYear | Hour | Minutes | Seconds | TZ

definition TimeFormat :: "element list" where
  "TimeFormat = [WeekDay, Lit '', '', ZeroDay, Lit '' '', Month, Lit '' '', LongYear, Lit '' '', Hour, Lit '':'', Minutes,
     Lit '':'', Seconds, Lit '' GMT'']"

definition RFC850 :: "element list" where
  "RFC850 = [LongWeekDay, Lit '', '', ZeroDay, Lit ''-'', Month, Lit ''-'', Year, Lit '' '', Hour, Lit '':'', Minutes,
     Lit '':'', Seconds, Lit '' '', TZ]"

definition ANSIC :: "element list" where
  "ANSIC = [WeekDay, Lit '' '', Month, Lit '' '', UnderDay, Lit '' '', Hour, Lit '':'', Minutes, Lit '':'', Seconds,
     Lit '' '', LongYear]"

record parsed =
  pt_year :: int
  pt_month :: int
  pt_day :: int
  pt_hour :: int
  pt_min :: int
  pt_sec :: int
  pt_nsec :: int
  pt_zone :: "string option"

abbreviation cutspace :: "string \<Rightarrow> string" where
  "cutspace \<equiv> dropWhile (\<lambda>c. c = CHR '' '')"

function skip :: "string \<Rightarrow> string \<Rightarrow> string option" where
  "skip v [] = Some v"
| "skip v (p # prefix) =
     (if p = CHR '' '' then
        (if v \<noteq> [] \<and> hd v \<noteq> CHR '' '' then None else skip (cutspace v) (cutspace (p # prefix)))
      else case v of [] \<Rightarrow> None | c # cs \<Rightarrow> if c \<noteq> p then None else skip cs prefix)"
  by pat_completeness auto
termination
  by (relation "measure (length \<circ> snd)") (auto simp: le_imp_less_Suc length_dropWhile_le)

definition same_letter :: "char \<Rightarrow> char \<Rightarrow> bool" where
  "same_letter c d \<longleftrightarrow>
     c = d
     \<or> (let c = or 0x20 (of_char c :: nat); d = or 0x20 (of_char d :: nat)
        in c = d \<and> 97 \<le> c \<and> c \<le> 122)"

fun lookup_name :: "string list \<Rightarrow> int \<Rightarrow> string \<Rightarrow> (int \<times> string) option" where
  "lookup_name [] i v = None"
| "lookup_name (name # names) i v =
     (if length name \<le> length v \<and> list_all2 same_letter (take (length name) v) name
      then Some (i, drop (length name) v) else lookup_name names (i + 1) v)"

definition shortDayNames :: "string list" where
  "shortDayNames = [''Sun'', ''Mon'', ''Tue'', ''Wed'', ''Thu'', ''Fri'', ''Sat'']"

definition longDayNames :: "string list" where
  "longDayNames = [''Sunday'', ''Monday'', ''Tuesday'', ''Wednesday'', ''Thursday'', ''Friday'', ''Saturday'']"

definition shortMonthNames :: "string list" where
  "shortMonthNames =
     [''Jan'', ''Feb'', ''Mar'', ''Apr'', ''May'', ''Jun'', ''Jul'', ''Aug'', ''Sep'', ''Oct'', ''Nov'', ''Dec'']"

abbreviation digit_at :: "string \<Rightarrow> nat \<Rightarrow> bool" where
  "digit_at s i \<equiv> i < length s \<and> is_digit (s ! i)"

definition getnum :: "bool \<Rightarrow> string \<Rightarrow> (int \<times> string) option" where
  "getnum fixed s =
     (if \<not> digit_at s 0 then None
      else if \<not> digit_at s 1 then (if fixed then None else Some (decimal (take 1 s), drop 1 s))
      else Some (decimal (take 2 s), drop 2 s))"

text \<open>The library's own number reader allows a sign, and a sign alone is zero.\<close>

definition time_atoi :: "string \<Rightarrow> int option" where
  "time_atoi s =
     (let neg = HasPrefix s ''-''; digits = (if neg \<or> HasPrefix s ''+'' then tl s else s)
      in if list_all is_digit digits then Some (if neg then - decimal digits else decimal digits) else None)"

definition parseNanoseconds :: "string \<Rightarrow> int" where
  "parseNanoseconds digits = (let ds = take 9 digits in decimal ds * 10 ^ (9 - length ds))"

definition parseSignedOffset :: "string \<Rightarrow> nat" where
  "parseSignedOffset v =
     (case v of
        [] \<Rightarrow> 0
      | sign # rest \<Rightarrow>
          let digits = takeWhile is_digit rest
          in if sign \<notin> {CHR ''-'', CHR ''+''} \<or> digits = [] \<or> 23 < decimal digits then 0 else 1 + length digits)"

definition parseTimeZone :: "string \<Rightarrow> nat option" where
  "parseTimeZone v =
     (let upper = length (takeWhile (\<lambda>c. CHR ''A'' \<le> c \<and> c \<le> CHR ''Z'') (take 6 v)) in
      if length v < 3 then None
      else if HasPrefix v ''ChST'' \<or> HasPrefix v ''MeST'' then Some 4
      else if HasPrefix v ''GMT'' then Some (3 + parseSignedOffset (drop 3 v))
      else if HasPrefix v ''+'' \<or> HasPrefix v ''-'' then
        (if 0 < parseSignedOffset v then Some (parseSignedOffset v) else None)
      else if upper = 5 \<and> v ! 4 = CHR ''T'' then Some 5
      else if upper = 4 \<and> (v ! 3 = CHR ''T'' \<or> HasPrefix v ''WITA'') then Some 4
      else if upper = 3 then Some 3
      else None)"

definition parseSeconds :: "parsed \<Rightarrow> string \<Rightarrow> (parsed \<times> string) option" where
  "parseSeconds t v =
     (case getnum True v of
        None \<Rightarrow> None
      | Some (sec, v) \<Rightarrow>
          if 60 \<le> sec then None
          else if v \<noteq> [] \<and> hd v \<in> {CHR ''.'', CHR '',''} \<and> digit_at v 1
          then Some (t\<lparr>pt_sec := sec, pt_nsec := parseNanoseconds (takeWhile is_digit (tl v))\<rparr>, dropWhile is_digit (tl v))
          else Some (t\<lparr>pt_sec := sec\<rparr>, v))"

fun parseElement :: "element \<Rightarrow> parsed \<Rightarrow> string \<Rightarrow> (parsed \<times> string) option" where
  "parseElement (Lit prefix) t v = map_option (Pair t) (skip v prefix)"
| "parseElement WeekDay t v = map_option (\<lambda>(_, v). (t, v)) (lookup_name shortDayNames 0 v)"
| "parseElement LongWeekDay t v = map_option (\<lambda>(_, v). (t, v)) (lookup_name longDayNames 0 v)"
| "parseElement Month t v = map_option (\<lambda>(m, v). (t\<lparr>pt_month := m\<rparr>, v)) (lookup_name shortMonthNames 1 v)"
| "parseElement ZeroDay t v = map_option (\<lambda>(d, v). (t\<lparr>pt_day := d\<rparr>, v)) (getnum True v)"
| "parseElement UnderDay t v =
     map_option (\<lambda>(d, v). (t\<lparr>pt_day := d\<rparr>, v)) (getnum False (if HasPrefix v '' '' then tl v else v))"
| "parseElement Year t v =
     (if length v < 2 then None
      else map_option (\<lambda>y. (t\<lparr>pt_year := (if 69 \<le> y then y + 1900 else y + 2000)\<rparr>, drop 2 v)) (time_atoi (take 2 v)))"
| "parseElement LongYear t v =
     (if length v < 4 \<or> \<not> digit_at v 0 then None
      else map_option (\<lambda>y. (t\<lparr>pt_year := y\<rparr>, drop 4 v)) (time_atoi (take 4 v)))"
| "parseElement Hour t v =
     (case getnum False v of None \<Rightarrow> None | Some (h, v) \<Rightarrow> if 24 \<le> h then None else Some (t\<lparr>pt_hour := h\<rparr>, v))"
| "parseElement Minutes t v =
     (case getnum True v of None \<Rightarrow> None | Some (m, v) \<Rightarrow> if 60 \<le> m then None else Some (t\<lparr>pt_min := m\<rparr>, v))"
| "parseElement Seconds t v = parseSeconds t v"
| "parseElement TZ t v =
     (if HasPrefix v ''UTC'' then Some (t, drop 3 v)
      else map_option (\<lambda>n. (t\<lparr>pt_zone := Some (take n v)\<rparr>, drop n v)) (parseTimeZone v))"

fun parseElements :: "element list \<Rightarrow> parsed \<Rightarrow> string \<Rightarrow> (parsed \<times> string) option" where
  "parseElements [] t v = Some (t, v)"
| "parseElements (e # es) t v = (case parseElement e t v of None \<Rightarrow> None | Some (t, v) \<Rightarrow> parseElements es t v)"

definition daysBefore :: "int \<Rightarrow> int" where
  "daysBefore y = 365 * (y - 1) + (y - 1) div 4 - (y - 1) div 100 + (y - 1) div 400"

definition Date :: "parsed \<Rightarrow> gotime" where
  "Date t =
     (let days = daysBefore (pt_year t) + sum_list (take (nat (pt_month t - 1)) (month_lengths (pt_year t))) + pt_day t - 1
      in (((days * 24 + pt_hour t) * 60 + pt_min t) * 60 + pt_sec t) * Second + pt_nsec t)"

text \<open>
  A zone abbreviation moves the instant only where the local time zone of the process knows it:
  \<open>lookupName\<close> gives the seconds east of UTC then.
\<close>

type_synonym local_zone = "string \<Rightarrow> gotime \<Rightarrow> int option"

definition time_Parse :: "local_zone \<Rightarrow> element list \<Rightarrow> string \<Rightarrow> gotime option" where
  "time_Parse lookupName layout text =
     (case parseElements layout \<lparr>pt_year = 0, pt_month = 1, pt_day = 1, pt_hour = 0, pt_min = 0, pt_sec = 0, pt_nsec = 0,
         pt_zone = None\<rparr> text of
        Some (t, []) \<Rightarrow>
          if pt_day t < 1 \<or> month_lengths (pt_year t) ! nat (pt_month t - 1) < pt_day t then None
          else (case pt_zone t of
                  None \<Rightarrow> Some (Date t)
                | Some zone \<Rightarrow>
                    (case lookupName zone (Date t) of
                       Some offset \<Rightarrow> Some (Date t - offset * Second)
                     | None \<Rightarrow> Some (Date t)))
      | _ \<Rightarrow> None)"

definition ParseTime :: "local_zone \<Rightarrow> string \<Rightarrow> gotime option" where
  "ParseTime lookupName text =
     (case time_Parse lookupName TimeFormat text of
        Some t \<Rightarrow> Some t
      | None \<Rightarrow>
          (case time_Parse lookupName RFC850 text of
             Some t \<Rightarrow> Some t
           | None \<Rightarrow> time_Parse lookupName ANSIC text))"

section \<open>Header maps\<close>

type_synonym Header = "(string \<times> string list) list"

definition token_char :: "char \<Rightarrow> bool" where
  "token_char c \<longleftrightarrow> alnum c \<or> c \<in> set (single_quote # ''!#$%&*+-.^_`|~'')"

definition upper_char :: "char \<Rightarrow> char" where
  "upper_char c = (if CHR ''a'' \<le> c \<and> c \<le> CHR ''z'' then char_of ((of_char c :: nat) - 32) else c)"

fun canonical_bytes :: "bool \<Rightarrow> string \<Rightarrow> string" where
  "canonical_bytes upper [] = []"
| "canonical_bytes upper (c # cs) = (if upper then upper_char c else lower_char c) # canonical_bytes (c = CHR ''-'') cs"

definition CanonicalHeaderKey :: "string \<Rightarrow> string" where
  "CanonicalHeaderKey k = (if list_all token_char k then canonical_bytes True k else k)"

definition header_Get :: "Header \<Rightarrow> string \<Rightarrow> string" where
  "header_Get h k = (case map_of h (CanonicalHeaderKey k) of Some (v # _) \<Rightarrow> v | _ \<Rightarrow> [])"

definition header_Set :: "Header \<Rightarrow> string \<Rightarrow> string \<Rightarrow> Header" where
  "header_Set h k v = AList.update (CanonicalHeaderKey k) [v] h"

section \<open>Requests and responses\<close>

record Request =
  rq_Method :: string
  rq_URL :: URL
  rq_Header :: Header
  rq_Body :: string

definition removeEmptyPort :: "string \<Rightarrow> string" where
  "removeEmptyPort host = (if host \<noteq> [] \<and> last host = CHR '':'' then butlast host else host)"

definition NewRequest :: "string \<Rightarrow> string \<Rightarrow> string \<Rightarrow> Request option" where
  "NewRequest verb url body =
     (let m = (if verb = [] then ''GET'' else verb) in
      if \<not> list_all token_char m then None
      else case url_Parse url of
        None \<Rightarrow> None
      | Some u \<Rightarrow> Some \<lparr>rq_Method = m, rq_URL = u\<lparr>u_Host := removeEmptyPort (u_Host u)\<rparr>, rq_Header = [], rq_Body = body\<rparr>)"

text \<open>A body is the bytes that it yields and how it ends: at its end, or with an error.\<close>

record 'e Response =
  rs_StatusCode :: int
  rs_Header :: Header
  rs_ContentLength :: int
  rs_Body :: "string \<times> 'e option"

definition ReadAll_Limit :: "string \<times> 'e option \<Rightarrow> int \<Rightarrow> 'e + string" where
  "ReadAll_Limit body limit =
     (case body of (bytes, failure) \<Rightarrow>
        if limit \<le> int (length bytes) then Inr (take (nat limit) bytes)
        else case failure of None \<Rightarrow> Inr bytes | Some err \<Rightarrow> Inl err)"

section \<open>Properties\<close>

lemma ReadAll_Limit_length: "0 \<le> limit \<Longrightarrow> ReadAll_Limit body limit = Inr bytes \<Longrightarrow> int (length bytes) \<le> limit"
  by (auto simp: ReadAll_Limit_def split: prod.splits if_splits option.splits)

lemma header_Get_Set [simp]:
  "header_Get (header_Set h k v) k' = (if CanonicalHeaderKey k = CanonicalHeaderKey k' then v else header_Get h k')"
  by (simp add: header_Get_def header_Set_def update_conv')

lemma ParseInt_range: "ParseInt s = Some n \<Longrightarrow> int64_range n"
  by (auto simp: ParseInt_def Let_def split: if_splits)

end
