(* ===== verification/Provider_HTTP.thy ===== *)
theory Provider_HTTP
  imports Provider_Retry Go_HTTP
begin

text \<open>
  The bounded HTTP call of provider clients, from \<^verbatim>\<open>internal/provider/httpclient.go\<close>. The client is
  its \<open>Do\<close>, which acts on the world; \<open>time_Now\<close> is the clock where the limits give none.
\<close>

definition ErrRequestTooLarge :: ProviderError where
  "ErrRequestTooLarge = PlainError ''provider request exceeds configured limit''"

definition ErrResponseTooLarge :: ProviderError where
  "ErrResponseTooLarge = PlainError ''provider response exceeds configured limit''"

type_synonym 'w ProviderHTTPClient = "'w \<Rightarrow> Request \<Rightarrow> (ProviderError + ProviderError Response) \<times> 'w"

record 'w HTTPLimits =
  hl_MaxRequestBytes :: int
  hl_MaxResponseBytes :: int
  hl_MaxRetryAfter :: duration
  hl_Now :: "('w \<Rightarrow> gotime \<times> 'w) option"

record HTTPResponse =
  hr_Body :: string
  hr_Header :: Header

definition limits_now :: "('w \<Rightarrow> gotime \<times> 'w) \<Rightarrow> 'w HTTPLimits \<Rightarrow> 'w \<Rightarrow> gotime \<times> 'w" where
  "limits_now time_Now l w = (case hl_Now l of Some now \<Rightarrow> now w | None \<Rightarrow> time_Now w)"

definition provider_parseRetryAfter :: "local_zone \<Rightarrow> string \<Rightarrow> gotime \<Rightarrow> duration" where
  "provider_parseRetryAfter zone v now =
     (let v = TrimSpace v in
      if v = [] then 0
      else case ParseInt v of
        Some seconds \<Rightarrow>
          if seconds \<le> 0 then 0
          else if maxDuration sdiv Second < seconds then maxDuration
          else wrap64 (seconds * Second)
      | None \<Rightarrow>
          (case ParseTime zone v of
             None \<Rightarrow> 0
           | Some t \<Rightarrow> if \<not> now < t then 0 else time_Sub t now))"

definition rejected :: "('w \<Rightarrow> gotime \<times> 'w) \<Rightarrow> local_zone \<Rightarrow> 'w HTTPLimits \<Rightarrow> 'e Response \<Rightarrow> 'w \<Rightarrow> ProviderError \<times> 'w" where
  "rejected time_Now zone limits response w =
     (let (now, w) = limits_now time_Now limits w;
          retryAfter = provider_parseRetryAfter zone (header_Get (rs_Header response) ''Retry-After'') now;
          retryAfter = (if 0 < hl_MaxRetryAfter limits \<and> hl_MaxRetryAfter limits < retryAfter
                        then hl_MaxRetryAfter limits else retryAfter)
      in (HTTPFailure (NewHTTPError ''request'' (rs_StatusCode response) retryAfter), w))"

definition readResponse :: "'w Context \<Rightarrow> 'w HTTPLimits \<Rightarrow> ProviderError Response \<Rightarrow> 'w \<Rightarrow> ProviderError + HTTPResponse" where
  "readResponse ctx limits response w =
     (if hl_MaxResponseBytes limits < rs_ContentLength response then Inl ErrResponseTooLarge
      else case ReadAll_Limit (rs_Body response) (wrap64 (hl_MaxResponseBytes limits + 1)) of
        Inl err \<Rightarrow> Inl (case ctx w of Some ctxErr \<Rightarrow> ctxErr | None \<Rightarrow> NewTransportError ''read response'' err)
      | Inr body \<Rightarrow>
          if hl_MaxResponseBytes limits < int (length body) then Inl ErrResponseTooLarge
          else Inr \<lparr>hr_Body = body, hr_Header = rs_Header response\<rparr>)"

definition DoJSONResponse ::
  "('w \<Rightarrow> gotime \<times> 'w) \<Rightarrow> local_zone \<Rightarrow> 'w Context \<Rightarrow> 'w ProviderHTTPClient option \<Rightarrow> string \<Rightarrow> string \<Rightarrow> Header \<Rightarrow>
   string \<Rightarrow> 'w HTTPLimits \<Rightarrow> 'w \<Rightarrow> (ProviderError + HTTPResponse) \<times> 'w" where
  "DoJSONResponse time_Now zone ctx client verb url headers body limits w =
     (case client of
        None \<Rightarrow> (Inl (PlainError ''provider HTTP client is required''), w)
      | Some send \<Rightarrow>
          if hl_MaxRequestBytes limits \<le> 0 \<or> hl_MaxResponseBytes limits \<le> 0
          then (Inl (PlainError ''provider HTTP limits must be positive''), w)
          else if hl_MaxRetryAfter limits < 0
          then (Inl (PlainError ''provider maximum Retry-After must not be negative''), w)
          else if hl_MaxRequestBytes limits < int (length body) then (Inl ErrRequestTooLarge, w)
          else case NewRequest verb url body of
            None \<Rightarrow> (Inl (PlainError ''build provider request''), w)
          | Some request \<Rightarrow>
              let h = (if header_Get headers ''Content-Type'' = []
                       then header_Set headers ''Content-Type'' ''application/json'' else headers);
                  (answer, w) = send w (request\<lparr>rq_Header := h\<rparr>)
              in case answer of
                   Inl err \<Rightarrow> (Inl (case ctx w of Some ctxErr \<Rightarrow> ctxErr | None \<Rightarrow> NewTransportError ''request'' err), w)
                 | Inr response \<Rightarrow>
                     if rs_StatusCode response < 200 \<or> 300 \<le> rs_StatusCode response
                     then (let (err, w) = rejected time_Now zone limits response w in (Inl err, w))
                     else (readResponse ctx limits response w, w))"

definition DoJSON ::
  "('w \<Rightarrow> gotime \<times> 'w) \<Rightarrow> local_zone \<Rightarrow> 'w Context \<Rightarrow> 'w ProviderHTTPClient option \<Rightarrow> string \<Rightarrow> string \<Rightarrow> Header \<Rightarrow>
   string \<Rightarrow> 'w HTTPLimits \<Rightarrow> 'w \<Rightarrow> (ProviderError + string) \<times> 'w" where
  "DoJSON time_Now zone ctx client verb url headers body limits w =
     (let (r, w) = DoJSONResponse time_Now zone ctx client verb url headers body limits w
      in (map_sum id hr_Body r, w))"

section \<open>Properties\<close>

lemma provider_parseRetryAfter_nonneg: "0 \<le> provider_parseRetryAfter zone v now"
proof -
  have whole: "maxDuration sdiv Second = maxDuration div Second"
    by (simp add: signed_divide_int_def Second_def maxDuration_def)
  have "0 \<le> wrap64 (s * Second)" if "0 < s" "s \<le> maxDuration div Second" for s
  proof -
    have "s * Second \<le> maxDuration" using that(2) by (simp add: Second_def maxDuration_def)
    then show ?thesis using that(1) by (simp add: wrap64_id int64_range_def maxDuration_def Second_def)
  qed
  moreover have "0 \<le> time_Sub t u" if "u < t" for t u using that by (simp add: time_Sub_def minDuration_def maxDuration_def)
  moreover have "0 \<le> maxDuration" by (simp add: maxDuration_def)
  ultimately show ?thesis
    by (auto simp: provider_parseRetryAfter_def whole Let_def not_less not_le split: option.splits)
qed

text \<open>The texts of errors that the call makes itself; none of them quotes the transport.\<close>

definition own_texts :: "string set" where
  "own_texts =
     {''provider HTTP client is required'', ''provider HTTP limits must be positive'',
      ''provider maximum Retry-After must not be negative'', ''build provider request'',
      ''provider request exceeds configured limit'', ''provider response exceeds configured limit''}"

definition safe_error :: "'w HTTPLimits \<Rightarrow> ProviderError \<Rightarrow> bool" where
  "safe_error limits err \<longleftrightarrow>
     (case err of
        PlainError text \<Rightarrow> text \<in> own_texts
      | HTTPFailure e \<Rightarrow>
          he_Operation e \<in> {''request'', ''read response''} \<and> 0 \<le> he_RetryAfterDelay e
          \<and> (0 < hl_MaxRetryAfter limits \<longrightarrow> he_RetryAfterDelay e \<le> hl_MaxRetryAfter limits)
          \<and> (he_StatusCode e = 0 \<or> he_StatusCode e < 200 \<or> 300 \<le> he_StatusCode e)
      | _ \<Rightarrow> True)"

lemma safe_error_transport:
  assumes "operation \<in> {''request'', ''read response''}"
  shows "safe_error limits (NewTransportError operation err)"
  using assms by (auto simp: NewTransportError_def safe_error_def split: ProviderError.splits)

lemma safe_error_rejected:
  assumes "rs_StatusCode response < 200 \<or> 300 \<le> rs_StatusCode response" "rejected time_Now zone limits response w = (err, w')"
  shows "safe_error limits err"
proof -
  obtain now w1 where n: "limits_now time_Now limits w = (now, w1)" by fastforce
  note pos = provider_parseRetryAfter_nonneg [of zone "header_Get (rs_Header response) ''Retry-After''" now]
  show ?thesis
    using assms n pos by (auto simp: rejected_def safe_error_def NewHTTPError_def Let_def split: prod.splits)
qed

lemma safe_error_read:
  assumes "readResponse ctx limits response w = Inl err" "\<And>e. ctx w = Some e \<Longrightarrow> safe_error limits e"
  shows "safe_error limits err"
proof -
  have "safe_error limits ErrResponseTooLarge"
    by (simp add: safe_error_def ErrResponseTooLarge_def own_texts_def)
  then show ?thesis
    using assms safe_error_transport [of "''read response''"]
    by (auto simp: readResponse_def split: if_splits sum.splits option.splits)
qed

text \<open>
  C0: The HTTP call of a provider is bounded and discreet. A body that it returns, and the body that it
  sends for it, are within the limits; an error is one of its own texts, the end of the context, or a
  classified failure with a bounded delay, whatever text the transport failed with.
\<close>

theorem DoJSONResponse_bounded:
  assumes "DoJSONResponse time_Now zone ctx client verb url headers body limits w = (r, w')"
    "\<And>u. ctx u \<in> {None, Some ContextCanceled, Some ContextDeadlineExceeded}"
  shows "case r of
      Inl err \<Rightarrow> safe_error limits err
    | Inr response \<Rightarrow> int (length (hr_Body response)) \<le> hl_MaxResponseBytes limits \<and> int (length body) \<le> hl_MaxRequestBytes limits"
proof -
  have ended: "safe_error limits e" if "ctx u = Some e" for u e
    using assms(2) [of u] that by (auto simp: safe_error_def)
  have own: "safe_error limits (PlainError ''provider HTTP client is required'')"
    "safe_error limits (PlainError ''provider HTTP limits must be positive'')"
    "safe_error limits (PlainError ''provider maximum Retry-After must not be negative'')"
    "safe_error limits (PlainError ''build provider request'')"
    by (simp_all add: safe_error_def own_texts_def)
  have too_large: "safe_error limits ErrRequestTooLarge" by (simp add: safe_error_def ErrRequestTooLarge_def own_texts_def)
  show ?thesis
  proof (cases "client = None \<or> hl_MaxRequestBytes limits \<le> 0 \<or> hl_MaxResponseBytes limits \<le> 0 \<or> hl_MaxRetryAfter limits < 0
      \<or> hl_MaxRequestBytes limits < int (length body) \<or> NewRequest verb url body = None")
    case True
    then show ?thesis
      using assms(1) too_large own
      by (auto simp: DoJSONResponse_def split: option.splits if_splits)
  next
    case False
    then obtain send request where send: "client = Some send" "NewRequest verb url body = Some request" by auto
    let ?h = "if header_Get headers ''Content-Type'' = [] then header_Set headers ''Content-Type'' ''application/json'' else headers"
    obtain answer w1 where a: "send w (request\<lparr>rq_Header := ?h\<rparr>) = (answer, w1)" by fastforce
    show ?thesis
    proof (cases answer)
      case (Inl err)
      then show ?thesis
        using assms(1) False send a ended safe_error_transport [of "''request''"]
        by (auto simp: DoJSONResponse_def Let_def split: option.splits)
    next
      case (Inr response)
      show ?thesis
      proof (cases "rs_StatusCode response < 200 \<or> 300 \<le> rs_StatusCode response")
        case True
        obtain err w2 where j: "rejected time_Now zone limits response w1 = (err, w2)" by fastforce
        then have "r = Inl err" using assms(1) False send a Inr True by (auto simp: DoJSONResponse_def Let_def)
        then show ?thesis using safe_error_rejected [OF True j] by simp
      next
        case ok: False
        then have r: "r = readResponse ctx limits response w1" using assms(1) False send a Inr by (auto simp: DoJSONResponse_def Let_def)
        show ?thesis
        proof (cases r)
          case (Inl err)
          then show ?thesis using safe_error_read [of ctx limits response w1 err] r ended by simp
        next
          case (Inr res)
          then show ?thesis using r False by (auto simp: readResponse_def split: if_splits sum.splits)
        qed
      qed
    qed
  qed
qed

definition sample_limits :: "unit HTTPLimits" where
  "sample_limits = \<lparr>hl_MaxRequestBytes = 64, hl_MaxResponseBytes = 64, hl_MaxRetryAfter = Second, hl_Now = Some (\<lambda>w. (0, w))\<rparr>"

theorem DoJSONResponse_bounded_witness:
  "safe_error sample_limits (HTTPFailure (NewHTTPError ''request'' 429 Second))"
proof -
  let ?response = "\<lparr>rs_StatusCode = 429, rs_Header = [(''Retry-After'', [''90''])], rs_ContentLength = 0, rs_Body = ([], None)\<rparr>
    :: ProviderError Response"
  let ?send = "(\<lambda>w req. (Inr ?response, w)) :: unit ProviderHTTPClient"
  have made: "NewRequest ''POST'' ''https://api.example.com/v1'' ''{}'' \<noteq> None" by code_simp
  have "CanonicalHeaderKey ''Retry-After'' = ''Retry-After''" "provider_parseRetryAfter (\<lambda>_ _. None) ''90'' 0 = 90 * Second"
    by code_simp+
  then have failed: "rejected (\<lambda>w. (0, w)) (\<lambda>_ _. None) sample_limits ?response ()
      = (HTTPFailure (NewHTTPError ''request'' 429 Second), ())"
    by (simp add: rejected_def limits_now_def sample_limits_def header_Get_def Second_def)
  have limits: "hl_MaxRequestBytes sample_limits = 64" "hl_MaxResponseBytes sample_limits = 64" "0 \<le> hl_MaxRetryAfter sample_limits"
    by (simp_all add: sample_limits_def Second_def)
  from made obtain request where "NewRequest ''POST'' ''https://api.example.com/v1'' ''{}'' = Some request" by blast
  then have "DoJSONResponse (\<lambda>w. (0, w)) (\<lambda>_ _. None) (\<lambda>w. None) (Some ?send) ''POST'' ''https://api.example.com/v1'' [] ''{}''
      sample_limits () = (Inl (HTTPFailure (NewHTTPError ''request'' 429 Second)), ())"
    using limits failed by (simp add: DoJSONResponse_def)
  from DoJSONResponse_bounded [OF this] show ?thesis by simp
qed

end
