(* ===== verification/Provider_Schema.thy ===== *)
theory Provider_Schema
  imports Provider Go_Encoding
begin

text \<open>
  The JSON Schema for the answers to a set of questions, from \<^verbatim>\<open>internal/provider/schema.go\<close>. The
  maps of the code are written with their keys in order, as \<open>MarshalIndent\<close> does.
\<close>

section \<open>The schema\<close>

definition any_map :: "(string \<times> json) list \<Rightarrow> json" where
  "any_map kvs = JObject (sort_key fst kvs)"

definition strings :: "string list \<Rightarrow> json" where
  "strings ss = JArray (map JString ss)"

definition strictObject :: "string list \<Rightarrow> (string \<times> json) list \<Rightarrow> json" where
  "strictObject required properties =
     any_map [(''type'', JString ''object''), (''additionalProperties'', JBool False), (''required'', strings required),
       (''properties'', any_map properties)]"

definition unitNumber :: json where
  "unitNumber = any_map [(''type'', JString ''number''), (''minimum'', JInt 0), (''maximum'', JInt 1)]"

definition constString :: "string \<Rightarrow> json" where
  "constString v = any_map [(''type'', JString ''string''), (''const'', JString v)]"

definition probabilityObject :: "string list \<Rightarrow> json" where
  "probabilityObject keys = strictObject keys (map (\<lambda>key. (key, unitNumber)) keys)"

text \<open>\<open>None\<close> is the panic for a type that validation does not let through.\<close>

definition answerSchemaFor :: "Question \<Rightarrow> json option" where
  "answerSchemaFor question =
     (case q_Type question of
        QuestionTypeNoul \<Rightarrow>
          Some (strictObject [''type'', ''noul''] [(''type'', constString ''noul''), (''noul'', unitNumber)])
      | QuestionTypeChoice \<Rightarrow>
          (let choices = sort (map fst (q_Criteria question)) in
           Some (strictObject [''type'', ''choice'', ''probabilities'', ''confidence'']
             [(''type'', constString ''choice''),
              (''choice'', any_map [(''type'', JString ''string''), (''enum'', strings choices)]),
              (''probabilities'', probabilityObject choices), (''confidence'', unitNumber)]))
      | QuestionTypeScore \<Rightarrow>
          (let keys = map Itoa [0..<length (q_Levels question)] in
           Some (strictObject [''type'', ''score'', ''legend'', ''probabilities'', ''confidence'']
             [(''type'', constString ''score''),
              (''score'', any_map [(''type'', JString ''number''), (''minimum'', JInt 0),
                 (''maximum'', JInt (int (length (q_Levels question)) - 1))]),
              (''legend'', strictObject keys (zip keys (map constString (q_Levels question)))),
              (''probabilities'', probabilityObject keys), (''confidence'', unitNumber)]))
      | QuestionTypeOther _ \<Rightarrow> None)"

fun answerProperties :: "(string \<times> Question) list \<Rightarrow> string list \<Rightarrow> (string \<times> json) list option" where
  "answerProperties questions [] = Some []"
| "answerProperties questions (qid # ids) =
     (case (answerSchemaFor (lookup_zero zeroQuestion questions qid), answerProperties questions ids) of
        (Some schema, Some rest) \<Rightarrow> Some ((qid, schema) # rest)
      | _ \<Rightarrow> None)"

definition answersSchema :: "string list \<Rightarrow> (string \<times> json) list \<Rightarrow> json" where
  "answersSchema ids properties =
     any_map [(''$schema'', JString ''https://json-schema.org/draft/2020-12/schema''),
       (''title'', JString ''RuleRaven provider answers''), (''type'', JString ''object''),
       (''additionalProperties'', JBool False), (''required'', strings [''answers'']),
       (''properties'', any_map [(''answers'',
          any_map [(''type'', JString ''object''), (''additionalProperties'', JBool False), (''required'', strings ids),
            (''properties'', any_map properties)])])]"

section \<open>Indented text (json.MarshalIndent)\<close>

definition newline_at :: "nat \<Rightarrow> string" where
  "newline_at level = CHR 0x0A # replicate (2 * level) (CHR '' '')"

fun render_indent :: "nat \<Rightarrow> json \<Rightarrow> string" where
  "render_indent level (JArray js) =
     (if js = [] then ''[]''
      else ''['' @ Join (map (\<lambda>j. newline_at (Suc level) @ render_indent (Suc level) j) js) '','' @ newline_at level @ '']'')"
| "render_indent level (JObject kvs) =
     (if kvs = [] then ''{}''
      else ''{'' @ Join (map (\<lambda>(k, j). newline_at (Suc level) @ json_quote k @ '': '' @ render_indent (Suc level) j) kvs) '',''
        @ newline_at level @ ''}'')"
| "render_indent level j = render j"

datatype 'a outcome = Result 'a | Panic string

definition AnswerJSONSchema :: "(string \<times> Question) list \<Rightarrow> (ValidationError + string) outcome" where
  "AnswerJSONSchema questions =
     (case ValidateQuestions questions of
        Some err \<Rightarrow> Result (Inl err)
      | None \<Rightarrow>
          let ids = sortedQuestionIDs questions
          in case answerProperties questions ids of
               None \<Rightarrow> Panic ''question validation allowed an unknown type''
             | Some properties \<Rightarrow> Result (Inr (render_indent 0 (answersSchema ids properties) @ [CHR 0x0A])))"

section \<open>Documents that a schema admits\<close>

text \<open>
  The meaning of the keywords of JSON Schema that occur: of those that apply to an instance, each must
  hold.
\<close>

datatype document = DString string | DNumber rat | DObject "(string \<times> document) list"

definition type_ok :: "string \<Rightarrow> document \<Rightarrow> bool" where
  "type_ok t d \<longleftrightarrow>
     (case d of DString _ \<Rightarrow> t = ''string'' | DNumber _ \<Rightarrow> t = ''number'' | DObject _ \<Rightarrow> t = ''object'')"

definition scalar_ok :: "(string \<times> json) list \<Rightarrow> document \<Rightarrow> bool" where
  "scalar_ok kvs d \<longleftrightarrow>
     (case map_of kvs ''type'' of Some (JString t) \<Rightarrow> type_ok t d | _ \<Rightarrow> True)
     \<and> (case map_of kvs ''const'' of Some (JString c) \<Rightarrow> d = DString c | _ \<Rightarrow> True)
     \<and> (case map_of kvs ''enum'' of Some (JArray js) \<Rightarrow> (\<exists>c. d = DString c \<and> JString c \<in> set js) | _ \<Rightarrow> True)
     \<and> (case (map_of kvs ''minimum'', d) of (Some (JInt n), DNumber x) \<Rightarrow> of_int n \<le> x | _ \<Rightarrow> True)
     \<and> (case (map_of kvs ''maximum'', d) of (Some (JInt n), DNumber x) \<Rightarrow> x \<le> of_int n | _ \<Rightarrow> True)"

definition members_ok :: "(string \<times> json) list \<Rightarrow> (string \<times> 'a) list \<Rightarrow> bool" where
  "members_ok kvs ms \<longleftrightarrow>
     (case map_of kvs ''required'' of Some (JArray js) \<Rightarrow> (\<forall>k. JString k \<in> set js \<longrightarrow> k \<in> fst ` set ms) | _ \<Rightarrow> True)
     \<and> (case (map_of kvs ''additionalProperties'', map_of kvs ''properties'') of
          (Some (JBool False), Some (JObject ps)) \<Rightarrow> fst ` set ms \<subseteq> fst ` set ps | _ \<Rightarrow> True)"

definition property_of :: "(string \<times> json) list \<Rightarrow> string \<Rightarrow> json option" where
  "property_of kvs k = (case map_of kvs ''properties'' of Some (JObject ps) \<Rightarrow> map_of ps k | _ \<Rightarrow> None)"

fun conforms :: "json \<Rightarrow> document \<Rightarrow> bool" where
  "conforms (JObject kvs) (DObject ms) \<longleftrightarrow>
     scalar_ok kvs (DObject ms) \<and> members_ok kvs ms
     \<and> list_all (\<lambda>(k, d). case property_of kvs k of None \<Rightarrow> True | Some s \<Rightarrow> conforms s d) ms"
| "conforms (JObject kvs) d \<longleftrightarrow> scalar_ok kvs d"
| "conforms _ d \<longleftrightarrow> True"

section \<open>Answers as documents\<close>

fun number :: "float64 \<Rightarrow> document" where
  "number (Fin x) = DNumber x"
| "number _ = DString ''not a number''"

definition typeText :: "QuestionType \<Rightarrow> string" where
  "typeText t =
     (case t of QuestionTypeNoul \<Rightarrow> ''noul'' | QuestionTypeChoice \<Rightarrow> ''choice'' | QuestionTypeScore \<Rightarrow> ''score''
      | QuestionTypeOther s \<Rightarrow> s)"

definition answerDocument :: "Answer \<Rightarrow> document" where
  "answerDocument a =
     DObject
       ([(''type'', DString (typeText (a_Type a)))]
        @ (case a_Noul a of None \<Rightarrow> [] | Some x \<Rightarrow> [(''noul'', number x)])
        @ (if a_Choice a = [] then [] else [(''choice'', DString (a_Choice a))])
        @ (case a_Score a of None \<Rightarrow> [] | Some x \<Rightarrow> [(''score'', number x)])
        @ (if a_Legend a = [] then [] else [(''legend'', DObject (map (\<lambda>(k, v). (k, DString v)) (a_Legend a)))])
        @ (if a_Probabilities a = [] then [] else [(''probabilities'', DObject (map (\<lambda>(k, v). (k, number v)) (a_Probabilities a)))])
        @ (case a_Confidence a of None \<Rightarrow> [] | Some x \<Rightarrow> [(''confidence'', number x)]))"

definition answersDocument :: "(string \<times> Answer) list \<Rightarrow> document" where
  "answersDocument answers = DObject [(''answers'', DObject (map (\<lambda>(k, a). (k, answerDocument a)) answers))]"

section \<open>Properties\<close>

lemma map_of_sorted: "wf_map kvs \<Longrightarrow> map_of (sort_key fst kvs) = map_of kvs"
  by (rule map_of_inject_set [THEN iffD2]) (simp_all add: distinct_map)

lemma conforms_any_map: "wf_map kvs \<Longrightarrow> conforms (any_map kvs) d \<longleftrightarrow> conforms (JObject kvs) d"
  by (cases d) (simp_all add: any_map_def scalar_ok_def members_ok_def property_of_def map_of_sorted)

lemma constString_iff: "conforms (constString v) d \<longleftrightarrow> d = DString v"
  by (cases d) (auto simp: constString_def conforms_any_map scalar_ok_def type_ok_def)

lemma unitNumber_iff: "conforms unitNumber (number x) \<longleftrightarrow> in_unit x"
  by (cases x) (auto simp: unitNumber_def conforms_any_map scalar_ok_def type_ok_def in_unit_def)

lemma strictObject_conforms:
  assumes "wf_map ps"
  shows "conforms (strictObject required ps) (DObject ms) \<longleftrightarrow>
    set required \<subseteq> fst ` set ms \<and> fst ` set ms \<subseteq> fst ` set ps
    \<and> (\<forall>k d s. (k, d) \<in> set ms \<longrightarrow> map_of ps k = Some s \<longrightarrow> conforms s d)"
proof -
  have keys: "fst ` set (sort_key fst ps) = fst ` set ps" by simp
  show ?thesis
    unfolding strictObject_def
    by (subst conforms_any_map, simp)
      (auto simp: scalar_ok_def type_ok_def members_ok_def property_of_def strings_def any_map_def map_of_sorted [OF assms]
        list_all_iff subset_iff split: option.splits)
qed

lemma probabilityObject_conforms:
  assumes "distinct keys" "distribution (set keys) ps"
  shows "conforms (probabilityObject keys) (DObject (map (\<lambda>(k, v). (k, number v)) ps))"
proof -
  have keys: "fst ` set ps = set keys" and unit: "\<And>k v. (k, v) \<in> set ps \<Longrightarrow> in_unit v"
    using assms(2) by (auto simp: distribution_def)
  have wf: "wf_map (map (\<lambda>key. (key, unitNumber)) keys)" using assms(1) by (simp add: comp_def)
  have "fst ` set (map (\<lambda>(k, v). (k, number v)) ps) = fst ` set ps" by (force simp: image_iff)
  moreover have "fst ` set (map (\<lambda>key. (key, unitNumber)) keys) = set keys" by (force simp: image_iff)
  ultimately show ?thesis
    unfolding probabilityObject_def strictObject_conforms [OF wf]
    using keys unit by (auto simp: unitNumber_iff dest!: map_of_SomeD)
qed

lemma legend_conforms:
  assumes "set legend = (\<lambda>i. (Itoa i, levels ! i)) ` {0..<length levels}"
  defines "keys \<equiv> map Itoa [0..<length levels]"
  shows "conforms (strictObject keys (zip keys (map constString levels))) (DObject (map (\<lambda>(k, v). (k, DString v)) legend))"
proof -
  have "distinct keys" by (simp add: keys_def distinct_map inj_on_def)
  then have wf: "wf_map (zip keys (map constString levels))" by (simp add: keys_def)
  have "fst ` set (map (\<lambda>(k, v). (k, DString v)) legend) = fst ` set legend" by (force simp: image_iff)
  moreover have "fst ` set legend = set keys" by (simp add: assms(1) keys_def image_image)
  moreover have "fst ` set (zip keys (map constString levels)) = set keys"
    by (simp add: keys_def flip: list.set_map)
  moreover have "conforms s d" if mem: "(k, d) \<in> set (map (\<lambda>(k, v). (k, DString v)) legend)"
    and look: "map_of (zip keys (map constString levels)) k = Some s" for k d s
  proof -
    obtain i where i: "i < length levels" "k = Itoa i" "d = DString (levels ! i)" using mem assms(1) by auto
    have "(Itoa i, constString (levels ! i)) \<in> set (zip keys (map constString levels))"
      using i(1) by (auto simp: set_zip keys_def intro!: exI [of _ i])
    then have "s = constString (levels ! i)" using look i(2) map_of_is_SomeI [OF wf] by simp
    then show ?thesis by (simp add: constString_iff i(3))
  qed
  ultimately show ?thesis unfolding strictObject_conforms [OF wf] by auto
qed

lemma range_iff:
  "conforms (any_map [(''type'', JString ''number''), (''minimum'', JInt 0), (''maximum'', JInt n)]) (DNumber x) \<longleftrightarrow>
     0 \<le> x \<and> x \<le> of_int n"
  by (simp add: conforms_any_map scalar_ok_def type_ok_def)

lemma enum_iff:
  "conforms (any_map [(''type'', JString ''string''), (''enum'', strings cs)]) (DString c) \<longleftrightarrow> c \<in> set cs"
  by (auto simp: conforms_any_map scalar_ok_def type_ok_def strings_def)

lemma answerSchemaFor_conforms:
  assumes "answerSchemaFor q = Some schema" "wf_question q" "valid_question (qid, q)" "valid_answer q a"
  shows "conforms schema (answerDocument a)"
proof (cases "q_Type q")
  case QuestionTypeNoul
  then obtain x where "a_Noul a = Some x" "in_unit x" "answerDocument a = DObject [(''type'', DString ''noul''), (''noul'', number x)]"
    using assms(4) by (auto simp: valid_answer_def valid_noul_def in_unit_opt_def answerDocument_def typeText_def)
  then show ?thesis
    using assms(1) QuestionTypeNoul
    by (auto simp: answerSchemaFor_def strictObject_conforms constString_iff unitNumber_iff split: if_splits)
next
  case QuestionTypeChoice
  let ?choices = "sort (map fst (q_Criteria q))"
  have v: "valid_choice q a" "a_Type a = QuestionTypeChoice" using assms(4) QuestionTypeChoice by (simp_all add: valid_answer_def)
  have ps: "distribution (set ?choices) (a_Probabilities a)" using v(1) by (simp add: valid_choice_def)
  obtain p where "(a_Choice a, p) \<in> set (a_Probabilities a)" using v(1) by (auto simp: valid_choice_def)
  then have choice: "a_Choice a \<in> set ?choices"
    using ps imageI [of "(a_Choice a, p)" "set (a_Probabilities a)" fst] by (simp add: distribution_def)
  have nonempty: "a_Choice a \<noteq> []" "a_Probabilities a \<noteq> []"
    using assms(3) QuestionTypeChoice choice v(1) by (auto simp: valid_question_def valid_choice_def)
  obtain x where x: "a_Confidence a = Some x" "in_unit x" using v(1) by (auto simp: valid_choice_def in_unit_opt_def)
  have "answerDocument a = DObject [(''type'', DString ''choice''), (''choice'', DString (a_Choice a)),
      (''probabilities'', DObject (map (\<lambda>(k, v). (k, number v)) (a_Probabilities a))), (''confidence'', number x)]"
    using v nonempty x(1) by (simp add: answerDocument_def typeText_def valid_choice_def)
  then show ?thesis
    using assms(1,2) QuestionTypeChoice probabilityObject_conforms [OF _ ps] choice [folded enum_iff] x(2)
    by (auto simp: answerSchemaFor_def Let_def strictObject_conforms constString_iff unitNumber_iff wf_question_def
        split: if_splits)
next
  case QuestionTypeScore
  let ?keys = "map Itoa [0..<length (q_Levels q)]"
  have v: "valid_score q a" "a_Type a = QuestionTypeScore" using assms(4) QuestionTypeScore by (simp_all add: valid_answer_def)
  have levels: "2 \<le> length (q_Levels q)" using assms(3) QuestionTypeScore by (simp add: valid_question_def)
  have ps: "distribution (set ?keys) (a_Probabilities a)" using v(1) by (simp add: valid_score_def)
  have legend: "set (a_Legend a) = (\<lambda>i. (Itoa i, q_Levels q ! i)) ` {0..<length (q_Levels q)}" using v(1) by (simp add: valid_score_def)
  have nonempty: "a_Legend a \<noteq> []" "a_Probabilities a \<noteq> []"
    using levels legend ps by (auto simp: distribution_def)
  obtain x y where x: "a_Confidence a = Some x" "in_unit x" "a_Score a = Some (Fin y)" "0 \<le> y" "y \<le> of_int (int (length (q_Levels q)) - 1)"
    using v(1) by (auto simp: valid_score_def in_unit_opt_def)
  have "answerDocument a = DObject [(''type'', DString ''score''), (''score'', DNumber y),
      (''legend'', DObject (map (\<lambda>(k, v). (k, DString v)) (a_Legend a))),
      (''probabilities'', DObject (map (\<lambda>(k, v). (k, number v)) (a_Probabilities a))), (''confidence'', number x)]"
    using v nonempty x by (simp add: answerDocument_def typeText_def valid_score_def)
  moreover have "distinct ?keys" by (simp add: distinct_map inj_on_def)
  ultimately show ?thesis
    using assms(1) QuestionTypeScore probabilityObject_conforms [OF _ ps] legend_conforms [OF legend] x
    by (auto simp: answerSchemaFor_def Let_def strictObject_conforms constString_iff unitNumber_iff range_iff split: if_splits)
next
  case (QuestionTypeOther t)
  then show ?thesis using assms(4) by (simp add: valid_answer_def)
qed

lemma answerProperties_defined:
  assumes "\<And>qid. qid \<in> set ids \<Longrightarrow> \<exists>schema. answerSchemaFor (lookup_zero zeroQuestion questions qid) = Some schema"
  shows "\<exists>ps. answerProperties questions ids = Some ps \<and> map fst ps = ids
    \<and> (\<forall>(qid, schema) \<in> set ps. answerSchemaFor (lookup_zero zeroQuestion questions qid) = Some schema)"
  using assms
proof (induction ids)
  case (Cons i ids)
  obtain s where s: "answerSchemaFor (lookup_zero zeroQuestion questions i) = Some s" using Cons.prems by auto
  obtain ps where "answerProperties questions ids = Some ps" "map fst ps = ids"
    "\<forall>(qid, schema) \<in> set ps. answerSchemaFor (lookup_zero zeroQuestion questions qid) = Some schema"
    using Cons by auto
  with s show ?case by simp
qed simp

lemma answersSchema_conforms:
  assumes "wf_map ps" "map fst ps = ids"
  shows "conforms (answersSchema ids ps) (DObject [(''answers'', DObject ms)]) \<longleftrightarrow>
    fst ` set ms = set ids \<and> (\<forall>k d s. (k, d) \<in> set ms \<longrightarrow> map_of ps k = Some s \<longrightarrow> conforms s d)"
proof -
  have ids: "fst ` set ps = set ids" using arg_cong [OF assms(2), of set] by simp
  have outer: "conforms (any_map [(''$schema'', u), (''title'', t), (''type'', JString ''object''),
       (''additionalProperties'', JBool False), (''required'', strings [''answers'']),
       (''properties'', any_map [(''answers'', inner)])]) (DObject [(''answers'', d)]) \<longleftrightarrow> conforms inner d" for u t inner d
    by (subst conforms_any_map, simp)
      (simp add: scalar_ok_def type_ok_def members_ok_def property_of_def strings_def any_map_def)
  show ?thesis
    unfolding answersSchema_def outer
    using strictObject_conforms [OF assms(1), of ids ms, unfolded strictObject_def ids] by blast
qed

text \<open>
  C0: The schema that is sent to a provider exists for every set of questions that validation accepts,
  and it admits every set of answers that validation accepts: a provider that keeps to the schema can
  always give valid answers.
\<close>

theorem schema_admits_valid_answers:
  assumes "wf_questions questions" "wf_answers answers" "ValidateAnswers questions answers = None"
  shows "\<exists>schema. AnswerJSONSchema questions = Result (Inr (render_indent 0 schema @ [CHR 0x0A]))
    \<and> conforms schema (answersDocument answers)"
proof -
  let ?ids = "sortedQuestionIDs questions"
  have wf: "wf_map questions" using assms(1) by (simp add: wf_questions_def)
  have vq: "ValidateQuestions questions = None"
    using assms(3) by (auto simp: ValidateAnswers_def split: option.splits)
  have q: "\<exists>q. (qid, q) \<in> set questions \<and> lookup_zero zeroQuestion questions qid = q \<and> wf_question q \<and> valid_question (qid, q)"
    if qid: "qid \<in> set ?ids" for qid
  proof -
    obtain q where "(qid, q) \<in> set questions" using qid by (auto simp: sortedQuestionIDs_def)
    then show ?thesis using ValidateQuestions_None [OF assms(1)] vq assms(1) wf by (auto simp: wf_questions_def)
  qed
  have "\<exists>schema. answerSchemaFor (lookup_zero zeroQuestion questions qid) = Some schema" if "qid \<in> set ?ids" for qid
    using q [OF that] by (auto simp: answerSchemaFor_def valid_question_def Let_def split: QuestionType.splits)
  from answerProperties_defined [of ?ids, OF this] obtain ps where ps: "answerProperties questions ?ids = Some ps" "map fst ps = ?ids"
    "\<And>qid schema. (qid, schema) \<in> set ps \<Longrightarrow> answerSchemaFor (lookup_zero zeroQuestion questions qid) = Some schema"
    by auto
  have wfp: "wf_map ps" using ps(2) wf by (simp add: sortedQuestionIDs_def)
  have keys: "fst ` set answers = set ?ids"
  proof
    show "fst ` set answers \<subseteq> set ?ids" using ValidateAnswers_keys [OF assms(3)] by (simp add: sortedQuestionIDs_def)
    show "set ?ids \<subseteq> fst ` set answers"
    proof
      fix qid assume "qid \<in> set ?ids"
      then obtain q where "(qid, q) \<in> set questions" using q by blast
      from ValidateAnswers_NoneD [OF assms this] show "qid \<in> fst ` set answers" by force
    qed
  qed
  have "conforms s (answerDocument a)" if a: "(k, a) \<in> set answers" and s: "map_of ps k = Some s" for k a s
  proof -
    have sch: "answerSchemaFor (lookup_zero zeroQuestion questions k) = Some s" by (rule ps(3) [OF map_of_SomeD [OF s]])
    have "k \<in> set ?ids" using a keys by force
    from q [OF this] obtain q where qq: "(k, q) \<in> set questions" "lookup_zero zeroQuestion questions k = q" "wf_question q"
      "valid_question (k, q)" by blast
    obtain a' where "(k, a') \<in> set answers" "valid_answer q a'" using ValidateAnswers_NoneD [OF assms qq(1)] by blast
    moreover have "a' = a" using eq_key_imp_eq_value [OF _ calculation(1) a] assms(2) by (simp add: wf_answers_def)
    ultimately show ?thesis using answerSchemaFor_conforms [OF sch [unfolded qq(2)] qq(3,4)] by simp
  qed
  moreover have "fst ` set (map (\<lambda>(k, a). (k, answerDocument a)) answers) = set ?ids" using keys by (force simp: image_iff)
  ultimately have "conforms (answersSchema ?ids ps) (answersDocument answers)"
    unfolding answersDocument_def answersSchema_conforms [OF wfp ps(2)] by auto
  then show ?thesis using vq ps(1) by (auto simp: AnswerJSONSchema_def)
qed

definition noul_question :: "(string \<times> Question) list" where
  "noul_question = [(''urgent'', \<lparr>q_Type = QuestionTypeNoul, q_Instructions = ''Is it urgent?'', q_Criteria = [], q_Levels = []\<rparr>)]"

definition noul_answer :: "(string \<times> Answer) list" where
  "noul_answer = [(''urgent'', zeroAnswer\<lparr>a_Type := QuestionTypeNoul, a_Noul := Some (Fin (1 / 2))\<rparr>)]"

lemma noul_sample:
  "wf_questions noul_question" "wf_answers noul_answer" "ValidateAnswers noul_question noul_answer = None"
proof -
  show wf: "wf_questions noul_question" "wf_answers noul_answer"
    by (simp_all add: wf_questions_def wf_answers_def wf_question_def wf_answer_def zeroAnswer_def noul_question_def noul_answer_def)
  show "ValidateAnswers noul_question noul_answer = None"
    by (rule ValidateAnswers_NoneI [OF wf])
      (simp_all add: noul_question_def noul_answer_def zeroAnswer_def valid_question_def TrimSpace_samples valid_answer_def valid_noul_def)
qed

theorem schema_admits_valid_answers_witness:
  "\<exists>schema. AnswerJSONSchema noul_question = Result (Inr (render_indent 0 schema @ [CHR 0x0A]))
    \<and> conforms schema (answersDocument noul_answer)"
  by (rule schema_admits_valid_answers [OF noul_sample])

end
