(* ===== verification/Go_Decode.thy ===== *)
theory Go_Decode
  imports Go_HTTP Float64
begin

text \<open>
  Decoding of JSON, as \<open>encoding/json\<close> does it: a text that its scanner accepts is read into a value,
  and the value is stored into Go data. Storing starts from what the destination holds, so that a
  repeated member of an object acts on the result of the first. Numbers keep their text; a member of an
  object also keeps the text of its value, for raw messages.
\<close>

section \<open>Values\<close>

datatype jval =
    VNull
  | VBool bool
  | VNumber string
  | VString string
  | VArray "jval list"
  | VObject "(string \<times> jval \<times> string) list"

abbreviation skip_space :: "string \<Rightarrow> string" where
  "skip_space \<equiv> dropWhile json_space"

section \<open>Strings\<close>

definition quote_char :: char where
  "quote_char = CHR 0x22"

definition backslash :: char where
  "backslash = CHR 0x5C"

text \<open>The text up to the closing quote, with its escapes, and the rest.\<close>

fun string_body :: "string \<Rightarrow> (string \<times> string) option" where
  "string_body [] = None"
| "string_body (c # cs) =
     (if c = quote_char then Some ([], cs)
      else if c = backslash then
        (case cs of [] \<Rightarrow> None | d # ds \<Rightarrow> map_option (\<lambda>(b, r). (c # d # b, r)) (string_body ds))
      else map_option (\<lambda>(b, r). (c # b, r)) (string_body cs))"

definition utf8 :: "nat \<Rightarrow> string" where
  "utf8 n =
     (if n < 0x80 then [char_of n]
      else if n < 0x800 then [char_of (0xC0 + n div 64), char_of (0x80 + n mod 64)]
      else if n < 0x10000 then [char_of (0xE0 + n div 4096), char_of (0x80 + n div 64 mod 64), char_of (0x80 + n mod 64)]
      else [char_of (0xF0 + n div 262144), char_of (0x80 + n div 4096 mod 64), char_of (0x80 + n div 64 mod 64),
            char_of (0x80 + n mod 64)])"

definition replacement :: string where
  "replacement = utf8 0xFFFD"

definition getu4 :: "string \<Rightarrow> nat option" where
  "getu4 s =
     (if length s < 6 \<or> s ! 0 \<noteq> backslash \<or> s ! 1 \<noteq> CHR ''u'' then None
      else case (unhex (s ! 2), unhex (s ! 3), unhex (s ! 4), unhex (s ! 5)) of
        (Some a, Some b, Some c, Some d) \<Rightarrow> Some (((a * 16 + b) * 16 + c) * 16 + d)
      | _ \<Rightarrow> None)"

text \<open>The text of an escape at the front of a string, and how many bytes it takes.\<close>

definition unescape_front :: "string \<Rightarrow> string \<times> nat" where
  "unescape_front s =
     (case getu4 s of
        Some r \<Rightarrow>
          if 0xD800 \<le> r \<and> r < 0xE000 then
            (case getu4 (drop 6 s) of
               Some l \<Rightarrow>
                 if r < 0xDC00 \<and> 0xDC00 \<le> l \<and> l < 0xE000
                 then (utf8 ((r - 0xD800) * 1024 + (l - 0xDC00) + 0x10000), 12) else (replacement, 6)
             | None \<Rightarrow> (replacement, 6))
          else (utf8 r, 6)
      | None \<Rightarrow>
          (case s of
             _ # c # _ \<Rightarrow>
               ([if c = CHR ''b'' then CHR 0x08 else if c = CHR ''f'' then CHR 0x0C else if c = CHR ''n'' then CHR 0x0A
                 else if c = CHR ''r'' then CHR 0x0D else if c = CHR ''t'' then CHR 0x09 else c], 2)
           | _ \<Rightarrow> ([], 2)))"

function unquote :: "string \<Rightarrow> string" where
  "unquote [] = []"
| "unquote (c # cs) =
     (if c = backslash then (case unescape_front (c # cs) of (t, n) \<Rightarrow> t @ unquote (drop (n - 1) cs))
      else case rune_length (c # cs) of
        None \<Rightarrow> replacement @ unquote cs
      | Some n \<Rightarrow> take n (c # cs) @ unquote (drop (n - 1) cs))"
  by pat_completeness auto
termination by (relation "measure length") (auto simp: less_Suc_eq_le)

section \<open>The parser\<close>

definition number_char :: "char \<Rightarrow> bool" where
  "number_char c \<longleftrightarrow> is_digit c \<or> c \<in> set ''+-.eE''"

text \<open>
  The first argument bounds the depth of calls. Of two nested calls one takes a byte off the text, so
  twice the length of the text is a bound that is never met (\<open>parse_enough\<close>).
\<close>

fun parse_value :: "nat \<Rightarrow> string \<Rightarrow> (jval \<times> string) option"
  and parse_elements :: "nat \<Rightarrow> string \<Rightarrow> (jval list \<times> string) option"
  and parse_members :: "nat \<Rightarrow> string \<Rightarrow> ((string \<times> jval \<times> string) list \<times> string) option"
where
  "parse_value 0 s = None"
| "parse_value (Suc n) s =
     (case skip_space s of
        [] \<Rightarrow> None
      | c # cs \<Rightarrow>
          if c = quote_char then map_option (\<lambda>(b, r). (VString (unquote b), r)) (string_body cs)
          else if c = CHR ''['' then
            (if HasPrefix (skip_space cs) '']'' then Some (VArray [], tl (skip_space cs))
             else map_option (\<lambda>(vs, r). (VArray vs, r)) (parse_elements n cs))
          else if c = CHR ''{'' then
            (if HasPrefix (skip_space cs) ''}'' then Some (VObject [], tl (skip_space cs))
             else map_option (\<lambda>(ms, r). (VObject ms, r)) (parse_members n cs))
          else if HasPrefix (c # cs) ''true'' then Some (VBool True, drop 3 cs)
          else if HasPrefix (c # cs) ''false'' then Some (VBool False, drop 4 cs)
          else if HasPrefix (c # cs) ''null'' then Some (VNull, drop 3 cs)
          else if number_char c then Some (VNumber (takeWhile number_char (c # cs)), dropWhile number_char cs)
          else None)"
| "parse_elements 0 s = None"
| "parse_elements (Suc n) s =
     (case parse_value n s of
        None \<Rightarrow> None
      | Some (v, r) \<Rightarrow>
          if HasPrefix (skip_space r) '','' then map_option (\<lambda>(vs, q). (v # vs, q)) (parse_elements n (tl (skip_space r)))
          else if HasPrefix (skip_space r) '']'' then Some ([v], tl (skip_space r))
          else None)"
| "parse_members 0 s = None"
| "parse_members (Suc n) s =
     (if \<not> HasPrefix (skip_space s) [quote_char] then None
      else case string_body (tl (skip_space s)) of
        None \<Rightarrow> None
      | Some (k, r) \<Rightarrow>
          if \<not> HasPrefix (skip_space r) '':'' then None
          else
            let body = skip_space (tl (skip_space r)) in
            case parse_value n body of
              None \<Rightarrow> None
            | Some (v, r) \<Rightarrow>
                let m = (unquote k, v, take (length body - length r) body) in
                if HasPrefix (skip_space r) '','' then map_option (\<lambda>(ms, q). (m # ms, q)) (parse_members n (tl (skip_space r)))
                else if HasPrefix (skip_space r) ''}'' then Some ([m], tl (skip_space r))
                else None)"

text \<open>
  \<open>Decode\<close> once and then to the end of the input succeeds on the text of one value with space around
  it: exactly on valid texts.
\<close>

definition json_parse :: "string \<Rightarrow> jval option" where
  "json_parse s = (if json_Valid s then map_option fst (parse_value (Suc (2 * length s)) s) else None)"

section \<open>Storing\<close>

fun store_string :: "jval \<Rightarrow> string \<Rightarrow> string option" where
  "store_string VNull old = Some old"
| "store_string (VString s) old = Some s"
| "store_string _ old = None"

fun store_int :: "jval \<Rightarrow> int \<Rightarrow> int option" where
  "store_int VNull old = Some old"
| "store_int (VNumber lit) old = ParseInt lit"
| "store_int _ old = None"

definition ParseFloat :: "string \<Rightarrow> float64 option" where
  "ParseFloat lit =
     (let neg = HasPrefix lit ''-'';
          abs = (if neg then tl lit else lit);
          mantissa = takeWhile (\<lambda>c. c \<noteq> CHR ''e'' \<and> c \<noteq> CHR ''E'') abs;
          exponent = (case drop (length mantissa) abs of [] \<Rightarrow> 0 | _ # e \<Rightarrow> (case time_atoi e of Some i \<Rightarrow> i | None \<Rightarrow> 0));
          (whole, part, _) = Cut (CHR ''.'') mantissa;
          x = of_int (decimal (whole @ part)) * (10 powi (exponent - int (length part))) :: rat
      in case round64 (if neg then - x else x) of Fin y \<Rightarrow> Some (Fin y) | _ \<Rightarrow> None)"

fun store_float :: "jval \<Rightarrow> float64 \<Rightarrow> float64 option" where
  "store_float VNull old = Some old"
| "store_float (VNumber lit) old = ParseFloat lit"
| "store_float _ old = None"

text \<open>A pointer: null makes it nil, and any other value goes where it points, or to a new zero.\<close>

definition store_pointer :: "(jval \<Rightarrow> 'a \<Rightarrow> 'a option) \<Rightarrow> 'a \<Rightarrow> jval \<Rightarrow> 'a option \<Rightarrow> 'a option option" where
  "store_pointer store zero v old =
     (if v = VNull then Some None
      else map_option Some (store v (case old of None \<Rightarrow> zero | Some x \<Rightarrow> x)))"

text \<open>A map: each member is stored into a new zero and put under its key.\<close>

fun store_members :: "(jval \<Rightarrow> 'a \<Rightarrow> 'a option) \<Rightarrow> 'a \<Rightarrow> (string \<times> jval \<times> string) list \<Rightarrow> (string \<times> 'a) list \<Rightarrow> (string \<times> 'a) list option" where
  "store_members store zero [] old = Some old"
| "store_members store zero ((k, v, _) # ms) old =
     (case store v zero of None \<Rightarrow> None | Some x \<Rightarrow> store_members store zero ms (AList.update k x old))"

fun store_map :: "(jval \<Rightarrow> 'a \<Rightarrow> 'a option) \<Rightarrow> 'a \<Rightarrow> jval \<Rightarrow> (string \<times> 'a) list option \<Rightarrow> (string \<times> 'a) list option option" where
  "store_map store zero VNull old = Some None"
| "store_map store zero (VObject ms) old =
     map_option Some (store_members store zero ms (case old of None \<Rightarrow> [] | Some m \<Rightarrow> m))"
| "store_map store zero _ old = None"

text \<open>A slice: each element is stored into the one that is there, or into a new zero.\<close>

fun store_elements :: "(jval \<Rightarrow> 'a \<Rightarrow> 'a option) \<Rightarrow> 'a \<Rightarrow> jval list \<Rightarrow> 'a list \<Rightarrow> 'a list option" where
  "store_elements store zero [] old = Some []"
| "store_elements store zero (v # vs) old =
     (case (store v (case old of [] \<Rightarrow> zero | x # _ \<Rightarrow> x), store_elements store zero vs (tl old)) of
        (Some x, Some xs) \<Rightarrow> Some (x # xs)
      | _ \<Rightarrow> None)"

fun store_slice :: "(jval \<Rightarrow> 'a \<Rightarrow> 'a option) \<Rightarrow> 'a \<Rightarrow> jval \<Rightarrow> 'a list \<Rightarrow> 'a list option" where
  "store_slice store zero VNull old = Some []"
| "store_slice store zero (VArray vs) old = store_elements store zero vs old"
| "store_slice store zero _ old = None"

text \<open>
  A struct: a member goes to the field of its name, or of that name in another letter case; others are
  skipped, or refused where unknown fields are not allowed. A field gets the value and its text.
\<close>

type_synonym 'a fields = "(string \<times> (jval \<times> string \<Rightarrow> 'a \<Rightarrow> 'a option)) list"

definition field_for :: "'a fields \<Rightarrow> string \<Rightarrow> (jval \<times> string \<Rightarrow> 'a \<Rightarrow> 'a option) option" where
  "field_for fs k =
     (case map_of fs k of
        Some f \<Rightarrow> Some f
      | None \<Rightarrow> map_option snd (find (\<lambda>(name, f). EqualFold name k) fs))"

fun store_fields :: "bool \<Rightarrow> 'a fields \<Rightarrow> (string \<times> jval \<times> string) list \<Rightarrow> 'a \<Rightarrow> 'a option" where
  "store_fields strict fs [] old = Some old"
| "store_fields strict fs ((k, v) # ms) old =
     (case field_for fs k of
        None \<Rightarrow> if strict then None else store_fields strict fs ms old
      | Some f \<Rightarrow> (case f v old of None \<Rightarrow> None | Some x \<Rightarrow> store_fields strict fs ms x))"

fun store_struct :: "bool \<Rightarrow> 'a fields \<Rightarrow> jval \<Rightarrow> 'a \<Rightarrow> 'a option" where
  "store_struct strict fs VNull old = Some old"
| "store_struct strict fs (VObject ms) old = store_fields strict fs ms old"
| "store_struct strict fs _ old = None"

text \<open>A field that is a part of a record, given by its selector and its update.\<close>

definition at_field :: "('a \<Rightarrow> 'b) \<Rightarrow> (('b \<Rightarrow> 'b) \<Rightarrow> 'a \<Rightarrow> 'a) \<Rightarrow> (jval \<Rightarrow> 'b \<Rightarrow> 'b option) \<Rightarrow> jval \<times> string \<Rightarrow> 'a \<Rightarrow> 'a option" where
  "at_field get upd store v r = map_option (\<lambda>x. upd (\<lambda>_. x) r) (store (fst v) (get r))"

section \<open>Values of any type\<close>

text \<open>\<open>Marshal\<close> of what was decoded into an empty interface: objects are maps.\<close>

fun marshal_any :: "jval \<Rightarrow> string" where
  "marshal_any VNull = ''null''"
| "marshal_any (VBool b) = (if b then ''true'' else ''false'')"
| "marshal_any (VNumber lit) = lit"
| "marshal_any (VString s) = json_quote s"
| "marshal_any (VArray vs) = ''['' @ Join (map marshal_any vs) '','' @ '']''"
| "marshal_any (VObject ms) =
     (let texts = foldl (\<lambda>m (k, t). AList.update k t m) [] (map (\<lambda>(k, v, _). (k, marshal_any v)) ms)
      in ''{'' @ Join (map (\<lambda>(k, t). json_quote k @ '':'' @ t) (sort_key fst texts)) '','' @ ''}'')"

section \<open>Properties\<close>

lemma string_body_shorter: "string_body s = Some (b, r) \<Longrightarrow> length r < length s"
  by (induction s arbitrary: b rule: string_body.induct) (auto split: if_splits list.splits, fastforce+)

lemma prefix_shorter: "HasPrefix (skip_space s) [c] \<Longrightarrow> length (tl (skip_space s)) < length s"
  using length_dropWhile_le [of json_space s] by (cases "skip_space s") (auto simp: HasPrefix_def)

lemma skip_space_Cons: "skip_space s = c # cs \<Longrightarrow> length cs < length s"
  using length_dropWhile_le [of json_space s] by auto

lemma parse_shorter:
  "parse_value n s = Some (v, r) \<Longrightarrow> length r < length s"
  "parse_elements n s = Some (vs, r) \<Longrightarrow> length r < length s"
  "parse_members n s = Some (ms, r) \<Longrightarrow> length r < length s"
proof (induction n s and n s and n s arbitrary: v r and vs r and ms r
    rule: parse_value_parse_elements_parse_members.induct)
  case (2 n s)
  obtain c cs where s: "skip_space s = c # cs" using 2(3) by (cases "skip_space s") auto
  note cs = skip_space_Cons [OF s]
  have "length r \<le> length cs"
    using 2(3) s 2(1,2) [OF s] length_dropWhile_le [of number_char cs] prefix_shorter [of cs]
    by (auto split: if_splits dest!: string_body_shorter intro: less_imp_le)
  then show ?case using cs by simp
next
  case (4 n s)
  obtain v r1 where v: "parse_value n s = Some (v, r1)" using 4(3) by (auto split: option.splits)
  have r1: "length r1 < length s" by (rule 4(1) [OF v])
  from 4(3) v 4(2) [OF v refl] have "length r < length r1"
    using prefix_shorter [of r1] by (auto split: if_splits) (meson less_trans)+
  with r1 show ?case by simp
next
  case (6 n s)
  obtain k r0 where k: "HasPrefix (skip_space s) [quote_char]" "string_body (tl (skip_space s)) = Some (k, r0)"
    "HasPrefix (skip_space r0) '':''"
    using 6(3) by (auto split: option.splits if_splits)
  let ?body = "skip_space (tl (skip_space r0))"
  obtain v r1 where v: "parse_value n ?body = Some (v, r1)" using 6(3) k by (auto simp: Let_def split: option.splits)
  have body: "length ?body < length s"
    using prefix_shorter [OF k(1)] string_body_shorter [OF k(2)] prefix_shorter [OF k(3)]
      length_dropWhile_le [of json_space "tl (skip_space r0)"] by linarith
  have r1: "length r1 < length ?body" using 6(1) k v by auto
  have "length r < length r1"
    using 6(3) k v 6(2) prefix_shorter [of r1] by (auto simp: Let_def split: if_splits) (meson less_trans)+
  with r1 body show ?case by simp
qed simp_all

lemma parse_enough:
  "2 * length s < n \<Longrightarrow> 2 * length s < m \<Longrightarrow> parse_value m s = parse_value n s"
  "2 * length s + 1 < n \<Longrightarrow> 2 * length s + 1 < m \<Longrightarrow> parse_elements m s = parse_elements n s"
  "2 * length s + 1 < n \<Longrightarrow> 2 * length s + 1 < m \<Longrightarrow> parse_members m s = parse_members n s"
proof (induction n s and n s and n s arbitrary: m and m and m rule: parse_value_parse_elements_parse_members.induct)
  case (2 n s)
  obtain m' where m: "m = Suc m'" using 2(4) by (cases m) auto
  show ?case
  proof (cases "skip_space s")
    case (Cons c cs)
    have fuel: "2 * length cs + 1 < n" "2 * length cs + 1 < m'"
      using skip_space_Cons [OF Cons] 2(3,4) m by linarith+
    note elements = 2(1) [OF Cons _ _ _ fuel] and members = 2(2) [OF Cons _ _ _ _ fuel]
    consider "c = quote_char" | "c \<noteq> quote_char" "c = CHR ''[''" | "c \<noteq> quote_char" "c \<noteq> CHR ''[''" "c = CHR ''{''"
      | "c \<noteq> quote_char" "c \<noteq> CHR ''[''" "c \<noteq> CHR ''{''" by blast
    then show ?thesis
    proof cases
      case 2
      then show ?thesis using elements by (cases "HasPrefix (skip_space cs) '']''") (simp_all only: m parse_value.simps Cons list.case simp_thms if_True if_False not_True_eq_False)
    next
      case 3
      then show ?thesis using members by (cases "HasPrefix (skip_space cs) ''}''") (simp_all only: m parse_value.simps Cons list.case simp_thms if_True if_False not_True_eq_False)
    next
      case 1
      then show ?thesis using Cons by (simp only: m parse_value.simps list.case if_True simp_thms)
    next
      case 4
      then show ?thesis using Cons by (simp only: m parse_value.simps list.case if_False simp_thms)
    qed
  next
    case Nil
    then show ?thesis by (simp only: m parse_value.simps list.case)
  qed
next
  case (4 n s)
  obtain m' where m: "m = Suc m'" using 4(4) by (cases m) auto
  have same: "parse_value m' s = parse_value n s" by (rule 4(1)) (use 4(3,4) m in simp_all)
  show ?case
  proof (cases "parse_value n s")
    case (Some vr)
    obtain v r where vr: "vr = (v, r)" by fastforce
    have "parse_elements m' (tl (skip_space r)) = parse_elements n (tl (skip_space r))" if "HasPrefix (skip_space r) '',''"
      by (rule 4(2) [OF Some vr [symmetric] that])
        (use prefix_shorter [OF that] parse_shorter(1) [of n s v r] Some vr 4(3,4) m in simp_all)
    then show ?thesis by (simp only: m parse_elements.simps same Some vr option.case prod.case cong: if_cong)
  next
    case None
    then show ?thesis by (simp only: m parse_elements.simps same option.case)
  qed
next
  case (6 n s)
  obtain m' where m: "m = Suc m'" using 6(4) by (cases m) auto
  show ?case
  proof (cases "\<exists>k r0. HasPrefix (skip_space s) [quote_char] \<and> string_body (tl (skip_space s)) = Some (k, r0)
      \<and> HasPrefix (skip_space r0) '':''")
    case True
    then obtain k r0 where k: "HasPrefix (skip_space s) [quote_char]" "string_body (tl (skip_space s)) = Some (k, r0)"
      "HasPrefix (skip_space r0) '':''" by blast
    let ?body = "skip_space (tl (skip_space r0))"
    have body: "length ?body < length s"
      using prefix_shorter [OF k(1)] string_body_shorter [OF k(2)] prefix_shorter [OF k(3)]
        length_dropWhile_le [of json_space "tl (skip_space r0)"] by linarith
    have same: "parse_value m' ?body = parse_value n ?body"
      by (rule 6(1) [OF _ k(2) refl _ refl]) (use k body 6(3,4) m in simp_all)
    show ?thesis
    proof (cases "parse_value n ?body")
      case (Some vr)
      obtain v r where vr: "vr = (v, r)" by fastforce
      have "parse_members m' (tl (skip_space r)) = parse_members n (tl (skip_space r))" if "HasPrefix (skip_space r) '',''"
        by (rule 6(2) [OF _ k(2) refl _ refl Some vr [symmetric] refl that])
          (use k prefix_shorter [OF that] parse_shorter(1) [of n ?body v r] Some vr body 6(3,4) m in simp_all)
      then show ?thesis
        by (simp only: m parse_members.simps k same Some vr option.case prod.case Let_def not_True_eq_False if_False cong: if_cong)
    next
      case None
      then show ?thesis
        by (simp only: m parse_members.simps k same option.case prod.case Let_def not_True_eq_False if_False)
    qed
  next
    case False
    then show ?thesis by (auto simp: m split: option.splits)
  qed
qed simp_all

end
