(* ===== verification/Configuration.thy ===== *)
theory Configuration
  imports Go_URL
begin

text \<open>
  The configuration and its validation, from \<^verbatim>\<open>internal/config\<close>: \<open>config.go\<close>, \<open>validate.go\<close> and the
  defaults of \<open>load.go\<close>. The YAML decoder is not part of the program: \<open>Load\<close> takes what it returns. The two checks of label selectors that come from Kubernetes' validation package
  are fields of the options, as the environment is; they return the problems that they find.
\<close>

section \<open>Data\<close>

definition VersionV1Alpha1 :: string where
  "VersionV1Alpha1 = ''v1alpha1''"

record ClusterConfig =
  cl_ID :: string
  cl_ClusterWide :: bool
  cl_NamespaceOnly :: bool
  cl_WatchNamespaces :: "string list"
  cl_Resources :: "string list"

record ControllerConfig =
  cn_Workers :: int
  cn_ReconcileTimeout :: duration
  cn_MaxNormalizedStateBytes :: int

record MongoConfig =
  mo_URIEnv :: string
  mo_Database :: string
  mo_Timeout :: duration

record RulesConfig =
  ru_CrashLoopRestartThreshold :: int
  ru_CrashLoopCriticalThreshold :: int
  ru_MinimumAge :: duration
  ru_EventQuietPeriod :: duration
  ru_IgnoredNamespaces :: "string list"
  ru_IgnoredLabels :: "string list"

record ProviderConfig =
  pc_Type :: string
  pc_Model :: string
  pc_CredentialEnv :: string
  pc_Endpoint :: string
  pc_StrictMode :: string

record DecisionConfig =
  de_Primary :: ProviderConfig
  de_Fallback :: "ProviderConfig option"
  de_Timeout :: duration

record DestinationConfig =
  ds_ID :: string
  ds_Type :: string
  ds_URL :: string
  ds_CredentialEnv :: string
  ds_AllowInsecureHTTP :: bool
  ds_Timeout :: duration
  ds_MaxResponseBytes :: int
  ds_MaxRetryAfter :: duration

record RetryConfig =
  re_MaxAttempts :: int
  re_InitialBackoff :: duration
  re_MaxBackoff :: duration

record NotificationsConfig =
  no_Destinations :: "DestinationConfig list"
  no_Retry :: RetryConfig

record HTTPConfig =
  ht_Address :: string
  ht_ReadTimeout :: duration
  ht_WriteTimeout :: duration
  ht_IdleTimeout :: duration

record LoggingConfig =
  lo_Level :: string

record Configuration =
  cfg_Version :: string
  cfg_Cluster :: ClusterConfig
  cfg_Controller :: ControllerConfig
  cfg_Mongo :: MongoConfig
  cfg_Rules :: RulesConfig
  cfg_Decision :: DecisionConfig
  cfg_Notifications :: NotificationsConfig
  cfg_HTTP :: HTTPConfig
  cfg_Logging :: LoggingConfig

record ConfigOptions =
  co_LookupEnv :: "(string \<Rightarrow> string option) option"
  co_ProviderTypes :: "string set"
  co_NotifierTypes :: "string set"
  co_IsQualifiedName :: "string \<Rightarrow> string list"
  co_IsValidLabelValue :: "string \<Rightarrow> string list"

section \<open>Validation\<close>

text \<open>The message of an error, without the values that it quotes, and those values.\<close>

datatype ConfigError = Refused string | RefusedFor string string

definition require :: "bool \<Rightarrow> ConfigError \<Rightarrow> ConfigError option" where
  "require ok err = (if ok then None else Some err)"

text \<open>Checks in sequence: the first error counts.\<close>

fun in_order :: "ConfigError option list \<Rightarrow> ConfigError option" where
  "in_order [] = None"
| "in_order (c # cs) = and_then c (in_order cs)"

definition administrativeDatabases :: "string set" where
  "administrativeDatabases = {''admin'', ''local'', ''config''}"

definition supportedKubernetesResources :: "string set" where
  "supportedKubernetesResources = set [''pods'', ''events'', ''deployments'', ''statefulsets'', ''daemonsets'', ''jobs'']"

definition requireEnvironment :: "string \<Rightarrow> string \<Rightarrow> ConfigOptions \<Rightarrow> ConfigError option" where
  "requireEnvironment name fld options =
     (if blank name then Some (RefusedFor ''field is required'' fld)
      else case co_LookupEnv options of
        None \<Rightarrow> Some (Refused ''environment lookup is required'')
      | Some lookup \<Rightarrow>
          (case lookup name of
             None \<Rightarrow> Some (RefusedFor ''referenced environment variable is not set'' name)
           | Some v \<Rightarrow> if v = [] then Some (RefusedFor ''referenced environment variable is not set'' name) else None))"

definition validateProvider :: "ProviderConfig \<Rightarrow> string \<Rightarrow> ConfigOptions \<Rightarrow> ConfigError option" where
  "validateProvider provider role options =
     (if pc_Type provider \<notin> co_ProviderTypes options then Some (RefusedFor ''provider type is not registered'' (role @ '' '' @ pc_Type provider))
      else if blank (pc_Model provider) then Some (RefusedFor ''provider model is required'' role)
      else if pc_Type provider = ''openai-compatible'' then
        (let endpoint_ok = (case url_Parse (TrimSpace (pc_Endpoint provider)) of
               None \<Rightarrow> False
             | Some endpoint \<Rightarrow>
                 u_Scheme endpoint = ''https'' \<and> u_Host endpoint \<noteq> [] \<and> u_User endpoint = None
                 \<and> u_RawQuery endpoint = [] \<and> u_Fragment endpoint = [])
         in if \<not> endpoint_ok then Some (RefusedFor ''openai-compatible provider endpoint must be an absolute HTTPS URL without credentials, query, or fragment'' role)
            else if pc_StrictMode provider \<noteq> ''json_schema'' \<and> pc_StrictMode provider \<noteq> ''forced_tool''
            then Some (RefusedFor ''openai-compatible provider strictMode must be json_schema or forced_tool'' role)
            else requireEnvironment (pc_CredentialEnv provider) (role @ '' provider credentialEnv'') options)
      else if \<not> blank (pc_Endpoint provider) \<or> \<not> blank (pc_StrictMode provider) then Some (RefusedFor ''native provider must not override endpoint or strictMode'' role)
      else requireEnvironment (pc_CredentialEnv provider) (role @ '' provider credentialEnv'') options)"

fun validateNamespaces :: "string list \<Rightarrow> string list \<Rightarrow> ConfigError option" where
  "validateNamespaces seen [] = None"
| "validateNamespaces seen (n # ns) =
     (let namespace = TrimSpace n in
      if namespace = [] then Some (Refused ''cluster.watchNamespaces must not contain empty values'')
      else if namespace \<in> set seen then Some (RefusedFor ''duplicate watch namespace'' namespace)
      else validateNamespaces (namespace # seen) ns)"

fun validateResources :: "string list \<Rightarrow> string list \<Rightarrow> ConfigError option" where
  "validateResources seen [] = None"
| "validateResources seen (r # rs) =
     (let resource = ToLower (TrimSpace r) in
      if resource = ''secret'' \<or> resource = ''secrets'' then Some (Refused ''watching Secret resources is forbidden'')
      else if resource \<notin> supportedKubernetesResources then Some (RefusedFor ''unsupported Kubernetes resource'' resource)
      else if resource \<in> set seen then Some (RefusedFor ''duplicate Kubernetes resource'' resource)
      else validateResources (resource # seen) rs)"

definition validateSelector :: "ConfigOptions \<Rightarrow> string \<Rightarrow> ConfigError option" where
  "validateSelector options selector =
     (if selector \<noteq> TrimSpace selector then Some (RefusedFor ''rules.ignoredLabels contains whitespace-padded selector'' selector)
      else case Cut (CHR ''='') selector of
        (key, v, hasValue) \<Rightarrow>
          if 0 < length (co_IsQualifiedName options key) then Some (RefusedFor ''rules.ignoredLabels contains invalid selector'' selector)
          else if hasValue \<and> 0 < length (co_IsValidLabelValue options v) then Some (RefusedFor ''rules.ignoredLabels contains invalid selector'' selector)
          else None)"

fun validateDestinationIDs :: "string list \<Rightarrow> DestinationConfig list \<Rightarrow> ConfigError option" where
  "validateDestinationIDs seen [] = None"
| "validateDestinationIDs seen (d # ds) =
     (if ds_ID d = [] then Some (Refused ''notification destination id is required'')
      else if ds_ID d \<in> set seen then Some (RefusedFor ''duplicate destination id'' (ds_ID d))
      else validateDestinationIDs (ds_ID d # seen) ds)"

definition validateDestination :: "ConfigOptions \<Rightarrow> DestinationConfig \<Rightarrow> ConfigError option" where
  "validateDestination options d =
     (if ds_Type d \<notin> co_NotifierTypes options then Some (RefusedFor ''notifier type is not registered'' (ds_Type d))
      else case url_ParseRequestURI (ds_URL d) of
        None \<Rightarrow> Some (RefusedFor ''destination has invalid URL'' (ds_ID d))
      | Some parsed \<Rightarrow>
          if u_Host parsed = [] then Some (RefusedFor ''destination has invalid URL'' (ds_ID d))
          else if u_Scheme parsed = ''http'' \<and> \<not> ds_AllowInsecureHTTP d then Some (RefusedFor ''destination requires allowInsecureHTTP: true'' (ds_ID d))
          else if u_Scheme parsed \<noteq> ''https'' \<and> u_Scheme parsed \<noteq> ''http'' then Some (RefusedFor ''destination URL must use HTTP or HTTPS'' (ds_ID d))
          else in_order
            [requireEnvironment (ds_CredentialEnv d) ''destination credentialEnv'' options,
             require (0 < ds_Timeout d) (Refused ''destination timeout must be positive''),
             require (0 < ds_MaxResponseBytes d) (Refused ''destination maxResponseBytes must be positive''),
             require (0 < ds_MaxRetryAfter d) (Refused ''destination maxRetryAfter must be positive'')])"

definition validateClusterConfig :: "ClusterConfig \<Rightarrow> ConfigError option" where
  "validateClusterConfig c =
     in_order
       [require (\<not> blank (cl_ID c)) (Refused ''cluster.id is required''),
        require (\<not> (cl_ClusterWide c \<and> cl_NamespaceOnly c)) (Refused ''cluster.namespaceOnly cannot be true with clusterWide''),
        require (cl_ClusterWide c \<or> cl_WatchNamespaces c \<noteq> []) (Refused ''cluster.watchNamespaces is required unless clusterWide is true''),
        validateNamespaces [] (cl_WatchNamespaces c),
        require (cl_Resources c \<noteq> []) (Refused ''cluster.resources must contain at least one supported resource''),
        validateResources [] (cl_Resources c)]"

definition validateDecisionConfig :: "DecisionConfig \<Rightarrow> ConfigOptions \<Rightarrow> ConfigError option" where
  "validateDecisionConfig d options =
     in_order
       [validateProvider (de_Primary d) ''primary'' options,
        (case de_Fallback d of
           None \<Rightarrow> None
         | Some fallback \<Rightarrow>
             if pc_Type fallback = pc_Type (de_Primary d) then Some (Refused ''decision fallback provider must differ from primary'')
             else validateProvider fallback ''fallback'' options),
        require (0 < de_Timeout d) (Refused ''decision.timeout must be positive'')]"

definition Validate :: "Configuration \<Rightarrow> ConfigOptions \<Rightarrow> ConfigError option" where
  "Validate cfg options =
     in_order
       [require (cfg_Version cfg = VersionV1Alpha1) (RefusedFor ''unsupported config version'' (cfg_Version cfg)),
        require (ToLower (TrimSpace (lo_Level (cfg_Logging cfg))) \<in> {''debug'', ''info'', ''warn'', ''error''}) (Refused ''logging.level must be one of debug, info, warn, or error''),
        validateClusterConfig (cfg_Cluster cfg),
        require (0 < cn_Workers (cfg_Controller cfg)) (Refused ''controller.workers must be positive''),
        require (0 < cn_ReconcileTimeout (cfg_Controller cfg)) (Refused ''controller.reconcileTimeout must be positive''),
        require (0 < cn_MaxNormalizedStateBytes (cfg_Controller cfg)) (Refused ''controller.maxNormalizedStateBytes must be positive''),
        require (\<not> blank (mo_Database (cfg_Mongo cfg))) (Refused ''mongo.database is required and cannot be empty''),
        require (ToLower (mo_Database (cfg_Mongo cfg)) \<notin> administrativeDatabases)
          (RefusedFor ''mongo.database is administrative'' (mo_Database (cfg_Mongo cfg))),
        require (0 < mo_Timeout (cfg_Mongo cfg)) (Refused ''mongo.timeout must be positive''),
        requireEnvironment (mo_URIEnv (cfg_Mongo cfg)) ''mongo.uriEnv'' options,
        validateDecisionConfig (cfg_Decision cfg) options,
        require (0 < ru_CrashLoopRestartThreshold (cfg_Rules cfg)
          \<and> ru_CrashLoopRestartThreshold (cfg_Rules cfg) \<le> ru_CrashLoopCriticalThreshold (cfg_Rules cfg)) (Refused ''rules crash-loop thresholds are invalid''),
        require (0 < ru_MinimumAge (cfg_Rules cfg) \<and> 0 < ru_EventQuietPeriod (cfg_Rules cfg)) (Refused ''rules durations must be positive''),
        first_error (validateSelector options) (ru_IgnoredLabels (cfg_Rules cfg)),
        validateDestinationIDs [] (no_Destinations (cfg_Notifications cfg)),
        first_error (validateDestination options) (no_Destinations (cfg_Notifications cfg)),
        require (0 < re_MaxAttempts (no_Retry (cfg_Notifications cfg))) (Refused ''notifications.retry.maxAttempts must be positive''),
        require (0 < re_InitialBackoff (no_Retry (cfg_Notifications cfg))) (Refused ''notifications.retry.initialBackoff must be positive''),
        require (re_InitialBackoff (no_Retry (cfg_Notifications cfg)) \<le> re_MaxBackoff (no_Retry (cfg_Notifications cfg)))
          (Refused ''notifications.retry.maxBackoff must be at least initialBackoff''),
        require (0 < ht_ReadTimeout (cfg_HTTP cfg) \<and> 0 < ht_WriteTimeout (cfg_HTTP cfg) \<and> 0 < ht_IdleTimeout (cfg_HTTP cfg))
          (Refused ''http timeouts must be positive'')]"

definition applyDefaults :: "Configuration \<Rightarrow> Configuration" where
  "applyDefaults cfg = cfg
     \<lparr>cfg_Controller := (if cn_Workers (cfg_Controller cfg) = 0
        then (cfg_Controller cfg)\<lparr>cn_Workers := 2\<rparr> else cfg_Controller cfg),
      cfg_HTTP := (if ht_Address (cfg_HTTP cfg) = [] then (cfg_HTTP cfg)\<lparr>ht_Address := '':8080''\<rparr> else cfg_HTTP cfg),
      cfg_Logging := (if lo_Level (cfg_Logging cfg) = [] then \<lparr>lo_Level = ''info''\<rparr> else cfg_Logging cfg)\<rparr>"

text \<open>
  What the decoder of YAML returns for the two documents that \<open>Load\<close> asks it for: it reports the end
  of the input, finds another document, or fails.
\<close>

datatype 'e trailing = EOF | Document | Malformed 'e

datatype 'e LoadError = DecodeConfig 'e | MultipleDocuments | Rejected ConfigError

definition Load :: "'e + Configuration \<Rightarrow> 'e trailing \<Rightarrow> ConfigOptions \<Rightarrow> 'e LoadError + Configuration" where
  "Load decoded trailing options =
     (case decoded of
        Inl err \<Rightarrow> Inl (DecodeConfig err)
      | Inr cfg \<Rightarrow>
          (case trailing of
             Document \<Rightarrow> Inl MultipleDocuments
           | Malformed err \<Rightarrow> Inl (DecodeConfig err)
           | EOF \<Rightarrow>
               (let cfg = applyDefaults cfg
                in case Validate cfg options of Some err \<Rightarrow> Inl (Rejected err) | None \<Rightarrow> Inr cfg)))"

section \<open>Properties\<close>

lemma in_order_None [simp]: "in_order cs = None \<longleftrightarrow> (\<forall>c \<in> set cs. c = None)"
  by (induction cs) (auto simp: and_then_def split: option.splits)

lemma require_None [simp]: "require ok err = None \<longleftrightarrow> ok"
  by (simp add: require_def)

lemma validateNamespaces_None:
  "validateNamespaces seen ns = None \<longleftrightarrow>
     (\<forall>n \<in> set ns. \<not> blank n) \<and> distinct (map TrimSpace ns) \<and> set (map TrimSpace ns) \<inter> set seen = {}"
  by (induction seen ns rule: validateNamespaces.induct) (auto simp: Let_def)

lemma secrets_unsupported: "''secret'' \<notin> supportedKubernetesResources" "''secrets'' \<notin> supportedKubernetesResources"
  by (simp_all add: supportedKubernetesResources_def)

lemma validateResources_None:
  "validateResources seen rs = None \<longleftrightarrow>
     (let names = map (\<lambda>r. ToLower (TrimSpace r)) rs in
      set names \<subseteq> supportedKubernetesResources \<and> distinct names \<and> set names \<inter> set seen = {})"
  using secrets_unsupported by (induction seen rs rule: validateResources.induct) (auto simp: Let_def)

lemma validateDestinationIDs_None:
  "validateDestinationIDs seen ds = None \<longleftrightarrow>
     [] \<notin> ds_ID ` set ds \<and> distinct (map ds_ID ds) \<and> ds_ID ` set ds \<inter> set seen = {}"
  by (induction seen ds rule: validateDestinationIDs.induct) auto

text \<open>What a configuration must be, without any order of checks.\<close>

definition variable_set :: "ConfigOptions \<Rightarrow> string \<Rightarrow> bool" where
  "variable_set options name \<longleftrightarrow>
     \<not> blank name \<and> (\<exists>lookup v. co_LookupEnv options = Some lookup \<and> lookup name = Some v \<and> v \<noteq> [])"

lemma requireEnvironment_None: "requireEnvironment name fld options = None \<longleftrightarrow> variable_set options name"
  by (auto simp: requireEnvironment_def variable_set_def split: option.splits)

definition provider_ok :: "ConfigOptions \<Rightarrow> ProviderConfig \<Rightarrow> bool" where
  "provider_ok options p \<longleftrightarrow>
     pc_Type p \<in> co_ProviderTypes options \<and> \<not> blank (pc_Model p) \<and> variable_set options (pc_CredentialEnv p)
     \<and> (if pc_Type p = ''openai-compatible''
        then pc_StrictMode p \<in> {''json_schema'', ''forced_tool''}
          \<and> (\<exists>u. url_Parse (TrimSpace (pc_Endpoint p)) = Some u \<and> u_Scheme u = ''https'' \<and> u_Host u \<noteq> []
               \<and> u_User u = None \<and> u_RawQuery u = [] \<and> u_Fragment u = [])
        else blank (pc_Endpoint p) \<and> blank (pc_StrictMode p))"

lemma validateProvider_None: "validateProvider p role options = None \<longleftrightarrow> provider_ok options p"
  by (auto simp: validateProvider_def provider_ok_def requireEnvironment_None Let_def split: option.splits)

definition destination_ok :: "ConfigOptions \<Rightarrow> DestinationConfig \<Rightarrow> bool" where
  "destination_ok options d \<longleftrightarrow>
     ds_Type d \<in> co_NotifierTypes options \<and> variable_set options (ds_CredentialEnv d)
     \<and> 0 < ds_Timeout d \<and> 0 < ds_MaxResponseBytes d \<and> 0 < ds_MaxRetryAfter d
     \<and> (\<exists>u. url_ParseRequestURI (ds_URL d) = Some u \<and> u_Host u \<noteq> []
          \<and> (u_Scheme u = ''https'' \<or> u_Scheme u = ''http'' \<and> ds_AllowInsecureHTTP d))"

lemma validateDestination_None: "validateDestination options d = None \<longleftrightarrow> destination_ok options d"
  by (auto simp: validateDestination_def destination_ok_def requireEnvironment_None split: option.splits)

definition selector_ok :: "ConfigOptions \<Rightarrow> string \<Rightarrow> bool" where
  "selector_ok options selector \<longleftrightarrow>
     TrimSpace selector = selector
     \<and> (case Cut (CHR ''='') selector of (key, v, hasValue) \<Rightarrow>
          co_IsQualifiedName options key = [] \<and> (hasValue \<longrightarrow> co_IsValidLabelValue options v = []))"

lemma validateSelector_None: "validateSelector options selector = None \<longleftrightarrow> selector_ok options selector"
  by (auto simp: validateSelector_def selector_ok_def split: prod.splits)

definition cluster_ok :: "ClusterConfig \<Rightarrow> bool" where
  "cluster_ok c \<longleftrightarrow>
     \<not> blank (cl_ID c) \<and> \<not> (cl_ClusterWide c \<and> cl_NamespaceOnly c)
     \<and> (cl_ClusterWide c \<or> cl_WatchNamespaces c \<noteq> [])
     \<and> (\<forall>n \<in> set (cl_WatchNamespaces c). \<not> blank n) \<and> distinct (map TrimSpace (cl_WatchNamespaces c))
     \<and> cl_Resources c \<noteq> []
     \<and> (let names = map (\<lambda>r. ToLower (TrimSpace r)) (cl_Resources c) in
        set names \<subseteq> supportedKubernetesResources \<and> distinct names)"

lemma validateClusterConfig_None: "validateClusterConfig c = None \<longleftrightarrow> cluster_ok c"
  by (simp add: validateClusterConfig_def cluster_ok_def validateNamespaces_None validateResources_None Let_def)

definition numbers_ok :: "Configuration \<Rightarrow> bool" where
  "numbers_ok cfg \<longleftrightarrow>
     0 < cn_Workers (cfg_Controller cfg) \<and> 0 < cn_ReconcileTimeout (cfg_Controller cfg)
     \<and> 0 < cn_MaxNormalizedStateBytes (cfg_Controller cfg) \<and> 0 < mo_Timeout (cfg_Mongo cfg)
     \<and> 0 < de_Timeout (cfg_Decision cfg)
     \<and> 0 < ru_CrashLoopRestartThreshold (cfg_Rules cfg)
     \<and> ru_CrashLoopRestartThreshold (cfg_Rules cfg) \<le> ru_CrashLoopCriticalThreshold (cfg_Rules cfg)
     \<and> 0 < ru_MinimumAge (cfg_Rules cfg) \<and> 0 < ru_EventQuietPeriod (cfg_Rules cfg)
     \<and> 0 < re_MaxAttempts (no_Retry (cfg_Notifications cfg))
     \<and> 0 < re_InitialBackoff (no_Retry (cfg_Notifications cfg))
     \<and> re_InitialBackoff (no_Retry (cfg_Notifications cfg)) \<le> re_MaxBackoff (no_Retry (cfg_Notifications cfg))
     \<and> 0 < ht_ReadTimeout (cfg_HTTP cfg) \<and> 0 < ht_WriteTimeout (cfg_HTTP cfg) \<and> 0 < ht_IdleTimeout (cfg_HTTP cfg)"

text \<open>
  C11: Validation accepts exactly the configurations that the declarative conditions describe: known
  version and level, a cluster with distinct namespaces and supported resources, positive limits,
  a database that is not administrative, registered providers that differ, well-formed selectors,
  and distinct destinations over HTTPS (or HTTP where that is allowed), with every referenced
  variable set.
\<close>

theorem Validate_iff:
  "Validate cfg options = None \<longleftrightarrow>
     cfg_Version cfg = ''v1alpha1''
     \<and> ToLower (TrimSpace (lo_Level (cfg_Logging cfg))) \<in> {''debug'', ''info'', ''warn'', ''error''}
     \<and> cluster_ok (cfg_Cluster cfg) \<and> numbers_ok cfg
     \<and> \<not> blank (mo_Database (cfg_Mongo cfg)) \<and> ToLower (mo_Database (cfg_Mongo cfg)) \<notin> {''admin'', ''local'', ''config''}
     \<and> variable_set options (mo_URIEnv (cfg_Mongo cfg))
     \<and> provider_ok options (de_Primary (cfg_Decision cfg))
     \<and> (case de_Fallback (cfg_Decision cfg) of None \<Rightarrow> True
        | Some fallback \<Rightarrow> pc_Type fallback \<noteq> pc_Type (de_Primary (cfg_Decision cfg)) \<and> provider_ok options fallback)
     \<and> set (ru_IgnoredLabels (cfg_Rules cfg)) \<subseteq> Collect (selector_ok options)
     \<and> distinct (map ds_ID (no_Destinations (cfg_Notifications cfg)))
     \<and> [] \<notin> ds_ID ` set (no_Destinations (cfg_Notifications cfg))
     \<and> set (no_Destinations (cfg_Notifications cfg)) \<subseteq> Collect (destination_ok options)"
  by (auto simp: Validate_def VersionV1Alpha1_def administrativeDatabases_def validateClusterConfig_None numbers_ok_def
      requireEnvironment_None validateDecisionConfig_def validateProvider_None validateSelector_None
      validateDestinationIDs_None validateDestination_None split: option.splits)

end
