(* ===== verification/Go_Net.thy ===== *)
theory Go_Net
  imports Go_URL Go_Encoding "HOL-Library.Word"
begin

text \<open>
  What the sources use of package \<open>net\<close>: addresses of either length with their classes and text, and
  host-port pairs.
\<close>

section \<open>Addresses\<close>

type_synonym byte = "8 word"

type_synonym IP = "byte list"

definition v4InV6Prefix :: "byte list" where
  "v4InV6Prefix = [0, 0, 0, 0, 0, 0, 0, 0, 0, 0, 0xFF, 0xFF]"

definition To4 :: "IP \<Rightarrow> IP option" where
  "To4 ip =
     (if length ip = 4 then Some ip
      else if length ip = 16 \<and> take 12 ip = v4InV6Prefix then Some (drop 12 ip)
      else None)"

definition ip_Equal :: "IP \<Rightarrow> IP \<Rightarrow> bool" where
  "ip_Equal ip x \<longleftrightarrow>
     ip = x
     \<or> length ip = 4 \<and> length x = 16 \<and> v4InV6Prefix @ ip = x
     \<or> length ip = 16 \<and> length x = 4 \<and> ip = v4InV6Prefix @ x"

definition IPv4zero :: IP where
  "IPv4zero = v4InV6Prefix @ [0, 0, 0, 0]"

definition IPv6unspecified :: IP where
  "IPv6unspecified = replicate 16 0"

definition IPv6loopback :: IP where
  "IPv6loopback = replicate 15 0 @ [1]"

definition IsUnspecified :: "IP \<Rightarrow> bool" where
  "IsUnspecified ip \<longleftrightarrow> ip_Equal ip IPv4zero \<or> ip_Equal ip IPv6unspecified"

definition IsLoopback :: "IP \<Rightarrow> bool" where
  "IsLoopback ip \<longleftrightarrow> (case To4 ip of Some ip4 \<Rightarrow> ip4 ! 0 = 127 | None \<Rightarrow> ip_Equal ip IPv6loopback)"

definition IsPrivate :: "IP \<Rightarrow> bool" where
  "IsPrivate ip \<longleftrightarrow>
     (case To4 ip of
        Some ip4 \<Rightarrow> ip4 ! 0 = 10 \<or> ip4 ! 0 = 172 \<and> and (ip4 ! 1) 0xF0 = 16 \<or> ip4 ! 0 = 192 \<and> ip4 ! 1 = 168
      | None \<Rightarrow> length ip = 16 \<and> and (ip ! 0) 0xFE = 0xFC)"

definition IsMulticast :: "IP \<Rightarrow> bool" where
  "IsMulticast ip \<longleftrightarrow>
     (case To4 ip of Some ip4 \<Rightarrow> and (ip4 ! 0) 0xF0 = 0xE0 | None \<Rightarrow> length ip = 16 \<and> ip ! 0 = 0xFF)"

definition IsLinkLocalMulticast :: "IP \<Rightarrow> bool" where
  "IsLinkLocalMulticast ip \<longleftrightarrow>
     (case To4 ip of
        Some ip4 \<Rightarrow> ip4 ! 0 = 224 \<and> ip4 ! 1 = 0 \<and> ip4 ! 2 = 0
      | None \<Rightarrow> length ip = 16 \<and> ip ! 0 = 0xFF \<and> and (ip ! 1) 0x0F = 0x02)"

definition IsLinkLocalUnicast :: "IP \<Rightarrow> bool" where
  "IsLinkLocalUnicast ip \<longleftrightarrow>
     (case To4 ip of
        Some ip4 \<Rightarrow> ip4 ! 0 = 169 \<and> ip4 ! 1 = 254
      | None \<Rightarrow> length ip = 16 \<and> ip ! 0 = 0xFE \<and> and (ip ! 1) 0xC0 = 0x80)"

section \<open>Their text\<close>

fun hex_text :: "nat \<Rightarrow> string" where
  "hex_text n = (if n < 16 then [hex_digit n] else hex_text (n div 16) @ [hex_digit (n mod 16)])"

declare hex_text.simps [simp del]

fun groups16 :: "byte list \<Rightarrow> nat list" where
  "groups16 (a # b # rest) = (256 * unat a + unat b) # groups16 rest"
| "groups16 _ = []"

definition zero_run :: "nat list \<Rightarrow> nat \<Rightarrow> nat" where
  "zero_run gs i = length (takeWhile (\<lambda>g. g = 0) (drop i gs))"

text \<open>The first of the longest runs of at least two zero groups, with its length.\<close>

definition longest_run :: "nat list \<Rightarrow> nat \<times> nat" where
  "longest_run gs =
     foldl (\<lambda>(start, len) i. if 2 \<le> zero_run gs i \<and> len < zero_run gs i then (i, zero_run gs i) else (start, len))
       (0, 0) [0..<length gs]"

definition text6 :: "nat list \<Rightarrow> string" where
  "text6 gs =
     (case longest_run gs of (start, len) \<Rightarrow>
        if len = 0 then Join (map hex_text gs) '':''
        else Join (map hex_text (take start gs)) '':'' @ ''::'' @ Join (map hex_text (drop (start + len) gs)) '':'')"

definition ip_String :: "IP \<Rightarrow> string" where
  "ip_String ip =
     (if ip = [] then ''<nil>''
      else if length ip \<noteq> 4 \<and> length ip \<noteq> 16
      then ''?'' @ concat (map (\<lambda>b. [hex_digit (unat b div 16), hex_digit (unat b mod 16)]) ip)
      else case To4 ip of
        Some ip4 \<Rightarrow> Join (map (\<lambda>b. Itoa (unat b)) ip4) ''.''
      | None \<Rightarrow> text6 (groups16 ip))"

section \<open>Hosts and ports\<close>

definition JoinHostPort :: "string \<Rightarrow> string \<Rightarrow> string" where
  "JoinHostPort host port =
     (if CHR '':'' \<in> set host then ''['' @ host @ '']:'' @ port else host @ '':'' @ port)"

definition SplitHostPort :: "string \<Rightarrow> (string \<times> string) option" where
  "SplitHostPort hostport =
     (case split_last (CHR '':'') hostport of
        None \<Rightarrow> None
      | Some (before, port) \<Rightarrow>
          if HasPrefix hostport ''['' then
            (let host = takeWhile (\<lambda>c. c \<noteq> CHR '']'') (tl hostport) in
             if before \<noteq> ''['' @ host @ '']'' then None
             else if CHR ''['' \<in> set (tl hostport) \<or> CHR '']'' \<in> set port then None
             else Some (host, port))
          else if CHR '':'' \<in> set before then None
          else if CHR ''['' \<in> set hostport \<or> CHR '']'' \<in> set hostport then None
          else Some (before, port))"

section \<open>Properties\<close>

lemma split_last_append:
  assumes "c \<notin> set after"
  shows "split_last c (before @ c # after) = Some (before, after)"
proof -
  have "takeWhile (\<lambda>d. d \<noteq> c) (rev after @ c # rev before) = rev after"
    "dropWhile (\<lambda>d. d \<noteq> c) (rev after @ c # rev before) = c # rev before"
    using assms by (auto simp: takeWhile_append dropWhile_append)
  then show ?thesis by (simp add: split_last_def)
qed

text \<open>Splitting gives back what was joined, for hosts without brackets and ports of digits.\<close>

lemma Split_JoinHostPort:
  assumes "CHR ''['' \<notin> set host" "CHR '']'' \<notin> set host"
    "CHR '':'' \<notin> set port" "CHR ''['' \<notin> set port" "CHR '']'' \<notin> set port"
  shows "SplitHostPort (JoinHostPort host port) = Some (host, port)"
proof (cases "CHR '':'' \<in> set host")
  case True
  have s: "split_last (CHR '':'') (''['' @ host @ '']:'' @ port) = Some (''['' @ host @ '']'', port)"
    using split_last_append [of "CHR '':''" port "''['' @ host @ '']''"] assms(3) by simp
  have "takeWhile (\<lambda>c. c \<noteq> CHR '']'') (host @ CHR '']'' # r) = host" for r
    using assms(2) by (subst takeWhile_append2) auto
  then show ?thesis using True s assms by (simp add: JoinHostPort_def SplitHostPort_def HasPrefix_def)
next
  case False
  have s: "split_last (CHR '':'') (host @ '':'' @ port) = Some (host, port)"
    using split_last_append [of "CHR '':''" port host] assms(3) by simp
  have "\<not> HasPrefix (host @ '':'' @ port) ''[''"
    using assms(1) by (cases host) (auto simp: HasPrefix_def)
  then show ?thesis using False s assms by (simp add: JoinHostPort_def SplitHostPort_def)
qed

end
