(* ===== verification/Webhook.thy ===== *)
theory Webhook
  imports Dispatcher Go_HTTP Go_Net
begin

text \<open>
  The webhook notifier, from \<^verbatim>\<open>internal/notify/webhook/webhook.go\<close>, with the factory configuration
  of \<^verbatim>\<open>internal/notify/notifier.go\<close>. The resolver, the dialer and the transport of the HTTP client are
  the network: fields of \<open>Network\<close> that act on the world. A client of the standard library is given by
  its redirect policy and its \<open>DialContext\<close>; any other client is its \<open>Do\<close>.
\<close>

section \<open>The network\<close>

type_synonym ('w, 'c) DialContext = "'w \<Rightarrow> string \<Rightarrow> string \<Rightarrow> (string + 'c) \<times> 'w"

type_synonym 'w Lookup = "'w \<Rightarrow> string \<Rightarrow> (string + IP option list) \<times> 'w"

type_synonym 'w Do = "'w \<Rightarrow> Request \<Rightarrow> (string + string Response) \<times> 'w"

datatype redirect = FollowRedirects | ErrUseLastResponse

datatype ('w, 'c) HTTPClient = StdClient redirect "('w, 'c) DialContext option" | OtherClient "'w Do"

record ('w, 'c) Network =
  nw_clock :: "'w \<Rightarrow> gotime"
  nw_local :: local_zone
  nw_lookup :: "'w Lookup"
  nw_dial :: "('w, 'c) DialContext"
  nw_send :: "redirect \<Rightarrow> ('w, 'c) DialContext option \<Rightarrow> 'w Do"

definition client_Do :: "('w, 'c) Network \<Rightarrow> ('w, 'c) HTTPClient \<Rightarrow> 'w Do" where
  "client_Do nw client =
     (case client of StdClient redirect dial \<Rightarrow> nw_send nw redirect dial | OtherClient f \<Rightarrow> f)"

section \<open>Construction\<close>

definition webhook_Type :: string where
  "webhook_Type = ''webhook''"

record ('w, 'c) NotifierConfig =
  fc_DestinationID :: string
  fc_Endpoint :: string
  fc_Secret :: string
  fc_Timeout :: duration
  fc_MaxResponseBytes :: int
  fc_MaxRetryAfter :: duration
  fc_AllowInsecureHTTP :: bool
  fc_AllowPrivateNetwork :: bool
  fc_HTTPClient :: "('w, 'c) HTTPClient option"
  fc_LookupIP :: "'w Lookup option"
  fc_Now :: "('w \<Rightarrow> gotime \<times> 'w) option"

record ('w, 'c) Webhook =
  wh_name :: string
  wh_endpoint :: URL
  wh_secret :: string
  wh_timeout :: duration
  wh_maxResponseBytes :: int
  wh_maxRetryAfter :: duration
  wh_allowPrivate :: bool
  wh_client :: "('w, 'c) HTTPClient"
  wh_lookupIP :: "'w Lookup"
  wh_now :: "'w \<Rightarrow> gotime \<times> 'w"

definition unsafeIP :: "IP option \<Rightarrow> bool" where
  "unsafeIP ip =
     (case ip of
        None \<Rightarrow> True
      | Some ip \<Rightarrow>
          IsUnspecified ip \<or> IsLoopback ip \<or> IsPrivate ip \<or> IsLinkLocalUnicast ip \<or> IsLinkLocalMulticast ip
          \<or> IsMulticast ip)"

definition validateHost :: "'w \<Rightarrow> string \<Rightarrow> bool \<Rightarrow> 'w Lookup \<Rightarrow> string option \<times> 'w" where
  "validateHost w host allowPrivate lookup =
     (if blank host then (Some ''webhook destination host is required'', w)
      else let (resolved, w) = lookup w host
           in case resolved of
                Inl err \<Rightarrow> (Some ''webhook destination host cannot be resolved'', w)
              | Inr addresses \<Rightarrow>
                  if addresses = [] then (Some ''webhook destination host cannot be resolved'', w)
                  else if allowPrivate then (None, w)
                  else if list_ex unsafeIP addresses then (Some ''webhook destination resolves to a non-public address'', w)
                  else (None, w))"

definition TrimDot :: "string \<Rightarrow> string" where
  "TrimDot s = (if s \<noteq> [] \<and> last s = CHR ''.'' then butlast s else s)"

definition address_text :: "IP option \<Rightarrow> string" where
  "address_text ip = ip_String (case ip of None \<Rightarrow> [] | Some bs \<Rightarrow> bs)"

fun dialFirst ::
  "('w, 'c) DialContext \<Rightarrow> bool \<Rightarrow> string \<Rightarrow> string \<Rightarrow> IP option list \<Rightarrow> 'w \<Rightarrow> (string + 'c) \<times> 'w" where
  "dialFirst dial allowPrivate network port [] w = (Inl ''no safe destination address'', w)"
| "dialFirst dial allowPrivate network port (ip # ips) w =
     (if \<not> allowPrivate \<and> unsafeIP ip then dialFirst dial allowPrivate network port ips w
      else case dial w network (JoinHostPort (address_text ip) port) of
             (Inr connection, w) \<Rightarrow> (Inr connection, w)
           | (Inl dialErr, w) \<Rightarrow> dialFirst dial allowPrivate network port ips w)"

definition safeDialContext ::
  "('w, 'c) DialContext \<Rightarrow> string \<Rightarrow> bool \<Rightarrow> 'w Lookup \<Rightarrow> ('w, 'c) DialContext" where
  "safeDialContext dial host allowPrivate lookup w network address =
     (case SplitHostPort address of
        None \<Rightarrow> (Inl ''invalid destination address'', w)
      | Some (addressHost, port) \<Rightarrow>
          if \<not> EqualFold (TrimDot addressHost) (TrimDot host) then (Inl ''unexpected destination host'', w)
          else let (resolved, w) = lookup w host
               in case resolved of
                    Inl err \<Rightarrow> (Inl ''destination resolution failed'', w)
                  | Inr addresses \<Rightarrow>
                      if addresses = [] then (Inl ''destination resolution failed'', w)
                      else dialFirst dial allowPrivate network port addresses w)"

definition safeHTTPClient ::
  "('w, 'c) Network \<Rightarrow> string \<Rightarrow> bool \<Rightarrow> 'w Lookup \<Rightarrow> ('w, 'c) HTTPClient" where
  "safeHTTPClient nw host allowPrivate lookup =
     StdClient ErrUseLastResponse (Some (safeDialContext (nw_dial nw) host allowPrivate lookup))"

text \<open>The checks of \<open>New\<close> before the first lookup; they give the endpoint.\<close>

definition checkConfig :: "('w, 'c) NotifierConfig \<Rightarrow> string + URL" where
  "checkConfig config =
     (if blank (fc_DestinationID config) then Inl ''webhook destination ID is required''
      else if fc_Secret config = [] then Inl ''webhook secret is required''
      else if fc_Timeout config \<le> 0 then Inl ''webhook timeout must be positive''
      else if fc_MaxResponseBytes config \<le> 0 then Inl ''webhook response limit must be positive''
      else if fc_MaxRetryAfter config \<le> 0 then Inl ''webhook maximum Retry-After must be positive''
      else case url_Parse (fc_Endpoint config) of
        None \<Rightarrow> Inl ''webhook endpoint is invalid''
      | Some endpoint \<Rightarrow>
          if u_Host endpoint = [] then Inl ''webhook endpoint is invalid''
          else if u_User endpoint \<noteq> None \<or> u_Fragment endpoint \<noteq> [] then Inl ''webhook endpoint must not contain userinfo or a fragment''
          else if u_Scheme endpoint \<noteq> ''https'' \<and> \<not> (u_Scheme endpoint = ''http'' \<and> fc_AllowInsecureHTTP config)
          then Inl ''webhook endpoint must use HTTPS''
          else if u_Scheme endpoint \<noteq> ''http'' \<and> u_Scheme endpoint \<noteq> ''https'' then Inl ''webhook endpoint scheme is unsupported''
          else Inr endpoint)"

definition webhook_New ::
  "('w, 'c) Network \<Rightarrow> ('w \<Rightarrow> gotime \<times> 'w) \<Rightarrow> ('w, 'c) NotifierConfig \<Rightarrow> 'w \<Rightarrow> (string + ('w, 'c) Webhook) \<times> 'w" where
  "webhook_New nw time_Now config w =
     (case checkConfig config of
        Inl err \<Rightarrow> (Inl err, w)
      | Inr endpoint \<Rightarrow>
          let lookup = (case fc_LookupIP config of None \<Rightarrow> nw_lookup nw | Some f \<Rightarrow> f);
              (err, w) = validateHost w (Hostname endpoint) (fc_AllowPrivateNetwork config) lookup
          in case err of
               Some err \<Rightarrow> (Inl err, w)
             | None \<Rightarrow>
                 if fc_HTTPClient config \<noteq> None \<and> \<not> fc_AllowPrivateNetwork config
                 then (Inl ''custom webhook HTTP client requires private-network test mode'', w)
                 else
                   (Inr \<lparr>wh_name = fc_DestinationID config, wh_endpoint = endpoint, wh_secret = fc_Secret config,
                     wh_timeout = fc_Timeout config, wh_maxResponseBytes = fc_MaxResponseBytes config,
                     wh_maxRetryAfter = fc_MaxRetryAfter config, wh_allowPrivate = fc_AllowPrivateNetwork config,
                     wh_client = (case fc_HTTPClient config of
                        None \<Rightarrow> safeHTTPClient nw (Hostname endpoint) (fc_AllowPrivateNetwork config) lookup
                      | Some (StdClient redirect dial) \<Rightarrow> StdClient ErrUseLastResponse dial
                      | Some client \<Rightarrow> client),
                     wh_lookupIP = lookup, wh_now = (case fc_Now config of None \<Rightarrow> time_Now | Some f \<Rightarrow> f)\<rparr>, w))"

section \<open>Delivery\<close>

definition envelopeJSON :: "Envelope \<Rightarrow> string option" where
  "envelopeJSON e =
     (case (MarshalTime (env_Time e), rawMessage (env_Data e)) of
        (Some time, Some data) \<Rightarrow>
          Some (''{'' @ Join (map (\<lambda>(k, v). json_quote k @ '':'' @ v)
            [(''specversion'', json_quote (env_SpecVersion e)), (''id'', json_quote (env_ID e)),
             (''source'', json_quote (env_Source e)), (''type'', json_quote (env_Type e)), (''time'', render time),
             (''datacontenttype'', json_quote (env_DataContentType e)),
             (''ruleravenschema'', json_quote (env_SchemaVersion e)), (''data'', data)]) '','' @ ''}'')
      | _ \<Rightarrow> None)"

definition headerEventID :: string where
  "headerEventID = ''X-RuleRaven-Event-ID''"

definition headerSignature :: string where
  "headerSignature = ''X-RuleRaven-Signature''"

definition headerTimestamp :: string where
  "headerTimestamp = ''X-RuleRaven-Timestamp''"

definition headerGenericSignatureV2 :: string where
  "headerGenericSignatureV2 = ''X-Webhook-Signature-V2''"

definition headerGenericTimestamp :: string where
  "headerGenericTimestamp = ''X-Webhook-Timestamp''"

definition signedHeader :: "string \<Rightarrow> string \<Rightarrow> gotime \<Rightarrow> string \<Rightarrow> Header \<Rightarrow> Header" where
  "signedHeader secret eventID timestamp body h =
     (let timestampValue = FormatInt (Unix timestamp);
          signature = Sign secret timestamp body;
          h = header_Set h ''Content-Type'' ''application/cloudevents+json'';
          h = header_Set h headerEventID eventID;
          h = header_Set h headerTimestamp timestampValue;
          h = header_Set h headerSignature (''v1='' @ signature);
          h = header_Set h headerGenericTimestamp timestampValue
      in header_Set h headerGenericSignatureV2 signature)"

definition retryableStatus :: "int \<Rightarrow> bool" where
  "retryableStatus status \<longleftrightarrow> status = 408 \<or> status = 409 \<or> status = 425 \<or> status = 429 \<or> 500 \<le> status \<and> status \<le> 599"

definition webhook_parseRetryAfter :: "local_zone \<Rightarrow> string \<Rightarrow> gotime \<Rightarrow> duration \<Rightarrow> duration" where
  "webhook_parseRetryAfter zone raw now maximum =
     (if raw = [] then 0
      else
        let bounded = (\<lambda>delay. if 0 < maximum \<and> maximum < delay then maximum else delay);
            date = (case ParseTime zone raw of
                      Some retryAt \<Rightarrow> if now < retryAt then time_Sub retryAt now else 0
                    | None \<Rightarrow> 0)
        in case ParseInt (TrimSpace raw) of
             Some seconds \<Rightarrow>
               if 0 < seconds
               then (if 0 < maximum \<and> maximum sdiv Second < seconds then maximum
                     else bounded (wrap64 (seconds * Second)))
               else bounded date
           | None \<Rightarrow> bounded date)"

definition webhook_failure :: "int \<Rightarrow> string \<Rightarrow> bool \<Rightarrow> duration \<Rightarrow> DeliveryError" where
  "webhook_failure status kind retry delay =
     Classified \<lparr>ne_StatusCode = status, ne_Retryable = retry, ne_RetryDelay = delay, ne_Kind = kind\<rparr>"

text \<open>What \<open>Deliver\<close> makes of a response.\<close>

definition judgeResponse ::
  "local_zone \<Rightarrow> ('w, 'c) Webhook \<Rightarrow> gotime \<Rightarrow> string Response \<Rightarrow> DeliveryError option" where
  "judgeResponse zone wh timestamp response =
     (let status = rs_StatusCode response;
          retry = retryableStatus status;
          delay = webhook_parseRetryAfter zone (header_Get (rs_Header response) ''Retry-After'') timestamp (wh_maxRetryAfter wh)
      in case ReadAll_Limit (rs_Body response) (wrap64 (wh_maxResponseBytes wh + 1)) of
           Inl readErr \<Rightarrow> Some (webhook_failure 0 ''transport'' True 0)
         | Inr read \<Rightarrow>
             if wh_maxResponseBytes wh < int (length read)
             then (if 200 \<le> status \<and> status \<le> 299 then None
                   else Some (webhook_failure status ''response_too_large'' retry delay))
             else if 200 \<le> status \<and> status \<le> 299 then None
             else if 300 \<le> status \<and> status \<le> 399 then Some (webhook_failure status ''redirect'' False 0)
             else Some (webhook_failure status (if retry then ''retryable'' else ''permanent'') retry delay))"

definition endOfRequest :: "('w, 'c) Network \<Rightarrow> ('w \<Rightarrow> DeliveryError option) \<Rightarrow> gotime \<Rightarrow> 'w \<Rightarrow> DeliveryError option" where
  "endOfRequest nw ctx deadline w =
     (case ctx w of Some err \<Rightarrow> Some err | None \<Rightarrow> if deadline \<le> nw_clock nw w then Some DeadlineExceeded else None)"

definition webhook_Deliver ::
  "('w, 'c) Network \<Rightarrow> ('w \<Rightarrow> DeliveryError option) \<Rightarrow> ('w, 'c) Webhook \<Rightarrow> 'w \<Rightarrow> Envelope \<Rightarrow> DeliveryError option \<times> 'w" where
  "webhook_Deliver nw ctx wh w event =
     (case ctx w of
        Some err \<Rightarrow> (Some err, w)
      | None \<Rightarrow>
          if env_ID event = [] \<or> env_SpecVersion event \<noteq> CloudEventsSpecVersion \<or> env_SchemaVersion event \<noteq> EnvelopeSchemaVersion
          then (Some (notifyErr ''invalid_envelope''), w)
          else
            let (unsafe, w) = validateHost w (Hostname (wh_endpoint wh)) (wh_allowPrivate wh) (wh_lookupIP wh)
            in if unsafe \<noteq> None then (Some (notifyErr ''unsafe_destination''), w)
               else case envelopeJSON event of
                 None \<Rightarrow> (Some (notifyErr ''invalid_envelope''), w)
               | Some body \<Rightarrow>
                   let (timestamp, w) = wh_now wh w;
                       deadline = nw_clock nw w + wh_timeout wh
                   in case NewRequest ''POST'' (url_String (wh_endpoint wh)) body of
                        None \<Rightarrow> (Some (notifyErr ''invalid_request''), w)
                      | Some req \<Rightarrow>
                          let req = req\<lparr>rq_Header := signedHeader (wh_secret wh) (env_ID event) timestamp body (rq_Header req)\<rparr>;
                              (answer, w) = client_Do nw (wh_client wh) w req
                          in case answer of
                               Inl err \<Rightarrow>
                                 (Some (case endOfRequest nw ctx deadline w of
                                    Some Canceled \<Rightarrow> Canceled
                                  | Some DeadlineExceeded \<Rightarrow> DeadlineExceeded
                                  | _ \<Rightarrow> webhook_failure 0 ''transport'' True 0), w)
                             | Inr response \<Rightarrow> (judgeResponse (nw_local nw) wh timestamp response, w))"

definition webhook_notifier ::
  "('w, 'c) Network \<Rightarrow> ('w \<Rightarrow> DeliveryError option) \<Rightarrow> ('w, 'c) Webhook \<Rightarrow> 'w NotifierImpl" where
  "webhook_notifier nw ctx wh = \<lparr>nf_Name = wh_name wh, nf_Deliver = webhook_Deliver nw ctx wh\<rparr>"

section \<open>Addresses that are refused\<close>

text \<open>A network is an address and the number of its leading bits that count.\<close>

definition bits8 :: "byte \<Rightarrow> bool list" where
  "bits8 b = map (\<lambda>i. bit b (7 - i)) [0..<8]"

definition in_network :: "IP \<Rightarrow> IP \<times> nat \<Rightarrow> bool" where
  "in_network ip net \<longleftrightarrow>
     length ip = length (fst net)
     \<and> take (snd net) (concat (map bits8 ip)) = take (snd net) (concat (map bits8 (fst net)))"

lemma length_bits8 [simp]: "length (bits8 b) = 8"
  by (simp add: bits8_def)

lemma bits8_inj [simp]: "bits8 a = bits8 b \<longleftrightarrow> a = b"
proof
  assume eq: "bits8 a = bits8 b"
  show "a = b"
  proof (rule bit_word_eqI)
    fix n assume "n < LENGTH(8)"
    then have "7 - (7 - n) = n" "[0..<8] ! (7 - n) = 7 - n" by (auto simp: nth_upt)
    then have "bits8 a ! (7 - n) = bit a n" "bits8 b ! (7 - n) = bit b n" by (simp_all add: bits8_def)
    then show "bit a n = bit b n" using eq by simp
  qed
qed simp

lemma bits8_explicit: "bits8 b = [bit b 7, bit b 6, bit b 5, bit b 4, bit b 3, bit b 2, bit b 1, bit b 0]"
  by (simp add: bits8_def upt_rec)

lemma bits8_numerals:
  "bits8 0xF0 = [True, True, True, True, False, False, False, False]"
  "bits8 0xFE = [True, True, True, True, True, True, True, False]"
  "bits8 0xC0 = [True, True, False, False, False, False, False, False]"
  "bits8 0xE0 = [True, True, True, False, False, False, False, False]"
  "bits8 0xFC = [True, True, True, True, True, True, False, False]"
  "bits8 0x80 = [True, False, False, False, False, False, False, False]"
  "bits8 0x10 = [False, False, False, True, False, False, False, False]"
  by code_simp+

lemma bits8_and: "bits8 (and a b) = map2 (\<and>) (bits8 a) (bits8 b)"
  by (simp add: bits8_explicit bit_and_iff)

lemma masks_are_prefixes:
  "and b 0xF0 = (16 :: byte) \<longleftrightarrow> take 4 (bits8 b) = take 4 (bits8 16)"
  "and b 0xF0 = (0xE0 :: byte) \<longleftrightarrow> take 4 (bits8 b) = take 4 (bits8 0xE0)"
  "and b 0xFE = (0xFC :: byte) \<longleftrightarrow> take 7 (bits8 b) = take 7 (bits8 0xFC)"
  "and b 0xC0 = (0x80 :: byte) \<longleftrightarrow> take 2 (bits8 b) = take 2 (bits8 0x80)"
  unfolding bits8_inj [symmetric] bits8_and bits8_numerals
  by (simp_all only: bits8_explicit [of b]) simp_all

definition refused4 :: "(IP \<times> nat) list" where
  "refused4 =
     [([0, 0, 0, 0], 32), ([10, 0, 0, 0], 8), ([127, 0, 0, 0], 8), ([169, 254, 0, 0], 16), ([172, 16, 0, 0], 12),
      ([192, 168, 0, 0], 16), ([224, 0, 0, 0], 4)]"

definition refused6 :: "(IP \<times> nat) list" where
  "refused6 =
     [(replicate 16 0, 128), (replicate 15 0 @ [1], 128), (0xFC # replicate 15 0, 7), (0xFE # 0x80 # replicate 14 0, 10),
      (0xFF # replicate 15 0, 8)]"

lemma bits8_append [simp]: "bits8 a @ xs = bits8 b @ ys \<longleftrightarrow> a = b \<and> xs = ys"
  by simp

lemma bits8_concat [simp]:
  "length xs = length ys \<Longrightarrow> concat (map bits8 xs) = concat (map bits8 ys) \<longleftrightarrow> xs = ys"
  by (induction xs ys rule: list_induct2) auto

lemma length_concat_bits8 [simp]: "length (concat (map bits8 xs)) = 8 * length xs"
  by (induction xs) auto

lemma length_4: "length xs = 4 \<longleftrightarrow> (\<exists>a b c d. xs = [a, b, c, d])"
  by (auto simp: length_Suc_conv numeral_eq_Suc)

lemma in_network_first:
  assumes "length ip = 16" "length p = 16" "n \<le> 8"
  shows "in_network ip (p, n) \<longleftrightarrow> take n (bits8 (ip ! 0)) = take n (bits8 (p ! 0))"
  using assms by (cases ip; cases p) (auto simp: in_network_def)

lemma refused4_iff:
  "list_ex (in_network [a, b, c, d]) refused4 \<longleftrightarrow>
     [a, b, c, d] = [0, 0, 0, 0] \<or> a = 10 \<or> a = 127 \<or> a = 169 \<and> b = 254 \<or> a = 172 \<and> and b 0xF0 = 16
     \<or> a = 192 \<and> b = 168 \<or> and a 0xF0 = 0xE0"
  by (simp add: refused4_def in_network_def masks_are_prefixes)

lemma refused6_iff:
  assumes "length ip = 16"
  shows "list_ex (in_network ip) refused6 \<longleftrightarrow>
    ip = IPv6unspecified \<or> ip = IPv6loopback \<or> and (ip ! 0) 0xFE = 0xFC \<or> ip ! 0 = 0xFE \<and> and (ip ! 1) 0xC0 = 0x80
    \<or> ip ! 0 = 0xFF"
proof -
  have whole: "in_network ip (p, 128) \<longleftrightarrow> ip = p" if "length p = 16" for p
    using assms that by (simp add: in_network_def)
  obtain a b rest where ip: "ip = a # b # rest" using assms
    by (cases ip; cases "tl ip") auto
  have "in_network ip (0xFE # 0x80 # replicate 14 0, 10) \<longleftrightarrow> a = 0xFE \<and> and b 0xC0 = 0x80"
    using assms ip by (simp add: in_network_def masks_are_prefixes)
  moreover have "in_network ip (0xFC # replicate 15 0, 7) \<longleftrightarrow> and a 0xFE = 0xFC"
    "in_network ip (0xFF # replicate 15 0, 8) \<longleftrightarrow> a = 0xFF"
    using assms ip by (simp_all add: in_network_first masks_are_prefixes)
  moreover have "ip ! 0 = a" "ip ! 1 = b" by (simp_all add: ip)
  ultimately show ?thesis by (simp add: refused6_def whole IPv6unspecified_def IPv6loopback_def)
qed

lemma To4_cases:
  assumes "To4 ip = Some ip4"
  shows "length ip4 = 4" "ip = ip4 \<or> ip = v4InV6Prefix @ ip4"
proof -
  show "length ip4 = 4" using assms by (auto simp: To4_def split: if_splits)
  show "ip = ip4 \<or> ip = v4InV6Prefix @ ip4"
    using assms unfolding To4_def by (metis append_take_drop_id option.distinct(1) option.inject)
qed

lemma length_v4InV6Prefix [simp]: "length v4InV6Prefix = 12"
  by (simp add: v4InV6Prefix_def)

lemma mapped_not_unspecified: "v4InV6Prefix @ x \<noteq> IPv6unspecified"
proof
  assume "v4InV6Prefix @ x = IPv6unspecified"
  then have "(v4InV6Prefix @ x) ! 10 = IPv6unspecified ! 10" by simp
  then show False by (simp add: v4InV6Prefix_def IPv6unspecified_def)
qed

lemma unspecified4:
  assumes "To4 ip = Some ip4"
  shows "IsUnspecified ip \<longleftrightarrow> ip4 = [0, 0, 0, 0]"
proof -
  have "length IPv6unspecified = 16" "length IPv4zero = 16" by (simp_all add: IPv6unspecified_def IPv4zero_def)
  with To4_cases [OF assms] show ?thesis
    by (auto simp: IsUnspecified_def ip_Equal_def IPv4zero_def mapped_not_unspecified dest: arg_cong [of _ _ length])
qed

text \<open>
  C0: The addresses that a webhook refuses are exactly those of seven networks of IPv4, also when the
  address is written as an IPv6 address, and of five networks of IPv6.
\<close>

theorem unsafeIP_iff:
  "unsafeIP (Some ip) \<longleftrightarrow>
     (case To4 ip of Some ip4 \<Rightarrow> list_ex (in_network ip4) refused4 | None \<Rightarrow> list_ex (in_network ip) refused6)"
proof (cases "To4 ip")
  case (Some ip4)
  then have "length ip4 = 4" by (auto simp: To4_def split: if_splits)
  then obtain a b c d where ip4: "ip4 = [a, b, c, d]" by (auto simp: length_4)
  have "and (224 :: byte) 0xF0 = 0xE0" by code_simp
  then show ?thesis
    unfolding Some option.case ip4 refused4_iff
    by (auto simp: unsafeIP_def unspecified4 [OF Some] Some ip4 IsLoopback_def IsPrivate_def IsLinkLocalUnicast_def
        IsLinkLocalMulticast_def IsMulticast_def)
next
  case None
  show ?thesis
  proof (cases "length ip = 16")
    case True
    then show ?thesis
      using None by (auto simp: refused6_iff unsafeIP_def IsLoopback_def IsPrivate_def IsLinkLocalUnicast_def
        IsLinkLocalMulticast_def IsMulticast_def IsUnspecified_def ip_Equal_def IPv4zero_def IPv6unspecified_def
        IPv6loopback_def v4InV6Prefix_def To4_def)
  next
    case False
    then have "\<not> list_ex (in_network ip) refused6" by (simp add: refused6_def in_network_def)
    moreover have "\<not> unsafeIP (Some ip)"
      using False None by (auto simp: unsafeIP_def IsLoopback_def IsPrivate_def IsLinkLocalUnicast_def
        IsLinkLocalMulticast_def IsMulticast_def IsUnspecified_def ip_Equal_def IPv4zero_def IPv6unspecified_def
        IPv6loopback_def v4InV6Prefix_def To4_def split: if_splits)
    ultimately show ?thesis using None by simp
  qed
qed

section \<open>Delivery and dialling\<close>

lemma webhook_parseRetryAfter_bounds:
  assumes "0 < maximum" "maximum \<le> maxDuration"
  shows "0 \<le> webhook_parseRetryAfter zone raw now maximum" "webhook_parseRetryAfter zone raw now maximum \<le> maximum"
proof -
  have half: "maximum sdiv Second = maximum div Second"
    using assms by (simp add: signed_divide_int_def Second_def)
  have fits: "wrap64 (s * Second) = s * Second \<and> 0 \<le> s * Second \<and> s * Second \<le> maximum" if "0 < s" "s \<le> maximum div Second" for s
  proof -
    have "s * Second \<le> maximum div Second * Second" using that(2) by (simp add: Second_def)
    also have "\<dots> \<le> maximum" by (simp add: Second_def)
    finally show ?thesis using assms that(1) by (simp add: wrap64_id int64_range_def maxDuration_def Second_def)
  qed
  have "0 \<le> time_Sub t u" if "u < t" for t u using that by (simp add: time_Sub_def minDuration_def maxDuration_def)
  then show "0 \<le> webhook_parseRetryAfter zone raw now maximum" "webhook_parseRetryAfter zone raw now maximum \<le> maximum"
    using assms fits by (auto simp: webhook_parseRetryAfter_def half Let_def not_less split: option.splits)
qed

lemma validateHost_None:
  assumes "validateHost w host allowPrivate lookup = (None, w')"
  shows "\<exists>addresses. lookup w host = (Inr addresses, w') \<and> addresses \<noteq> [] \<and> (allowPrivate \<or> \<not> list_ex unsafeIP addresses)"
  using assms by (auto simp: validateHost_def split: prod.splits sum.splits if_splits)

lemma Deliver_cases:
  assumes "webhook_Deliver nw ctx wh w event = (r, w')"
  obtains (unsent) "r \<noteq> None" "w' \<in> (let u = snd (validateHost w (Hostname (wh_endpoint wh)) (wh_allowPrivate wh) (wh_lookupIP wh))
      in {w, u, snd (wh_now wh u)})" "\<And>e. r = Some (Classified e) \<Longrightarrow> \<not> ne_Retryable e \<and> ne_RetryDelay e = 0 \<or> ctx w = r"
  | (sent) w0 timestamp w1 body req answer where
      "validateHost w (Hostname (wh_endpoint wh)) (wh_allowPrivate wh) (wh_lookupIP wh) = (None, w0)"
      "wh_now wh w0 = (timestamp, w1)" "envelopeJSON event = Some body"
      "NewRequest ''POST'' (url_String (wh_endpoint wh)) body = Some req"
      "client_Do nw (wh_client wh) w1 (req\<lparr>rq_Header := signedHeader (wh_secret wh) (env_ID event) timestamp body (rq_Header req)\<rparr>)
        = (answer, w')"
      "r = (case answer of
         Inl err \<Rightarrow> Some (case endOfRequest nw ctx (nw_clock nw w1 + wh_timeout wh) w' of
           Some Canceled \<Rightarrow> Canceled | Some DeadlineExceeded \<Rightarrow> DeadlineExceeded | _ \<Rightarrow> webhook_failure 0 ''transport'' True 0)
       | Inr response \<Rightarrow> judgeResponse (nw_local nw) wh timestamp response)"
proof -
  let ?v = "validateHost w (Hostname (wh_endpoint wh)) (wh_allowPrivate wh) (wh_lookupIP wh)"
  obtain u w0 where v: "?v = (u, w0)" by fastforce
  obtain t w1 where n: "wh_now wh w0 = (t, w1)" by fastforce
  show thesis
  proof (cases "ctx w = None \<and> env_ID event \<noteq> [] \<and> env_SpecVersion event = CloudEventsSpecVersion
      \<and> env_SchemaVersion event = EnvelopeSchemaVersion \<and> u = None \<and> envelopeJSON event \<noteq> None
      \<and> NewRequest ''POST'' (url_String (wh_endpoint wh)) (the (envelopeJSON event)) \<noteq> None")
    case True
    then obtain body req where b: "envelopeJSON event = Some body" "NewRequest ''POST'' (url_String (wh_endpoint wh)) body = Some req"
      by auto
    let ?req = "req\<lparr>rq_Header := signedHeader (wh_secret wh) (env_ID event) t body (rq_Header req)\<rparr>"
    obtain answer w2 where d: "client_Do nw (wh_client wh) w1 ?req = (answer, w2)" by fastforce
    show thesis
      by (rule sent [of w0 t w1 body req answer]) (use assms True v n b d in \<open>auto simp: webhook_Deliver_def split: sum.splits\<close>)
  next
    case False
    show thesis
    proof (cases "ctx w")
      case (Some err)
      then have "r = Some err" "w' = w" using assms by (simp_all add: webhook_Deliver_def)
      then show thesis using Some by (intro unsent) (simp_all add: Let_def)
    next
      case None
      show thesis
        by (rule unsent) (use assms False None v n in \<open>auto simp: webhook_Deliver_def notifyErr_def Let_def split: option.splits if_splits\<close>)
    qed
  qed
qed

text \<open>A request as a webhook must send it for an event.\<close>

definition signed_request :: "('w, 'c) Webhook \<Rightarrow> Envelope \<Rightarrow> gotime \<Rightarrow> Request \<Rightarrow> bool" where
  "signed_request wh event timestamp req \<longleftrightarrow>
     rq_Method req = ''POST'' \<and> envelopeJSON event = Some (rq_Body req)
     \<and> header_Get (rq_Header req) ''X-RuleRaven-Event-ID'' = env_ID event
     \<and> header_Get (rq_Header req) ''X-RuleRaven-Timestamp'' = FormatInt (Unix timestamp)
     \<and> (\<exists>signature. header_Get (rq_Header req) ''X-RuleRaven-Signature'' = ''v1='' @ signature
          \<and> Verify (wh_secret wh) timestamp (rq_Body req) signature)"

lemma header_keys:
  "CanonicalHeaderKey ''Content-Type'' = ''Content-Type''"
  "CanonicalHeaderKey ''X-RuleRaven-Event-ID'' = ''X-Ruleraven-Event-Id''"
  "CanonicalHeaderKey ''X-RuleRaven-Timestamp'' = ''X-Ruleraven-Timestamp''"
  "CanonicalHeaderKey ''X-RuleRaven-Signature'' = ''X-Ruleraven-Signature''"
  "CanonicalHeaderKey ''X-Webhook-Timestamp'' = ''X-Webhook-Timestamp''"
  "CanonicalHeaderKey ''X-Webhook-Signature-V2'' = ''X-Webhook-Signature-V2''"
  by code_simp+

lemma signed_request_made:
  assumes "envelopeJSON event = Some body" "NewRequest ''POST'' url body = Some req"
  shows "signed_request wh event timestamp
    (req\<lparr>rq_Header := signedHeader (wh_secret wh) (env_ID event) timestamp body (rq_Header req)\<rparr>)"
proof -
  have req: "rq_Method req = ''POST'' \<and> rq_Body req = body"
    using assms(2) by (auto simp: NewRequest_def Let_def split: if_splits option.splits)
  have "Verify (wh_secret wh) timestamp body (Sign (wh_secret wh) timestamp body)"
    by (simp add: Verify_def Sign_def)
  then show ?thesis
    using req assms(1)
    by (simp add: signed_request_def signedHeader_def Let_def header_keys headerEventID_def headerTimestamp_def
        headerSignature_def headerGenericSignatureV2_def headerGenericTimestamp_def)
qed

text \<open>
  C0: A delivery counts as made only when the destination answered a signed request for the event with
  a status of success. A failure is retryable only where the transport failed or the status calls for it,
  and the delay that it asks for is within the configured maximum.
\<close>

theorem Deliver_judges:
  assumes "webhook_Deliver nw ctx wh w event = (r, w')" "0 < wh_maxRetryAfter wh" "wh_maxRetryAfter wh \<le> maxDuration"
    "\<And>e. ctx w \<noteq> Some (Classified e)"
  shows "(r = None \<longrightarrow> (\<exists>timestamp w1 req response.
      signed_request wh event timestamp req \<and> client_Do nw (wh_client wh) w1 req = (Inr response, w')
      \<and> 200 \<le> rs_StatusCode response \<and> rs_StatusCode response \<le> 299))
    \<and> (\<forall>e. r = Some (Classified e) \<longrightarrow>
         0 \<le> ne_RetryDelay e \<and> ne_RetryDelay e \<le> wh_maxRetryAfter wh
         \<and> (ne_Retryable e \<longrightarrow> ne_Kind e = ''transport'' \<or> retryableStatus (ne_StatusCode e)))"
  using assms(1)
proof (cases rule: Deliver_cases)
  case unsent
  then show ?thesis using assms(2,4) by fastforce
next
  case (sent w0 timestamp w1 body req answer)
  let ?req = "req\<lparr>rq_Header := signedHeader (wh_secret wh) (env_ID event) timestamp body (rq_Header req)\<rparr>"
  note signed = signed_request_made [OF sent(3,4), of wh timestamp]
  note bounds = webhook_parseRetryAfter_bounds [OF assms(2,3)]
  show ?thesis
  proof (cases answer)
    case (Inl err)
    then show ?thesis
      using sent(6) assms(2) by (auto simp: webhook_failure_def split: option.splits DeliveryError.splits)
  next
    case (Inr response)
    then have r: "r = judgeResponse (nw_local nw) wh timestamp response" using sent(6) by simp
    show ?thesis
    proof (cases "r = None")
      case True
      then have "200 \<le> rs_StatusCode response \<and> rs_StatusCode response \<le> 299"
        using r by (auto simp: judgeResponse_def Let_def split: sum.splits if_splits)
      then show ?thesis using True signed sent(5) Inr by blast
    next
      case False
      then show ?thesis
        using r bounds assms(2) by (auto simp: judgeResponse_def webhook_failure_def Let_def split: sum.splits if_splits)
    qed
  qed
qed

text \<open>
  What is documented of the network, for a log of the addresses that were dialled: the dialer adds the
  address, the resolver adds nothing, and a client with a \<open>DialContext\<close> of its own dials through that
  alone.
\<close>

definition dials_through :: "('w, 'c) Network \<Rightarrow> ('w \<Rightarrow> string list) \<Rightarrow> bool" where
  "dials_through nw dialled \<longleftrightarrow>
     (\<forall>w n a. dialled (snd (nw_dial nw w n a)) = dialled w @ [a])
     \<and> (\<forall>redirect dial w req P. (\<forall>u n a. P (dialled u) \<longrightarrow> P (dialled (snd (dial u n a)))) \<longrightarrow> P (dialled w) \<longrightarrow>
          P (dialled (snd (nw_send nw redirect (Some dial) w req))))"

definition public_addresses :: "'w Lookup \<Rightarrow> string \<Rightarrow> string set" where
  "public_addresses lookup host =
     {JoinHostPort (ip_String ip) port | ip port.
        \<not> unsafeIP (Some ip) \<and> (\<exists>u addresses u'. lookup u host = (Inr addresses, u') \<and> Some ip \<in> set addresses)}"

lemma dialFirst_dials:
  assumes "\<And>w n a. dialled (snd (dial w n a)) = dialled w @ [a]"
  shows "set (dialled (snd (dialFirst dial False network port ips w)))
    \<subseteq> set (dialled w) \<union> {JoinHostPort (ip_String ip) port | ip. Some ip \<in> set ips \<and> \<not> unsafeIP (Some ip)}"
proof (induction ips arbitrary: w)
  case (Cons ip ips)
  show ?case
  proof (cases "unsafeIP ip")
    case True
    then show ?thesis using Cons.IH [of w] by auto
  next
    case False
    then obtain bs where bs: "ip = Some bs" by (cases ip) (auto simp: unsafeIP_def)
    obtain c w1 where d: "dial w network (JoinHostPort (ip_String bs) port) = (c, w1)" by fastforce
    then have log: "dialled w1 = dialled w @ [JoinHostPort (ip_String bs) port]"
      using assms [of w network "JoinHostPort (ip_String bs) port"] by simp
    show ?thesis
      using False bs d log Cons.IH [of w1] by (cases c) (auto simp: address_text_def)
  qed
qed simp

lemma safeDialContext_dials:
  assumes "\<And>w n a. dialled (snd (dial w n a)) = dialled w @ [a]" "\<And>w h. dialled (snd (lookup w h)) = dialled w"
    "set (dialled w) \<subseteq> A \<union> public_addresses lookup host"
  shows "set (dialled (snd (safeDialContext dial host False lookup w network address))) \<subseteq> A \<union> public_addresses lookup host"
proof (cases "SplitHostPort address")
  case (Some hp)
  obtain h port where hp: "hp = (h, port)" by fastforce
  obtain r w1 where l: "lookup w host = (r, w1)" by fastforce
  then have log: "dialled w1 = dialled w" using assms(2) [of w host] by simp
  show ?thesis
  proof (cases r)
    case (Inr addresses)
    have "{JoinHostPort (ip_String ip) port | ip. Some ip \<in> set addresses \<and> \<not> unsafeIP (Some ip)} \<subseteq> public_addresses lookup host"
      using l Inr by (auto simp: public_addresses_def)
    with dialFirst_dials [where dialled = dialled and dial = dial, OF assms(1), of network port addresses w1] assms(3) log
    have "set (dialled (snd (dialFirst dial False network port addresses w1))) \<subseteq> A \<union> public_addresses lookup host"
      by (metis (no_types, lifting) Un_subset_iff order_trans sup.absorb_iff2 sup_ge2)
    then show ?thesis using assms(3) log by (simp add: safeDialContext_def Some hp l Inr)
  qed (use assms(3) log in \<open>simp add: safeDialContext_def Some hp l\<close>)
qed (use assms(3) in \<open>simp add: safeDialContext_def\<close>)

text \<open>
  C0: A webhook that was made without access to private networks follows no redirects and, whatever its
  deliveries do, connects only to public addresses that the resolver gave for the host of its endpoint:
  also when the answers of the resolver change between the check and the connection.
\<close>

theorem webhook_dials_public:
  assumes "webhook_New nw time_Now config w0 = (Inr wh, w0')" "\<not> fc_AllowPrivateNetwork config"
    "dials_through nw dialled" "\<And>u h. dialled (snd (wh_lookupIP wh u h)) = dialled u"
    "\<And>u. dialled (snd (wh_now wh u)) = dialled u" "webhook_Deliver nw ctx wh w event = (r, w')"
  shows "(\<exists>dial. wh_client wh = StdClient ErrUseLastResponse (Some dial))
    \<and> set (dialled w') \<subseteq> set (dialled w) \<union> public_addresses (wh_lookupIP wh) (Hostname (wh_endpoint wh))"
proof -
  let ?host = "Hostname (wh_endpoint wh)"
  let ?dial = "safeDialContext (nw_dial nw) ?host False (wh_lookupIP wh)"
  let ?A = "set (dialled w) \<union> public_addresses (wh_lookupIP wh) ?host"
  have client: "wh_client wh = StdClient ErrUseLastResponse (Some ?dial)"
    using assms(1,2) by (auto simp: webhook_New_def safeHTTPClient_def Let_def split: sum.splits prod.splits option.splits if_splits)
  have dials: "dialled (snd (nw_dial nw u n a)) = dialled u @ [a]" for u n a
    using assms(3) by (simp add: dials_through_def)
  have sends: "P (dialled (snd (nw_send nw redirect (Some dial) u q)))"
    if "\<And>u n a. P (dialled u) \<longrightarrow> P (dialled (snd (dial u n a)))" "P (dialled u)" for P redirect dial u q
    using conjunct2 [OF assms(3) [unfolded dials_through_def]] that by metis
  have checked: "dialled (snd (validateHost u h p (wh_lookupIP wh))) = dialled u" for u h p
    using assms(4) [of u h] by (auto simp: validateHost_def split: prod.splits sum.splits)
  from assms(6) have "set (dialled w') \<subseteq> ?A"
  proof (cases rule: Deliver_cases)
    case unsent
    then have "dialled w' = dialled w" using checked assms(5) by (auto simp: Let_def)
    then show ?thesis by simp
  next
    case (sent u0 timestamp u1 body req answer)
    have "dialled u0 = dialled w" using checked [of w ?host "wh_allowPrivate wh"] sent(1) by simp
    moreover have "dialled u1 = dialled u0" using assms(5) [of u0] sent(2) by simp
    ultimately have start: "set (dialled u1) \<subseteq> ?A" by simp
    have step: "set (dialled u) \<subseteq> ?A \<longrightarrow> set (dialled (snd (?dial u n a))) \<subseteq> ?A" for u n a
      using safeDialContext_dials [where dialled = dialled and dial = "nw_dial nw" and lookup = "wh_lookupIP wh", OF dials assms(4)]
      by simp
    have "set (dialled (snd (nw_send nw ErrUseLastResponse (Some ?dial) u1 q))) \<subseteq> ?A" for q
      by (rule sends [of "\<lambda>log. set log \<subseteq> ?A"]) (use step start in simp_all)
    then show ?thesis using sent(5) client by (metis HTTPClient.case(1) client_Do_def snd_conv)
  qed
  with client show ?thesis by blast
qed

section \<open>A network in memory\<close>

text \<open>One host with a private and a public address; every request is answered once it is connected.\<close>

definition sample_send :: "redirect \<Rightarrow> (string list, unit) DialContext option \<Rightarrow> string list Do" where
  "sample_send redirect dial w req =
     (case dial of
        None \<Rightarrow> (Inl ''refused'', w)
      | Some f \<Rightarrow>
          (case f w ''tcp'' ''hooks.example.com:443'' of
             (Inl err, w) \<Rightarrow> (Inl err, w)
           | (Inr connection, w) \<Rightarrow>
               (Inr \<lparr>rs_StatusCode = 204, rs_Header = [], rs_ContentLength = 0, rs_Body = ([], None)\<rparr>, w)))"

definition sample_network :: "(string list, unit) Network" where
  "sample_network =
     \<lparr>nw_clock = (\<lambda>w. 0), nw_local = (\<lambda>name t. None), nw_lookup = (\<lambda>w host. (Inr [Some [93, 184, 216, 34]], w)),
      nw_dial = (\<lambda>w n a. (Inr (), w @ [a])), nw_send = sample_send\<rparr>"

definition sample_destination :: "(string list, unit) NotifierConfig" where
  "sample_destination =
     \<lparr>fc_DestinationID = ''ops'', fc_Endpoint = ''https://hooks.example.com/raven'', fc_Secret = ''k'', fc_Timeout = 5 * Second,
      fc_MaxResponseBytes = 1024, fc_MaxRetryAfter = Minute, fc_AllowInsecureHTTP = False, fc_AllowPrivateNetwork = False,
      fc_HTTPClient = None, fc_LookupIP = None, fc_Now = Some (\<lambda>w. (9 * Second, w))\<rparr>"

definition sample_endpoint :: URL where
  "sample_endpoint = zeroURL\<lparr>u_Scheme := ''https'', u_Host := ''hooks.example.com'', u_Path := ''/raven''\<rparr>"

definition sample_webhook :: "(string list, unit) Webhook" where
  "sample_webhook =
     \<lparr>wh_name = ''ops'', wh_endpoint = sample_endpoint, wh_secret = ''k'', wh_timeout = 5 * Second, wh_maxResponseBytes = 1024,
      wh_maxRetryAfter = Minute, wh_allowPrivate = False,
      wh_client = safeHTTPClient sample_network ''hooks.example.com'' False (nw_lookup sample_network),
      wh_lookupIP = nw_lookup sample_network, wh_now = (\<lambda>w. (9 * Second, w))\<rparr>"

definition sample_envelope :: Envelope where
  "sample_envelope =
     \<lparr>env_SpecVersion = CloudEventsSpecVersion, env_ID = ''e1'', env_Source = ''urn:ruleraven:cluster:c1'', env_Type = ''t'',
      env_Time = 9 * Second, env_DataContentType = ''application/json'', env_SchemaVersion = EnvelopeSchemaVersion,
      env_Data = ''{}''\<rparr>"

lemma sample_dials_through: "dials_through sample_network (\<lambda>w. w)"
proof -
  have "P (snd (sample_send redirect (Some dial) w req))"
    if "\<forall>u n a. P u \<longrightarrow> P (snd (dial u n a))" "P w" for redirect dial w req P
  proof -
    obtain c w1 where d: "dial w ''tcp'' ''hooks.example.com:443'' = (c, w1)" by fastforce
    then have "P w1" using that by (metis snd_conv)
    then show ?thesis using d by (cases c) (simp_all add: sample_send_def)
  qed
  then show ?thesis unfolding dials_through_def sample_network_def by simp blast
qed

lemma sample_facts:
  "checkConfig sample_destination = Inr sample_endpoint" "Hostname sample_endpoint = ''hooks.example.com''"
  "\<not> blank ''hooks.example.com''" "\<not> unsafeIP (Some [93, 184, 216, 34])"
  "\<exists>body. envelopeJSON sample_envelope = Some body" "url_String sample_endpoint = ''https://hooks.example.com/raven''"
  "url_Parse ''https://hooks.example.com/raven'' = Some sample_endpoint"
proof -
  show "\<exists>body. envelopeJSON sample_envelope = Some body"
  proof -
    have "envelopeJSON sample_envelope \<noteq> None" by code_simp
    then show ?thesis by simp
  qed
qed code_simp+

lemma sample_made: "webhook_New sample_network time_Now sample_destination w = (Inr sample_webhook, w)"
  by (simp add: webhook_New_def sample_facts validateHost_def Let_def)
    (simp add: sample_destination_def sample_network_def sample_webhook_def validateHost_def sample_facts)

lemma sample_connected:
  "client_Do sample_network (wh_client sample_webhook) w req
     = (Inr \<lparr>rs_StatusCode = 204, rs_Header = [], rs_ContentLength = 0, rs_Body = ([], None)\<rparr>, w @ [''93.184.216.34:443''])"
proof -
  have "SplitHostPort ''hooks.example.com:443'' = Some (''hooks.example.com'', ''443'')"
    "EqualFold (TrimDot ''hooks.example.com'') (TrimDot ''hooks.example.com'')"
    "JoinHostPort (address_text (Some [93, 184, 216, 34])) ''443'' = ''93.184.216.34:443''"
    by code_simp+
  then show ?thesis
    by (simp add: client_Do_def sample_webhook_def safeHTTPClient_def sample_network_def sample_send_def safeDialContext_def
        sample_facts)
qed

lemma sample_delivered:
  "webhook_Deliver sample_network (\<lambda>w. None) sample_webhook w sample_envelope = (None, w @ [''93.184.216.34:443''])"
proof -
  obtain body where body: "envelopeJSON sample_envelope = Some body" using sample_facts(5) by blast
  have post: "token_char CHR ''P''" "token_char CHR ''O''" "token_char CHR ''S''" "token_char CHR ''T''" by code_simp+
  have hook: "wh_endpoint sample_webhook = sample_endpoint" "wh_allowPrivate sample_webhook = False"
    "wh_lookupIP sample_webhook = (\<lambda>w host. (Inr [Some [93, 184, 216, 34]], w))" "wh_now sample_webhook w = (9 * Second, w)"
    "wh_maxResponseBytes sample_webhook = 1024"
    by (simp_all add: sample_webhook_def sample_network_def)
  have valid: "env_ID sample_envelope \<noteq> []" "env_SpecVersion sample_envelope = CloudEventsSpecVersion"
    "env_SchemaVersion sample_envelope = EnvelopeSchemaVersion"
    by (simp_all add: sample_envelope_def)
  show ?thesis
    by (simp add: webhook_Deliver_def valid hook sample_facts validateHost_def body NewRequest_def post sample_connected
        judgeResponse_def ReadAll_Limit_def wrap64_def)
qed

theorem Deliver_judges_witness:
  "\<exists>timestamp w1 req response. signed_request sample_webhook sample_envelope timestamp req
     \<and> client_Do sample_network (wh_client sample_webhook) w1 req = (Inr response, [''93.184.216.34:443''])
     \<and> 200 \<le> rs_StatusCode response \<and> rs_StatusCode response \<le> 299"
proof -
  have "0 < wh_maxRetryAfter sample_webhook" "wh_maxRetryAfter sample_webhook \<le> maxDuration"
    by (simp_all add: sample_webhook_def Minute_def Second_def maxDuration_def)
  from Deliver_judges [OF sample_delivered [of "[]"] this] show ?thesis by simp
qed

theorem webhook_dials_public_witness:
  "set [''93.184.216.34:443'']
     \<subseteq> public_addresses (wh_lookupIP sample_webhook) (Hostname (wh_endpoint sample_webhook))"
proof -
  have "\<not> fc_AllowPrivateNetwork sample_destination" by (simp add: sample_destination_def)
  moreover have "snd (wh_lookupIP sample_webhook u h) = u" "snd (wh_now sample_webhook u) = u" for u h
    by (simp_all add: sample_webhook_def sample_network_def)
  ultimately show ?thesis
    using webhook_dials_public [OF sample_made _ sample_dials_through _ _ sample_delivered [of "[]"]] by simp
qed

end
